(* ===== verification/Prelude.thy ===== *)
theory Prelude
  imports Complex_Main "HOL-Library.Sublist"
begin

text \<open>
  Shared vocabulary of the development: the JSON values that the server and the single-page
  application exchange (MongoDB documents, request and response bodies), the JavaScript string
  operations the sources use (\<open>trim\<close>, \<open>toLowerCase\<close>, \<open>includes\<close>, \<open>replace\<close> with a string
  pattern and with the character-class regular expressions), and JavaScript objects as
  association lists in insertion order, with the property order of \<open>Object.keys\<close>.
  Characters are HOL \<open>char\<close>s, read as code units of the Latin-1 range; JavaScript's
  whitespace class \<open>\s\<close> and \<open>String.prototype.trim\<close> agree on that range (tab, line feed,
  vertical tab, form feed, carriage return, space, no-break space).
\<close>

named_theorems js_simps "evaluation rules of the JavaScript helper functions"

section \<open>JSON values\<close>

text \<open>
  A JSON value as the sources see it after \<open>JSON.parse\<close> or after reading a MongoDB document.
  \<open>JOid\<close> is a MongoDB \<open>ObjectId\<close> (the only non-JSON value the code tests for); numbers are
  the exact decimal values the strings denote (rounding to IEEE doubles is not modelled).
  An absent property (\<open>undefined\<close>) is a key missing from the object.
\<close>

datatype json =
    JNull
  | JBool bool
  | JNum rat
  | JStr string
  | JArr "json list"
  | JObj "(string \<times> json) list"
  | JOid nat

type_synonym jobj = "(string \<times> json) list"

section \<open>Characters\<close>

definition is_digit :: "char \<Rightarrow> bool" where
  "is_digit c \<longleftrightarrow> (48::nat) \<le> of_char c \<and> of_char c \<le> (57::nat)"

definition is_ascii_upper :: "char \<Rightarrow> bool" where
  "is_ascii_upper c \<longleftrightarrow> (65::nat) \<le> of_char c \<and> of_char c \<le> (90::nat)"

definition is_ascii_lower :: "char \<Rightarrow> bool" where
  "is_ascii_lower c \<longleftrightarrow> (97::nat) \<le> of_char c \<and> of_char c \<le> (122::nat)"

text \<open>The class \<open>[a-zA-Z0-9]\<close>.\<close>

definition is_alnum :: "char \<Rightarrow> bool" where
  "is_alnum c \<longleftrightarrow> is_digit c \<or> is_ascii_upper c \<or> is_ascii_lower c"

text \<open>The class \<open>\s\<close>, which is also what \<open>trim\<close> removes.\<close>

definition is_js_space :: "char \<Rightarrow> bool" where
  "is_js_space c \<longleftrightarrow> (of_char c :: nat) \<in> {9, 10, 11, 12, 13, 32, 160}"

text \<open>\<open>toLowerCase\<close> on one code unit of the Latin-1 range.\<close>

definition is_upper :: "char \<Rightarrow> bool" where
  "is_upper c \<longleftrightarrow> is_ascii_upper c \<or>
     ((192::nat) \<le> of_char c \<and> of_char c \<le> (222::nat) \<and> of_char c \<noteq> (215::nat))"

definition lower_char :: "char \<Rightarrow> char" where
  "lower_char c = (if is_upper c then char_of (of_char c + (32::nat)) else c)"

definition lower :: "string \<Rightarrow> string" where
  "lower s = map lower_char s"

section \<open>Strings\<close>

text \<open>\<open>String.prototype.trim\<close>.\<close>

definition trim :: "string \<Rightarrow> string" where
  "trim s = rev (dropWhile is_js_space (rev (dropWhile is_js_space s)))"

text \<open>\<open>haystack.includes(needle)\<close>.\<close>

fun contains :: "string \<Rightarrow> string \<Rightarrow> bool" where
  "contains [] nd \<longleftrightarrow> nd = []"
| "contains (h # hs) nd \<longleftrightarrow> prefix nd (h # hs) \<or> contains hs nd"

text \<open>\<open>s.replace(pat, rep)\<close> with a string pattern: the first occurrence only.\<close>

fun replace_first :: "string \<Rightarrow> string \<Rightarrow> string \<Rightarrow> string" where
  "replace_first pat rep [] = (if pat = [] then rep else [])"
| "replace_first pat rep (c # cs) =
     (if prefix pat (c # cs) then rep @ drop (length pat) (c # cs)
      else c # replace_first pat rep cs)"

text \<open>\<open>s.replace(/[P]+/g, r)\<close>: every maximal run of characters of the class \<open>P\<close> becomes the
  single character \<open>r\<close>.\<close>

function squeeze :: "(char \<Rightarrow> bool) \<Rightarrow> char \<Rightarrow> string \<Rightarrow> string" where
  "squeeze P r [] = []"
| "squeeze P r (c # cs) =
     (if P c then r # squeeze P r (dropWhile P cs) else c # squeeze P r cs)"
  by pat_completeness auto
termination
  by (relation "measure (\<lambda>(P, r, s). length s)")
     (auto simp: le_imp_less_Suc length_dropWhile_le)

text \<open>No two neighbouring characters both of the class \<open>P\<close>.\<close>

fun adj_free :: "(char \<Rightarrow> bool) \<Rightarrow> string \<Rightarrow> bool" where
  "adj_free P (a # b # r) \<longleftrightarrow> \<not> (P a \<and> P b) \<and> adj_free P (b # r)"
| "adj_free P _ \<longleftrightarrow> True"

text \<open>\<open>s.replace(/^_|_$/g, '')\<close>: one leading and one trailing underscore removed.\<close>

definition strip_us :: "string \<Rightarrow> string" where
  "strip_us s =
     (let s1 = (case s of c # cs \<Rightarrow> if c = CHR ''_'' then cs else s | [] \<Rightarrow> [])
      in if s1 \<noteq> [] \<and> last s1 = CHR ''_'' then butlast s1 else s1)"

text \<open>Decimal rendering of a natural number (template literals \<open>${n}\<close>).\<close>

fun show_nat :: "nat \<Rightarrow> string" where
  "show_nat n =
     (if n < 10 then [char_of (48 + n)]
      else show_nat (n div 10) @ [char_of (48 + n mod 10)])"

declare show_nat.simps [simp del]

text \<open>\<open>Array.from(new Set(xs))\<close>: duplicates removed, first occurrences kept in order.\<close>

fun dedup_first :: "'a list \<Rightarrow> 'a list" where
  "dedup_first [] = []"
| "dedup_first (x # xs) = x # dedup_first (filter (\<lambda>y. y \<noteq> x) xs)"

section \<open>Objects\<close>

text \<open>
  A JavaScript object is the list of its own properties in insertion order.
  \<open>obj[k] = v\<close> keeps the position of an existing key and appends a new one.
  \<open>Object.keys\<close> lists the array-index keys (canonical decimal numbers below \<open>2^32 - 1\<close>)
  first, in ascending numeric order, and then the other keys in insertion order.
\<close>

fun obj_get :: "(string \<times> 'a) list \<Rightarrow> string \<Rightarrow> 'a option" where
  "obj_get [] k = None"
| "obj_get ((k', v) # kvs) k = (if k' = k then Some v else obj_get kvs k)"

fun obj_set :: "(string \<times> 'a) list \<Rightarrow> string \<Rightarrow> 'a \<Rightarrow> (string \<times> 'a) list" where
  "obj_set [] k v = [(k, v)]"
| "obj_set ((k', v') # kvs) k v =
     (if k' = k then (k, v) # kvs else (k', v') # obj_set kvs k v)"

definition obj_del :: "(string \<times> 'a) list \<Rightarrow> string \<Rightarrow> (string \<times> 'a) list" where
  "obj_del kvs k = filter (\<lambda>(k', _). k' \<noteq> k) kvs"

text \<open>The value of a string of decimal digits, accumulated in any semiring.\<close>

fun digits_val :: "'a::semiring_1 \<Rightarrow> string \<Rightarrow> 'a" where
  "digits_val acc [] = acc"
| "digits_val acc (c # cs) = digits_val (10 * acc + of_nat (of_char c - 48)) cs"

definition is_array_index :: "string \<Rightarrow> bool" where
  "is_array_index k \<longleftrightarrow> k \<noteq> [] \<and> list_all is_digit k \<and>
     (k = ''0'' \<or> hd k \<noteq> CHR ''0'') \<and> digits_val (0::nat) k < 2 ^ 32 - 1"

definition obj_entries :: "(string \<times> 'a) list \<Rightarrow> (string \<times> 'a) list" where
  "obj_entries kvs =
     sort_key (\<lambda>(k, _). digits_val (0::nat) k) (filter (\<lambda>(k, _). is_array_index k) kvs) @
     filter (\<lambda>(k, _). \<not> is_array_index k) kvs"

definition obj_keys :: "(string \<times> 'a) list \<Rightarrow> string list" where
  "obj_keys kvs = map fst (obj_entries kvs)"

text \<open>\<open>Object.keys(v)\<close> of any value: the properties of an object, the indices of an array
  or of a string, nothing for the other primitives.\<close>

definition js_keys :: "json \<Rightarrow> string list" where
  "js_keys v =
     (case v of
        JObj kvs \<Rightarrow> obj_keys kvs
      | JArr xs \<Rightarrow> map show_nat [0..<length xs]
      | JStr s \<Rightarrow> map show_nat [0..<length s]
      | _ \<Rightarrow> [])"

section \<open>JavaScript values\<close>

text \<open>JavaScript truthiness of a JSON value (\<open>!x\<close>).\<close>

fun js_truthy :: "json \<Rightarrow> bool" where
  "js_truthy JNull = False"
| "js_truthy (JBool b) = b"
| "js_truthy (JNum n) = (n \<noteq> 0)"
| "js_truthy (JStr s) = (s \<noteq> [])"
| "js_truthy _ = True"

text \<open>\<open>!v\<close> on a value that may be undefined.\<close>

definition js_truthy_opt :: "json option \<Rightarrow> bool" where
  "js_truthy_opt v = (case v of Some x \<Rightarrow> js_truthy x | None \<Rightarrow> False)"

text \<open>\<open>xs.join(',')\<close>.\<close>

fun commas :: "string list \<Rightarrow> string" where
  "commas [] = []"
| "commas [x] = x"
| "commas (x # y # zs) = x @ '','' @ commas (y # zs)"

text \<open>\<open>String(v)\<close>, as a template literal and a property key convert a value; an array
  prints its elements with commas, \<open>null\<close> elements as nothing. An \<open>ObjectId\<close> does not come
  out of \<open>JSON.parse\<close>; it is printed as its number.\<close>

fun js_to_str :: "(rat \<Rightarrow> string) \<Rightarrow> json \<Rightarrow> string" where
  "js_to_str pn JNull = ''null''"
| "js_to_str pn (JBool b) = (if b then ''true'' else ''false'')"
| "js_to_str pn (JNum n) = pn n"
| "js_to_str pn (JStr s) = s"
| "js_to_str pn (JArr xs) = commas (map (\<lambda>x. if x = JNull then [] else js_to_str pn x) xs)"
| "js_to_str pn (JObj kv) = ''[object Object]''"
| "js_to_str pn (JOid n) = show_nat n"

section \<open>Lemmas on the helpers\<close>

lemma find_append: "find P (xs @ ys) = (case find P xs of None \<Rightarrow> find P ys | Some x \<Rightarrow> Some x)"
  by (induction xs) auto

lemmas char_class_defs [js_simps] =
  is_digit_def is_ascii_upper_def is_ascii_lower_def is_alnum_def is_js_space_def
  is_upper_def lower_char_def lower_def


lemma digits_val_of_nat: "digits_val (of_nat acc) s = of_nat (digits_val acc s)"
proof (induction s arbitrary: acc)
  case (Cons a s)
  show ?case using Cons.IH [of "10 * acc + (of_char a - 48)"] by simp
qed simp

lemma contains_iff_sublist [js_simps]: "contains hs nd \<longleftrightarrow> sublist nd hs"
  by (induction hs) (auto simp: sublist_Cons_right)

lemma contains_self: "contains s s"
  by (simp add: contains_iff_sublist)

lemma contains_append_middle: "contains (a @ nd @ b) nd"
  by (auto simp: contains_iff_sublist)

lemma contains_trans: "contains a b \<Longrightarrow> contains b c \<Longrightarrow> contains a c"
  by (auto simp: contains_iff_sublist intro: sublist_order.order_trans)

lemma set_trim: "set (trim s) \<subseteq> set s"
  unfolding trim_def by (auto dest!: set_dropWhileD)

lemma last_dropWhile: "dropWhile P xs \<noteq> [] \<Longrightarrow> last (dropWhile P xs) = last xs"
  by (induction xs) auto

lemma dropWhile_keep: "xs = [] \<or> \<not> P (hd xs) \<Longrightarrow> dropWhile P xs = xs"
  by (cases xs) auto

lemma trim_no_space_ends:
  assumes "trim s \<noteq> []"
  shows "\<not> is_js_space (hd (trim s)) \<and> \<not> is_js_space (last (trim s))"
proof -
  define d where "d = dropWhile is_js_space s"
  define e where "e = dropWhile is_js_space (rev d)"
  have t: "trim s = rev e" by (simp add: trim_def d_def e_def)
  have e: "e \<noteq> []" using assms t by simp
  then have "rev d \<noteq> []" by (auto simp: e_def)
  then have d: "d \<noteq> []" by simp
  have "hd (trim s) = last e" using t e by (simp add: hd_rev)
  also have "\<dots> = last (rev d)" using e by (simp add: e_def last_dropWhile)
  also have "\<dots> = hd d" using d by (simp add: last_rev)
  finally have "\<not> is_js_space (hd (trim s))"
    using d by (simp add: d_def hd_dropWhile)
  moreover have "\<not> is_js_space (last (trim s))"
    using e t by (simp add: last_rev e_def hd_dropWhile)
  ultimately show ?thesis by blast
qed

lemma trim_idem: "trim (trim s) = trim s"
proof -
  define t where "t = trim s"
  have ends: "t = [] \<or> \<not> is_js_space (hd t) \<and> \<not> is_js_space (last t)"
    using trim_no_space_ends [of s] by (auto simp: t_def)
  then have "dropWhile is_js_space t = t" by (auto intro: dropWhile_keep)
  moreover have "dropWhile is_js_space (rev t) = rev t"
    using ends by (auto intro!: dropWhile_keep simp: hd_rev)
  ultimately show ?thesis by (simp add: trim_def [of t] t_def [symmetric])
qed

lemma set_squeeze: "c \<in> set (squeeze P r s) \<Longrightarrow> c = r \<or> (c \<in> set s \<and> \<not> P c)"
  by (induction P r s rule: squeeze.induct)
     (auto split: if_splits dest: set_dropWhileD)

lemma squeeze_no_class_neighbour:
  "\<not> P c \<Longrightarrow> squeeze P r (dropWhile P cs) = x # xs \<Longrightarrow> \<not> P x \<or> x = r"
  by (metis list.set_intros(1) set_squeeze)

lemma prefix_single: "prefix [x] t \<longleftrightarrow> t \<noteq> [] \<and> hd t = x"
  by (cases t) auto

lemma suffix_single: "suffix [x] t \<longleftrightarrow> t \<noteq> [] \<and> last t = x"
  by (cases t rule: rev_cases) (auto simp: suffix_def)

lemma of_char_lower_char_upper:
  assumes "is_upper c"
  shows "(of_char (lower_char c) :: nat) = of_char c + 32"
proof -
  have "(of_char c :: nat) \<le> 222" using assms by (auto simp: is_upper_def is_ascii_upper_def)
  then show ?thesis using assms by (simp add: lower_char_def of_char_of)
qed

lemma lower_char_not_upper: "\<not> is_upper (lower_char c)"
proof (cases "is_upper c")
  case True
  then show ?thesis
    using of_char_lower_char_upper [OF True]
    by (auto simp: is_upper_def is_ascii_upper_def)
next
  case False
  then show ?thesis by (simp add: lower_char_def)
qed

lemma lower_char_idem [simp]: "lower_char (lower_char c) = lower_char c"
  using lower_char_not_upper [of c] by (simp add: lower_char_def [of "lower_char c"])
lemma lower_lower [simp]: "lower (lower s) = lower s"
  by (simp add: lower_def)

lemma length_lower [simp]: "length (lower s) = length s"
  by (simp add: lower_def)

lemma lower_append [simp]: "lower (a @ b) = lower a @ lower b"
  by (simp add: lower_def)

lemma lower_take: "lower (take k s) = take k (lower s)"
  by (simp add: lower_def take_map)

lemma lower_drop: "lower (drop k s) = drop k (lower s)"
  by (simp add: lower_def drop_map)

lemma squeeze_map:
  "(\<And>c. P (f c) \<longleftrightarrow> P c) \<Longrightarrow> f r = r \<Longrightarrow> squeeze P r (map f s) = map f (squeeze P r s)"
proof (induction P r s rule: squeeze.induct)
  case (2 P r c cs)
  have dw: "dropWhile P (map f cs) = map f (dropWhile P cs)"
    using "2.prems"(1) by (simp add: dropWhile_map comp_def)
  show ?case using 2 dw by simp
qed simp

lemma squeeze_id:
  "(\<And>c. c \<in> set s \<Longrightarrow> P c \<Longrightarrow> c = r) \<Longrightarrow> (\<And>a b. sublist [a, b] s \<Longrightarrow> \<not> (P a \<and> P b)) \<Longrightarrow>
   squeeze P r s = s"
proof (induction P r s rule: squeeze.induct)
  case (2 P r c cs)
  have pre1: "\<And>x. x \<in> set cs \<Longrightarrow> P x \<Longrightarrow> x = r" using "2.prems"(1) by auto
  have pre2: "\<And>a b. sublist [a, b] cs \<Longrightarrow> \<not> (P a \<and> P b)"
    using "2.prems"(2) by (meson sublist_Cons_right)
  show ?case
  proof (cases "P c")
    case True
    have "cs = [] \<or> \<not> P (hd cs)"
      using "2.prems"(2) [of c "hd cs"] True by (cases cs) auto
    then have dw: "dropWhile P cs = cs" by (auto intro: dropWhile_keep)
    have "squeeze P r (dropWhile P cs) = dropWhile P cs"
      using "2.IH"(1) [OF True] pre1 pre2 dw by simp
    moreover have "c = r" using "2.prems"(1) [of c] True by simp
    ultimately show ?thesis using True dw by simp
  next
    case False
    have "squeeze P r cs = cs" using "2.IH"(2) [OF False] pre1 pre2 by simp
    with False show ?thesis by simp
  qed
qed simp
lemma obj_get_obj_set: "obj_get (obj_set kvs k v) k' = (if k' = k then Some v else obj_get kvs k')"
  by (induction kvs k v rule: obj_set.induct) auto

lemma map_fst_obj_set:
  "map fst (obj_set kvs k v) = (if k \<in> set (map fst kvs) then map fst kvs else map fst kvs @ [k])"
  by (induction kvs k v rule: obj_set.induct) auto

lemma distinct_obj_set: "distinct (map fst kvs) \<Longrightarrow> distinct (map fst (obj_set kvs k v))"
  by (simp add: map_fst_obj_set)

lemma length_obj_set:
  "length (obj_set kvs k v) = (if k \<in> set (map fst kvs) then length kvs else Suc (length kvs))"
  using map_fst_obj_set [of kvs k v] by (metis length_map length_append_singleton)

lemma set_obj_keys: "set (obj_keys kvs) = set (map fst kvs)"
  by (auto simp: obj_keys_def obj_entries_def)

lemma obj_get_obj_del: "obj_get (obj_del kvs k) k' = (if k' = k then None else obj_get kvs k')"
  by (induction kvs) (auto simp: obj_del_def)

lemma dedup_first_set: "set (dedup_first xs) = set xs"
  by (induction xs rule: dedup_first.induct) auto

lemma dedup_first_distinct: "distinct (dedup_first xs)"
  by (induction xs rule: dedup_first.induct) (auto simp: dedup_first_set)

lemma is_upper_not_underscore: "is_upper c \<Longrightarrow> c \<noteq> CHR ''_''"
  by (auto simp: is_upper_def is_ascii_upper_def)

lemma lower_char_underscore_iff: "lower_char c = CHR ''_'' \<longleftrightarrow> c = CHR ''_''"
proof
  assume l: "lower_char c = CHR ''_''"
  show "c = CHR ''_''"
  proof (rule ccontr)
    assume "c \<noteq> CHR ''_''"
    with l have up: "is_upper c" by (auto simp: lower_char_def split: if_splits)
    then have "of_char (lower_char c) = (of_char c + 32 :: nat)"
      by (auto simp: lower_char_def is_upper_def is_ascii_upper_def)
    with l up show False by (auto simp: is_upper_def is_ascii_upper_def)
  qed
qed (simp add: lower_char_def is_upper_def is_ascii_upper_def)

lemma lower_char_underscore [simp]: "lower_char CHR ''_'' = CHR ''_''"
  by (simp add: lower_char_underscore_iff)

lemma set_strip_us: "set (strip_us s) \<subseteq> set s"
  by (auto simp: strip_us_def Let_def split: list.splits if_splits dest: in_set_butlastD)

subsection \<open>Runs of a character class\<close>

lemma squeeze_dropWhile_hd:
  "squeeze P r (dropWhile P cs) = x # xs \<Longrightarrow> \<not> P x"
proof (cases "dropWhile P cs")
  case Nil
  then show "squeeze P r (dropWhile P cs) = x # xs \<Longrightarrow> \<not> P x" by simp
next
  case (Cons d ds)
  then have "\<not> P d" using hd_dropWhile [of P cs] by auto
  moreover assume "squeeze P r (dropWhile P cs) = x # xs"
  ultimately show "\<not> P x" using Cons by simp
qed

lemma adj_free_Cons: "adj_free P (a # s) \<longleftrightarrow> (s = [] \<or> \<not> (P a \<and> P (hd s))) \<and> adj_free P s"
  by (cases s) auto

lemma adj_free_squeeze: "adj_free P (squeeze P r s)"
proof (induction P r s rule: squeeze.induct)
  case (1 P r)
  then show ?case by simp
next
  case (2 P r c cs)
  show ?case
  proof (cases "P c")
    case True
    have "squeeze P r (dropWhile P cs) = [] \<or> \<not> P (hd (squeeze P r (dropWhile P cs)))"
      using squeeze_dropWhile_hd by (metis list.collapse)
    with True "2.IH"(1) show ?thesis by (auto simp: adj_free_Cons)
  next
    case False
    with "2.IH"(2) show ?thesis by (auto simp: adj_free_Cons)
  qed
qed

lemma adj_free_tl: "adj_free P s \<Longrightarrow> adj_free P (tl s)"
  by (cases s) (auto simp: adj_free_Cons)

lemma adj_free_append: "adj_free P (xs @ ys) \<Longrightarrow> adj_free P xs"
  by (induction xs rule: induct_list012) auto

lemma adj_free_butlast: "adj_free P s \<Longrightarrow> adj_free P (butlast s)"
  by (cases "s = []") (auto intro: adj_free_append [of P "butlast s" "[last s]"])

lemma adj_free_strip_us:
  assumes "adj_free P s"
  shows "adj_free P (strip_us s)"
proof -
  define s1 where "s1 = (case s of c # cs \<Rightarrow> if c = CHR ''_'' then cs else s | [] \<Rightarrow> [])"
  have "adj_free P s1" using assms by (cases s) (auto simp: s1_def adj_free_Cons)
  then show ?thesis
    unfolding strip_us_def Let_def s1_def [symmetric] by (simp add: adj_free_butlast)
qed

lemma adj_free_map:
  "(\<And>c. Q (f c) \<longleftrightarrow> P c) \<Longrightarrow> adj_free P s \<Longrightarrow> adj_free Q (map f s)"
  by (induction P s rule: adj_free.induct) auto

lemma adj_free_iff_not_contains: "adj_free (\<lambda>c. c = x) s \<longleftrightarrow> \<not> contains s [x, x]"
proof (induction s)
  case Nil
  then show ?case by simp
next
  case (Cons a s)
  then show ?case by (cases s) (auto simp: adj_free_Cons)
qed

lemma adj_free_last_two: "adj_free P (xs @ [a, b]) \<Longrightarrow> \<not> (P a \<and> P b)"
  by (induction xs rule: induct_list012) auto

lemma strip_us_ends:
  assumes "adj_free (\<lambda>c. c = CHR ''_'') s"
  shows "\<not> prefix ''_'' (strip_us s) \<and> \<not> suffix ''_'' (strip_us s)"
proof -
  define s1 where "s1 = (case s of c # cs \<Rightarrow> if c = CHR ''_'' then cs else s | [] \<Rightarrow> [])"
  have af: "adj_free (\<lambda>c. c = CHR ''_'') s1"
    using assms by (cases s) (auto simp: s1_def adj_free_Cons)
  have hd1: "s1 = [] \<or> hd s1 \<noteq> CHR ''_''"
    using assms by (cases s) (auto simp: s1_def adj_free_Cons)
  have st: "strip_us s = (if s1 \<noteq> [] \<and> last s1 = CHR ''_'' then butlast s1 else s1)"
    by (simp add: strip_us_def s1_def)
  show ?thesis
  proof (cases "s1 \<noteq> [] \<and> last s1 = CHR ''_''")
    case True
    obtain ys y where s1: "s1 = ys @ [y]" using True by (cases s1 rule: rev_cases) auto
    show ?thesis
    proof (cases ys rule: rev_cases)
      case Nil
      then show ?thesis using st True s1 by simp
    next
      case (snoc zs z)
      have "\<not> (z = CHR ''_'' \<and> y = CHR ''_'')"
        using af adj_free_last_two [of _ zs z y] by (simp add: s1 snoc)
      then have "z \<noteq> CHR ''_''" using True s1 by simp
      moreover have "hd ys = hd s1" using s1 snoc by (cases zs) simp_all
      ultimately show ?thesis
        using st True hd1 s1 snoc by (auto simp: prefix_single suffix_single butlast_append)
    qed
  next
    case False
    then show ?thesis using st hd1 by (auto simp: prefix_single suffix_single)
  qed
qed


lemma strip_us_map:
  assumes f: "\<And>c. f c = CHR ''_'' \<longleftrightarrow> c = CHR ''_''"
  shows "strip_us (map f s) = map f (strip_us s)"
proof (cases s)
  case Nil
  then show ?thesis by (simp add: strip_us_def)
next
  case (Cons c cs)
  define s1 where "s1 = (if c = CHR ''_'' then cs else c # cs)"
  have h1: "(if f c = CHR ''_'' then map f cs else f c # map f cs) = map f s1"
    by (simp add: s1_def f)
  have h2: "(map f s1 \<noteq> [] \<and> last (map f s1) = CHR ''_'') \<longleftrightarrow> (s1 \<noteq> [] \<and> last s1 = CHR ''_'')"
    by (cases "s1 = []") (simp_all add: last_map f)
  have "strip_us (map f s) = (if map f s1 \<noteq> [] \<and> last (map f s1) = CHR ''_''
      then butlast (map f s1) else map f s1)"
    using h1 by (simp add: strip_us_def Let_def Cons)
  also have "\<dots> = map f (strip_us s)"
    using h2 by (simp add: strip_us_def Let_def Cons s1_def [symmetric] map_butlast)
  finally show ?thesis .
qed

lemma trim_id: "list_all (\<lambda>c. \<not> is_js_space c) s \<Longrightarrow> trim s = s"
proof -
  assume a: "list_all (\<lambda>c. \<not> is_js_space c) s"
  then have "dropWhile is_js_space s = s" by (cases s) auto
  moreover have "dropWhile is_js_space (rev s) = rev s"
    using a by (cases "rev s") (auto simp: list_all_iff dest: arg_cong [of _ _ set])
  ultimately show ?thesis by (simp add: trim_def)
qed

lemma strip_us_id: "\<not> prefix ''_'' s \<Longrightarrow> \<not> suffix ''_'' s \<Longrightarrow> strip_us s = s"
  by (cases s) (auto simp: strip_us_def prefix_single suffix_single)

lemma show_nat_digits: "list_all is_digit (show_nat n) \<and> show_nat n \<noteq> []"
proof (induction n rule: show_nat.induct)
  case (1 n)
  show ?case
  proof (cases "n < 10")
    case True
    then show ?thesis by (simp add: show_nat.simps [of n] is_digit_def)
  next
    case False
    have "n mod 10 < 10" by simp
    then have "is_digit (char_of (48 + n mod 10))" by (simp add: is_digit_def)
    with False "1.IH" show ?thesis by (simp add: show_nat.simps [of n])
  qed
qed

lemma adj_free_none: "list_all (\<lambda>c. \<not> P c) s \<Longrightarrow> adj_free P s"
  by (induction P s rule: adj_free.induct) auto

lemma find_Some_set: "find P xs = Some x \<Longrightarrow> x \<in> set xs \<and> P x"
  by (induction xs) (auto split: if_splits)

lemma filter_remove1_out: "\<not> P x \<Longrightarrow> filter P (remove1 x xs) = filter P xs"
  by (induction xs) auto

lemma obj_entries_snoc:
  "\<not> is_array_index k \<Longrightarrow> obj_entries (kvs @ [(k, v)]) = obj_entries kvs @ [(k, v)]"
  by (simp add: obj_entries_def)

lemma not_array_index_id: "\<not> is_array_index ''_id''"
  by (simp add: is_array_index_def is_digit_def)

lemma set_obj_entries: "set (map fst (obj_entries kvs)) = set (map fst kvs)"
  using set_obj_keys by (simp add: obj_keys_def)

lemma set_obj_set: "set (obj_set kvs k v) \<subseteq> insert (k, v) (set kvs)"
  by (induction kvs k v rule: obj_set.induct) auto

lemma set_obj_entries_eq: "set (obj_entries kvs) = set kvs"
  by (auto simp: obj_entries_def)

lemma foldl_obj_set_values:
  "set (map snd (foldl (\<lambda>acc s. obj_set acc (k s) (v s)) acc ss)) \<subseteq> set (map snd acc) \<union> v ` set ss"
proof (induction ss arbitrary: acc)
  case (Cons s ss)
  have "set (map snd (obj_set acc (k s) (v s))) \<subseteq> set (map snd acc) \<union> {v s}"
    using set_obj_set [of acc "k s" "v s"] by force
  then show ?case
    using Cons.IH [of "obj_set acc (k s) (v s)"] unfolding foldl_Cons list.set(2) image_insert by blast
qed simp

lemma foldl_obj_set_distinct:
  "distinct (map fst acc) \<Longrightarrow> distinct (map fst (foldl (\<lambda>acc s. obj_set acc (k s) (v s)) acc ss))"
  by (induction ss arbitrary: acc) (simp_all add: distinct_obj_set)

end
