(* ===== verification/Naming.thy ===== *)
theory Naming
  imports Prelude
begin

text \<open>
  The deterministic dataset reference: \<open>getCollectionName\<close> of \<open>src/backend/server.js\<close>
  (lines 216--223), the name of the MongoDB collection that holds the parsed rows of an uploaded
  CSV file. The single-page application derives the same name with the same chain of
  \<open>replace\<close> calls (\<open>src/frontend/index.tsx\<close>, \<open>processSingleFile\<close> and the prompt
  builder of \<open>handleSend\<close>), so both sides use \<open>getCollectionName\<close> of this theory.
  The lemmas show that every derived name is \<open>data_\<close> followed by a body over
  \<open>[a-z0-9_]\<close> with no doubled, leading or trailing underscore, that deriving the name again
  from the body gives the same name, and that the name ignores letter case, so that different
  file names can share one collection.
\<close>

section \<open>Definitions\<close>

text \<open>\<open>.replace(/\.csv$/i, '')\<close>.\<close>

definition strip_csv_suffix :: "string \<Rightarrow> string" where
  "strip_csv_suffix s =
     (if 4 \<le> length s \<and> lower (drop (length s - 4) s) = ''.csv''
      then take (length s - 4) s else s)"

text \<open>\<open>.replace(/[^a-zA-Z0-9]/g, '_')\<close>.\<close>

definition underscore_non_alnum :: "string \<Rightarrow> string" where
  "underscore_non_alnum s = map (\<lambda>c. if is_alnum c then c else CHR ''_'') s"

text \<open>The part after \<open>data_\<close>: the whole chain of \<open>replace\<close> calls and \<open>toLowerCase\<close>.\<close>

definition coll_body :: "string \<Rightarrow> string" where
  "coll_body fileName =
     lower (strip_us (squeeze (\<lambda>c. c = CHR ''_'') CHR ''_''
       (underscore_non_alnum (strip_csv_suffix fileName))))"

definition getCollectionName :: "string \<Rightarrow> string" where
  "getCollectionName fileName = ''data_'' @ coll_body fileName"

text \<open>The shape every body has: the characters \<open>[a-z0-9_]\<close>, no \<open>__\<close>, and no underscore
  at either end.\<close>

definition coll_char :: "char \<Rightarrow> bool" where
  "coll_char c \<longleftrightarrow> is_ascii_lower c \<or> is_digit c \<or> c = CHR ''_''"

definition wf_body :: "string \<Rightarrow> bool" where
  "wf_body b \<longleftrightarrow> list_all coll_char b \<and> \<not> contains b ''__'' \<and>
     \<not> prefix ''_'' b \<and> \<not> suffix ''_'' b"

section \<open>Characters of the body\<close>

lemma lower_char_alnum:
  "is_alnum c \<Longrightarrow> is_ascii_lower (lower_char c) \<or> is_digit (lower_char c)"
  by (auto simp: is_alnum_def lower_char_def is_upper_def is_ascii_upper_def
      is_ascii_lower_def is_digit_def)

lemma coll_char_lower_char: "is_alnum c \<or> c = CHR ''_'' \<Longrightarrow> coll_char (lower_char c)"
  using lower_char_alnum lower_char_underscore_iff coll_char_def by metis

lemma set_underscore_non_alnum:
  "c \<in> set (underscore_non_alnum s) \<Longrightarrow> is_alnum c \<or> c = CHR ''_''"
  by (auto simp: underscore_non_alnum_def)

lemma coll_body_chars: "list_all coll_char (coll_body f)"
proof -
  have "\<forall>c \<in> set (strip_us (squeeze (\<lambda>c. c = CHR ''_'') CHR ''_''
            (underscore_non_alnum (strip_csv_suffix f)))). is_alnum c \<or> c = CHR ''_''"
    using set_strip_us set_squeeze set_underscore_non_alnum by fastforce
  then show ?thesis
    by (auto simp: coll_body_def lower_def list_all_iff intro: coll_char_lower_char)
qed

lemma coll_char_lower_id: "coll_char c \<Longrightarrow> lower_char c = c"
  by (auto simp: coll_char_def lower_char_def is_upper_def is_ascii_upper_def is_ascii_lower_def
      is_digit_def)

lemma is_alnum_lower_char [simp]: "is_alnum (lower_char c) \<longleftrightarrow> is_alnum c"
proof (cases "is_upper c")
  case True
  define n where "n = (of_char c :: nat)"
  have l: "(of_char (lower_char c) :: nat) = n + 32"
    using of_char_lower_char_upper [OF True] by (simp add: n_def)
  have u: "65 \<le> n \<and> n \<le> 90 \<or> 192 \<le> n \<and> n \<le> 222"
    using True by (auto simp: is_upper_def is_ascii_upper_def n_def)
  have a1: "is_alnum (lower_char c) \<longleftrightarrow> (48 \<le> n + 32 \<and> n + 32 \<le> 57) \<or> (65 \<le> n + 32 \<and> n + 32 \<le> 90)
      \<or> (97 \<le> n + 32 \<and> n + 32 \<le> 122)"
    by (simp only: is_alnum_def is_digit_def is_ascii_upper_def is_ascii_lower_def l)
  have a2: "is_alnum c \<longleftrightarrow> (48 \<le> n \<and> n \<le> 57) \<or> (65 \<le> n \<and> n \<le> 90) \<or> (97 \<le> n \<and> n \<le> 122)"
    by (simp only: is_alnum_def is_digit_def is_ascii_upper_def is_ascii_lower_def n_def)
  show ?thesis using u unfolding a1 a2 by arith
next
  case False
  then show ?thesis by (simp add: lower_char_def)
qed

lemma coll_body_lower: "coll_body (lower f) = coll_body f"
proof -
  have strip: "strip_csv_suffix (lower f) = lower (strip_csv_suffix f)"
    by (simp add: strip_csv_suffix_def lower_drop [symmetric] lower_take)
  have und: "underscore_non_alnum (lower s) = lower (underscore_non_alnum s)" for s
    by (simp add: underscore_non_alnum_def lower_def lower_char_underscore_iff)
  have sq: "squeeze (\<lambda>c. c = CHR ''_'') CHR ''_'' (lower s) =
      lower (squeeze (\<lambda>c. c = CHR ''_'') CHR ''_'' s)" for s
    unfolding lower_def by (rule squeeze_map) (simp_all add: lower_char_underscore_iff)
  have st: "strip_us (lower s) = lower (strip_us s)" for s
    unfolding lower_def by (rule strip_us_map) (simp add: lower_char_underscore_iff)
  show ?thesis by (simp add: coll_body_def strip und sq st)
qed

lemma coll_body_wf: "wf_body (coll_body f)"
proof -
  define s0 where "s0 = squeeze (\<lambda>c. c = CHR ''_'') CHR ''_''
      (underscore_non_alnum (strip_csv_suffix f))"
  have af0: "adj_free (\<lambda>c. c = CHR ''_'') s0" by (simp add: s0_def adj_free_squeeze)
  have af1: "adj_free (\<lambda>c. c = CHR ''_'') (strip_us s0)" using af0 by (rule adj_free_strip_us)
  have ends: "\<not> prefix ''_'' (strip_us s0) \<and> \<not> suffix ''_'' (strip_us s0)"
    using af0 by (rule strip_us_ends)
  have body: "coll_body f = lower (strip_us s0)" by (simp add: coll_body_def s0_def)
  have "adj_free (\<lambda>c. c = CHR ''_'') (coll_body f)"
    unfolding body lower_def
    by (rule adj_free_map [OF _ af1]) (simp add: lower_char_underscore_iff)
  then have "\<not> contains (coll_body f) ''__''" by (simp add: adj_free_iff_not_contains)
  moreover have "\<not> prefix ''_'' (coll_body f) \<and> \<not> suffix ''_'' (coll_body f)"
    using ends unfolding body
    by (auto simp: prefix_single suffix_single lower_def hd_map last_map
        lower_char_underscore_iff)
  ultimately show ?thesis using coll_body_chars by (simp add: wf_body_def)
qed

lemma coll_body_of_wf:
  assumes wf: "wf_body b"
  shows "coll_body b = b"
proof -
  have chars: "\<And>c. c \<in> set b \<Longrightarrow> coll_char c" using wf by (simp add: wf_body_def list_all_iff)
  have low: "lower b = b" by (simp add: lower_def map_idI chars coll_char_lower_id)
  have "\<not> (4 \<le> length b \<and> lower (drop (length b - 4) b) = ''.csv'')"
  proof
    assume "4 \<le> length b \<and> lower (drop (length b - 4) b) = ''.csv''"
    then have "CHR ''.'' \<in> set (lower (drop (length b - 4) b))" by simp
    then have "CHR ''.'' \<in> set b"
      by (simp add: lower_drop low) (meson in_set_dropD)
    then show False using chars by (force simp: coll_char_def is_ascii_lower_def is_digit_def)
  qed
  then have s1: "strip_csv_suffix b = b" unfolding strip_csv_suffix_def by (rule if_not_P)
  have s2: "underscore_non_alnum b = b"
    unfolding underscore_non_alnum_def
  proof (rule map_idI)
    fix c assume "c \<in> set b"
    then have "coll_char c" by (rule chars)
    then show "(if is_alnum c then c else CHR ''_'') = c"
      by (auto simp: coll_char_def is_alnum_def)
  qed
  have s3: "squeeze (\<lambda>c. c = CHR ''_'') CHR ''_'' b = b"
    using wf by (intro squeeze_id) (auto simp: wf_body_def contains_iff_sublist)
  have s4: "strip_us b = b"
    using wf by (cases b) (auto simp: wf_body_def strip_us_def prefix_single suffix_single)
  show ?thesis by (simp add: coll_body_def s1 s2 s3 s4 low)
qed

section \<open>Properties of the dataset reference\<close>

text \<open>
  C1. Every dataset reference the server derives is \<open>data_\<close> followed by a body made of
  lower-case letters, digits and underscores, with no doubled underscore and no underscore at
  either end: the collection name is safe for MongoDB and stable under the cleaning steps.
\<close>

theorem getCollectionName_wf: "\<exists>b. getCollectionName f = ''data_'' @ b \<and> wf_body b"
  using coll_body_wf by (auto simp: getCollectionName_def)

text \<open>
  The reference can be re-derived from itself: applying the naming function to the body of
  a derived reference gives the same reference, so a caller that only knows the derived name
  (the conversation loop) computes the same collection as the server.
\<close>

theorem getCollectionName_rederive:
  "getCollectionName (drop 5 (getCollectionName f)) = getCollectionName f"
  by (simp add: getCollectionName_def coll_body_of_wf [OF coll_body_wf])

text \<open>
  The reference ignores letter case (and, by the same chain, maps every non-alphanumeric
  character to the same underscore): file names that differ only in case share one collection.
  The naming function is therefore not injective on file names.
\<close>

theorem getCollectionName_case_insensitive: "getCollectionName (lower f) = getCollectionName f"
  by (simp add: getCollectionName_def coll_body_lower)

lemma getCollectionName_collision:
  "getCollectionName ''CRM leads.csv'' = getCollectionName ''crm_leads.csv''"
  by code_simp

end
