(* ===== verification/Normalizer.thy ===== *)
theory Normalizer
  imports Prelude
begin

text \<open>
  The field and value normaliser of \<open>src/backend/server.js\<close>: \<open>cleanCSVValue\<close>
  (lines 225--245) and the cleaning of every row inside \<open>parseAndStoreCSVInMongo\<close>
  (lines 262--277), which renames each header to a MongoDB-safe field name and converts each
  value. The CSV tokenizer itself (\<open>csv-parse\<close>) is a library: a parsed row is the object it
  returns, a list of (header, string) properties.
\<close>

section \<open>Values\<close>

text \<open>The regular expressions \<open>/^-?[\d,]+\.?\d*$/\<close> (with \<open>cls\<close> digits and comma) and
  \<open>/^-?\d+\.?\d*$/\<close> (with \<open>cls\<close> the digits): an optional minus sign, a non-empty run of
  the class, then an optional dot followed by digits only. The class holds no dot, so taking
  its maximal run loses no match.\<close>

definition num_shape :: "(char \<Rightarrow> bool) \<Rightarrow> string \<Rightarrow> bool" where
  "num_shape cls s \<longleftrightarrow>
     (let t = (case s of c # cs \<Rightarrow> if c = CHR ''-'' then cs else s | [] \<Rightarrow> []);
          a = takeWhile cls t; rest = dropWhile cls t
      in a \<noteq> [] \<and> (rest = [] \<or> hd rest = CHR ''.'' \<and> list_all is_digit (tl rest)))"

text \<open>\<open>parseFloat\<close> on the strings that reach it here (an optional minus sign, digits, an
  optional dot, digits): \<open>None\<close> is \<open>NaN\<close>, which it returns when there is no digit.\<close>

definition parse_float :: "string \<Rightarrow> rat option" where
  "parse_float s =
     (let (neg, t) = (case s of c # cs \<Rightarrow> if c = CHR ''-'' then (True, cs) else (False, s)
                               | [] \<Rightarrow> (False, []));
          ip = takeWhile is_digit t; r = dropWhile is_digit t;
          fp = (case r of c # cs \<Rightarrow> if c = CHR ''.'' then takeWhile is_digit cs else [] | [] \<Rightarrow> [])
      in if ip = [] \<and> fp = [] then None
         else Some ((if neg then -1 else 1) *
                    (digits_val 0 ip + digits_val 0 fp / 10 ^ length fp)))"

definition thousands_class :: "char \<Rightarrow> bool" where
  "thousands_class c \<longleftrightarrow> is_digit c \<or> c = CHR '',''"

text \<open>The last two steps of \<open>cleanCSVValue\<close>: a plain number, or the trimmed string.\<close>

definition clean_plain :: "string \<Rightarrow> json" where
  "clean_plain t =
     (if num_shape is_digit t
      then (case parse_float t of Some n \<Rightarrow> JNum n | None \<Rightarrow> JStr t)
      else JStr t)"

definition cleanCSVValue :: "json \<Rightarrow> json" where
  "cleanCSVValue v =
     (case v of
        JNull \<Rightarrow> JNull
      | JNum n \<Rightarrow> JNum n
      | JStr s \<Rightarrow>
          (if s = [] then JNull
           else let t = trim s in
             if t = [] then JNull
             else if num_shape thousands_class t \<and> CHR '','' \<in> set t
             then (case parse_float (filter (\<lambda>c. c \<noteq> CHR '','') t) of
                     Some n \<Rightarrow> JNum n
                   | None \<Rightarrow> clean_plain t)
             else clean_plain t)
      | _ \<Rightarrow> v)"

section \<open>Field names\<close>

text \<open>The characters \<open>()[]{}/\#%\<close> that the fourth \<open>replace\<close> removes.\<close>

definition special_chars :: string where
  "special_chars = [CHR ''('', CHR '')'', CHR ''['', CHR '']'', CHR ''{'', CHR ''}'',
                    CHR ''/'', CHR 0x5C, CHR ''#'', CHR ''%'']"

definition lead_dollar :: "string \<Rightarrow> string" where
  "lead_dollar s = (case s of c # cs \<Rightarrow> if c = CHR ''$'' then CHR ''_'' # cs else s | [] \<Rightarrow> [])"

text \<open>\<open>key.trim().replace(/\./g,'_').replace(/^\$/,'_').replace(/\$/g,'')
  .replace(/[()[\]{}/\\#%]/g,'').replace(/\s+/g,'_').replace(/_+/g,'_').replace(/^_|_$/g,'')\<close>.\<close>

definition clean_key :: "string \<Rightarrow> string" where
  "clean_key key =
     strip_us (squeeze (\<lambda>c. c = CHR ''_'') CHR ''_''
       (squeeze is_js_space CHR ''_''
         (filter (\<lambda>c. c \<notin> set special_chars)
           (filter (\<lambda>c. c \<noteq> CHR ''$'')
             (lead_dollar (map (\<lambda>c. if c = CHR ''.'' then CHR ''_'' else c) (trim key)))))))"

text \<open>\<open>cleanKey || `col_${Object.keys(cleaned).length}`\<close>.\<close>

definition clean_field_name :: "jobj \<Rightarrow> string \<Rightarrow> string" where
  "clean_field_name cleaned key =
     (let ck = clean_key key in
      if ck = [] then ''col_'' @ show_nat (length (obj_keys cleaned)) else ck)"

text \<open>The \<open>for (const [key, value] of Object.entries(row))\<close> loop: every entry is written
  into \<open>cleaned\<close> with \<open>cleaned[cleanKey] = cleanCSVValue(value)\<close>.\<close>

fun clean_entries :: "jobj \<Rightarrow> jobj \<Rightarrow> jobj" where
  "clean_entries cleaned [] = cleaned"
| "clean_entries cleaned ((key, value) # rest) =
     clean_entries (obj_set cleaned (clean_field_name cleaned key) (cleanCSVValue value)) rest"

definition clean_record :: "jobj \<Rightarrow> jobj" where
  "clean_record row = clean_entries [] (obj_entries row)"

text \<open>The field names the cleaning promises: non-empty, none of \<open>.\<close>, \<open>$\<close>, whitespace or
  \<open>()[]{}/\#%\<close>, no \<open>__\<close>, and no underscore at either end (so never MongoDB's \<open>_id\<close>).\<close>

definition field_char_ok :: "char \<Rightarrow> bool" where
  "field_char_ok c \<longleftrightarrow> c \<noteq> CHR ''.'' \<and> c \<noteq> CHR ''$'' \<and> \<not> is_js_space c \<and> c \<notin> set special_chars"

definition safe_field_name :: "string \<Rightarrow> bool" where
  "safe_field_name k \<longleftrightarrow> k \<noteq> [] \<and> list_all field_char_ok k \<and> \<not> contains k ''__'' \<and>
     \<not> prefix ''_'' k \<and> \<not> suffix ''_'' k"

section \<open>Lemmas\<close>

lemma parse_float_digits:
  assumes "d \<noteq> []" "list_all is_digit d"
  shows "parse_float d = Some (digits_val 0 d)"
proof -
  obtain c cs where d: "d = c # cs" using assms(1) by (cases d) auto
  have c: "c \<noteq> CHR ''-''" using assms(2) d by (auto simp: is_digit_def)
  have tw: "takeWhile is_digit (c # cs) = c # cs" and dw: "dropWhile is_digit (c # cs) = []"
    using assms(2) d by (simp_all add: list_all_iff)
  show ?thesis
    unfolding d using c
    by (simp add: parse_float_def Let_def tw dw del: takeWhile.simps dropWhile.simps)
qed

lemma num_shape_parse:
  "num_shape is_digit t \<Longrightarrow> \<exists>n. parse_float t = Some n"
  by (auto simp: num_shape_def parse_float_def Let_def split: list.splits if_splits)

lemma field_char_ok_underscore: "field_char_ok CHR ''_''"
  by (simp add: field_char_ok_def is_js_space_def special_chars_def)

lemma field_char_ok_digit: "is_digit c \<Longrightarrow> field_char_ok c"
  by (auto simp: field_char_ok_def is_js_space_def special_chars_def is_digit_def)

lemma set_lead_dollar: "c \<in> set (lead_dollar s) \<Longrightarrow> c = CHR ''_'' \<or> c \<in> set s"
  by (auto simp: lead_dollar_def split: list.splits if_splits)

lemma clean_key_pre_chars:
  assumes "c \<in> set (squeeze is_js_space CHR ''_'' (filter (\<lambda>c. c \<notin> set special_chars)
      (filter (\<lambda>c. c \<noteq> CHR ''$'') (lead_dollar (map (\<lambda>c. if c = CHR ''.'' then CHR ''_'' else c)
        (trim k))))))"
  shows "field_char_ok c"
  using assms field_char_ok_underscore
  by (auto simp: field_char_ok_def dest!: set_squeeze set_lead_dollar split: if_splits)

lemma clean_key_safe: "clean_key k \<noteq> [] \<Longrightarrow> safe_field_name (clean_key k)"
proof -
  assume ne: "clean_key k \<noteq> []"
  define s5 where "s5 = squeeze is_js_space CHR ''_'' (filter (\<lambda>c. c \<notin> set special_chars)
      (filter (\<lambda>c. c \<noteq> CHR ''$'') (lead_dollar (map (\<lambda>c. if c = CHR ''.'' then CHR ''_'' else c)
        (trim k)))))"
  define s6 where "s6 = squeeze (\<lambda>c. c = CHR ''_'') CHR ''_'' s5"
  have ck: "clean_key k = strip_us s6" by (simp add: clean_key_def s5_def s6_def)
  have c5: "\<And>c. c \<in> set s5 \<Longrightarrow> field_char_ok c" unfolding s5_def by (rule clean_key_pre_chars)
  have c6: "\<And>c. c \<in> set s6 \<Longrightarrow> field_char_ok c"
    using c5 field_char_ok_underscore by (auto simp: s6_def dest!: set_squeeze)
  have af: "adj_free (\<lambda>c. c = CHR ''_'') s6" by (simp add: s6_def adj_free_squeeze)
  have "list_all field_char_ok (strip_us s6)"
    using c6 set_strip_us by (fastforce simp: list_all_iff)
  moreover have "\<not> contains (strip_us s6) ''__''"
    using adj_free_strip_us [OF af] by (simp add: adj_free_iff_not_contains)
  moreover have "\<not> prefix ''_'' (strip_us s6) \<and> \<not> suffix ''_'' (strip_us s6)"
    using af by (rule strip_us_ends)
  ultimately show ?thesis using ne by (simp add: safe_field_name_def ck)
qed

lemma fallback_name_safe: "safe_field_name (''col_'' @ show_nat n)"
proof -
  have d: "list_all is_digit (show_nat n)" "show_nat n \<noteq> []" using show_nat_digits by auto
  then obtain x xs where x: "show_nat n = x # xs" by (cases "show_nat n") auto
  have nd: "\<And>c. is_digit c \<Longrightarrow> c \<noteq> CHR ''_''" by (auto simp: is_digit_def)
  have "adj_free (\<lambda>c. c = CHR ''_'') (show_nat n)"
    using d(1) nd by (intro adj_free_none) (auto simp: list_all_iff)
  then have af: "adj_free (\<lambda>c. c = CHR ''_'') (''col_'' @ show_nat n)"
    using d(1) nd x by (simp add: adj_free_Cons)
  have "last (show_nat n) \<noteq> CHR ''_''" using d nd by (simp add: list_all_iff)
  moreover have "list_all field_char_ok (''col_'' @ show_nat n)"
    using d(1) field_char_ok_digit field_char_ok_underscore
    by (auto simp: list_all_iff field_char_ok_def is_js_space_def special_chars_def)
  ultimately show ?thesis using af d(2)
    by (simp add: safe_field_name_def adj_free_iff_not_contains prefix_single suffix_single)
qed

lemma clean_field_name_safe: "safe_field_name (clean_field_name cleaned key)"
proof (cases "clean_key key = []")
  case True
  then show ?thesis
    unfolding clean_field_name_def Let_def using fallback_name_safe by simp
next
  case False
  then show ?thesis by (simp add: clean_field_name_def Let_def clean_key_safe)
qed

lemma clean_entries_keys:
  "list_all safe_field_name (map fst acc) \<Longrightarrow> distinct (map fst acc) \<Longrightarrow>
   list_all safe_field_name (map fst (clean_entries acc kvs)) \<and> distinct (map fst (clean_entries acc kvs))"
proof (induction acc kvs rule: clean_entries.induct)
  case (2 cleaned key v rest)
  let ?k = "clean_field_name cleaned key"
  have "list_all safe_field_name (map fst (obj_set cleaned ?k (cleanCSVValue v)))"
    using "2.prems"(1) clean_field_name_safe [of cleaned key] by (simp add: map_fst_obj_set)
  moreover have "distinct (map fst (obj_set cleaned ?k (cleanCSVValue v)))"
    using "2.prems"(2) by (rule distinct_obj_set)
  ultimately show ?case using "2.IH" by simp
qed simp

lemma clean_record_keys:
  "list_all safe_field_name (map fst (clean_record row)) \<and> distinct (map fst (clean_record row))"
  unfolding clean_record_def by (rule clean_entries_keys) simp_all

text \<open>No cleaned field is MongoDB's identity field: a safe name has no leading underscore.\<close>

lemma clean_record_no_id: "''_id'' \<notin> set (map fst (clean_record row))"
proof
  assume "''_id'' \<in> set (map fst (clean_record row))"
  then have "safe_field_name ''_id''" using clean_record_keys [of row] by (auto simp: list_all_iff)
  then show False by (simp add: safe_field_name_def)
qed

lemma clean_key_of_safe:
  assumes "safe_field_name k"
  shows "clean_key k = k"
proof -
  have ok: "\<And>c. c \<in> set k \<Longrightarrow> field_char_ok c" using assms by (simp add: safe_field_name_def list_all_iff)
  have tr: "trim k = k" using ok by (intro trim_id) (auto simp: list_all_iff field_char_ok_def)
  have m: "map (\<lambda>c. if c = CHR ''.'' then CHR ''_'' else c) k = k"
    using ok by (intro map_idI) (auto simp: field_char_ok_def)
  have ld: "lead_dollar k = k" using ok by (cases k) (auto simp: lead_dollar_def field_char_ok_def)
  have f1: "filter (\<lambda>c. c \<noteq> CHR ''$'') k = k" using ok by (auto simp: filter_id_conv field_char_ok_def)
  have f2: "filter (\<lambda>c. c \<notin> set special_chars) k = k" using ok by (auto simp: filter_id_conv field_char_ok_def)
  have s1: "squeeze is_js_space CHR ''_'' k = k"
    using ok by (intro squeeze_id) (auto simp: field_char_ok_def dest!: set_mono_sublist)
  have s2: "squeeze (\<lambda>c. c = CHR ''_'') CHR ''_'' k = k"
    using assms by (intro squeeze_id) (auto simp: safe_field_name_def contains_iff_sublist)
  have s3: "strip_us k = k" using assms by (intro strip_us_id) (simp_all add: safe_field_name_def)
  show ?thesis by (simp add: clean_key_def tr m ld f1 f2 s1 s2 s3)
qed

section \<open>Properties of the normaliser\<close>

text \<open>
  C4. A value written with thousands separators (digits and commas only, at least one comma
  and one digit) is stored as the number its digits denote, not as a string: \<open>"8,144,550"\<close>
  becomes \<open>8144550\<close>.
\<close>

theorem cleanCSVValue_thousands:
  assumes "list_all thousands_class s" and "CHR '','' \<in> set s" and "filter is_digit s \<noteq> []"
  shows "cleanCSVValue (JStr s) = JNum (digits_val 0 (filter is_digit s))"
proof -
  have ne: "s \<noteq> []" using assms(2) by auto
  have tr: "trim s = s"
    using assms(1) by (intro trim_id) (auto simp: list_all_iff thousands_class_def is_digit_def is_js_space_def)
  have hd: "hd s \<noteq> CHR ''-''" using assms(1) ne by (cases s) (auto simp: thousands_class_def is_digit_def)
  have shape: "num_shape thousands_class s"
    using assms(1) ne hd by (cases s) (auto simp: num_shape_def list_all_iff)
  have filt: "filter (\<lambda>c. c \<noteq> CHR '','') s = filter is_digit s"
    using assms(1) by (induction s) (auto simp: thousands_class_def is_digit_def)
  have pf: "parse_float (filter is_digit s) = Some (digits_val 0 (filter is_digit s))"
    using assms(3) by (intro parse_float_digits) (auto simp: list_all_iff)
  show ?thesis using ne tr shape filt pf assms(2) by (simp add: cleanCSVValue_def Let_def)
qed

text \<open>Witness of C4 at the spec's example.\<close>

theorem cleanCSVValue_thousands_witness:
  "list_all thousands_class ''8,144,550'' \<and> CHR '','' \<in> set ''8,144,550'' \<and>
   filter is_digit ''8,144,550'' \<noteq> [] \<and> cleanCSVValue (JStr ''8,144,550'') = JNum 8144550"
proof -
  have h: "list_all thousands_class ''8,144,550''" "CHR '','' \<in> set ''8,144,550''"
    "filter is_digit ''8,144,550'' \<noteq> []"
    by (simp_all add: thousands_class_def is_digit_def)
  show ?thesis using cleanCSVValue_thousands [OF h] h by (simp add: is_digit_def)
qed

text \<open>
  Cleaning a string never fails: a string that is kept as a string is the trimmed input,
  is non-empty, and does not have the shape of a plain decimal number (those become numbers).
\<close>

theorem cleanCSVValue_kept_string:
  assumes "cleanCSVValue (JStr s) = JStr t"
  shows "t = trim s \<and> t \<noteq> [] \<and> \<not> num_shape is_digit t"
  using assms num_shape_parse [of "trim s"]
  by (auto simp: cleanCSVValue_def clean_plain_def Let_def split: if_splits option.splits)


text \<open>A string kept as a string.\<close>

theorem cleanCSVValue_kept_string_witness:
  "cleanCSVValue (JStr '' Thane '') = JStr ''Thane'' \<and> ''Thane'' = trim '' Thane '' \<and>
   \<not> num_shape is_digit ''Thane''"
proof -
  have h: "cleanCSVValue (JStr '' Thane '') = JStr ''Thane''" by code_simp
  have c: "''Thane'' = trim '' Thane '' \<and> ''Thane'' \<noteq> [] \<and> \<not> num_shape is_digit ''Thane''"
    by (rule cleanCSVValue_kept_string [OF h])
  show ?thesis using h c by blast
qed

text \<open>
  C6. Every field name of a cleaned record is MongoDB-safe (\<open>safe_field_name\<close>) and the
  names are pairwise distinct, whatever the raw headers were; the positional fallback
  \<open>col_N\<close> is safe as well.
\<close>

theorem clean_record_keys_safe:
  "list_all safe_field_name (map fst (clean_record row)) \<and> distinct (map fst (clean_record row))"
  by (rule clean_record_keys)

text \<open>
  Field-name cleaning is idempotent: cleaning a cleaned name changes nothing, so the
  sanitisation is deterministic and stable.
\<close>

theorem clean_key_idem: "clean_key (clean_key k) = clean_key k"
proof (cases "clean_key k = []")
  case True
  then show ?thesis by (simp add: clean_key_def trim_def lead_dollar_def strip_us_def)
next
  case False
  then show ?thesis by (intro clean_key_of_safe clean_key_safe)
qed

text \<open>
  Collisions: two headers that clean to the same name (\<open>Q1.2025\<close> and \<open>Q1_2025\<close>) keep
  only the later value, and the positional fallback can itself collide with a real column.
\<close>

lemma clean_record_collision:
  "clean_record [(''Q1.2025'', JStr ''1''), (''Q1_2025'', JStr ''2'')] = [(''Q1_2025'', JNum 2)]"
  by code_simp

lemma clean_record_fallback_collision:
  "clean_record [(''col_1'', JStr ''a''), (''$'', JStr ''b'')] = [(''col_1'', JStr ''b'')]"
  by code_simp

end
