(* ===== verification/Database.thy ===== *)
theory Database
  imports Prelude
begin

text \<open>
  The MongoDB state the server works on (database \<open>indira-gpt\<close> of
  \<open>src/backend/server.js\<close>): the \<open>users\<close> collection, the \<open>csvFiles\<close> collection of
  upload metadata, the GridFS bucket for large files, and the per-file data collections.
  Collections are lists of documents in natural (insertion) order, which is the order
  \<open>find\<close> and \<open>findOne\<close> see. HTTP responses are a status code and a JSON body.
  The connection itself (\<open>db\<close> being \<open>null\<close> before \<open>connectDB\<close> succeeds) is not
  modelled: every handler runs against a connected database.
\<close>

text \<open>A document of \<open>users\<close>; a missing \<open>accessibleFiles\<close> is the empty list, which every
  use in the code treats alike (\<open>user.accessibleFiles || []\<close>,
  \<open>user.accessibleFiles && user.accessibleFiles.includes(f)\<close>).\<close>

record user_doc =
  u_email :: string
  u_hash :: string
  u_role :: string
  u_files :: "string list"
  u_created :: nat
  u_lastLogin :: "nat option"
  u_addedBy :: string

text \<open>A document of \<open>csvFiles\<close>; the last three fields are set after a successful parse.\<close>

record file_doc =
  f_name :: string
  f_size :: nat
  f_content :: "string option"
  f_gridfs :: bool
  f_uploadedAt :: nat
  f_uploadedBy :: string
  f_active :: bool
  f_dataCollection :: "string option"
  f_columns :: "string list option"
  f_rowCount :: "nat option"

record db =
  users :: "user_doc list"
  csv_files :: "file_doc list"
  gridfs :: "(string \<times> string) list"
  colls :: "string \<Rightarrow> json list option"
  next_oid :: nat

datatype resp = Resp (status: nat) (body: json)

definition err_resp :: "nat \<Rightarrow> string \<Rightarrow> resp" where
  "err_resp code msg = Resp code (JObj [(''error'', JStr msg)])"

text \<open>\<open>db.collection('users').findOne({ email })\<close>.\<close>

definition find_user :: "db \<Rightarrow> string \<Rightarrow> user_doc option" where
  "find_user d email = find (\<lambda>u. u_email u = email) (users d)"

text \<open>\<open>db.collection('csvFiles').findOne({ fileName, isActive: true })\<close>.\<close>

definition find_active_file :: "db \<Rightarrow> string \<Rightarrow> file_doc option" where
  "find_active_file d name = find (\<lambda>f. f_name f = name \<and> f_active f) (csv_files d)"

text \<open>The documents of a collection; MongoDB reads a collection that does not exist as empty.\<close>

definition coll_docs :: "db \<Rightarrow> string \<Rightarrow> json list" where
  "coll_docs d c = (case colls d c of None \<Rightarrow> [] | Some ds \<Rightarrow> ds)"

text \<open>JavaScript truthiness of an optional string field of a request body.\<close>

definition truthy :: "string option \<Rightarrow> bool" where
  "truthy s \<longleftrightarrow> (case s of None \<Rightarrow> False | Some x \<Rightarrow> x \<noteq> [])"

text \<open>The value of an optional string field, read where the code has checked it is present.\<close>

definition or_empty :: "string option \<Rightarrow> string" where
  "or_empty s = (case s of None \<Rightarrow> [] | Some x \<Rightarrow> x)"

definition is_admin :: "user_doc \<Rightarrow> bool" where
  "is_admin u \<longleftrightarrow> u_role u = ''admin''"

lemma find_user_Some: "find_user d e = Some u \<Longrightarrow> u \<in> set (users d) \<and> u_email u = e"
  by (auto simp: find_user_def dest: find_Some_iff [THEN iffD1])

lemma find_active_file_Some:
  "find_active_file d n = Some f \<Longrightarrow> f \<in> set (csv_files d) \<and> f_name f = n \<and> f_active f"
  by (auto simp: find_active_file_def find_Some_iff)

lemma coll_docs_upd [simp]: "coll_docs (d\<lparr>colls := (colls d)(c := x)\<rparr>) c' =
    (if c' = c then (case x of None \<Rightarrow> [] | Some ds \<Rightarrow> ds) else coll_docs d c')"
  by (simp add: coll_docs_def)

end
