(* ===== verification/Gateway.thy ===== *)
theory Gateway
  imports Database Naming
begin

text \<open>
  The query gateway of \<open>src/backend/server.js\<close>: \<open>validatePipeline\<close> (lines 299--319) and
  the handler of \<open>POST /api/data/query\<close> (lines 1344--1423). The MongoDB aggregation engine
  is a library the handler calls: it is the parameter \<open>engine\<close>, which maps the documents of
  a collection and a pipeline to the result rows or to an error message. The wall-clock
  duration the handler reports is the parameter \<open>elapsed\<close>.
\<close>

section \<open>Pipeline validation\<close>

definition dangerousStages :: "string list" where
  "dangerousStages = [''$out'', ''$merge'', ''$currentOp'', ''$listSessions'', ''$planCacheStats'']"

text \<open>\<open>typeof stage !== 'object' || stage === null\<close> rejects the primitives; arrays and
  objects pass, and their keys are those of \<open>Object.keys\<close>.\<close>

definition is_js_object :: "json \<Rightarrow> bool" where
  "is_js_object v \<longleftrightarrow> (case v of JObj _ \<Rightarrow> True | JArr _ \<Rightarrow> True | JOid _ \<Rightarrow> True | _ \<Rightarrow> False)"

text \<open>The \<open>for (const stage of pipeline)\<close> loop: the first failing stage raises.\<close>

fun validate_stages :: "json list \<Rightarrow> string option" where
  "validate_stages [] = None"
| "validate_stages (stage # rest) =
     (if \<not> is_js_object stage then Some ''Each pipeline stage must be an object''
      else case find (\<lambda>k. k \<in> set dangerousStages) (js_keys stage) of
             Some k \<Rightarrow> Some (''Dangerous pipeline stage not allowed: '' @ k)
           | None \<Rightarrow> validate_stages rest)"

definition validatePipeline :: "json \<Rightarrow> string + json" where
  "validatePipeline pipeline =
     (case pipeline of
        JArr stages \<Rightarrow> (case validate_stages stages of None \<Rightarrow> Inr pipeline | Some e \<Rightarrow> Inl e)
      | _ \<Rightarrow> Inl ''Pipeline must be an array'')"

section \<open>Output shaping\<close>

text \<open>\<open>if (row._id && typeof row._id === 'object' && row._id.constructor.name === 'ObjectId')\<close>
  the identity field is dropped; a grouping key in \<open>_id\<close> stays.\<close>

definition strip_oid :: "json \<Rightarrow> json" where
  "strip_oid row =
     (case row of
        JObj kvs \<Rightarrow> (case obj_get kvs ''_id'' of
                       Some (JOid _) \<Rightarrow> JObj (obj_del kvs ''_id'')
                     | _ \<Rightarrow> row)
      | _ \<Rightarrow> row)"

definition maxRows :: nat where
  "maxRows = 10000"

record query_result =
  qr_data :: "json list"
  qr_rowCount :: nat
  qr_totalRows :: nat
  qr_truncated :: bool
  qr_columns :: "string list"

definition shape_rows :: "json list \<Rightarrow> query_result" where
  "shape_rows result =
     (let cleanResult = map strip_oid result;
          limitedResult = take maxRows cleanResult
      in \<lparr>qr_data = limitedResult,
          qr_rowCount = length limitedResult,
          qr_totalRows = length cleanResult,
          qr_truncated = maxRows < length cleanResult,
          qr_columns = (case limitedResult of [] \<Rightarrow> [] | r # _ \<Rightarrow> js_keys r)\<rparr>)"

definition jnat :: "nat \<Rightarrow> json" where
  "jnat n = JNum (of_nat n)"

definition result_body :: "query_result \<Rightarrow> nat \<Rightarrow> json" where
  "result_body r elapsed =
     JObj [(''success'', JBool True), (''data'', JArr (qr_data r)),
           (''rowCount'', jnat (qr_rowCount r)), (''totalRows'', jnat (qr_totalRows r)),
           (''truncated'', JBool (qr_truncated r)), (''columns'', JArr (map JStr (qr_columns r))),
           (''queryTime'', JStr (show_nat elapsed @ ''ms''))]"

section \<open>The query endpoint\<close>

record query_req =
  q_pipeline :: "json option"
  q_fileName :: "string option"
  q_collection :: "string option"

definition query_hint :: string where
  "query_hint = ''Check aggregation pipeline syntax and ensure you have access to this file''"

definition query_fail :: "string \<Rightarrow> resp" where
  "query_fail msg = Resp 500 (JObj [(''error'', JStr msg), (''hint'', JStr query_hint)])"

text \<open>The collection the handler reads: the request's \<open>collectionName\<close> when given, else the
  file's recorded \<open>dataCollection\<close>, else the derived name.\<close>

definition target_collection :: "db \<Rightarrow> query_req \<Rightarrow> string" where
  "target_collection d req =
     (if truthy (q_collection req) then or_empty (q_collection req)
      else let fileName = or_empty (q_fileName req) in
        (case find_active_file d fileName of
           Some fd \<Rightarrow> if truthy (f_dataCollection fd) then or_empty (f_dataCollection fd)
                      else getCollectionName fileName
         | None \<Rightarrow> getCollectionName fileName))"

definition query_endpoint ::
  "(json list \<Rightarrow> json \<Rightarrow> string + json list) \<Rightarrow> nat \<Rightarrow> db \<Rightarrow> string \<Rightarrow> query_req \<Rightarrow> resp" where
  "query_endpoint engine elapsed d email req =
     (case q_pipeline req of
        Some (JArr stages) \<Rightarrow>
          if \<not> truthy (q_fileName req) \<and> \<not> truthy (q_collection req)
          then err_resp 400 ''fileName or collectionName is required''
          else (case find_user d email of
                  None \<Rightarrow> err_resp 404 ''User not found''
                | Some user \<Rightarrow>
                    if \<not> is_admin user \<and> truthy (q_fileName req) \<and>
                       or_empty (q_fileName req) \<notin> set (u_files user)
                    then err_resp 403 ''Access denied to this file''
                    else (case validatePipeline (JArr stages) of
                            Inl e \<Rightarrow> query_fail e
                          | Inr pipeline \<Rightarrow>
                              (case engine (coll_docs d (target_collection d req)) pipeline of
                                 Inl e \<Rightarrow> query_fail e
                               | Inr result \<Rightarrow> Resp 200 (result_body (shape_rows result) elapsed))))
      | _ \<Rightarrow> err_resp 400 ''pipeline (array) is required'')"

text \<open>Whether some stage has a disallowed key.\<close>

definition has_dangerous :: "json list \<Rightarrow> bool" where
  "has_dangerous stages \<longleftrightarrow> list_ex (\<lambda>st. list_ex (\<lambda>k. k \<in> set dangerousStages) (js_keys st)) stages"

text \<open>An identity field that the handler would strip.\<close>

definition oid_id :: "json \<Rightarrow> bool" where
  "oid_id row \<longleftrightarrow>
     (case row of JObj kvs \<Rightarrow> (case obj_get kvs ''_id'' of Some (JOid _) \<Rightarrow> True | _ \<Rightarrow> False)
                | _ \<Rightarrow> False)"

section \<open>An example state\<close>

text \<open>The default administrator that \<open>connectDB\<close> creates, a user with no accessible file,
  and one data collection of two revenue rows.\<close>

definition demo_admin :: user_doc where
  "demo_admin = \<lparr>u_email = ''admin@indira.com'', u_hash = [], u_role = ''admin'', u_files = [],
     u_created = 0, u_lastLogin = None, u_addedBy = []\<rparr>"

definition demo_user :: user_doc where
  "demo_user = \<lparr>u_email = ''analyst@indira.com'', u_hash = [], u_role = ''user'', u_files = [],
     u_created = 0, u_lastLogin = None, u_addedBy = ''admin@indira.com''\<rparr>"

definition demo_rows :: "json list" where
  "demo_rows = [JObj [(''_id'', JOid 0), (''District'', JStr ''Thane''), (''Revenue'', JNum 12000)],
                JObj [(''_id'', JOid 1), (''District'', JStr ''Pune''), (''Revenue'', JNum 8500)]]"

definition demo_db :: db where
  "demo_db = \<lparr>users = [demo_admin, demo_user], csv_files = [], gridfs = [],
     colls = Map.empty(''data_revenue'' \<mapsto> demo_rows), next_oid = 2\<rparr>"

definition match_thane :: json where
  "match_thane = JObj [(''$match'', JObj [(''District'', JStr ''Thane'')])]"

lemmas demo_simps = demo_admin_def demo_user_def demo_db_def find_user_def is_admin_def
  truthy_def or_empty_def coll_docs_def

section \<open>Lemmas\<close>

lemma validate_stages_dangerous: "has_dangerous stages \<Longrightarrow> validate_stages stages \<noteq> None"
proof (induction stages)
  case (Cons st rest)
  show ?case
  proof (cases "is_js_object st \<and> find (\<lambda>k. k \<in> set dangerousStages) (js_keys st) = None")
    case True
    then have "\<not> list_ex (\<lambda>k. k \<in> set dangerousStages) (js_keys st)"
      by (auto simp: find_None_iff list_ex_iff)
    with Cons.prems have "has_dangerous rest" by (simp add: has_dangerous_def)
    with Cons.IH True show ?thesis by simp
  next
    case False
    then show ?thesis by (auto split: option.splits)
  qed
qed (simp add: has_dangerous_def)

lemma validatePipeline_Inr: "validatePipeline p = Inr p' \<Longrightarrow> p' = p"
  by (auto simp: validatePipeline_def split: json.splits option.splits)

lemma oid_id_strip_oid: "\<not> oid_id (strip_oid row)"
  by (auto simp: oid_id_def strip_oid_def obj_get_obj_del split: json.splits option.splits)

lemma validate_stages_clean:
  "list_all is_js_object stages \<Longrightarrow> \<not> has_dangerous stages \<Longrightarrow> validate_stages stages = None"
proof (induction stages)
  case (Cons st rest)
  have "find (\<lambda>k. k \<in> set dangerousStages) (js_keys st) = None"
    using Cons.prems(2) by (auto simp: has_dangerous_def find_None_iff list_ex_iff)
  moreover have "validate_stages rest = None"
    using Cons by (simp add: has_dangerous_def)
  ultimately show ?case using Cons.prems(1) by simp
qed simp

text \<open>The branches of the handler, each as one equation.\<close>

lemma query_endpoint_denied:
  assumes "q_pipeline req = Some (JArr stages)" and "find_user d email = Some u"
    and "\<not> is_admin u" and "truthy (q_fileName req)" and "or_empty (q_fileName req) \<notin> set (u_files u)"
  shows "query_endpoint engine t d email req = err_resp 403 ''Access denied to this file''"
  using assms by (simp add: query_endpoint_def)

lemma query_endpoint_success:
  assumes "q_pipeline req = Some (JArr stages)" and "truthy (q_fileName req) \<or> truthy (q_collection req)"
    and "find_user d email = Some u"
    and "is_admin u \<or> \<not> truthy (q_fileName req) \<or> or_empty (q_fileName req) \<in> set (u_files u)"
    and "list_all is_js_object stages" and "\<not> has_dangerous stages"
    and "engine (coll_docs d (target_collection d req)) (JArr stages) = Inr rows"
  shows "query_endpoint engine t d email req = Resp 200 (result_body (shape_rows rows) t)"
  using assms validate_stages_clean [OF assms(5,6)]
  by (auto simp: query_endpoint_def validatePipeline_def)

lemma query_endpoint_rejects:
  assumes "q_pipeline req = Some (JArr stages)" and "has_dangerous stages"
  shows "query_endpoint engine t d email req \<in>
           {err_resp 400 ''fileName or collectionName is required'', err_resp 404 ''User not found'',
            err_resp 403 ''Access denied to this file''} \<union>
           {query_fail e | e. validate_stages stages = Some e}"
  using assms validate_stages_dangerous [OF assms(2)]
  by (auto simp: query_endpoint_def validatePipeline_def split: option.splits)

lemma status_err_resp [simp]: "status (err_resp c m) = c"
  by (simp add: err_resp_def)

lemma status_query_fail [simp]: "status (query_fail m) = 500"
  by (simp add: query_fail_def)

section \<open>Properties of the query gateway\<close>

text \<open>
  C8. A pipeline with a disallowed stage (\<open>$out\<close>, \<open>$merge\<close>, \<open>$currentOp\<close>,
  \<open>$listSessions\<close>, \<open>$planCacheStats\<close>) is never executed: the handler answers with an
  error status, and its answer does not depend on the aggregation engine at all, so no data
  is read or written.
\<close>

theorem query_rejects_dangerous:
  assumes "q_pipeline req = Some (JArr stages)" and "has_dangerous stages"
  shows "status (query_endpoint engine t d email req) \<noteq> 200 \<and>
         query_endpoint engine t d email req = query_endpoint engine' t' d email req"
proof -
  have v: "validate_stages stages \<noteq> None" using assms(2) by (rule validate_stages_dangerous)
  have "status (query_endpoint engine t d email req) \<in> {400, 404, 403, 500}"
    using query_endpoint_rejects [OF assms, of engine t d email] by auto
  then have "status (query_endpoint engine t d email req) \<noteq> 200" by auto
  moreover have "query_endpoint engine t d email req = query_endpoint engine' t' d email req"
    using assms(1) v by (auto simp: query_endpoint_def validatePipeline_def split: option.splits)
  ultimately show ?thesis by blast
qed

text \<open>
  C9. The result is capped at 10\,000 rows taken from the front of the full result: the
  returned rows are a prefix of the full (identity-stripped) result of length
  \<open>min total 10000\<close>, \<open>rowCount\<close> is their number, \<open>totalRows\<close> is the count before the cap,
  \<open>truncated\<close> holds exactly when the full result exceeds the cap, and no returned row keeps a
  database-assigned \<open>_id\<close>.
\<close>

theorem shape_rows_bounds:
  "length (qr_data (shape_rows rows)) = min (length rows) maxRows \<and>
   qr_rowCount (shape_rows rows) = length (qr_data (shape_rows rows)) \<and>
   qr_totalRows (shape_rows rows) = length rows \<and>
   (qr_truncated (shape_rows rows) \<longleftrightarrow> maxRows < length rows) \<and>
   prefix (qr_data (shape_rows rows)) (map strip_oid rows) \<and>
   list_all (\<lambda>r. \<not> oid_id r) (qr_data (shape_rows rows))"
  by (auto simp: shape_rows_def Let_def take_is_prefix list_all_iff oid_id_strip_oid
      dest!: in_set_takeD)

text \<open>
  C10. On the success branch (a known user allowed to read the named file, a pipeline of
  objects without disallowed stages, an engine that succeeds) the handler answers 200 with the
  shaped result of running the pipeline on the target collection.
\<close>

theorem query_endpoint_ok:
  assumes "q_pipeline req = Some (JArr stages)" and "truthy (q_fileName req) \<or> truthy (q_collection req)"
    and "find_user d email = Some u"
    and "is_admin u \<or> \<not> truthy (q_fileName req) \<or> or_empty (q_fileName req) \<in> set (u_files u)"
    and "list_all is_js_object stages" and "\<not> has_dangerous stages"
    and "engine (coll_docs d (target_collection d req)) (JArr stages) = Inr rows"
  shows "query_endpoint engine t d email req = Resp 200 (result_body (shape_rows rows) t)"
  using assms by (rule query_endpoint_success)

text \<open>
  C11. A user who is not an administrator and names a file outside their accessible set is
  refused with status 403 before the pipeline is even validated, whatever the pipeline holds.
\<close>

theorem query_access_denied:
  assumes "q_pipeline req = Some (JArr stages)" and "find_user d email = Some u"
    and "\<not> is_admin u" and "truthy (q_fileName req)" and "or_empty (q_fileName req) \<notin> set (u_files u)"
  shows "status (query_endpoint engine t d email req) = 403"
  using query_endpoint_denied [OF assms] by simp

text \<open>
  C12. Authorisation looks only at \<open>fileName\<close>, while the collection read is the request's
  \<open>collectionName\<close> whenever one is given: a non-administrator with no accessible file at all
  reads any collection by naming it.
\<close>

theorem query_collection_bypass:
  assumes "q_pipeline req = Some (JArr stages)" and "q_fileName req = None"
    and "q_collection req = Some c" and "c \<noteq> []"
    and "find_user d email = Some u" and "u_files u = []"
    and "list_all is_js_object stages" and "\<not> has_dangerous stages"
    and "engine (coll_docs d c) (JArr stages) = Inr rows"
  shows "query_endpoint engine t d email req = Resp 200 (result_body (shape_rows rows) t)"
proof -
  have tc: "target_collection d req = c" using assms(3,4) by (simp add: target_collection_def truthy_def or_empty_def)
  show ?thesis
    by (rule query_endpoint_success [of req stages d email u])
       (use assms tc in \<open>simp_all add: truthy_def\<close>)
qed


text \<open>Witnesses of C8, C10, C11 and C12 on the example state.\<close>

theorem query_rejects_dangerous_witness:
  "has_dangerous [JObj [(''$out'', JStr ''other_collection'')]] \<and>
   status (query_endpoint (\<lambda>_ _. Inr []) 0 demo_db ''admin@indira.com''
     \<lparr>q_pipeline = Some (JArr [JObj [(''$out'', JStr ''other_collection'')]]),
      q_fileName = None, q_collection = Some ''data_revenue''\<rparr>) \<noteq> 200"
proof -
  have h: "has_dangerous [JObj [(''$out'', JStr ''other_collection'')]]"
    by (simp add: has_dangerous_def js_keys_def obj_keys_def obj_entries_def is_array_index_def
        dangerousStages_def)
  show ?thesis
    using query_rejects_dangerous [OF _ h, of "\<lparr>q_pipeline = Some (JArr [JObj [(''$out'', JStr ''other_collection'')]]),
      q_fileName = None, q_collection = Some ''data_revenue''\<rparr>" "\<lambda>_ _. Inr []" 0 demo_db
      "''admin@indira.com''"] h
    by simp
qed

theorem query_endpoint_ok_witness:
  "query_endpoint (\<lambda>docs _. Inr docs) 3 demo_db ''admin@indira.com''
     \<lparr>q_pipeline = Some (JArr [match_thane]), q_fileName = None, q_collection = Some ''data_revenue''\<rparr> =
   Resp 200 (result_body (shape_rows demo_rows) 3)"
proof -
  have nd: "\<not> has_dangerous [match_thane]"
    by (simp add: has_dangerous_def match_thane_def js_keys_def obj_keys_def obj_entries_def
        is_array_index_def dangerousStages_def)
  have ok: "list_all is_js_object [match_thane]" by (simp add: match_thane_def is_js_object_def)
  show ?thesis
    by (rule query_endpoint_ok [OF _ _ _ _ ok nd, of _ demo_db "''admin@indira.com''" demo_admin])
       (simp_all add: demo_simps target_collection_def)
qed

theorem query_access_denied_witness:
  "status (query_endpoint (\<lambda>docs _. Inr docs) 0 demo_db ''analyst@indira.com''
     \<lparr>q_pipeline = Some (JArr [match_thane]), q_fileName = Some ''Revenue.csv'',
      q_collection = Some ''data_revenue''\<rparr>) = 403"
  by (rule query_access_denied [of _ "[match_thane]" demo_db _ demo_user]) (simp_all add: demo_simps)

theorem query_collection_bypass_witness:
  "query_endpoint (\<lambda>docs _. Inr docs) 0 demo_db ''analyst@indira.com''
     \<lparr>q_pipeline = Some (JArr [match_thane]), q_fileName = None, q_collection = Some ''data_revenue''\<rparr> =
   Resp 200 (result_body (shape_rows demo_rows) 0)"
proof -
  have nd: "\<not> has_dangerous [match_thane]"
    by (simp add: has_dangerous_def match_thane_def js_keys_def obj_keys_def obj_entries_def
        is_array_index_def dangerousStages_def)
  have ok: "list_all is_js_object [match_thane]" by (simp add: match_thane_def is_js_object_def)
  show ?thesis
    by (rule query_collection_bypass [OF _ _ _ _ _ _ ok nd, of _ "''data_revenue''" demo_db _ demo_user])
       (simp_all add: demo_simps)
qed

end
