(* ===== verification/Store.thy ===== *)
theory Store
  imports Database Naming Normalizer "HOL-Library.Multiset"
begin

text \<open>
  The dataset store of \<open>src/backend/server.js\<close>: \<open>parseAndStoreCSVInMongo\<close>
  (lines 247--297), the upload handler \<open>POST /api/admin/files/upload\<close> (lines 844--1035)
  with its GridFS clean-up loop, the listing \<open>GET /api/admin/files\<close> (lines 729--842), and
  the schema endpoints \<open>GET /api/data/schema/:fileName\<close> (lines 1214--1278) and
  \<open>GET /api/data/schemas\<close> (lines 1280--1341). The CSV tokenizer \<open>csv-parse\<close> is a library:
  it is the parameter \<open>csv_parse\<close>, from the file text to the parsed rows or the error it
  throws. \<open>insertMany\<close> follows the MongoDB driver: each document gets a fresh
  \<open>ObjectId\<close>, appended to the caller's object and stored as the first field.
\<close>

section \<open>Ingestion\<close>

record ingest_result =
  ir_collection :: string
  ir_headers :: "string list"
  ir_rowCount :: nat

text \<open>\<open>db.collection(c).drop()\<close>; dropping a missing collection throws and is ignored.\<close>

definition drop_collection :: "db \<Rightarrow> string \<Rightarrow> db" where
  "drop_collection d c = d\<lparr>colls := (colls d)(c := None)\<rparr>"

text \<open>\<open>db.collection(c).insertMany(docs)\<close>: the stored documents, each with its identity first.\<close>

definition insert_many :: "db \<Rightarrow> string \<Rightarrow> jobj list \<Rightarrow> db" where
  "insert_many d c docs =
     d\<lparr>colls := (colls d)(c \<mapsto> coll_docs d c @
          map2 (\<lambda>i r. JObj ((''_id'', JOid i) # obj_entries r)) [next_oid d..<next_oid d + length docs] docs),
       next_oid := next_oid d + length docs\<rparr>"

definition parseAndStoreCSVInMongo ::
  "(string \<Rightarrow> string + jobj list) \<Rightarrow> db \<Rightarrow> string \<Rightarrow> string \<Rightarrow> string + (db \<times> ingest_result)" where
  "parseAndStoreCSVInMongo csv_parse d fileName content =
     (let collectionName = getCollectionName fileName in
      case csv_parse content of
        Inl e \<Rightarrow> Inl e
      | Inr records \<Rightarrow>
          (case records of
             [] \<Rightarrow> Inl (''No data found in CSV file '' @ fileName)
           | _ \<Rightarrow>
               let cleanedRecords = map clean_record records;
                   d1 = drop_collection d collectionName;
                   d2 = insert_many d1 collectionName cleanedRecords;
                   headers = (case cleanedRecords of
                                r # _ \<Rightarrow> obj_keys (r @ [(''_id'', JOid (next_oid d1))])
                              | [] \<Rightarrow> [])
               in Inr (d2, \<lparr>ir_collection = collectionName, ir_headers = headers,
                            ir_rowCount = length cleanedRecords\<rparr>)))"

section \<open>Upload\<close>

text \<open>A file of a multipart upload: its name, the type the browser gave it (multer's
  \<open>mimetype\<close>), its size in bytes and its text.\<close>

record upload =
  up_name :: string
  up_mime :: string
  up_size :: nat
  up_content :: string

definition large_file_limit :: nat where
  "large_file_limit = 16 * 1024 * 1024"

text \<open>\<open>text.trim().toLowerCase().startsWith('<!doctype') || ... startsWith('<html')\<close>.\<close>

definition looks_like_html :: "string \<Rightarrow> bool" where
  "looks_like_html text \<longleftrightarrow>
     prefix ''<!doctype'' (lower (trim text)) \<or> prefix ''<html'' (lower (trim text))"

text \<open>The GridFS clean-up loop: \<open>findOne\<close> a file of that name, delete it, look again.\<close>

function gridfs_purge :: "string \<Rightarrow> (string \<times> string) list \<Rightarrow> (string \<times> string) list" where
  "gridfs_purge name files =
     (case find (\<lambda>(n, _). n = name) files of
        None \<Rightarrow> files
      | Some g \<Rightarrow> gridfs_purge name (remove1 g files))"
  by pat_completeness auto
termination
proof (relation "measure (\<lambda>(name, files). length files)")
  fix name files g
  assume "find (\<lambda>(n, _). n = name) files = Some g"
  then have "g \<in> set files" by (metis find_Some_iff nth_mem)
  then show "((name, remove1 g files), name, files) \<in> measure (\<lambda>(name, files). length files)"
  proof -
    have "0 < length files" using \<open>g \<in> set files\<close> by (cases files) auto
    then show ?thesis using \<open>g \<in> set files\<close> by (simp add: length_remove1)
  qed
qed auto

text \<open>\<open>updateOne({ fileName, isActive: true }, { $set: ... })\<close>: the first matching document.\<close>

fun update_first :: "('a \<Rightarrow> bool) \<Rightarrow> ('a \<Rightarrow> 'a) \<Rightarrow> 'a list \<Rightarrow> 'a list" where
  "update_first P f [] = []"
| "update_first P f (x # xs) = (if P x then f x # xs else x # update_first P f xs)"

definition set_parse_result :: "db \<Rightarrow> string \<Rightarrow> ingest_result \<Rightarrow> db" where
  "set_parse_result d name r =
     d\<lparr>csv_files := update_first (\<lambda>f. f_name f = name \<and> f_active f)
        (\<lambda>f. f\<lparr>f_dataCollection := Some (ir_collection r), f_columns := Some (ir_headers r),
              f_rowCount := Some (ir_rowCount r)\<rparr>) (csv_files d)\<rparr>"

text \<open>Removing every earlier record of the file name (and its GridFS copies).\<close>

definition remove_old_records :: "db \<Rightarrow> string \<Rightarrow> db" where
  "remove_old_records d name =
     (let existing = filter (\<lambda>f. f_name f = name) (csv_files d) in
      if existing = [] then d
      else let d1 = (if list_ex f_gridfs existing then d\<lparr>gridfs := gridfs_purge name (gridfs d)\<rparr> else d)
           in d1\<lparr>csv_files := filter (\<lambda>f. f_name f \<noteq> name) (csv_files d1)\<rparr>)"

definition new_file_record :: "upload \<Rightarrow> bool \<Rightarrow> nat \<Rightarrow> string \<Rightarrow> file_doc" where
  "new_file_record f large now email =
     \<lparr>f_name = up_name f, f_size = up_size f,
      f_content = (if large then None else Some (up_content f)), f_gridfs = large,
      f_uploadedAt = now, f_uploadedBy = email, f_active = True,
      f_dataCollection = None, f_columns = None, f_rowCount = None\<rparr>"

definition upload_body :: "upload \<Rightarrow> nat \<Rightarrow> ingest_result option \<Rightarrow> json" where
  "upload_body f now pr =
     JObj [(''message'', JStr ''File uploaded successfully''),
           (''file'', JObj [(''fileName'', JStr (up_name f)), (''fileSize'', JNum (of_nat (up_size f))),
              (''uploadedAt'', JNum (of_nat now)),
              (''dataCollection'', (case pr of Some r \<Rightarrow> JStr (ir_collection r) | None \<Rightarrow> JNull)),
              (''columns'', JArr (map JStr (case pr of Some r \<Rightarrow> ir_headers r | None \<Rightarrow> []))),
              (''rowCount'', JNum (of_nat (case pr of Some r \<Rightarrow> ir_rowCount r | None \<Rightarrow> 0)))])]"

text \<open>The writes before parsing: earlier records of the name removed, a large file stored in
  GridFS, the new metadata record inserted.\<close>

definition store_upload_record :: "db \<Rightarrow> upload \<Rightarrow> nat \<Rightarrow> string \<Rightarrow> db" where
  "store_upload_record d f now email =
     (let isLargeFile = large_file_limit < up_size f;
          d1 = remove_old_records d (up_name f);
          d2 = (if isLargeFile then d1\<lparr>gridfs := gridfs d1 @ [(up_name f, up_content f)]\<rparr> else d1)
      in d2\<lparr>csv_files := csv_files d2 @ [new_file_record f isLargeFile now email]\<rparr>)"

definition upload_file ::
  "(string \<Rightarrow> string + jobj list) \<Rightarrow> nat \<Rightarrow> db \<Rightarrow> string \<Rightarrow> upload option \<Rightarrow> db \<times> resp" where
  "upload_file csv_parse now d email file =
     (case file of
        None \<Rightarrow> (d, err_resp 400 ''No file uploaded'')
      | Some f \<Rightarrow>
          let isLargeFile = large_file_limit < up_size f;
              sample = (if isLargeFile then take 1024 (up_content f) else up_content f)
          in if looks_like_html sample
             then (d, err_resp 400 ''Uploaded file appears to be HTML, not CSV. Please upload a valid CSV file.'')
             else
               let d3 = store_upload_record d f now email;
                   csvContent = up_content f
               in if csvContent = [] then (d3, Resp 201 (upload_body f now None))
                  else (case parseAndStoreCSVInMongo csv_parse d3 (up_name f) csvContent of
                          Inl _ \<Rightarrow> (d3, Resp 201 (upload_body f now None))
                        | Inr (d4, r) \<Rightarrow>
                            (set_parse_result d4 (up_name f) r, Resp 201 (upload_body f now (Some r)))))"

section \<open>Listing\<close>

text \<open>\<open>find({ isActive: { $ne: false } })\<close> and the in-memory sort, newest first; the
  comparator is \<open>b - a\<close> on the upload time and \<open>Array.prototype.sort\<close> is stable.\<close>

definition list_files :: "db \<Rightarrow> file_doc list" where
  "list_files d = sort_key (\<lambda>f. - int (f_uploadedAt f)) (filter f_active (csv_files d))"

section \<open>Schemas\<close>

record schema_info =
  sc_fileName :: string
  sc_collectionName :: string
  sc_columns :: "string list"
  sc_columnTypes :: "(string \<times> string) list"
  sc_rowCount :: nat

definition doc_field :: "json \<Rightarrow> string \<Rightarrow> json option" where
  "doc_field r col = (case r of JObj kvs \<Rightarrow> obj_get kvs col | _ \<Rightarrow> None)"

definition present :: "json option \<Rightarrow> bool" where
  "present v \<longleftrightarrow> v \<noteq> None \<and> v \<noteq> Some JNull"

definition type_name :: "json option \<Rightarrow> string" where
  "type_name v = (case v of Some (JNum _) \<Rightarrow> ''number'' | _ \<Rightarrow> ''string'')"

definition data_collection_of :: "file_doc \<Rightarrow> string" where
  "data_collection_of fd =
     (if truthy (f_dataCollection fd) then or_empty (f_dataCollection fd) else getCollectionName (f_name fd))"

definition sample_columns :: "json list \<Rightarrow> file_doc \<Rightarrow> string list" where
  "sample_columns sample fd =
     (case sample of
        s0 # _ \<Rightarrow> filter (\<lambda>k. k \<noteq> ''_id'') (js_keys s0)
      | [] \<Rightarrow> (case f_columns fd of Some cs \<Rightarrow> cs | None \<Rightarrow> []))"

text \<open>\<open>GET /api/data/schemas\<close>: one entry per visible file, the type of a column read from
  the first of three sample rows where it is present.\<close>

definition file_schemas_entry :: "db \<Rightarrow> file_doc \<Rightarrow> schema_info" where
  "file_schemas_entry d fd =
     (let cn = data_collection_of fd; docs = coll_docs d cn; sample = take 3 docs;
          columns = sample_columns sample fd;
          types = (if sample = [] then []
                   else map (\<lambda>col. (col, type_name (case find (\<lambda>r. present (doc_field r col)) sample of
                                                     Some r \<Rightarrow> doc_field r col | None \<Rightarrow> None)))
                        columns)
      in \<lparr>sc_fileName = f_name fd, sc_collectionName = cn, sc_columns = columns,
          sc_columnTypes = types, sc_rowCount = length docs\<rparr>)"

definition visible_files :: "db \<Rightarrow> user_doc \<Rightarrow> file_doc list" where
  "visible_files d u =
     (if is_admin u then filter f_active (csv_files d)
      else if u_files u = [] then []
      else filter (\<lambda>f. f_name f \<in> set (u_files u) \<and> f_active f) (csv_files d))"

definition schemas_endpoint :: "db \<Rightarrow> string \<Rightarrow> schema_info list option" where
  "schemas_endpoint d email =
     (case find_user d email of
        None \<Rightarrow> None
      | Some u \<Rightarrow> Some (map (file_schemas_entry d) (visible_files d u)))"

text \<open>\<open>GET /api/data/schema/:fileName\<close>: five sample rows; a column gets a type only when one
  of them holds a value for it; the sample is returned without \<open>_id\<close>.\<close>

record file_schema =
  fs_collectionName :: string
  fs_columns :: "string list"
  fs_columnTypes :: "(string \<times> string) list"
  fs_rowCount :: nat
  fs_sample :: "json list"

definition strip_id_field :: "json \<Rightarrow> json" where
  "strip_id_field r = (case r of JObj kvs \<Rightarrow> JObj (obj_del kvs ''_id'') | _ \<Rightarrow> r)"

definition describe_file :: "db \<Rightarrow> file_doc \<Rightarrow> file_schema" where
  "describe_file d fd =
     (let cn = data_collection_of fd; docs = coll_docs d cn; sample = take 5 docs;
          columns = sample_columns sample fd;
          types = (if sample = [] then []
                   else List.map_filter (\<lambda>col.
                          case filter present (map (\<lambda>r. doc_field r col) sample) of
                            v # _ \<Rightarrow> Some (col, type_name v)
                          | [] \<Rightarrow> None) columns)
      in \<lparr>fs_collectionName = cn, fs_columns = columns, fs_columnTypes = types,
          fs_rowCount = length docs, fs_sample = map strip_id_field sample\<rparr>)"

datatype schema_error = NoUser | NoAccess | NoFile

definition schema_endpoint :: "db \<Rightarrow> string \<Rightarrow> string \<Rightarrow> schema_error + file_schema" where
  "schema_endpoint d email fileName =
     (case find_user d email of
        None \<Rightarrow> Inl NoUser
      | Some u \<Rightarrow>
          if \<not> is_admin u \<and> fileName \<notin> set (u_files u) then Inl NoAccess
          else (case find_active_file d fileName of
                  None \<Rightarrow> Inl NoFile
                | Some fd \<Rightarrow> Inr (describe_file d fd)))"

text \<open>The store invariant the upload handler keeps: one metadata record per file name.\<close>

definition wf_store :: "db \<Rightarrow> bool" where
  "wf_store d \<longleftrightarrow> distinct (map f_name (csv_files d))"

section \<open>An example upload\<close>

text \<open>A database with no document, and the upload of \<open>Revenue.csv\<close> from the end-to-end
  scenario of the specification; \<open>revenue_parse\<close> is what \<open>csv-parse\<close> returns for
  that file text (header row as field names).\<close>

definition empty_db :: db where
  "empty_db = \<lparr>users = [], csv_files = [], gridfs = [], colls = Map.empty, next_oid = 0\<rparr>"

definition revenue_csv :: string where
  "revenue_csv = ''District,Revenue\<newline>Thane,\"12,000\"\<newline>Pune,\"8,500\"''"

definition revenue_rows :: "jobj list" where
  "revenue_rows = [[(''District'', JStr ''Thane''), (''Revenue'', JStr ''12,000'')],
                   [(''District'', JStr ''Pune''), (''Revenue'', JStr ''8,500'')]]"

definition revenue_parse :: "string \<Rightarrow> string + jobj list" where
  "revenue_parse s = (if s = revenue_csv then Inr revenue_rows else Inl ''Invalid Record Length'')"

definition revenue_upload :: upload where
  "revenue_upload = \<lparr>up_name = ''Revenue.csv'', up_mime = ''text/csv'', up_size = length revenue_csv, up_content = revenue_csv\<rparr>"

definition analyst :: user_doc where
  "analyst = \<lparr>u_email = ''analyst@indira.com'', u_hash = [], u_role = ''user'',
     u_files = [''Revenue.csv''], u_created = 0, u_lastLogin = None, u_addedBy = ''admin@indira.com''\<rparr>"

definition revenue_broken :: upload where
  "revenue_broken = \<lparr>up_name = ''Revenue.csv'', up_mime = ''text/csv'', up_size = 24, up_content = ''District,Revenue\<newline>Thane,''\<rparr>"

definition two_files_db :: db where
  "two_files_db = \<lparr>users = [analyst],
     csv_files = [new_file_record revenue_upload False 1 ''admin@indira.com'',
                  new_file_record (revenue_upload\<lparr>up_name := ''Leads.csv''\<rparr>) False 2 ''admin@indira.com''],
     gridfs = [], colls = Map.empty, next_oid = 0\<rparr>"

section \<open>Lemmas\<close>

lemma strip_id_field_stored:
  "''_id'' \<notin> set (map fst kvs) \<Longrightarrow>
   strip_id_field (JObj ((''_id'', v) # obj_entries kvs)) = JObj (obj_entries kvs)"
proof -
  assume nid: "''_id'' \<notin> set (map fst kvs)"
  have "x \<in> set (obj_entries kvs) \<Longrightarrow> fst x \<noteq> ''_id''" for x
    using nid set_obj_entries [of kvs] by (metis image_eqI list.set_map)
  then have "filter (\<lambda>(k', _). k' \<noteq> ''_id'') (obj_entries kvs) = obj_entries kvs"
    by (intro filter_True) (simp add: case_prod_beta)
  then show ?thesis by (simp add: strip_id_field_def obj_del_def)
qed

lemma insert_many_other: "c' \<noteq> c \<Longrightarrow> coll_docs (insert_many d c docs) c' = coll_docs d c'"
  by (simp add: insert_many_def coll_docs_def)

lemma insert_many_stored:
  assumes "\<forall>r \<in> set docs. ''_id'' \<notin> set (map fst r)"
  shows "map strip_id_field (coll_docs (insert_many d c docs) c) =
         map strip_id_field (coll_docs d c) @ map (\<lambda>r. JObj (obj_entries r)) docs"
proof -
  define ids where "ids = [next_oid d..<next_oid d + length docs]"
  have len: "length ids = length docs" by (simp add: ids_def)
  have "map strip_id_field (map2 (\<lambda>i r. JObj ((''_id'', JOid i) # obj_entries r)) ids docs) =
        map (\<lambda>r. JObj (obj_entries r)) docs"
    using len assms
  proof (induction ids docs rule: list_induct2)
    case (Cons i ids r docs)
    then show ?case by (simp add: strip_id_field_stored)
  qed simp
  then show ?thesis by (simp add: insert_many_def coll_docs_def ids_def)
qed

lemma drop_collection_simps [simp]:
  "csv_files (drop_collection d c) = csv_files d" "users (drop_collection d c) = users d"
  "next_oid (drop_collection d c) = next_oid d" "gridfs (drop_collection d c) = gridfs d"
  "coll_docs (drop_collection d c) c' = (if c' = c then [] else coll_docs d c')"
  by (simp_all add: drop_collection_def coll_docs_def)

lemma insert_many_simps [simp]:
  "csv_files (insert_many d c docs) = csv_files d" "users (insert_many d c docs) = users d"
  "gridfs (insert_many d c docs) = gridfs d"
  by (simp_all add: insert_many_def)

lemma parse_store_Inr:
  assumes "parseAndStoreCSVInMongo csv_parse d fileName content = Inr (d', r)"
  obtains records where "csv_parse content = Inr records" "records \<noteq> []"
    "d' = insert_many (drop_collection d (getCollectionName fileName)) (getCollectionName fileName)
            (map clean_record records)"
    "r = \<lparr>ir_collection = getCollectionName fileName,
          ir_headers = obj_keys (clean_record (hd records) @ [(''_id'', JOid (next_oid d))]),
          ir_rowCount = length records\<rparr>"
  using assms by (auto simp: parseAndStoreCSVInMongo_def Let_def split: sum.splits list.splits)

lemma parse_store_ok:
  "csv_parse content = Inr records \<Longrightarrow> records \<noteq> [] \<Longrightarrow>
   \<exists>d' r. parseAndStoreCSVInMongo csv_parse d fileName content = Inr (d', r)"
  by (auto simp: parseAndStoreCSVInMongo_def Let_def split: list.splits)

lemma parse_store_fail:
  "(case csv_parse content of Inl _ \<Rightarrow> True | Inr rs \<Rightarrow> rs = []) \<Longrightarrow>
   \<exists>e. parseAndStoreCSVInMongo csv_parse d fileName content = Inl e"
  by (auto simp: parseAndStoreCSVInMongo_def Let_def split: sum.splits list.splits)

lemma remove_old_records_simps [simp]:
  "csv_files (remove_old_records d n) = filter (\<lambda>x. f_name x \<noteq> n) (csv_files d)"
  "colls (remove_old_records d n) = colls d" "users (remove_old_records d n) = users d"
  "next_oid (remove_old_records d n) = next_oid d"
  by (auto simp: remove_old_records_def Let_def filter_empty_conv intro!: filter_True [symmetric])

lemma filter_update_first:
  "filter Q xs = [x] \<Longrightarrow> P x \<Longrightarrow> \<forall>y. P y \<longrightarrow> Q y \<Longrightarrow> Q (g x) \<Longrightarrow>
   filter Q (update_first P g xs) = [g x]"
proof (induction xs)
  case (Cons a xs)
  show ?case
  proof (cases "Q a")
    case True
    then have "a = x" "filter Q xs = []" using Cons.prems(1) by simp_all
    then show ?thesis using Cons.prems by simp
  next
    case False
    then have "\<not> P a" using Cons.prems(3) by blast
    then show ?thesis using Cons False by simp
  qed
qed simp

lemma set_parse_result_simps [simp]:
  "colls (set_parse_result d n r) = colls d" "users (set_parse_result d n r) = users d"
  by (simp_all add: set_parse_result_def)

lemma store_upload_record_simps:
  "filter (\<lambda>x. f_name x = up_name f) (csv_files (store_upload_record d f now email)) =
     [new_file_record f (large_file_limit < up_size f) now email]"
  "colls (store_upload_record d f now email) = colls d"
  "next_oid (store_upload_record d f now email) = next_oid d"
  by (simp_all add: store_upload_record_def Let_def new_file_record_def)

lemma upload_file_Some:
  "\<not> looks_like_html (if large_file_limit < up_size f then take 1024 (up_content f) else up_content f) \<Longrightarrow>
   upload_file csv_parse now d email (Some f) =
     (let d3 = store_upload_record d f now email in
      if up_content f = [] then (d3, Resp 201 (upload_body f now None))
      else (case parseAndStoreCSVInMongo csv_parse d3 (up_name f) (up_content f) of
              Inl _ \<Rightarrow> (d3, Resp 201 (upload_body f now None))
            | Inr (d4, r) \<Rightarrow> (set_parse_result d4 (up_name f) r, Resp 201 (upload_body f now (Some r)))))"
  by (simp add: upload_file_def Let_def)

lemma obj_keys_snoc_id: "obj_keys (kvs @ [(''_id'', v)]) = obj_keys kvs @ [''_id'']"
  by (simp add: obj_keys_def obj_entries_snoc not_array_index_id)

lemma sc_fileName_entry [simp]: "sc_fileName (file_schemas_entry d fd) = f_name fd"
  by (simp add: file_schemas_entry_def Let_def)

lemma visible_files_filter:
  "visible_files d u = filter (\<lambda>f. f_active f \<and> (is_admin u \<or> f_name f \<in> set (u_files u))) (csv_files d)"
  by (auto simp: visible_files_def intro: filter_cong)

lemma revenue_upload_small: "\<not> large_file_limit < up_size revenue_upload"
  by (simp add: large_file_limit_def revenue_upload_def revenue_csv_def)

lemma revenue_upload_not_html: "\<not> looks_like_html (up_content revenue_upload)"
  by code_simp

lemma map_update_first:
  "(\<And>x. h (g x) = h x) \<Longrightarrow> map h (update_first P g xs) = map h xs"
  by (induction xs) auto

lemma csv_files_parse_store:
  "parseAndStoreCSVInMongo csv_parse d fileName content = Inr (d', r) \<Longrightarrow> csv_files d' = csv_files d"
  by (auto elim: parse_store_Inr)

lemma distinct_store_upload_record:
  "distinct (map f_name (csv_files d)) \<Longrightarrow> distinct (map f_name (csv_files (store_upload_record d f now email)))"
  by (auto simp: store_upload_record_def Let_def new_file_record_def distinct_map_filter)

section \<open>Properties of the dataset store\<close>

text \<open>
  C13. Uploading a CSV file whose text parses to a non-empty list of rows replaces the
  dataset: the response is 201; exactly one metadata record of that file name remains, active,
  stamped with the upload time, pointing at the derived collection and recording the row count;
  and the collection holds exactly the cleaned rows, in order, each with a fresh identity field
  (removed here), whatever the store held before.
\<close>

theorem upload_file_replaces:
  assumes up: "upload_file csv_parse now d email (Some f) = (d', r)"
    and html: "\<not> looks_like_html (if large_file_limit < up_size f then take 1024 (up_content f) else up_content f)"
    and ne: "up_content f \<noteq> []"
    and parsed: "csv_parse (up_content f) = Inr records" "records \<noteq> []"
  shows "status r = 201 \<and>
    (\<exists>fd. filter (\<lambda>x. f_name x = up_name f) (csv_files d') = [fd] \<and> f_active fd \<and>
          f_uploadedAt fd = now \<and> f_dataCollection fd = Some (getCollectionName (up_name f)) \<and>
          f_rowCount fd = Some (length records)) \<and>
    map strip_id_field (coll_docs d' (getCollectionName (up_name f))) =
      map (\<lambda>x. JObj (obj_entries (clean_record x))) records"
proof -
  note pre = upload_file_Some [OF html, where now = now and email = email and d = d and csv_parse = csv_parse]
  define d3 where "d3 = store_upload_record d f now email"
  define nf where "nf = new_file_record f (large_file_limit < up_size f) now email"
  define cn where "cn = getCollectionName (up_name f)"
  obtain d4 ir where ps: "parseAndStoreCSVInMongo csv_parse d3 (up_name f) (up_content f) = Inr (d4, ir)"
    using parse_store_ok [where csv_parse = csv_parse and content = "up_content f", OF parsed] by blast
  have res: "d' = set_parse_result d4 (up_name f) ir" "r = Resp 201 (upload_body f now (Some ir))"
    using up ne ps pre by (simp_all add: d3_def)
  obtain rs where rs: "csv_parse (up_content f) = Inr rs"
    "d4 = insert_many (drop_collection d3 cn) cn (map clean_record rs)"
    "ir = \<lparr>ir_collection = cn,
          ir_headers = obj_keys (clean_record (hd rs) @ [(''_id'', JOid (next_oid d3))]),
          ir_rowCount = length rs\<rparr>"
    using parse_store_Inr [OF ps] unfolding cn_def by metis
  have rs_eq: "rs = records" using rs(1) parsed(1) by simp
  have f3: "filter (\<lambda>x. f_name x = up_name f) (csv_files d4) = [nf]"
    using store_upload_record_simps(1) by (simp add: rs(2) d3_def nf_def)
  have files: "filter (\<lambda>x. f_name x = up_name f) (csv_files d') =
      [nf\<lparr>f_dataCollection := Some cn, f_columns := Some (ir_headers ir),
          f_rowCount := Some (length records)\<rparr>]"
    unfolding res(1) set_parse_result_def
    by (simp add: filter_update_first [OF f3] nf_def new_file_record_def rs(3) rs_eq)
  have noid: "\<forall>x \<in> set (map clean_record records). ''_id'' \<notin> set (map fst x)"
    using clean_record_no_id by auto
  have "coll_docs d' cn = coll_docs d4 cn" by (simp add: res(1) coll_docs_def)
  then have "map strip_id_field (coll_docs d' cn) = map (\<lambda>x. JObj (obj_entries (clean_record x))) records"
    using insert_many_stored [OF noid, of "drop_collection d3 cn" cn] by (simp add: rs(2) rs_eq)
  then show ?thesis using files res(2) by (simp add: cn_def nf_def new_file_record_def)
qed

text \<open>
  C14. When the new content is empty, does not parse, or parses to no row, the upload still
  answers 201 and leaves every data collection as it was: the fresh metadata record has no data
  collection and no row count, and the rows of an earlier upload of the same name stay in the
  collection that queries by file name read.
\<close>

theorem upload_file_stale_data:
  assumes up: "upload_file csv_parse now d email (Some f) = (d', r)"
    and html: "\<not> looks_like_html (if large_file_limit < up_size f then take 1024 (up_content f) else up_content f)"
    and failed: "case csv_parse (up_content f) of Inl _ \<Rightarrow> True | Inr rs \<Rightarrow> rs = []"
  shows "status r = 201 \<and> colls d' = colls d \<and>
    (\<exists>fd. filter (\<lambda>x. f_name x = up_name f) (csv_files d') = [fd] \<and> f_active fd \<and>
          f_dataCollection fd = None \<and> f_rowCount fd = None)"
proof -
  note pre = upload_file_Some [OF html, where now = now and email = email and d = d and csv_parse = csv_parse]
  obtain e where "parseAndStoreCSVInMongo csv_parse (store_upload_record d f now email)
      (up_name f) (up_content f) = Inl e"
    using parse_store_fail [where csv_parse = csv_parse and content = "up_content f", OF failed] by blast
  then have "d' = store_upload_record d f now email \<and> status r = 201"
    using up pre by (auto simp: Let_def split: if_splits)
  then show ?thesis using store_upload_record_simps by (auto simp: new_file_record_def)
qed

text \<open>
  The column list that ingestion reports is not the column set of the first cleaned
  record: the driver's \<open>insertMany\<close> adds the identity field to the caller's objects
  before \<open>Object.keys\<close> runs, so the headers are the first record's keys followed by
  \<open>_id\<close>.
\<close>

theorem parse_store_headers:
  assumes "parseAndStoreCSVInMongo csv_parse d fileName content = Inr (d', r)"
  shows "\<exists>rec recs. csv_parse content = Inr (rec # recs) \<and>
           ir_headers r = obj_keys (clean_record rec) @ [''_id'']"
proof -
  obtain records where "csv_parse content = Inr records" "records \<noteq> []"
    "r = \<lparr>ir_collection = getCollectionName fileName,
          ir_headers = obj_keys (clean_record (hd records) @ [(''_id'', JOid (next_oid d))]),
          ir_rowCount = length records\<rparr>"
    using parse_store_Inr [OF assms] by metis
  then show ?thesis by (cases records) (simp_all add: obj_keys_snoc_id)
qed

text \<open>
  C16. The GridFS clean-up loop terminates (it is a total function, by the length of the file
  list) and removes exactly the stored files of that name, keeping the others in order.
\<close>

theorem gridfs_purge_filter: "gridfs_purge name files = filter (\<lambda>(n, _). n \<noteq> name) files"
proof (induction name files rule: gridfs_purge.induct)
  case (1 name files)
  show ?case
  proof (cases "find (\<lambda>(n, _). n = name) files")
    case None
    then have "\<forall>x \<in> set files. fst x \<noteq> name" by (auto simp: find_None_iff)
    then have "filter (\<lambda>(n, _). n \<noteq> name) files = files"
      by (intro filter_True) (auto split: prod.splits)
    then show ?thesis using None by (simp add: gridfs_purge.simps)
  next
    case (Some g)
    then have "g \<in> set files \<and> fst g = name" by (auto dest: find_Some_set split: prod.splits)
    then have "filter (\<lambda>(n, _). n \<noteq> name) (remove1 g files) = filter (\<lambda>(n, _). n \<noteq> name) files"
      by (intro filter_remove1_out) auto
    then show ?thesis using 1 Some by (simp add: gridfs_purge.simps)
  qed
qed

text \<open>
  The file listing holds exactly the active metadata records, newest upload first;
  records with the same upload time keep their insertion order (the sort is stable).
\<close>

theorem list_files_order:
  "sorted_wrt (\<lambda>a b. f_uploadedAt b \<le> f_uploadedAt a) (list_files d) \<and>
   mset (list_files d) = mset (filter f_active (csv_files d)) \<and>
   (\<forall>t. filter (\<lambda>x. f_uploadedAt x = t) (list_files d) =
        filter (\<lambda>x. f_uploadedAt x = t) (filter f_active (csv_files d)))"
proof (intro conjI allI)
  show "sorted_wrt (\<lambda>a b. f_uploadedAt b \<le> f_uploadedAt a) (list_files d)"
    using sorted_sort_key [of "\<lambda>f. - int (f_uploadedAt f)" "filter f_active (csv_files d)"]
    by (simp add: list_files_def sorted_map)
  show "mset (list_files d) = mset (filter f_active (csv_files d))"
    by (simp add: list_files_def)
  fix t
  show "filter (\<lambda>x. f_uploadedAt x = t) (list_files d) =
        filter (\<lambda>x. f_uploadedAt x = t) (filter f_active (csv_files d))"
    using sort_key_stable [of "\<lambda>f. - int (f_uploadedAt f)" "- int t" "filter f_active (csv_files d)"]
    by (simp add: list_files_def)
qed

text \<open>
  C18. The schema summary a user receives lists exactly the active files the user may read:
  every active file for an administrator, the active files named in the user's accessible list
  otherwise.
\<close>

theorem schemas_endpoint_visible:
  assumes "find_user d email = Some u" "schemas_endpoint d email = Some ss"
  shows "map sc_fileName ss =
           map f_name (filter (\<lambda>f. f_active f \<and> (is_admin u \<or> f_name f \<in> set (u_files u))) (csv_files d))"
  using assms by (auto simp: schemas_endpoint_def visible_files_filter comp_def)


text \<open>
  C23. Every upload, whatever its outcome, keeps the store invariant: no two metadata records of
  \<open>csvFiles\<close> share a file name.
\<close>

theorem upload_file_wf:
  assumes "wf_store d" "upload_file csv_parse now d email file = (d', r)"
  shows "wf_store d'"
proof -
  have names: "map f_name (csv_files (set_parse_result d4 n ir)) = map f_name (csv_files d4)" for d4 n ir
    by (simp add: set_parse_result_def map_update_first)
  show ?thesis using assms distinct_store_upload_record [of d]
    by (auto simp: wf_store_def upload_file_def Let_def names csv_files_parse_store
        split: option.splits if_splits sum.splits prod.splits)
qed


section \<open>Witnesses\<close>

theorem upload_file_replaces_witness:
  "status (snd (upload_file revenue_parse 1 empty_db ''admin@indira.com'' (Some revenue_upload))) = 201 \<and>
   (\<exists>fd. filter (\<lambda>x. f_name x = up_name revenue_upload)
      (csv_files (fst (upload_file revenue_parse 1 empty_db ''admin@indira.com'' (Some revenue_upload)))) = [fd] \<and>
      f_active fd \<and> f_uploadedAt fd = 1 \<and> f_dataCollection fd = Some (getCollectionName (up_name revenue_upload)) \<and>
      f_rowCount fd = Some (length revenue_rows)) \<and>
   map strip_id_field (coll_docs (fst (upload_file revenue_parse 1 empty_db ''admin@indira.com'' (Some revenue_upload)))
      (getCollectionName (up_name revenue_upload))) =
     map (\<lambda>x. JObj (obj_entries (clean_record x))) revenue_rows"
proof -
  have h: "\<not> looks_like_html (if large_file_limit < up_size revenue_upload
                             then take 1024 (up_content revenue_upload) else up_content revenue_upload)"
    using revenue_upload_small revenue_upload_not_html by simp
  have ne: "up_content revenue_upload \<noteq> []" by (simp add: revenue_upload_def revenue_csv_def)
  have p: "revenue_parse (up_content revenue_upload) = Inr revenue_rows"
    by (simp add: revenue_parse_def revenue_upload_def)
  have nr: "revenue_rows \<noteq> []" by (simp add: revenue_rows_def)
  show ?thesis
    by (rule upload_file_replaces [where csv_parse = revenue_parse and now = 1 and d = empty_db
          and email = "''admin@indira.com''", OF prod.collapse [symmetric] h ne p nr])
qed

theorem upload_file_stale_data_witness:
  "status (snd (upload_file revenue_parse 2 (fst (upload_file revenue_parse 1 empty_db ''admin@indira.com'' (Some revenue_upload)))
      ''admin@indira.com'' (Some revenue_broken))) = 201 \<and>
   colls (fst (upload_file revenue_parse 2 (fst (upload_file revenue_parse 1 empty_db ''admin@indira.com'' (Some revenue_upload)))
      ''admin@indira.com'' (Some revenue_broken))) = colls (fst (upload_file revenue_parse 1 empty_db ''admin@indira.com'' (Some revenue_upload))) \<and>
   (\<exists>fd. filter (\<lambda>x. f_name x = up_name revenue_broken) (csv_files (fst (upload_file revenue_parse 2 (fst (upload_file revenue_parse 1 empty_db ''admin@indira.com'' (Some revenue_upload)))
      ''admin@indira.com'' (Some revenue_broken)))) = [fd] \<and>
      f_active fd \<and> f_dataCollection fd = None \<and> f_rowCount fd = None)"
proof -
  have "\<not> large_file_limit < up_size revenue_broken"
    by (simp add: large_file_limit_def revenue_broken_def)
  moreover have "\<not> looks_like_html (up_content revenue_broken)" by code_simp
  ultimately have h: "\<not> looks_like_html (if large_file_limit < up_size revenue_broken
      then take 1024 (up_content revenue_broken) else up_content revenue_broken)" by simp
  have p: "case revenue_parse (up_content revenue_broken) of Inl _ \<Rightarrow> True | Inr rs \<Rightarrow> rs = []"
    by code_simp
  show ?thesis
    by (rule upload_file_stale_data [where csv_parse = revenue_parse and now = 2 and d = "(fst (upload_file revenue_parse 1 empty_db ''admin@indira.com'' (Some revenue_upload)))"
          and email = "''admin@indira.com''", OF prod.collapse [symmetric] h p])
qed

theorem parse_store_headers_witness:
  "\<exists>rec recs. revenue_parse revenue_csv = Inr (rec # recs) \<and>
     ir_headers (snd (projr (parseAndStoreCSVInMongo revenue_parse empty_db ''Revenue.csv'' revenue_csv))) =
       obj_keys (clean_record rec) @ [''_id'']"
proof -
  have "\<exists>d' r. parseAndStoreCSVInMongo revenue_parse empty_db ''Revenue.csv'' revenue_csv = Inr (d', r)"
    by (rule parse_store_ok [where csv_parse = revenue_parse and content = revenue_csv and records = revenue_rows])
       (simp_all add: revenue_parse_def revenue_rows_def)
  then obtain d' r where eq: "parseAndStoreCSVInMongo revenue_parse empty_db ''Revenue.csv'' revenue_csv = Inr (d', r)"
    by blast
  have "\<exists>rec recs. revenue_parse revenue_csv = Inr (rec # recs) \<and>
      ir_headers r = obj_keys (clean_record rec) @ [''_id'']"
    by (rule parse_store_headers [OF eq])
  then show ?thesis by (simp add: eq)
qed

theorem schemas_endpoint_visible_witness:
  "map sc_fileName (the (schemas_endpoint two_files_db ''analyst@indira.com'')) =
     map f_name (filter (\<lambda>f. f_active f \<and> (is_admin analyst \<or> f_name f \<in> set (u_files analyst)))
       (csv_files two_files_db))"
proof -
  have u: "find_user two_files_db ''analyst@indira.com'' = Some analyst"
    by (simp add: find_user_def two_files_db_def analyst_def)
  have s: "schemas_endpoint two_files_db ''analyst@indira.com'' =
      Some (the (schemas_endpoint two_files_db ''analyst@indira.com''))"
    by (simp add: schemas_endpoint_def u)
  show ?thesis by (rule schemas_endpoint_visible [OF u s])
qed

theorem upload_file_wf_witness:
  "wf_store (fst (upload_file revenue_parse 1 empty_db ''admin@indira.com'' (Some revenue_upload)))"
  by (rule upload_file_wf [OF _ prod.collapse [symmetric]]) (simp add: wf_store_def empty_db_def)

end
