(* ===== verification/Access.thy ===== *)
theory Access
  imports Store
begin

text \<open>
  The client's access policy (\<open>src/frontend/index.tsx\<close>) and the server endpoint it reads:
  \<open>GET /api/user/files\<close> (server.js 1099--1122) and \<open>authAPI.getUserAccessibleFiles\<close>
  (index.tsx 1399--1421) give the list \<open>userAccessibleFiles\<close>; \<open>loadDataFolderFiles\<close>
  (2499--2601) fills \<open>tableSchemas\<close>, \<open>sqlTables\<close> and \<open>chatAttachments\<close> from the
  server's schema summary; \<open>validateQuestionAccess\<close> and \<open>validateResponseAccess\<close>
  (2735--2812) are the textual checks; \<open>getSystemInstruction\<close> (2814--2832) lists the
  accessible collections; \<open>matchFilesToQuery\<close> (3069--3153) is the keyword routing.
  Regular expressions are written out as functions on strings. The rupee sign among the keywords
  of the routing regular expressions is outside the Latin-1 characters of the model and never
  occurs in a modelled string, so it is left out of the keyword lists.
\<close>

section \<open>Accessible files\<close>

definition user_files_endpoint :: "db \<Rightarrow> string \<Rightarrow> string list option" where
  "user_files_endpoint d email =
     (case find_user d email of
        None \<Rightarrow> None
      | Some u \<Rightarrow> if is_admin u then Some (map f_name (filter f_active (csv_files d)))
                 else Some (u_files u))"

text \<open>A request that fails (no token, an error status, a network error) gives the empty list.\<close>

definition getUserAccessibleFiles :: "string list option \<Rightarrow> string list" where
  "getUserAccessibleFiles r = (case r of None \<Rightarrow> [] | Some fs \<Rightarrow> fs)"

section \<open>Client state\<close>

record table_schema =
  ts_columns :: "string list"
  ts_rowCount :: nat
  ts_fileName :: string

record attachment =
  a_name :: string
  a_isCsv :: bool
  a_isLarge :: bool
  a_collection :: "string option"
  a_headers :: "string list"
  a_rowCount :: nat

text \<open>The React state the policy reads: \<open>userAccessibleFiles\<close>, \<open>tableSchemas\<close> (an object
  keyed by collection name), \<open>sqlTables\<close>, \<open>chatAttachments\<close>, \<open>dataLoaded\<close>, and whether
  \<open>chatSessionRef.current\<close> holds a session.\<close>

record client =
  cl_accessible :: "string list"
  cl_schemas :: "(string \<times> table_schema) list"
  cl_tables :: "string list"
  cl_attachments :: "attachment list"
  cl_loaded :: bool
  cl_session :: bool

definition schema_attachment :: "schema_info \<Rightarrow> attachment" where
  "schema_attachment s =
     \<lparr>a_name = sc_fileName s, a_isCsv = True, a_isLarge = 1000 < sc_rowCount s,
      a_collection = Some (sc_collectionName s), a_headers = sc_columns s, a_rowCount = sc_rowCount s\<rparr>"

definition schema_entry :: "schema_info \<Rightarrow> table_schema" where
  "schema_entry s = \<lparr>ts_columns = sc_columns s, ts_rowCount = sc_rowCount s, ts_fileName = sc_fileName s\<rparr>"

text \<open>\<open>loadDataFolderFiles(forceReload)\<close> once the user and the accessible files are known;
  \<open>resp\<close> is the schema summary, \<open>None\<close> when the request fails.\<close>

definition load_schemas :: "bool \<Rightarrow> schema_info list option \<Rightarrow> client \<Rightarrow> client" where
  "load_schemas force resp c =
     (if \<not> force \<and> cl_loaded c then c
      else let c1 = (if force then c\<lparr>cl_tables := [], cl_schemas := [], cl_attachments := []\<rparr> else c)
           in case resp of
                None \<Rightarrow> c1\<lparr>cl_loaded := True\<rparr>
              | Some schemas \<Rightarrow>
                  let c2 = c1\<lparr>cl_schemas := foldl (\<lambda>acc s. obj_set acc (sc_collectionName s) (schema_entry s))
                                                  (cl_schemas c1) schemas\<rparr>;
                      newFiles = map schema_attachment schemas;
                      newTables = map sc_collectionName schemas
                  in if newFiles \<noteq> []
                     then c2\<lparr>cl_attachments := (if force then newFiles
                               else cl_attachments c2 @
                                      filter (\<lambda>f. a_name f \<notin> set (map a_name (cl_attachments c2))) newFiles),
                             cl_tables := (if force then newTables else dedup_first (cl_tables c2 @ newTables)),
                             cl_loaded := True,
                             cl_session := (if force then False else cl_session c2)\<rparr>
                     else c2\<lparr>cl_loaded := True\<rparr>)"

text \<open>The state right after \<open>checkAuth\<close> (2250--2263): no schema loaded yet and the
  accessible files as the server listed them.\<close>

definition client_init :: "string list \<Rightarrow> client" where
  "client_init acc = \<lparr>cl_accessible = acc, cl_schemas = [], cl_tables = [], cl_attachments = [],
     cl_loaded = False, cl_session = False\<rparr>"

text \<open>Well-formed client state: one attachment per file name, one schema per collection.\<close>

definition wf_client :: "client \<Rightarrow> bool" where
  "wf_client c \<longleftrightarrow> distinct (map a_name (cl_attachments c)) \<and> distinct (map fst (cl_schemas c))"

section \<open>Textual checks\<close>

text \<open>\<open>s.split(/[P]+/)\<close>: the pieces between maximal runs of the class, empty pieces included; the
  piece read so far is the accumulator.\<close>

fun split_acc :: "(char \<Rightarrow> bool) \<Rightarrow> string \<Rightarrow> string \<Rightarrow> string list" where
  "split_acc P w [] = [w]"
| "split_acc P w (c # cs) =
     (if P c then (if cs \<noteq> [] \<and> P (hd cs) then split_acc P w cs else w # split_acc P [] cs)
      else split_acc P (w @ [c]) cs)"

definition split_runs :: "(char \<Rightarrow> bool) \<Rightarrow> string \<Rightarrow> string list" where
  "split_runs P s = split_acc P [] s"

definition word_sep :: "char \<Rightarrow> bool" where
  "word_sep c \<longleftrightarrow> is_js_space c \<or> c = CHR ''_'' \<or> c = CHR ''-''"

text \<open>\<open>fileName.replace('.csv', '').toLowerCase()\<close>: the first occurrence, in any position.\<close>

definition file_base :: "string \<Rightarrow> string" where
  "file_base f = lower (replace_first ''.csv'' [] f)"

definition us_to :: "char \<Rightarrow> string \<Rightarrow> string" where
  "us_to c s = map (\<lambda>x. if x = CHR ''_'' then c else x) s"

text \<open>The significant words of a name: the pieces of length at least three.\<close>

definition name_words :: "string \<Rightarrow> string list" where
  "name_words f = filter (\<lambda>w. 2 < length w) (split_runs word_sep (file_base f))"

definition question_mentions :: "string \<Rightarrow> string \<Rightarrow> bool" where
  "question_mentions q f =
     (let ql = lower q; b = file_base f
      in contains ql b \<or> contains ql (squeeze is_js_space CHR ''_'' b) \<or>
         contains ql (us_to CHR '' '' b) \<or> contains ql (us_to CHR ''-'' b) \<or>
         contains ql (lower f) \<or> list_ex (contains ql) (name_words f))"

definition response_mentions :: "string \<Rightarrow> string \<Rightarrow> bool" where
  "response_mentions r f =
     (let rl = lower r; b = file_base f
      in contains rl b \<or> contains rl (squeeze is_js_space CHR ''_'' b) \<or>
         contains rl (us_to CHR '' '' b) \<or> contains rl (lower f))"

text \<open>\<open>Object.values(tableSchemas)\<close>, in the property order of the object.\<close>

definition schema_values :: "(string \<times> table_schema) list \<Rightarrow> table_schema list" where
  "schema_values schemas = map snd (obj_entries schemas)"

definition validateQuestionAccess ::
  "string list \<Rightarrow> (string \<times> table_schema) list \<Rightarrow> string \<Rightarrow> bool \<times> string list" where
  "validateQuestionAccess acc schemas q =
     (if acc = [] then (True, [])
      else let names = dedup_first (filter (\<lambda>n. n \<noteq> []) (map ts_fileName (schema_values schemas)));
               unauth = filter (\<lambda>f. f \<notin> set acc \<and> question_mentions q f) names
           in (unauth = [], unauth))"

definition validateResponseAccess ::
  "string list \<Rightarrow> (string \<times> table_schema) list \<Rightarrow> string \<Rightarrow> bool \<times> string list" where
  "validateResponseAccess acc schemas r =
     (if acc = [] then (True, [])
      else let unauth = map ts_fileName (filter (\<lambda>s. ts_fileName s \<noteq> [] \<and> ts_fileName s \<notin> set acc \<and>
                                                     response_mentions r (ts_fileName s))
                                          (schema_values schemas))
           in (unauth = [], unauth))"

text \<open>The collections named to the model in the system instruction.\<close>

definition accessible_tables :: "string list \<Rightarrow> string list \<Rightarrow> (string \<times> table_schema) list \<Rightarrow> string list" where
  "accessible_tables acc tables schemas =
     filter (\<lambda>t. case obj_get schemas t of
                   None \<Rightarrow> False
                 | Some s \<Rightarrow> acc = [] \<or> ts_fileName s \<in> set acc) tables"

section \<open>Keyword routing\<close>

definition revenue_keywords :: "string list" where
  "revenue_keywords = [''revenue'', ''revenues'', ''financial'', ''income'', ''earnings'', ''money'',
     ''rupees'', ''rs.'', ''generated'', ''contribution'', ''contributing'']"

definition is_revenue_query :: "string \<Rightarrow> bool" where
  "is_revenue_query q = list_ex (contains (lower q)) revenue_keywords"

definition is_revenue_file :: "attachment \<Rightarrow> bool" where
  "is_revenue_file f \<longleftrightarrow> contains (lower (a_name f)) ''revenue'' \<and> \<not> contains (lower (a_name f)) ''lead''"

definition fileMappings :: "(string list \<times> string list) list" where
  "fileMappings =
     [([''revenue'', ''revenues'', ''financial'', ''income'', ''earnings'', ''money'', ''rupees'', ''rs.''],
       [''revenue'', ''Revenue'']),
      ([''call'', ''calls'', ''call center'', ''call centre'', ''audit'', ''transcript'', ''conversation'',
        ''customer service''],
       [''call'', ''Call'', ''audit'', ''Audit'', ''transcript'', ''Transcript'']),
      ([''lead'', ''leads'', ''crm'', ''inquiry'', ''inquiries'', ''enquiry'', ''enquiries''],
       [''lead'', ''Lead'', ''crm'', ''CRM'']),
      ([''conversion'', ''conversions'', ''treatment'', ''treatments'', ''patient conversion''],
       [''conversion'', ''Conversion'', ''treatment'', ''Treatment'']),
      ([''icsi'', ''ivf'', ''fertility'', ''treatment''], [''icsi'', ''ICSI'', ''ivf'', ''IVF'']),
      ([''market share'', ''market'', ''competition'', ''competitor'', ''competitive''],
       [''market'', ''Market'', ''competition'', ''Competition'', ''Competetion'']),
      ([''region'', ''regional'', ''city'', ''cities'', ''geography'', ''geographic'', ''location'', ''locations''],
       [''region'', ''Region'', ''city'', ''City'']),
      ([''source'', ''sources'', ''channel'', ''channels'', ''marketing'', ''medium'', ''media''],
       [''source'', ''Source'', ''channel'', ''Channel'', ''medium'', ''Medium'']),
      ([''landing page'', ''landing'', ''page'', ''pages''], [''landing'', ''Landing'']),
      ([''revenue'', ''revenues''], [''revenue'', ''Revenue''])]"

text \<open>One mapping of the loop: when the query has one of its keywords, every file not yet
  matched whose lower-cased name contains one of its patterns is appended.\<close>

definition match_mapping :: "string \<Rightarrow> attachment list \<Rightarrow> attachment list \<Rightarrow> string list \<times> string list \<Rightarrow> attachment list" where
  "match_mapping ql files matched m =
     (if list_ex (contains ql) (fst m)
      then foldl (\<lambda>ms f. if a_name f \<in> set (map a_name ms) then ms
                         else if list_ex (\<lambda>p. contains (lower (a_name f)) (lower p)) (snd m) then ms @ [f]
                         else ms) matched files
      else matched)"

definition matchFilesToQuery :: "string \<Rightarrow> attachment list \<Rightarrow> attachment list" where
  "matchFilesToQuery q files =
     (let ql = lower q in
      case (if is_revenue_query q then find is_revenue_file files else None) of
        Some f \<Rightarrow> [f]
      | None \<Rightarrow> let matched = foldl (match_mapping ql files) [] fileMappings
                in if matched = [] then files else matched)"


section \<open>Example sessions\<close>

definition revenue_crm_schemas :: "(string \<times> table_schema) list" where
  "revenue_crm_schemas =
     [(''data_revenue'', \<lparr>ts_columns = [''District'', ''Revenue''], ts_rowCount = 2, ts_fileName = ''Revenue.csv''\<rparr>),
      (''data_crm_leads'', \<lparr>ts_columns = [''Lead''], ts_rowCount = 1, ts_fileName = ''CRM leads.csv''\<rparr>)]"

definition crm_schema :: "(string \<times> table_schema) list" where
  "crm_schema = [(''data_crm_leads'', \<lparr>ts_columns = [''Lead''], ts_rowCount = 1, ts_fileName = ''CRM_leads.csv''\<rparr>)]"

definition revenue_schema_info :: schema_info where
  "revenue_schema_info = \<lparr>sc_fileName = ''Revenue.csv'', sc_collectionName = ''data_revenue'',
     sc_columns = [''District'', ''Revenue''], sc_columnTypes = [(''District'', ''string''), (''Revenue'', ''number'')],
     sc_rowCount = 2\<rparr>"

definition demo_attachments :: "attachment list" where
  "demo_attachments = [schema_attachment revenue_schema_info,
     schema_attachment (revenue_schema_info\<lparr>sc_fileName := ''CRM leads.csv'', sc_collectionName := ''data_crm_leads''\<rparr>)]"

section \<open>Lemmas\<close>

lemma schema_values_Nil [simp]: "schema_values [] = []"
  by (simp add: schema_values_def obj_entries_def)

lemma schema_values_load:
  "set (schema_values (cl_schemas (load_schemas force resp c))) \<subseteq>
     set (schema_values (cl_schemas c)) \<union> (case resp of None \<Rightarrow> {} | Some ss \<Rightarrow> schema_entry ` set ss)"
proof (cases resp)
  case None
  then show ?thesis by (simp add: load_schemas_def Let_def)
next
  case (Some ss)
  have "set (map snd (foldl (\<lambda>acc s. obj_set acc (sc_collectionName s) (schema_entry s)) acc ss))
      \<subseteq> set (map snd (cl_schemas c)) \<union> schema_entry ` set ss" if "acc = [] \<or> acc = cl_schemas c" for acc
    using foldl_obj_set_values [of sc_collectionName schema_entry acc ss] that by auto
  then show ?thesis using Some
    by (auto simp: load_schemas_def Let_def schema_values_def set_obj_entries_eq)
qed

lemma accessible_load [simp]: "cl_accessible (load_schemas force resp c) = cl_accessible c"
  by (simp add: load_schemas_def Let_def split: option.splits)

text \<open>Files whose names all lie in the accessible list make both checks pass.\<close>

lemma checks_pass:
  assumes "\<forall>s \<in> set (schema_values schemas). ts_fileName s \<in> set acc"
  shows "validateQuestionAccess acc schemas q = (True, []) \<and> validateResponseAccess acc schemas r = (True, [])"
  using assms by (auto simp: validateQuestionAccess_def validateResponseAccess_def Let_def filter_empty_conv
      dedup_first_set)


lemma match_fold:
  assumes "set ms \<subseteq> S" "set xs \<subseteq> S" "distinct (map a_name ms)"
  shows "set (foldl (\<lambda>ms f. if a_name f \<in> set (map a_name ms) then ms else if P f then ms @ [f] else ms) ms xs) \<subseteq> S \<and>
         distinct (map a_name (foldl (\<lambda>ms f. if a_name f \<in> set (map a_name ms) then ms
                                              else if P f then ms @ [f] else ms) ms xs))"
  using assms by (induction xs arbitrary: ms) auto

lemma match_mapping_ok:
  "set ms \<subseteq> set files \<Longrightarrow> distinct (map a_name ms) \<Longrightarrow>
   set (match_mapping ql files ms m) \<subseteq> set files \<and> distinct (map a_name (match_mapping ql files ms m))"
  unfolding match_mapping_def using match_fold [of ms "set files" files] by simp

lemma match_mappings_ok:
  "set ms \<subseteq> set files \<Longrightarrow> distinct (map a_name ms) \<Longrightarrow>
   set (foldl (match_mapping ql files) ms maps) \<subseteq> set files \<and>
   distinct (map a_name (foldl (match_mapping ql files) ms maps))"
  by (induction maps arbitrary: ms) (simp_all add: match_mapping_ok)

lemma map_a_name_schema_attachment [simp]: "a_name (schema_attachment s) = sc_fileName s"
  by (simp add: schema_attachment_def)

lemma schemas_endpoint_files:
  "schemas_endpoint d email = Some ss \<Longrightarrow>
   \<exists>u. find_user d email = Some u \<and> sc_fileName ` set ss = f_name ` set (visible_files d u)"
  by (auto simp: schemas_endpoint_def image_image split: option.splits)

section \<open>Properties of the access policy\<close>

text \<open>
  With a non-empty accessible list, the question check names exactly the loaded files
  (non-empty names, each once) that are not accessible and that the question mentions in one of
  the forms of the code: the base name, with runs of white space as underscores, with underscores
  as spaces or dashes, the full name, or a significant word of the name; it allows the question
  exactly when it names no file.
\<close>

theorem validateQuestionAccess_sound:
  "acc \<noteq> [] \<Longrightarrow>
   set (snd (validateQuestionAccess acc schemas q)) =
     {f \<in> ts_fileName ` set (schema_values schemas). f \<noteq> [] \<and> f \<notin> set acc \<and> question_mentions q f} \<and>
   distinct (snd (validateQuestionAccess acc schemas q)) \<and>
   (fst (validateQuestionAccess acc schemas q) \<longleftrightarrow> snd (validateQuestionAccess acc schemas q) = [])"
  by (auto simp: validateQuestionAccess_def Let_def dedup_first_set dedup_first_distinct)

text \<open>
  The response check is weaker than the question check: it has neither the dashed form nor
  the significant words, so a model answer that mentions a forbidden file by one of its words
  is shown although the same text as a question is refused.
\<close>

theorem response_check_weaker:
  "validateQuestionAccess [''Revenue.csv''] crm_schema ''the leads table shows'' = (False, [''CRM_leads.csv'']) \<and>
   validateResponseAccess [''Revenue.csv''] crm_schema ''the leads table shows'' = (True, [])"
  by code_simp

text \<open>
  The keyword routing returns files of the list it is given, never nothing when the list is
  not empty, and, when it picks some of them, each file name once.
\<close>

theorem matchFilesToQuery_subset:
  "set (matchFilesToQuery q files) \<subseteq> set files \<and>
   (files \<noteq> [] \<longrightarrow> matchFilesToQuery q files \<noteq> []) \<and>
   (matchFilesToQuery q files = files \<or> distinct (map a_name (matchFilesToQuery q files)))"
  using match_mappings_ok [of "[]" files "lower q" fileMappings]
  by (auto simp: matchFilesToQuery_def Let_def dest: find_Some_set split: option.splits)

text \<open>
  Loading a schema summary whose file names are distinct keeps the client state
  well-formed: one attachment per file name and one schema per collection, in both the
  incremental and the forced reload.
\<close>

theorem load_schemas_wf:
  assumes "wf_client c" "case resp of Some ss \<Rightarrow> distinct (map sc_fileName ss) | None \<Rightarrow> True"
  shows "wf_client (load_schemas force resp c)"
proof -
  have fold: "distinct (map fst (foldl (\<lambda>acc s. obj_set acc (sc_collectionName s) (schema_entry s)) acc ss))"
    if "distinct (map fst acc)" for acc :: "(string \<times> table_schema) list" and ss
    using that by (rule foldl_obj_set_distinct)
  have names: "map a_name (map schema_attachment ss) = map sc_fileName ss" for ss by simp
  show ?thesis using assms
    by (auto simp: wf_client_def load_schemas_def Let_def fold distinct_map_filter comp_def
        split: option.splits) (metis image_eqI)
qed




section \<open>Witnesses\<close>

theorem validateQuestionAccess_sound_witness:
  "set (snd (validateQuestionAccess [''CRM leads.csv''] revenue_crm_schemas ''what is our revenue in Thane'')) =
     {f \<in> ts_fileName ` set (schema_values revenue_crm_schemas). f \<noteq> [] \<and> f \<notin> set [''CRM leads.csv''] \<and>
        question_mentions ''what is our revenue in Thane'' f} \<and>
   distinct (snd (validateQuestionAccess [''CRM leads.csv''] revenue_crm_schemas ''what is our revenue in Thane'')) \<and>
   (fst (validateQuestionAccess [''CRM leads.csv''] revenue_crm_schemas ''what is our revenue in Thane'') \<longleftrightarrow>
      snd (validateQuestionAccess [''CRM leads.csv''] revenue_crm_schemas ''what is our revenue in Thane'') = [])"
  by (rule validateQuestionAccess_sound) simp

theorem matchFilesToQuery_subset_witness:
  "set (matchFilesToQuery ''how many leads in Pune'' demo_attachments) \<subseteq> set demo_attachments \<and>
   matchFilesToQuery ''how many leads in Pune'' demo_attachments \<noteq> []"
  using matchFilesToQuery_subset [of "''how many leads in Pune''" demo_attachments]
  by (simp add: demo_attachments_def)


theorem load_schemas_wf_witness:
  "wf_client (load_schemas False (Some [revenue_schema_info]) (client_init [''Revenue.csv'']))"
  by (rule load_schemas_wf) (simp_all add: wf_client_def client_init_def)

end
