(* ===== verification/Conversation.thy ===== *)
theory Conversation
  imports Access
begin

text \<open>
  The conversation loop of \<open>handleSend\<close> (\<open>src/frontend/index.tsx\<close> 3156--3657): the
  pre-validation of the question, the choice of the data sources put in the prompt, the API key
  checks, \<open>runGeneration\<close> (3410--3489, streaming and quota retry with exponential backoff)
  and \<open>processResponseWithMongo\<close> (3491--3651, query detection, execution through
  \<open>executeMongoQuery\<close>, repair and fallback prompts, the response check).
  The generative model is an oracle \<open>model i p\<close>: the reply to the \<open>i\<close>-th call of the
  turn with prompt \<open>p\<close> (it may depend on anything the session has seen, so every model
  behaviour is an oracle). \<open>executeMongoQuery\<close> is the parameter \<open>exec\<close> from the pipeline,
  the target file name and the collection to the rows or the error message; the theory Executor
  defines it over the server's query endpoint. \<open>JSON.parse\<close> is the parameter
  \<open>env_parse\<close>.
  Prompts and displayed messages are kept as data (the datatypes \<open>prompt\<close> and
  \<open>msg\<close>) rather than rendered: the rendering adds fixed text with characters outside
  Latin-1 and number formatting (\<open>toLocaleString\<close>) that no property reads.
  \<open>processResponseWithMongo\<close> recurses on a successful query without any bound, so it is a
  \<open>partial_function (option)\<close>: \<open>None\<close> is a turn that never ends.
\<close>

section \<open>Prompts, messages and replies\<close>

text \<open>The data reminder appended to the question (3189--3230).\<close>

datatype reminder = RevenueOnly string | Specific "string list" | AllData nat | NoData | NoReminder

text \<open>A data source listed in the prompt: file name, collection, rows, columns (3273--3285).\<close>

type_synonym source = "string \<times> string \<times> nat \<times> string list"

datatype prompt =
    PUser string reminder bool "source list"
  | PResult json "(string \<times> rat) option"
  | PRepair string "string list"
  | PFallback string

text \<open>What the message slot of the turn (\<open>messages[messageIndex]\<close>) shows.\<close>

datatype msg =
    MFetching
  | MStream string
  | MRetry nat
  | MSsl
  | MDenied "string list" "string list"
  | MConsulting "string option"
  | MRetryQuery "string option"
  | MQueryFailed "string option" string
  | MQueryDenied string
  | MQuota "nat option"
  | MError string
  | MText string
  | MQuestionDenied "string list"
  | MKeyMissing
  | MKeyInvalid

text \<open>An error the model call throws: \<open>err.message\<close> (as extracted by the handler),
  \<open>err.stack\<close>, \<open>err.toString()\<close> and \<open>err.name\<close>.\<close>

record model_error =
  e_message :: string
  e_stack :: string
  e_text :: string
  e_name :: string

datatype model_reply = Chunks "string list" | Fail model_error

type_synonym model = "nat \<Rightarrow> prompt \<Rightarrow> model_reply"

type_synonym executor = "json \<Rightarrow> string option \<Rightarrow> json \<Rightarrow> string + json"

text \<open>The state of a turn: the number of model calls made, the prompts sent, the message slot,
  every value the slot has shown in order, and the waits of the retry loop.\<close>

record conv =
  cv_calls :: nat
  cv_sent :: "prompt list"
  cv_slot :: msg
  cv_shown :: "msg list"
  cv_waits :: "nat list"

definition set_slot :: "conv \<Rightarrow> msg \<Rightarrow> conv" where
  "set_slot s m = s\<lparr>cv_slot := m, cv_shown := cv_shown s @ [m]\<rparr>"

text \<open>What the turn reads from the component state when it starts.\<close>

record env =
  env_acc :: "string list"
  env_schemas :: "(string \<times> table_schema) list"
  env_tables :: "string list"
  env_attachments :: "attachment list"
  env_loaded :: bool
  env_key :: "string option"
  env_parse :: "string \<Rightarrow> string + json"

section \<open>The model call\<close>

definition maxRetries :: nat where
  "maxRetries = 5"

definition err_string :: "model_error \<Rightarrow> string" where
  "err_string e = lower (e_stack e @ '' '' @ e_text e @ '' '' @ e_message e)"

definition is_quota_error :: "model_error \<Rightarrow> bool" where
  "is_quota_error e \<longleftrightarrow> list_ex (contains (err_string e)) [''429'', ''503'', ''resource_exhausted'', ''quota'']"

definition is_cert_error :: "model_error \<Rightarrow> bool" where
  "is_cert_error e \<longleftrightarrow>
     (let es = err_string e in
      contains (e_stack e) ''ERR_CERT'' \<or> contains (e_text e) ''ERR_CERT'' \<or> contains (e_message e) ''ERR_CERT'' \<or>
      list_ex (contains es) [''cert_authority_invalid'', ''certificate'', ''ssl'', ''err_cert'',
        ''certificate validation'', ''failed to fetch'', ''network error'', ''typeerror''] \<or>
      (contains es ''fetch'' \<and> contains es ''typeerror'') \<or>
      (e_name e = ''TypeError'' \<and> contains (e_message e) ''fetch'') \<or>
      (e_name e = ''TypeError'' \<and> contains (e_stack e) ''ERR_CERT''))"

text \<open>The stream loop: each non-empty chunk is appended and the slot shows the text so far.\<close>

fun stream :: "string \<Rightarrow> string list \<Rightarrow> conv \<Rightarrow> string \<times> conv" where
  "stream acc [] s = (acc, s)"
| "stream acc (c # cs) s = (if c = [] then stream acc cs s else stream (acc @ c) cs (set_slot s (MStream (acc @ c))))"

text \<open>\<open>runGeneration(prompt, currentAttempt)\<close>: the text of the reply, or the error it throws.
  A certificate or network error shows the diagnostic and returns the empty text; a quota error
  waits \<open>2000 * 2^k\<close> ms and retries while fewer than \<open>maxRetries\<close> retries were made.\<close>

function run_generation :: "model \<Rightarrow> prompt \<Rightarrow> nat \<Rightarrow> conv \<Rightarrow> (model_error + string) \<times> conv" where
  "run_generation model p attempt s =
     (let s1 = s\<lparr>cv_calls := Suc (cv_calls s), cv_sent := cv_sent s @ [p]\<rparr> in
      case model (cv_calls s) p of
        Chunks cs \<Rightarrow> let (t, s2) = stream [] cs s1 in (Inr t, s2)
      | Fail e \<Rightarrow>
          if is_cert_error e then (Inr [], set_slot s1 MSsl)
          else if is_quota_error e \<and> attempt < maxRetries
          then run_generation model p (Suc attempt)
                 ((set_slot s1 (MRetry attempt))\<lparr>cv_waits := cv_waits s1 @ [2000 * 2 ^ attempt]\<rparr>)
          else (Inl e, s1))"
  by pat_completeness auto
termination
  by (relation "measure (\<lambda>(model, p, attempt, s). maxRetries - attempt)") auto

declare run_generation.simps [simp del]

section \<open>Reading the reply\<close>

text \<open>\<open>fullResponse.match(/```mongodb\s*([\s\S]*?)\s*```/)\<close>, with the \<open>trim()\<close> the caller
  applies to the group: the text between the first \<open>```mongodb\<close> and the next \<open>```\<close>.\<close>

fun find_sub :: "string \<Rightarrow> string \<Rightarrow> nat option" where
  "find_sub pat [] = (if pat = [] then Some 0 else None)"
| "find_sub pat (c # cs) = (if prefix pat (c # cs) then Some 0 else map_option Suc (find_sub pat cs))"

definition mongo_block :: "string \<Rightarrow> string option" where
  "mongo_block s =
     (case find_sub ''```mongodb'' s of
        None \<Rightarrow> None
      | Some i \<Rightarrow> let r = drop (i + 10) s in
                  (case find_sub ''```'' r of None \<Rightarrow> None | Some j \<Rightarrow> Some (trim (take j r))))"

text \<open>\<open>text.replace(/```mongodb[\s\S]*?```/gi, '')\<close>: a case-insensitive opening fence and the
  first closing fence after it are removed with everything between; the scan goes on after the
  removed block.\<close>

function remove_blocks :: "string \<Rightarrow> string" where
  "remove_blocks s =
     (if s = [] then []
      else if lower (take 10 s) = ''```mongodb''
      then (case find_sub ''```'' (drop 10 s) of
              Some j \<Rightarrow> remove_blocks (drop (10 + j + 3) s)
            | None \<Rightarrow> hd s # remove_blocks (tl s))
      else hd s # remove_blocks (tl s))"
  by pat_completeness auto
termination
  by (relation "measure length") auto

text \<open>\<open>text.replace(/```json[\s\S]*?"pipeline"[\s\S]*?```/gi, '')\<close>.\<close>

fun find_sub_ci :: "string \<Rightarrow> string \<Rightarrow> nat option" where
  "find_sub_ci pat [] = (if pat = [] then Some 0 else None)"
| "find_sub_ci pat (c # cs) =
     (if lower (take (length pat) (c # cs)) = pat then Some 0 else map_option Suc (find_sub_ci pat cs))"

function remove_json_blocks :: "string \<Rightarrow> string" where
  "remove_json_blocks s =
     (if s = [] then []
      else if lower (take 7 s) = ''```json''
      then (case find_sub_ci ''\"pipeline\"'' (drop 7 s) of
              Some i \<Rightarrow> (case find_sub ''```'' (drop (7 + i + 10) s) of
                           Some j \<Rightarrow> remove_json_blocks (drop (7 + i + 10 + j + 3) s)
                         | None \<Rightarrow> hd s # remove_json_blocks (tl s))
            | None \<Rightarrow> hd s # remove_json_blocks (tl s))
      else hd s # remove_json_blocks (tl s))"
  by pat_completeness auto
termination
  by (relation "measure length") auto

text \<open>\<open>replace(/\n{3,}/g, '\n\n')\<close>.\<close>

function squash_newlines :: "string \<Rightarrow> string" where
  "squash_newlines [] = []"
| "squash_newlines (c # cs) =
     (if c = CHR ''\<newline>'' \<and> length (takeWhile (\<lambda>x. x = CHR ''\<newline>'') (c # cs)) \<ge> 3
      then ''\<newline>\<newline>'' @ squash_newlines (dropWhile (\<lambda>x. x = CHR ''\<newline>'') cs)
      else c # squash_newlines cs)"
  by pat_completeness auto
termination
  by (relation "measure length") (auto simp: le_imp_less_Suc length_dropWhile_le)

definition removeQueryFromResponse :: "string \<Rightarrow> string" where
  "removeQueryFromResponse text =
     (if text = [] then text else trim (squash_newlines (remove_json_blocks (remove_blocks text))))"

text \<open>\<open>JSON.parse(mongoMatch[1].trim())\<close> and the format check (3523--3531); reading \<open>.collection\<close> of \<open>null\<close> throws a \<open>TypeError\<close>.\<close>

definition parse_query :: "(string \<Rightarrow> string + json) \<Rightarrow> string \<Rightarrow> string + json \<times> json" where
  "parse_query parse q =
     (case parse q of
        Inl e \<Rightarrow> Inl e
      | Inr JNull \<Rightarrow> Inl ''Cannot read properties of null (reading 'collection')''
      | Inr v \<Rightarrow>
          (let c = (case v of JObj kvs \<Rightarrow> obj_get kvs ''collection'' | _ \<Rightarrow> None);
               p = (case v of JObj kvs \<Rightarrow> obj_get kvs ''pipeline'' | _ \<Rightarrow> None)
           in case (c, p) of
                (Some cv, Some (JArr st)) \<Rightarrow>
                  if js_truthy cv then Inr (cv, JArr st)
                  else Inl ''Invalid MongoDB query format: needs 'collection' and 'pipeline' fields''
              | _ \<Rightarrow> Inl ''Invalid MongoDB query format: needs 'collection' and 'pipeline' fields''))"

text \<open>The file name sent with the query: the attachment of that collection, else
  \<open>findFileNameFromPipeline\<close> (3015--3025), which ignores the pipeline and takes the first
  attachment that has a collection, or the first CSV attachment.\<close>

definition query_file :: "attachment list \<Rightarrow> json \<Rightarrow> string option" where
  "query_file atts c =
     (let fileName = (case find (\<lambda>f. JStr (case a_collection f of Some x \<Rightarrow> x | None \<Rightarrow> []) = c \<and>
                                      a_collection f \<noteq> None) atts of
                        Some f \<Rightarrow> a_name f | None \<Rightarrow> [])
      in if fileName \<noteq> [] then Some fileName
         else case find (\<lambda>f. case a_collection f of Some x \<Rightarrow> x \<noteq> [] | None \<Rightarrow> False) atts of
                Some f \<Rightarrow> Some (a_name f)
              | None \<Rightarrow> map_option a_name (find a_isCsv atts))"

text \<open>\<open>Object.entries\<close> of a result row.\<close>

definition js_entries :: "json \<Rightarrow> (string \<times> json) list" where
  "js_entries v =
     (case v of JObj kvs \<Rightarrow> obj_entries kvs
              | JArr xs \<Rightarrow> zip (map show_nat [0..<length xs]) xs
              | _ \<Rightarrow> [])"

text \<open>The exact value highlighted to the model: the first positive number of the first row that
  is not the \<open>_id\<close> (3537--3550).\<close>

definition exact_value :: "json \<Rightarrow> (string \<times> rat) option" where
  "exact_value result =
     (case result of
        JArr (r # _) \<Rightarrow>
          (case find (\<lambda>(k, v). k \<noteq> ''_id'' \<and> (case v of JNum n \<Rightarrow> 0 < n | _ \<Rightarrow> False)) (js_entries r) of
             Some (k, JNum n) \<Rightarrow> Some (k, n)
           | _ \<Rightarrow> None)
      | _ \<Rightarrow> None)"

text \<open>\<open>rawErrString.match(/retry in ([\d\.]+)s/)\<close> and \<open>Math.ceil(parseFloat(...))\<close>;
  \<open>None\<close> is \<open>NaN\<close>.\<close>

definition digit_or_dot :: "char \<Rightarrow> bool" where
  "digit_or_dot c \<longleftrightarrow> is_digit c \<or> c = CHR ''.''"

fun retry_group :: "string \<Rightarrow> string option" where
  "retry_group [] = None"
| "retry_group (c # cs) =
     (let r = drop 9 (c # cs); g = takeWhile digit_or_dot r
      in if prefix ''retry in '' (c # cs) \<and> g \<noteq> [] \<and> prefix ''s'' (dropWhile digit_or_dot r)
         then Some g else retry_group cs)"

definition ceil_float :: "string \<Rightarrow> nat option" where
  "ceil_float g =
     (let ip = takeWhile is_digit g; rest = dropWhile is_digit g;
          fp = (case rest of c # cs \<Rightarrow> if c = CHR ''.'' then takeWhile is_digit cs else [] | [] \<Rightarrow> [])
      in if ip = [] \<and> fp = [] then None
         else Some (digits_val 0 ip + (if list_ex (\<lambda>c. c \<noteq> CHR ''0'') fp then 1 else 0)))"

definition quota_seconds :: "string \<Rightarrow> nat option" where
  "quota_seconds raw = (case retry_group raw of None \<Rightarrow> Some 5 | Some g \<Rightarrow> ceil_float g)"

text \<open>The outer \<open>catch\<close> of \<open>processResponseWithMongo\<close> (3632--3650).\<close>

definition error_msg :: "model_error \<Rightarrow> msg" where
  "error_msg e =
     (if contains (e_message e) ''429'' \<or> contains (e_message e) ''RESOURCE_EXHAUSTED''
      then MQuota (quota_seconds (e_message e)) else MError (e_message e))"

section \<open>The loop\<close>

definition friendly_of :: "string \<Rightarrow> string option" where
  "friendly_of full = (let t = removeQueryFromResponse full in if 10 < length t then Some t else None)"

text \<open>One round of \<open>processResponseWithMongo(prompt, attemptCount)\<close>: either the turn ends with
  the final state, or the function calls itself with the next prompt and attempt count.\<close>

datatype round = Done conv | Next prompt nat conv

definition process_round :: "model \<Rightarrow> executor \<Rightarrow> env \<Rightarrow> prompt \<Rightarrow> nat \<Rightarrow> conv \<Rightarrow> round" where
  "process_round model exec env p attempt s =
     (case run_generation model p 0 s of
        (Inl e, s1) \<Rightarrow> Done (set_slot s1 (error_msg e))
      | (Inr full, s1) \<Rightarrow>
          (case validateResponseAccess (env_acc env) (env_schemas env) full of
             (False, unauth) \<Rightarrow> Done (set_slot s1 (MDenied unauth (env_acc env)))
           | (True, _) \<Rightarrow>
               (case mongo_block full of
                  None \<Rightarrow> Done (set_slot s1 (MText (removeQueryFromResponse full)))
                | Some q \<Rightarrow>
                    let friendly = friendly_of full;
                        s2 = set_slot s1 (MConsulting friendly);
                        outcome = (case parse_query (env_parse env) q of
                                     Inl err \<Rightarrow> Inl err
                                   | Inr (c, pipeline) \<Rightarrow> exec pipeline (query_file (env_attachments env) c) c)
                    in case outcome of
                         Inr result \<Rightarrow> Next (PResult result (exact_value result)) attempt s2
                       | Inl err \<Rightarrow>
                           if contains err ''Access denied'' then Done (set_slot s2 (MQueryDenied err))
                           else if attempt < 2
                           then Next (PRepair err (env_tables env)) (Suc attempt) (set_slot s2 (MRetryQuery friendly))
                           else Next (PFallback err) (Suc attempt)
                                  (set_slot s2 (MQueryFailed friendly (take 100 err))))))"

partial_function (option) process ::
  "model \<Rightarrow> executor \<Rightarrow> env \<Rightarrow> prompt \<Rightarrow> nat \<Rightarrow> conv \<Rightarrow> conv option" where
  "process model exec env p attempt s =
     (case process_round model exec env p attempt s of
        Done s' \<Rightarrow> Some s'
      | Next p' attempt' s' \<Rightarrow> process model exec env p' attempt' s')"

section \<open>Sending a question\<close>

definition analysis_keywords :: "string list" where
  "analysis_keywords = [''insights'', ''analysis'', ''analyze'', ''evaluate'', ''performance'', ''metrics'',
     ''statistics'', ''summary'', ''findings'', ''audit'', ''review'', ''report'']"

definition aggregation_keywords :: "string list" where
  "aggregation_keywords = [''revenue'', ''sum'', ''total'', ''aggregate'', ''calculate'', ''amount'', ''rupees'',
     ''rs.'', ''crore'', ''lakh'', ''contribution'', ''contributing'', ''sum of'', ''total of'', ''how much'']"

definition data_reminder :: "env \<Rightarrow> string \<Rightarrow> reminder" where
  "data_reminder env q =
     (let csv = filter a_isCsv (env_attachments env); relevant = matchFilesToQuery q csv in
      if csv \<noteq> [] then
        (if is_revenue_query q \<and> list_ex is_revenue_file csv
         then (case find is_revenue_file csv of Some f \<Rightarrow> RevenueOnly (a_name f) | None \<Rightarrow> NoReminder)
         else if relevant \<noteq> [] \<and> length relevant < length csv then Specific (map a_name relevant)
         else AllData (length csv))
      else if env_loaded env \<and> env_tables env = [] then NoData else NoReminder)"

definition needs_query :: "env \<Rightarrow> string \<Rightarrow> bool" where
  "needs_query env q \<longleftrightarrow>
     (list_ex (contains (lower q)) analysis_keywords \<or> list_ex (contains (lower q)) aggregation_keywords) \<and>
     filter a_isCsv (env_attachments env) \<noteq> []"

text \<open>The data sources listed in the prompt (3256--3285); non-CSV attachments add their raw
  content, which is not modelled.\<close>

definition files_to_show :: "env \<Rightarrow> string \<Rightarrow> attachment list" where
  "files_to_show env q =
     (let csv = filter a_isCsv (env_attachments env); relevant = matchFilesToQuery q csv in
      if is_revenue_query q \<and> list_ex is_revenue_file csv
      then (case find is_revenue_file csv of Some f \<Rightarrow> [f] | None \<Rightarrow> csv)
      else if relevant \<noteq> [] \<and> length relevant < length csv
      then relevant @ filter (\<lambda>f. a_name f \<notin> set (map a_name relevant)) csv
      else csv)"

definition source_of :: "attachment \<Rightarrow> source" where
  "source_of a =
     ((a_name a), (case a_collection a of Some c \<Rightarrow> if c \<noteq> [] then c else getCollectionName (a_name a)
                                       | None \<Rightarrow> getCollectionName (a_name a)),
      a_rowCount a, a_headers a)"

definition user_prompt :: "env \<Rightarrow> string \<Rightarrow> prompt" where
  "user_prompt env q =
     PUser q (data_reminder env q) (needs_query env q)
       (if env_attachments env = [] then [] else map source_of (filter a_isCsv (files_to_show env q)))"

text \<open>\<open>getApiKey\<close> (2176--2209): the first valid key of the runtime and build-time sources.\<close>

definition isValidKey :: "string option \<Rightarrow> bool" where
  "isValidKey k \<longleftrightarrow> (case k of Some s \<Rightarrow> s \<noteq> ''undefined'' \<and> trim s \<noteq> [] \<and> 10 < length s | None \<Rightarrow> False)"

definition getApiKey :: "string option list \<Rightarrow> string option" where
  "getApiKey sources = (case find isValidKey sources of Some k \<Rightarrow> k | None \<Rightarrow> None)"

text \<open>The key checks of \<open>handleSend\<close> (3350--3382): the error message, if any.\<close>

definition key_check :: "string option \<Rightarrow> msg option" where
  "key_check key =
     (case key of
        None \<Rightarrow> Some MKeyMissing
      | Some k \<Rightarrow> if \<not> prefix ''AIza'' k \<and> length k < 20 then Some MKeyInvalid else None)"

text \<open>\<open>handleSend\<close> for a plain question: nothing happens on an empty message, a refused
  question is answered without calling the model, a missing or malformed key is reported, and
  otherwise the slot shows the fetching notice and the loop runs. \<open>env_key\<close> is the result
  of \<open>getApiKey()\<close>.\<close>

definition handle_send :: "model \<Rightarrow> executor \<Rightarrow> env \<Rightarrow> string \<Rightarrow> conv \<Rightarrow> conv option" where
  "handle_send model exec env text s =
     (let clean = trim text in
      if clean = [] \<and> env_attachments env = [] then Some s
      else case validateQuestionAccess (env_acc env) (env_schemas env) clean of
             (False, unauth) \<Rightarrow> Some (set_slot s (MQuestionDenied unauth))
           | (True, _) \<Rightarrow>
               (case key_check (env_key env) of
                  Some m \<Rightarrow> Some (set_slot s m)
                | None \<Rightarrow> process model exec env (user_prompt env clean) 0 (set_slot s MFetching)))"

section \<open>Rounds of a turn\<close>

text \<open>The rounds a turn goes through, as a step relation: from the first prompt with attempt
  count 0, each round that calls \<open>processResponseWithMongo\<close> again leads to the next one. The
  last argument counts the repair prompts issued so far.\<close>

inductive turn_reach :: "model \<Rightarrow> executor \<Rightarrow> env \<Rightarrow> prompt \<Rightarrow> nat \<Rightarrow> conv \<Rightarrow> nat \<Rightarrow> bool"
  for model exec env where
  start: "turn_reach model exec env p 0 s 0"
| step: "turn_reach model exec env p a s r \<Longrightarrow> process_round model exec env p a s = Next p' a' s' \<Longrightarrow>
         turn_reach model exec env p' a' s' (r + (case p' of PRepair _ _ \<Rightarrow> 1 | _ \<Rightarrow> 0))"

section \<open>Example turns\<close>

definition conv_init :: conv where
  "conv_init = \<lparr>cv_calls = 0, cv_sent = [], cv_slot = MFetching, cv_shown = [], cv_waits = []\<rparr>"

definition query_reply :: string where
  "query_reply = ''```mongodb {\"collection\": \"data_revenue\", \"pipeline\": []}```''"

definition query_json :: json where
  "query_json = JObj [(''collection'', JStr ''data_revenue''), (''pipeline'', JArr [])]"

text \<open>A session with no restriction whose parser reads the query of \<open>query_reply\<close>.\<close>

definition demo_env :: env where
  "demo_env = \<lparr>env_acc = [], env_schemas = [], env_tables = [''data_revenue''], env_attachments = [],
     env_loaded = True, env_key = Some ''AIzaSyDemoKeyDemoKeyDemo'',
     env_parse = (\<lambda>q. if q = ''{\"collection\": \"data_revenue\", \"pipeline\": []}'' then Inr query_json
                      else Inl ''Unexpected token'')\<rparr>"

definition fetch_error :: model_error where
  "fetch_error = \<lparr>e_message = ''Failed to fetch'', e_stack = [], e_text = ''TypeError: Failed to fetch'',
     e_name = ''TypeError''\<rparr>"

section \<open>Lemmas\<close>

lemma set_slot_simps [simp]:
  "cv_calls (set_slot s m) = cv_calls s" "cv_sent (set_slot s m) = cv_sent s"
  "cv_waits (set_slot s m) = cv_waits s" "cv_slot (set_slot s m) = m"
  "cv_shown (set_slot s m) = cv_shown s @ [m]"
  by (simp_all add: set_slot_def)

lemma stream_facts:
  "stream acc cs s = (t, s') \<Longrightarrow>
   t = acc @ concat cs \<and> cv_calls s' = cv_calls s \<and> cv_sent s' = cv_sent s \<and> cv_waits s' = cv_waits s \<and>
   (\<exists>ms. cv_shown s' = cv_shown s @ ms \<and> (\<forall>m \<in> set ms. \<exists>u. m = MStream u \<and> prefix acc u \<and> prefix u t)) \<and>
   (concat cs \<noteq> [] \<longrightarrow> cv_slot s' = MStream t) \<and> (concat cs = [] \<longrightarrow> cv_slot s' = cv_slot s)"
proof (induction acc cs s arbitrary: t s' rule: stream.induct)
  case (1 acc s)
  then show ?case by simp
next
  case (2 acc c cs s)
  show ?case
  proof (cases "c = []")
    case True
    then have "stream acc cs s = (t, s')" using "2.prems" by simp
    from "2.IH"(1) [OF True this] show ?thesis using True by auto
  next
    case False
    then have st: "stream (acc @ c) cs (set_slot s (MStream (acc @ c))) = (t, s')" using "2.prems" by simp
    from "2.IH"(2) [OF False st] obtain ms where
      ih: "t = acc @ c @ concat cs" "cv_calls s' = cv_calls s" "cv_sent s' = cv_sent s" "cv_waits s' = cv_waits s"
        "cv_shown s' = cv_shown s @ [MStream (acc @ c)] @ ms"
        "\<forall>m \<in> set ms. \<exists>u. m = MStream u \<and> prefix (acc @ c) u \<and> prefix u t"
        "concat cs \<noteq> [] \<longrightarrow> cv_slot s' = MStream t" "concat cs = [] \<longrightarrow> cv_slot s' = MStream (acc @ c)"
      by auto
    have "\<forall>m \<in> set (MStream (acc @ c) # ms). \<exists>u. m = MStream u \<and> prefix acc u \<and> prefix u t"
    proof -
      have pre: "prefix (acc @ c) u \<Longrightarrow> prefix acc u" for u by (metis append_assoc prefix_def)
      show ?thesis using ih(1,6) pre by fastforce
    qed
    then show ?thesis using ih False by auto
  qed
qed

section \<open>Properties of the conversation loop\<close>

text \<open>
  C25. Each model call of a turn ends: \<open>runGeneration\<close> calls the model at most
  \<open>maxRetries + 1\<close> times, and the waits before the retries are exactly
  \<open>2000, 4000, 8000, ...\<close> ms, doubling from the attempt it starts at.
\<close>

theorem run_generation_bounds:
  "case run_generation model p a s of (r, s') \<Rightarrow>
     \<exists>n. n \<le> maxRetries - a \<and> cv_calls s' = cv_calls s + n + 1 \<and>
         cv_waits s' = cv_waits s @ map (\<lambda>k. 2000 * 2 ^ k) [a..<a + n]"
proof (induction model p a s rule: run_generation.induct)
  case (1 model p a s)
  show ?case
  proof (cases "model (cv_calls s) p")
    case (Chunks cs)
    obtain t s2 where st: "stream [] cs (s\<lparr>cv_calls := Suc (cv_calls s), cv_sent := cv_sent s @ [p]\<rparr>) = (t, s2)"
      by fastforce
    show ?thesis using stream_facts [OF st] Chunks st by (subst run_generation.simps) auto
  next
    case (Fail e)
    show ?thesis
    proof (cases "\<not> is_cert_error e \<and> is_quota_error e \<and> a < maxRetries")
      case True
      then obtain n where "n \<le> maxRetries - Suc a"
        "cv_calls (snd (run_generation model p (Suc a) ((set_slot (s\<lparr>cv_calls := Suc (cv_calls s),
            cv_sent := cv_sent s @ [p]\<rparr>) (MRetry a))\<lparr>cv_waits := cv_waits s @ [2000 * 2 ^ a]\<rparr>))) =
           Suc (cv_calls s) + n + 1"
        "cv_waits (snd (run_generation model p (Suc a) ((set_slot (s\<lparr>cv_calls := Suc (cv_calls s),
            cv_sent := cv_sent s @ [p]\<rparr>) (MRetry a))\<lparr>cv_waits := cv_waits s @ [2000 * 2 ^ a]\<rparr>))) =
           (cv_waits s @ [2000 * 2 ^ a]) @ map (\<lambda>k. 2000 * 2 ^ k) [Suc a..<Suc a + n]"
        using "1.IH" [OF _ Fail] by (auto simp: set_slot_def split: prod.splits)
      moreover have "[a..<a + Suc n] = a # [Suc a..<Suc a + n]" by (simp add: upt_rec)
      ultimately show ?thesis using True Fail
        by (subst run_generation.simps) (auto split: prod.splits intro!: exI [of _ "Suc n"])
    next
      case False
      then show ?thesis using Fail by (subst run_generation.simps) (auto simp: Let_def split: if_splits)
    qed
  qed
qed


lemma stream_fst: "fst (stream acc cs s) = acc @ concat cs"
  by (induction acc cs s rule: stream.induct) auto

lemma run_generation_Chunks:
  "model (cv_calls s) p = Chunks cs \<Longrightarrow>
   run_generation model p a s =
     (Inr (concat cs), snd (stream [] cs (s\<lparr>cv_calls := Suc (cv_calls s), cv_sent := cv_sent s @ [p]\<rparr>)))"
  using stream_fst [of "[]" cs "s\<lparr>cv_calls := Suc (cv_calls s), cv_sent := cv_sent s @ [p]\<rparr>"]
  by (subst run_generation.simps) (simp add: split_beta)

lemma run_generation_retry:
  "model (cv_calls s) p = Fail e \<Longrightarrow> \<not> is_cert_error e \<Longrightarrow> is_quota_error e \<Longrightarrow> a < maxRetries \<Longrightarrow>
   run_generation model p a s =
     run_generation model p (Suc a) ((set_slot (s\<lparr>cv_calls := Suc (cv_calls s), cv_sent := cv_sent s @ [p]\<rparr>)
       (MRetry a))\<lparr>cv_waits := cv_waits s @ [2000 * 2 ^ a]\<rparr>)"
  by (subst run_generation.simps) (simp add: Let_def set_slot_def)

lemma run_generation_stop:
  "model (cv_calls s) p = Fail e \<Longrightarrow> \<not> (\<not> is_cert_error e \<and> is_quota_error e \<and> a < maxRetries) \<Longrightarrow>
   run_generation model p a s =
     (if is_cert_error e then (Inr [], set_slot (s\<lparr>cv_calls := Suc (cv_calls s), cv_sent := cv_sent s @ [p]\<rparr>) MSsl)
      else (Inl e, s\<lparr>cv_calls := Suc (cv_calls s), cv_sent := cv_sent s @ [p]\<rparr>))"
  by (subst run_generation.simps) (auto simp: Let_def)

lemma run_generation_source:
  "run_generation model p a s = (Inr t, s') \<Longrightarrow>
   cv_calls s < cv_calls s' \<and>
   (t = [] \<or> (\<exists>i cs. cv_calls s \<le> i \<and> model i p = Chunks cs \<and> t = concat cs))"
proof (induction model p a s arbitrary: t s' rule: run_generation.induct)
  case (1 model p a s)
  show ?case
  proof (cases "model (cv_calls s) p")
    case (Chunks cs)
    obtain t0 s2 where st: "stream [] cs (s\<lparr>cv_calls := Suc (cv_calls s), cv_sent := cv_sent s @ [p]\<rparr>) = (t0, s2)"
      by fastforce
    then show ?thesis using stream_facts [OF st] Chunks "1.prems"
      by (auto simp: run_generation_Chunks intro: exI [of _ "cv_calls s"])
  next
    case (Fail e)
    show ?thesis
    proof (cases "\<not> is_cert_error e \<and> is_quota_error e \<and> a < maxRetries")
      case True
      then have "run_generation model p (Suc a) ((set_slot (s\<lparr>cv_calls := Suc (cv_calls s),
            cv_sent := cv_sent s @ [p]\<rparr>) (MRetry a))\<lparr>cv_waits := cv_waits s @ [2000 * 2 ^ a]\<rparr>) = (Inr t, s')"
        using "1.prems" Fail by (simp add: run_generation_retry)
      then have eq2: "run_generation model p (Suc a) ((set_slot (s\<lparr>cv_calls := Suc (cv_calls s),
            cv_sent := cv_sent s @ [p]\<rparr>) (MRetry a))\<lparr>cv_waits := cv_waits (s\<lparr>cv_calls := Suc (cv_calls s),
            cv_sent := cv_sent s @ [p]\<rparr>) @ [2000 * 2 ^ a]\<rparr>) = (Inr t, s')" by simp
      have "\<not> is_cert_error e" "is_quota_error e \<and> a < maxRetries" using True by auto
      note c = "1.IH" [OF refl Fail this eq2]
      then show ?thesis by (auto simp: set_slot_def dest: Suc_leD)
    next
      case False
      then show ?thesis using Fail "1.prems" by (auto simp: run_generation_stop split: if_splits)
    qed
  qed
qed

lemma mongo_block_Nil [simp]: "mongo_block [] = None"
  by (simp add: mongo_block_def)

lemma process_round_NextD:
  assumes nx: "process_round model exec env p a s = Next p' a' s'"
  obtains full s1 q where "run_generation model p 0 s = (Inr full, s1)" "mongo_block full = Some q"
    "cv_calls s' = cv_calls s1"
    "(\<exists>r. p' = PResult r (exact_value r) \<and> a' = a) \<or> (\<exists>err t. p' = PRepair err t \<and> a < 2 \<and> a' = Suc a) \<or>
     (\<exists>err. p' = PFallback err \<and> \<not> a < 2 \<and> a' = Suc a)"
proof -
  obtain g s1 where rg: "run_generation model p 0 s = (g, s1)" by fastforce
  show ?thesis
  proof (cases g)
    case (Inl e)
    then show ?thesis using nx rg by (simp add: process_round_def)
  next
    case (Inr full)
    obtain b u where vr: "validateResponseAccess (env_acc env) (env_schemas env) full = (b, u)" by fastforce
    show ?thesis
    proof (cases b)
      case False
      then show ?thesis using nx rg Inr vr by (simp add: process_round_def)
    next
      case True
      show ?thesis
      proof (cases "mongo_block full")
        case None
        then show ?thesis using nx rg Inr vr True by (simp add: process_round_def)
      next
        case (Some q)
        define outcome where "outcome = (case parse_query (env_parse env) q of
                                     Inl err \<Rightarrow> Inl err
                                   | Inr (c, pipeline) \<Rightarrow> exec pipeline (query_file (env_attachments env) c) c)"
        have nx2: "(case outcome of
                 Inr result \<Rightarrow> Next (PResult result (exact_value result)) a (set_slot s1 (MConsulting (friendly_of full)))
               | Inl err \<Rightarrow>
                   if contains err ''Access denied'' then Done (set_slot (set_slot s1 (MConsulting (friendly_of full))) (MQueryDenied err))
                   else if a < 2
                   then Next (PRepair err (env_tables env)) (Suc a)
                          (set_slot (set_slot s1 (MConsulting (friendly_of full))) (MRetryQuery (friendly_of full)))
                   else Next (PFallback err) (Suc a)
                          (set_slot (set_slot s1 (MConsulting (friendly_of full)))
                             (MQueryFailed (friendly_of full) (take 100 err)))) = Next p' a' s'"
          using nx rg Inr vr True Some by (simp add: process_round_def Let_def outcome_def)
        have "cv_calls s' = cv_calls s1 \<and>
          ((\<exists>r. p' = PResult r (exact_value r) \<and> a' = a) \<or> (\<exists>err t. p' = PRepair err t \<and> a < 2 \<and> a' = Suc a) \<or>
           (\<exists>err. p' = PFallback err \<and> \<not> a < 2 \<and> a' = Suc a))"
          using nx2 by (cases outcome) (auto split: if_splits)
        then show ?thesis using that rg Inr Some by blast
      qed
    qed
  qed
qed

lemma process_round_Next:
  assumes "process_round model exec env p a s = Next p' a' s'"
  shows "cv_calls s < cv_calls s' \<and> a \<le> a' \<and>
         (\<exists>i cs. cv_calls s \<le> i \<and> model i p = Chunks cs \<and> mongo_block (concat cs) \<noteq> None) \<and>
         (\<forall>e t. p' = PRepair e t \<longrightarrow> a < 2 \<and> a' = Suc a)"
proof -
  obtain full s1 q where rg: "run_generation model p 0 s = (Inr full, s1)" and blk: "mongo_block full = Some q"
    and calls: "cv_calls s' = cv_calls s1"
    and kinds: "(\<exists>r. p' = PResult r (exact_value r) \<and> a' = a) \<or> (\<exists>err t. p' = PRepair err t \<and> a < 2 \<and> a' = Suc a) \<or>
     (\<exists>err. p' = PFallback err \<and> \<not> a < 2 \<and> a' = Suc a)"
    using process_round_NextD [OF assms] by blast
  have src: "cv_calls s < cv_calls s1 \<and>
      (full = [] \<or> (\<exists>i cs. cv_calls s \<le> i \<and> model i p = Chunks cs \<and> full = concat cs))"
    using run_generation_source [OF rg] .
  have ex: "\<exists>i cs. cv_calls s \<le> i \<and> model i p = Chunks cs \<and> mongo_block (concat cs) \<noteq> None"
  proof (cases "full = []")
    case True
    then show ?thesis using blk by simp
  next
    case False
    then obtain i cs where "cv_calls s \<le> i" "model i p = Chunks cs" "full = concat cs" using src by blast
    then show ?thesis using blk by auto
  qed
  have "a \<le> a'" using kinds by (elim disjE exE conjE) simp_all
  moreover have "\<forall>e t. p' = PRepair e t \<longrightarrow> a < 2 \<and> a' = Suc a" using kinds by (elim disjE exE conjE) simp_all
  ultimately show ?thesis using src calls ex by simp
qed

text \<open>How a round that calls \<open>processResponseWithMongo\<close> again moves the attempt count: a
  result keeps it, a repair (below 2) and a fallback (from 2 on) add one.\<close>

lemma process_round_attempt:
  assumes "process_round model exec env p a s = Next p' a' s'"
  shows "case p' of PRepair _ _ \<Rightarrow> a < 2 \<and> a' = Suc a | PFallback _ \<Rightarrow> 2 \<le> a \<and> a' = Suc a
           | PResult _ _ \<Rightarrow> a' = a | PUser _ _ _ _ \<Rightarrow> False"
proof -
  obtain full s1 q where
    kinds: "(\<exists>r. p' = PResult r (exact_value r) \<and> a' = a) \<or> (\<exists>err t. p' = PRepair err t \<and> a < 2 \<and> a' = Suc a) \<or>
     (\<exists>err. p' = PFallback err \<and> \<not> a < 2 \<and> a' = Suc a)"
    using process_round_NextD [OF assms] by blast
  then show ?thesis by (elim disjE exE conjE) simp_all
qed

text \<open>
  C26. A turn ends whenever the model eventually stops writing query blocks: if no reply from
  the \<open>k\<close>-th call on contains a \<open>```mongodb\<close> block, \<open>processResponseWithMongo\<close>
  returns, whatever the executor does.
\<close>

theorem process_terminates:
  assumes quiet: "\<forall>i \<ge> k. \<forall>q. case model i q of Chunks cs \<Rightarrow> mongo_block (concat cs) = None | Fail _ \<Rightarrow> True"
  shows "\<exists>s'. process model exec env p a s = Some s'"
proof (induction "k - cv_calls s" arbitrary: p a s rule: less_induct)
  case less
  show ?case
  proof (cases "process_round model exec env p a s")
    case (Done s')
    then show ?thesis by (simp add: process.simps)
  next
    case (Next p' a' s')
    from process_round_Next [OF Next] obtain i cs where
      calls: "cv_calls s < cv_calls s'" and i: "cv_calls s \<le> i" "model i p = Chunks cs"
      "mongo_block (concat cs) \<noteq> None" by blast
    have "i < k"
    proof (rule ccontr)
      assume "\<not> i < k"
      then have "case model i p of Chunks cs \<Rightarrow> mongo_block (concat cs) = None | Fail _ \<Rightarrow> True"
        using quiet by simp
      then show False using i by simp
    qed
    then have "k - cv_calls s' < k - cv_calls s" using calls i by linarith
    then obtain s'' where "process model exec env p' a' s' = Some s''" using less by blast
    then show ?thesis using Next by (simp add: process.simps)
  qed
qed

text \<open>
  C27. A turn need not end: a successful query does not count against any budget, so a model
  that keeps answering with a valid query block keeps the loop running for ever (the result is
  \<open>None\<close>). The specification says the loop repeats only until a final answer or the
  retry budget is exhausted.
\<close>

theorem process_never_ends:
  assumes reply: "\<forall>i q. model i q = Chunks [t]"
    and visible: "fst (validateResponseAccess (env_acc env) (env_schemas env) t)"
    and block: "mongo_block t = Some q"
    and parsed: "parse_query (env_parse env) q = Inr (c, pl)"
    and runs: "\<forall>f. exec pl f c = Inr r"
  shows "process model exec env p a s = None"
proof -
  have round: "\<exists>p' a' s'. process_round model exec env p a s = Next p' a' s'" for p a s
  proof -
    obtain s1 where "run_generation model p 0 s = (Inr t, s1)"
      using reply by (simp add: run_generation_Chunks)
    then show ?thesis using visible block parsed runs
      by (cases "validateResponseAccess (env_acc env) (env_schemas env) t") (simp add: process_round_def Let_def)
  qed
  have False if ret: "process model exec env p a s = Some y" for y
  proof -
    have "model = model \<and> exec = exec \<and> env = env \<longrightarrow> False"
    proof (rule process.raw_induct [where P = "\<lambda>m x v p a s y. m = model \<and> x = exec \<and> v = env \<longrightarrow> False",
          OF _ ret])
      fix f m x v p a s y
      assume IH: "\<And>m' x' v' p' a' s' y'. f m' x' v' p' a' s' = Some y' \<Longrightarrow>
                    m' = model \<and> x' = exec \<and> v' = env \<longrightarrow> False"
        and eq: "(case process_round m x v p a s of Done s' \<Rightarrow> Some s'
                  | Next p' a' s' \<Rightarrow> f m x v p' a' s') = Some y"
      show "m = model \<and> x = exec \<and> v = env \<longrightarrow> False"
      proof
        assume "m = model \<and> x = exec \<and> v = env"
        then have m: "m = model" "x = exec" "v = env" by auto
        from round obtain p' a' s' where "process_round model exec env p a s = Next p' a' s'" by blast
        with eq m have "f model exec env p' a' s' = Some y" by simp
        then show False using IH by blast
      qed
    qed
    then show False by simp
  qed
  then show ?thesis by (cases "process model exec env p a s") auto
qed


text \<open>
  A certificate or network error does not reach the user: \<open>runGeneration\<close> shows the
  SSL diagnostic and returns the empty text, which the caller then treats as a normal answer and
  shows instead, so the final message is empty. The specification says a transport error is
  terminal with its diagnostic surfaced.
\<close>

theorem ssl_diagnostic_overwritten:
  assumes "model (cv_calls s) p = Fail e" "is_cert_error e"
    and "fst (validateResponseAccess (env_acc env) (env_schemas env) [])"
  shows "\<exists>s'. process model exec env p a s = Some s' \<and> cv_slot s' = MText [] \<and> MSsl \<in> set (cv_shown s')"
proof -
  have rg: "run_generation model p 0 s =
      (Inr [], set_slot (s\<lparr>cv_calls := Suc (cv_calls s), cv_sent := cv_sent s @ [p]\<rparr>) MSsl)"
    using assms(1,2) by (simp add: run_generation_stop)
  then show ?thesis using assms(3)
    by (cases "validateResponseAccess (env_acc env) (env_schemas env) []")
       (simp add: process.simps process_round_def removeQueryFromResponse_def)
qed

text \<open>
  C30. A question that the question check refuses is answered with the access notice without
  any model call and without any prompt sent.
\<close>

theorem handle_send_refused:
  assumes "trim text \<noteq> []" "\<not> fst (validateQuestionAccess (env_acc env) (env_schemas env) (trim text))"
  shows "\<exists>s' u. handle_send model exec env text s = Some s' \<and> cv_calls s' = cv_calls s \<and>
           cv_sent s' = cv_sent s \<and> cv_slot s' = MQuestionDenied u"
  using assms
  by (cases "validateQuestionAccess (env_acc env) (env_schemas env) (trim text)") (auto simp: handle_send_def)

text \<open>
  While a reply streams in, the slot shows each prefix of the reply as it grows and at
  the end the whole reply, before any response check and before query blocks are removed: a
  query block the model writes is shown to the user. The specification says users never see the
  queries (and that streamed text is a prefix of the final text).
\<close>

theorem streamed_reply_shown:
  assumes "model (cv_calls s) p = Chunks cs" "run_generation model p a s = (r, s')"
  shows "r = Inr (concat cs) \<and>
         (\<forall>m \<in> set (drop (length (cv_shown s)) (cv_shown s')). \<exists>u. m = MStream u \<and> prefix u (concat cs)) \<and>
         (concat cs \<noteq> [] \<longrightarrow> cv_slot s' = MStream (concat cs))"
proof -
  obtain t s2 where st: "stream [] cs (s\<lparr>cv_calls := Suc (cv_calls s), cv_sent := cv_sent s @ [p]\<rparr>) = (t, s2)"
    by fastforce
  have rs: "r = Inr (concat cs)" "s' = s2" using assms st by (simp_all add: run_generation_Chunks)
  from stream_facts [OF st] obtain ms where
    "cv_shown s2 = cv_shown s @ ms" "\<forall>m \<in> set ms. \<exists>u. m = MStream u \<and> prefix [] u \<and> prefix u t"
    "t = concat cs" "concat cs \<noteq> [] \<longrightarrow> cv_slot s2 = MStream t" by auto
  then show ?thesis using rs by auto
qed

text \<open>A round whose reply holds a query that the executor rejects (other than for access).\<close>

lemma process_round_query_fails:
  assumes "model (cv_calls s) p = Chunks [reply]" "fst (validateResponseAccess (env_acc env) (env_schemas env) reply)"
    "mongo_block reply = Some q" "parse_query (env_parse env) q = Inr (c, pl)"
    "exec pl (query_file (env_attachments env) c) c = Inl err" "\<not> contains err ''Access denied''"
  shows "\<exists>s'. process_round model exec env p a s = Next (if a < 2 then PRepair err (env_tables env) else PFallback err) (Suc a) s'"
proof -
  obtain r s1 where rg: "run_generation model p 0 s = (r, s1)" by fastforce
  have r: "r = Inr reply" using streamed_reply_shown [OF assms(1) rg] by simp
  obtain u where v: "validateResponseAccess (env_acc env) (env_schemas env) reply = (True, u)"
    using assms(2) by (metis prod.collapse)
  show ?thesis using rg r v assms(3-6) by (simp add: process_round_def Let_def)
qed

text \<open>
  C28. The repair budget of a turn: in every round a turn reaches, the repair prompts issued so
  far number exactly the smaller of the attempt count and 2. The first two failed queries of a
  turn are answered with a repair prompt, every later one with the fallback prompt, and a
  successful query changes neither count.
\<close>

theorem repair_rounds_exact:
  "turn_reach model exec env p a s r \<Longrightarrow> r = min a 2"
proof (induction rule: turn_reach.induct)
  case (start p s)
  then show ?case by simp
next
  case (step p a s r p' a' s')
  from process_round_attempt [OF step.hyps(2)] step.IH show ?case
    by (cases p') auto
qed


text \<open>
  Removing query blocks is one pass and can rebuild a block: on this reply the cleaned
  text still contains a \<open>```mongodb\<close> fence.
\<close>

theorem remove_query_incomplete:
  "contains (removeQueryFromResponse ''```mo```mongodb x```ngodb y```'') ''```mongodb''"
  by code_simp

section \<open>Witnesses\<close>

theorem process_terminates_witness:
  "\<exists>s'. process (\<lambda>i q. Chunks [''Thane generated 12000.'']) (\<lambda>_ _ _. Inl ''unused'') demo_env
         (PFallback []) 0 conv_init = Some s'"
proof (rule process_terminates [where k = 0])
  show "\<forall>i \<ge> 0. \<forall>q. case (\<lambda>i q. Chunks [''Thane generated 12000.'']) i q of
          Chunks cs \<Rightarrow> mongo_block (concat cs) = None | Fail _ \<Rightarrow> True"
  proof -
    have "mongo_block (concat [''Thane generated 12000.'']) = None" by code_simp
    then show ?thesis by simp
  qed
qed

theorem process_never_ends_witness:
  "process (\<lambda>i q. Chunks [query_reply]) (\<lambda>_ _ _. Inr (JArr [])) demo_env (PFallback []) 0 conv_init = None"
proof (rule process_never_ends)
  show "\<forall>i q. Chunks [query_reply] = Chunks [query_reply]" by simp
  show "fst (validateResponseAccess (env_acc demo_env) (env_schemas demo_env) query_reply)"
    by (simp add: demo_env_def validateResponseAccess_def)
  show "mongo_block query_reply = Some ''{\"collection\": \"data_revenue\", \"pipeline\": []}''"
    by code_simp
  show "parse_query (env_parse demo_env) ''{\"collection\": \"data_revenue\", \"pipeline\": []}'' =
      Inr (JStr ''data_revenue'', JArr [])"
    by code_simp
  show "\<forall>f. Inr (JArr []) = (Inr (JArr []) :: string + json)" by simp
qed

theorem ssl_diagnostic_overwritten_witness:
  "\<exists>s'. process (\<lambda>i q. Fail fetch_error) (\<lambda>_ _ _. Inl []) demo_env (PFallback []) 0 conv_init = Some s' \<and>
     cv_slot s' = MText [] \<and> MSsl \<in> set (cv_shown s')"
proof (rule ssl_diagnostic_overwritten)
  show "Fail fetch_error = Fail fetch_error" by simp
  show "is_cert_error fetch_error" by code_simp
  show "fst (validateResponseAccess (env_acc demo_env) (env_schemas demo_env) [])"
    by (simp add: demo_env_def validateResponseAccess_def)
qed

theorem handle_send_refused_witness:
  "\<exists>s' u. handle_send (\<lambda>i q. Fail fetch_error) (\<lambda>_ _ _. Inl []) (demo_env\<lparr>env_acc := [''CRM leads.csv''],
       env_schemas := revenue_crm_schemas\<rparr>) ''what is our revenue in Thane'' conv_init = Some s' \<and>
     cv_calls s' = cv_calls conv_init \<and> cv_sent s' = cv_sent conv_init \<and> cv_slot s' = MQuestionDenied u"
proof (rule handle_send_refused)
  show "trim ''what is our revenue in Thane'' \<noteq> []" by code_simp
  show "\<not> fst (validateQuestionAccess (env_acc (demo_env\<lparr>env_acc := [''CRM leads.csv''],
       env_schemas := revenue_crm_schemas\<rparr>)) (env_schemas (demo_env\<lparr>env_acc := [''CRM leads.csv''],
       env_schemas := revenue_crm_schemas\<rparr>)) (trim ''what is our revenue in Thane''))"
    by code_simp
qed

theorem streamed_reply_shown_witness:
  "fst (run_generation (\<lambda>i q. Chunks [''```mongodb'', '' {}```'']) (PFallback []) 0 conv_init) =
     Inr ''```mongodb {}```'' \<and>
   cv_slot (snd (run_generation (\<lambda>i q. Chunks [''```mongodb'', '' {}```'']) (PFallback []) 0 conv_init)) =
     MStream ''```mongodb {}```''"
  using streamed_reply_shown [where model = "\<lambda>i q. Chunks [''```mongodb'', '' {}```'']" and
      cs = "[''```mongodb'', '' {}```'']" and p = "PFallback []" and a = 0 and s = conv_init,
      OF _ prod.collapse [symmetric]]
  by simp

theorem repair_rounds_exact_witness:
  "\<exists>p s r. turn_reach (\<lambda>i q. Chunks [query_reply]) (\<lambda>_ _ _. Inl ''boom'') demo_env p 3 s r \<and> r = 2 \<and>
     (\<exists>e. p = PFallback e)"
proof -
  let ?M = "\<lambda>i q. Chunks [query_reply]" and ?E = "\<lambda>_ _ _. Inl ''boom'' :: string + json"
  have v: "fst (validateResponseAccess (env_acc demo_env) (env_schemas demo_env) query_reply)"
    by (simp add: demo_env_def validateResponseAccess_def)
  have b: "mongo_block query_reply = Some ''{\"collection\": \"data_revenue\", \"pipeline\": []}''"
    by code_simp
  have q: "parse_query (env_parse demo_env) ''{\"collection\": \"data_revenue\", \"pipeline\": []}'' =
      Inr (JStr ''data_revenue'', JArr [])"
    by code_simp
  have nd: "\<not> contains ''boom'' ''Access denied''" by code_simp
  have rd: "\<And>a s. \<exists>s'. process_round ?M ?E demo_env p a s =
      Next (if a < 2 then PRepair ''boom'' (env_tables demo_env) else PFallback ''boom'') (Suc a) s'" for p
    using process_round_query_fails [OF _ v b q _ nd] by simp
  obtain s1 where 1: "process_round ?M ?E demo_env (PFallback []) 0 conv_init = Next (PRepair ''boom'' (env_tables demo_env)) 1 s1"
    using rd [of "PFallback []" 0 conv_init] by auto
  obtain s2 where 2: "process_round ?M ?E demo_env (PRepair ''boom'' (env_tables demo_env)) 1 s1 =
      Next (PRepair ''boom'' (env_tables demo_env)) 2 s2"
    using rd [of "PRepair ''boom'' (env_tables demo_env)" 1 s1] by auto
  obtain s3 where 3: "process_round ?M ?E demo_env (PRepair ''boom'' (env_tables demo_env)) 2 s2 =
      Next (PFallback ''boom'') 3 s3"
    using rd [of "PRepair ''boom'' (env_tables demo_env)" 2 s2] by (auto simp: numeral_3_eq_3)
  have "turn_reach ?M ?E demo_env (PFallback ''boom'') 3 s3 (0 + 1 + 1 + 0)"
    using turn_reach.step [OF turn_reach.step [OF turn_reach.step [OF turn_reach.start 1] 2] 3] by simp
  then have "turn_reach ?M ?E demo_env (PFallback ''boom'') 3 s3 2" by (simp add: numeral_2_eq_2)
  moreover have "(2::nat) = min 3 2"
    using repair_rounds_exact [OF calculation] .
  ultimately show ?thesis by blast
qed


end
