(* ===== verification/Users.thy ===== *)
theory Users
  imports Access
begin

text \<open>
  User accounts and their HTTP API (\<open>src/backend/server.js\<close>): the default administrator
  that \<open>connectDB\<close> creates (88--104), the middleware \<open>authenticateToken\<close> (169--191) and
  \<open>requireAdmin\<close> (194--210), \<open>POST /api/auth/login\<close> (445--498), \<open>GET /api/auth/me\<close>
  (501--523), \<open>POST /api/auth/logout\<close> (526--528), \<open>GET /api/user/files\<close> (1099--1122,
  through \<open>user_files_endpoint\<close> of the theory Access) and the administrator's user management:
  listing (535--560), adding (563--660), deleting (663--687), changing the role (690--722),
  reading and setting a user's accessible files (1038--1096).
  bcrypt and jsonwebtoken are parameters (the record \<open>crypto\<close>): \<open>cr_hash pw\<close> is
  \<open>bcrypt.hash(pw, 10)\<close>, \<open>cr_check pw h\<close> is \<open>bcrypt.compare\<close>, \<open>cr_sign c\<close> is the token
  \<open>jwt.sign\<close> issues for the claims \<open>c\<close>, and \<open>cr_verify t\<close> the claims \<open>jwt.verify\<close> accepts
  for the token \<open>t\<close> at the time of the request (\<open>None\<close> for a bad or expired token).
  Times are natural numbers of seconds, and a date in a JSON body is that number.
  The \<open>email\<close> and \<open>password\<close> of login and of adding a user are JSON values of the body
  (\<open>None\<close> when absent), so that a non-string value takes the path the code takes: a
  \<open>TypeError\<close> of \<open>email.toLowerCase()\<close> or bcryptjs's \<open>Illegal arguments\<close> rejection, caught by the
  route's \<open>catch\<close> and answered 500. The other body fields are modelled with string values: a role
  is an optional string and \<open>accessibleFiles\<close> and \<open>fileNames\<close> an optional list of strings
  (\<open>None\<close> when the value is not an array); a non-string role or array element would be stored as
  it is, which the string-typed user documents do not represent. The MongoDB driver does not fail,
  so the \<open>catch\<close> blocks are reached only through those type errors; the development-mode fields
  \<open>details\<close> and \<open>errorCode\<close> of a 500 answer are not modelled.
  Not kept: the \<open>userId\<close> claim (\<open>user._id\<close>), read only as the fallback of \<open>addedBy\<close> when the
  token's email is empty, which no token that \<open>login\<close> signs has; the users' \<open>_id\<close>; the fields
  \<open>updatedAt\<close>, \<open>updatedBy\<close>, \<open>filesUpdatedAt\<close>, \<open>filesUpdatedBy\<close>, which nothing reads.
\<close>

section \<open>Tokens and middleware\<close>

text \<open>The claims of a token: \<open>email\<close>, \<open>role\<close> and the expiry \<open>exp\<close>.\<close>

record claims =
  c_email :: string
  c_role :: string
  c_exp :: nat

text \<open>The library functions the routes call: bcrypt, jsonwebtoken, and \<open>String(n)\<close> of the
  runtime for a number (number formatting is a parameter throughout the development).\<close>

record crypto =
  cr_hash :: "string \<Rightarrow> string"
  cr_check :: "string \<Rightarrow> string \<Rightarrow> bool"
  cr_sign :: "claims \<Rightarrow> string"
  cr_verify :: "string \<Rightarrow> claims option"
  cr_num :: "rat \<Rightarrow> string"

text \<open>\<open>expiresIn: '7d'\<close>.\<close>

definition token_lifetime :: nat where
  "token_lifetime = 7 * 24 * 3600"

text \<open>\<open>s.split(c)\<close> with a one-character separator.\<close>

fun js_split :: "char \<Rightarrow> string \<Rightarrow> string list" where
  "js_split c [] = [[]]"
| "js_split c (x # xs) =
     (if x = c then [] # js_split c xs
      else (case js_split c xs of [] \<Rightarrow> [[x]] | w # ws \<Rightarrow> (x # w) # ws))"

text \<open>\<open>authHeader && authHeader.split(' ')[1]\<close>, read as a token when truthy.\<close>

definition bearer_token :: "string option \<Rightarrow> string option" where
  "bearer_token h =
     (case h of
        None \<Rightarrow> None
      | Some s \<Rightarrow> if s = [] then None
                 else (case js_split CHR '' '' s of _ # t # _ \<Rightarrow> if t = [] then None else Some t | _ \<Rightarrow> None))"

definition authenticateToken :: "(string \<Rightarrow> claims option) \<Rightarrow> string option \<Rightarrow> resp + claims" where
  "authenticateToken verify h =
     (case bearer_token h of
        None \<Rightarrow> Inl (err_resp 401 ''Access token required'')
      | Some t \<Rightarrow> (case verify t of
                    None \<Rightarrow> Inl (err_resp 403 ''Invalid or expired token'')
                  | Some c \<Rightarrow> Inr c))"

definition requireAdmin :: "claims \<Rightarrow> resp option" where
  "requireAdmin c = (if c_role c \<noteq> ''admin'' then Some (err_resp 403 ''Admin access required'') else None)"

section \<open>Accounts\<close>

text \<open>The default administrator \<open>connectDB\<close> inserts when there is none.\<close>

definition seed_admin :: "(string \<Rightarrow> string) \<Rightarrow> nat \<Rightarrow> db \<Rightarrow> db" where
  "seed_admin hash now d =
     (if find_user d ''admin@indira.com'' = None
      then d\<lparr>users := users d @ [\<lparr>u_email = ''admin@indira.com'', u_hash = hash ''admin123'',
               u_role = ''admin'', u_files = [], u_created = now, u_lastLogin = None, u_addedBy = []\<rparr>],
             next_oid := Suc (next_oid d)\<rparr>
      else d)"

text \<open>A value of the request body; \<open>None\<close> when the property is absent.\<close>

type_synonym field = "json option"

text \<open>The answer of a route's \<open>catch\<close>: login's, and adding a user's with the error's message.\<close>

definition server_error :: resp where
  "server_error = err_resp 500 ''Internal server error''"

definition add_user_error :: "string \<Rightarrow> resp" where
  "add_user_error m = Resp 500 (JObj [(''error'', JStr ''Internal server error''), (''message'', JStr m)])"

text \<open>\<open>typeof v\<close> of a JSON value.\<close>

definition js_typeof :: "json \<Rightarrow> string" where
  "js_typeof v = (case v of JBool _ \<Rightarrow> ''boolean'' | JNum _ \<Rightarrow> ''number'' | JStr _ \<Rightarrow> ''string'' | _ \<Rightarrow> ''object'')"

text \<open>\<open>POST /api/auth/login\<close> on a connected database: a non-string email throws at
  \<open>toLowerCase\<close>, a non-string password makes \<open>bcrypt.compare\<close> reject.\<close>

definition login :: "(string \<Rightarrow> string \<Rightarrow> bool) \<Rightarrow> (claims \<Rightarrow> string) \<Rightarrow> nat \<Rightarrow>
    field \<Rightarrow> field \<Rightarrow> db \<Rightarrow> resp \<times> db" where
  "login check sign now email password d =
     (if \<not> js_truthy_opt email \<or> \<not> js_truthy_opt password then (err_resp 400 ''Email and password are required'', d)
      else case email of
        Some (JStr e) \<Rightarrow>
          (case find_user d (lower e) of
             None \<Rightarrow> (err_resp 401 ''Invalid email or password'', d)
           | Some u \<Rightarrow>
               (case password of
                  Some (JStr p) \<Rightarrow>
          if \<not> check p (u_hash u) then (err_resp 401 ''Invalid email or password'', d)
          else (Resp 200 (JObj [(''token'', JStr (sign \<lparr>c_email = u_email u, c_role = u_role u,
                                                       c_exp = now + token_lifetime\<rparr>)),
                               (''user'', JObj [(''email'', JStr (u_email u)), (''role'', JStr (u_role u)),
                                                (''createdAt'', JNum (of_nat (u_created u)))])]),
                d\<lparr>users := update_first (\<lambda>v. v = u) (\<lambda>v. v\<lparr>u_lastLogin := Some now\<rparr>) (users d)\<rparr>)
                | _ \<Rightarrow> (server_error, d)))
      | _ \<Rightarrow> (server_error, d))"

definition date_json :: "nat option \<Rightarrow> json" where
  "date_json t = (case t of None \<Rightarrow> JNull | Some n \<Rightarrow> JNum (of_nat n))"

definition auth_me :: "claims \<Rightarrow> db \<Rightarrow> resp" where
  "auth_me c d =
     (case find_user d (c_email c) of
        None \<Rightarrow> err_resp 404 ''User not found''
      | Some u \<Rightarrow> Resp 200 (JObj [(''email'', JStr (u_email u)), (''role'', JStr (u_role u)),
                   (''createdAt'', JNum (of_nat (u_created u))), (''lastLogin'', date_json (u_lastLogin u))]))"

definition logout :: resp where
  "logout = Resp 200 (JObj [(''message'', JStr ''Logged out successfully'')])"

text \<open>\<open>GET /api/user/files\<close> as a response.\<close>

definition user_files_resp :: "claims \<Rightarrow> db \<Rightarrow> resp" where
  "user_files_resp c d =
     (case user_files_endpoint d (c_email c) of
        None \<Rightarrow> err_resp 404 ''User not found''
      | Some fs \<Rightarrow> Resp 200 (JArr (map JStr fs)))"

section \<open>User management\<close>

text \<open>A user without \<open>passwordHash\<close>, with \<open>fileCount\<close> added.\<close>

definition user_json :: "user_doc \<Rightarrow> json" where
  "user_json u =
     JObj [(''email'', JStr (u_email u)), (''role'', JStr (u_role u)),
           (''accessibleFiles'', JArr (map JStr (u_files u))), (''createdAt'', JNum (of_nat (u_created u))),
           (''lastLogin'', date_json (u_lastLogin u)), (''addedBy'', JStr (u_addedBy u)),
           (''fileCount'', JNum (of_nat (length (u_files u))))]"

text \<open>\<open>.sort({ createdAt: -1 })\<close>; users created at the same time keep their natural order.\<close>

definition list_users :: "db \<Rightarrow> resp" where
  "list_users d = Resp 200 (JArr (map user_json (sort_key (\<lambda>u. - int (u_created u)) (users d))))"

text \<open>\<open>/^[^\s@]+@[^\s@]+\.[^\s@]+$/\<close>: no white space, exactly one \<open>@\<close> with a non-empty
  part before it, and after it a dot that is neither the first nor the last character.\<close>

definition valid_email :: "string \<Rightarrow> bool" where
  "valid_email s \<longleftrightarrow>
     \<not> list_ex is_js_space s \<and>
     (case js_split CHR ''@'' s of [a, host] \<Rightarrow> a \<noteq> [] \<and> CHR ''.'' \<in> set (butlast (tl host)) | _ \<Rightarrow> False)"

definition added_by :: "claims \<Rightarrow> string" where
  "added_by c = (if c_email c \<noteq> [] then c_email c else ''system'')"

definition role_or_user :: "string option \<Rightarrow> string" where
  "role_or_user r = (if truthy r then or_empty r else ''user'')"

definition files_or_empty :: "string list option \<Rightarrow> string list" where
  "files_or_empty fs = (case fs of None \<Rightarrow> [] | Some xs \<Rightarrow> xs)"

text \<open>\<open>POST /api/admin/users\<close> after its middleware: \<open>emailRegex.test(email)\<close> converts the
  value to a string; then \<open>email.toLowerCase()\<close> throws for a non-string, and
  \<open>bcrypt.hash(password, 10)\<close> rejects a non-string password.\<close>

definition add_user :: "(string \<Rightarrow> string) \<Rightarrow> (rat \<Rightarrow> string) \<Rightarrow> nat \<Rightarrow> claims \<Rightarrow> field \<Rightarrow> field \<Rightarrow>
    string option \<Rightarrow> string list option \<Rightarrow> db \<Rightarrow> resp \<times> db" where
  "add_user hash pn now c email password role files d =
     (if \<not> js_truthy_opt email \<or> \<not> js_truthy_opt password then (err_resp 400 ''Email and password are required'', d)
      else if \<not> valid_email (js_to_str pn (the email)) then (err_resp 400 ''Invalid email format'', d)
      else case email of
        Some (JStr em) \<Rightarrow>
      if find_user d (lower em) \<noteq> None
      then (err_resp 409 ''User with this email already exists'', d)
      else (case password of
        Some (JStr pw) \<Rightarrow>
        (let e = lower em;
             u = \<lparr>u_email = e, u_hash = hash pw, u_role = role_or_user role,
                  u_files = files_or_empty files, u_created = now, u_lastLogin = None, u_addedBy = added_by c\<rparr>
         in (Resp 201 (JObj [(''_id'', JOid (next_oid d)), (''email'', JStr e), (''role'', JStr (role_or_user role)),
                             (''accessibleFiles'', JArr (map JStr (files_or_empty files))),
                             (''createdAt'', JNum (of_nat now))]),
             d\<lparr>users := users d @ [u], next_oid := Suc (next_oid d)\<rparr>))
      | Some p \<Rightarrow> (add_user_error (''Illegal arguments: '' @ js_typeof p @ '', number''), d)
      | None \<Rightarrow> (server_error, d))
      | _ \<Rightarrow> (add_user_error ''email.toLowerCase is not a function'', d))"

text \<open>The user document \<open>insertOne\<close> stores.\<close>

definition new_user :: "(string \<Rightarrow> string) \<Rightarrow> nat \<Rightarrow> claims \<Rightarrow> string \<Rightarrow> string \<Rightarrow> string option \<Rightarrow>
    string list option \<Rightarrow> user_doc" where
  "new_user hash now c em pw role files =
     \<lparr>u_email = lower em, u_hash = hash pw, u_role = role_or_user role, u_files = files_or_empty files,
      u_created = now, u_lastLogin = None, u_addedBy = added_by c\<rparr>"

text \<open>\<open>deleteOne\<close>: the first matching document.\<close>

fun delete_first :: "('a \<Rightarrow> bool) \<Rightarrow> 'a list \<Rightarrow> 'a list" where
  "delete_first P [] = []"
| "delete_first P (x # xs) = (if P x then xs else x # delete_first P xs)"

definition delete_user :: "claims \<Rightarrow> string \<Rightarrow> db \<Rightarrow> resp \<times> db" where
  "delete_user c email d =
     (if lower email = lower (c_email c) then (err_resp 400 ''Cannot delete your own account'', d)
      else if find_user d (lower email) = None then (err_resp 404 ''User not found'', d)
      else (Resp 200 (JObj [(''message'', JStr ''User deleted successfully'')]),
            d\<lparr>users := delete_first (\<lambda>u. u_email u = lower email) (users d)\<rparr>))"

definition update_role :: "claims \<Rightarrow> string \<Rightarrow> string option \<Rightarrow> db \<Rightarrow> resp \<times> db" where
  "update_role c email role d =
     (if \<not> truthy role \<or> or_empty role \<notin> set [''admin'', ''user'']
      then (err_resp 400 ''Valid role (admin or user) is required'', d)
      else if lower email = lower (c_email c) then (err_resp 400 ''Cannot change your own role'', d)
      else if find_user d (lower email) = None then (err_resp 404 ''User not found'', d)
      else (Resp 200 (JObj [(''message'', JStr ''User role updated successfully'')]),
            d\<lparr>users := update_first (\<lambda>u. u_email u = lower email) (\<lambda>u. u\<lparr>u_role := or_empty role\<rparr>) (users d)\<rparr>))"

definition get_user_files :: "string \<Rightarrow> db \<Rightarrow> resp" where
  "get_user_files email d =
     (case find_user d (lower email) of
        None \<Rightarrow> err_resp 404 ''User not found''
      | Some u \<Rightarrow> Resp 200 (JArr (map JStr (u_files u))))"

definition set_user_files :: "string \<Rightarrow> string list option \<Rightarrow> db \<Rightarrow> resp \<times> db" where
  "set_user_files email fileNames d =
     (case fileNames of
        None \<Rightarrow> (err_resp 400 ''fileNames must be an array'', d)
      | Some fs \<Rightarrow>
          if find_user d (lower email) = None then (err_resp 404 ''User not found'', d)
          else (Resp 200 (JObj [(''message'', JStr ''User file access updated successfully''),
                                (''accessibleFiles'', JArr (map JStr fs))]),
                d\<lparr>users := update_first (\<lambda>u. u_email u = lower email) (\<lambda>u. u\<lparr>u_files := fs\<rparr>) (users d)\<rparr>))"

section \<open>Routes\<close>

datatype admin_req =
    ListUsers
  | AddUser field field "string option" "string list option"
  | DeleteUser string
  | UpdateRole string "string option"
  | GetUserFiles string
  | SetUserFiles string "string list option"

datatype user_req = Login field field | Me | Logout | UserFiles | Admin admin_req

fun admin_op :: "crypto \<Rightarrow> nat \<Rightarrow> claims \<Rightarrow> admin_req \<Rightarrow> db \<Rightarrow> resp \<times> db" where
  "admin_op cr now c ListUsers d = (list_users d, d)"
| "admin_op cr now c (AddUser e p r fs) d = add_user (cr_hash cr) (cr_num cr) now c e p r fs d"
| "admin_op cr now c (DeleteUser e) d = delete_user c e d"
| "admin_op cr now c (UpdateRole e r) d = update_role c e r d"
| "admin_op cr now c (GetUserFiles e) d = (get_user_files e d, d)"
| "admin_op cr now c (SetUserFiles e fs) d = set_user_files e fs d"

text \<open>The routes with their middleware: login is public, the others run
  \<open>authenticateToken\<close>, and the administrator's routes \<open>requireAdmin\<close> after it.\<close>

fun user_api :: "crypto \<Rightarrow> nat \<Rightarrow> string option \<Rightarrow> user_req \<Rightarrow> db \<Rightarrow> resp \<times> db" where
  "user_api cr now h (Login e p) d = login (cr_check cr) (cr_sign cr) now e p d"
| "user_api cr now h Me d =
     (case authenticateToken (cr_verify cr) h of Inl r \<Rightarrow> (r, d) | Inr c \<Rightarrow> (auth_me c d, d))"
| "user_api cr now h Logout d =
     (case authenticateToken (cr_verify cr) h of Inl r \<Rightarrow> (r, d) | Inr c \<Rightarrow> (logout, d))"
| "user_api cr now h UserFiles d =
     (case authenticateToken (cr_verify cr) h of Inl r \<Rightarrow> (r, d) | Inr c \<Rightarrow> (user_files_resp c d, d))"
| "user_api cr now h (Admin a) d =
     (case authenticateToken (cr_verify cr) h of
        Inl r \<Rightarrow> (r, d)
      | Inr c \<Rightarrow> (case requireAdmin c of Some r \<Rightarrow> (r, d) | None \<Rightarrow> admin_op cr now c a d))"

section \<open>Response shape\<close>

text \<open>An \<open>{ error, ... }\<close> body.\<close>

definition error_body :: "json \<Rightarrow> bool" where
  "error_body b \<longleftrightarrow> (case b of JObj ((k, JStr _) # _) \<Rightarrow> k = ''error'' | _ \<Rightarrow> False)"

text \<open>A body field that passes the \<open>!x\<close> test but is not a string.\<close>

definition non_string :: "field \<Rightarrow> bool" where
  "non_string f \<longleftrightarrow> (case f of Some (JStr _) \<Rightarrow> False | Some v \<Rightarrow> js_truthy v | None \<Rightarrow> False)"

fun body_type_error :: "user_req \<Rightarrow> bool" where
  "body_type_error (Login e p) \<longleftrightarrow> non_string e \<or> non_string p"
| "body_type_error (Admin (AddUser e p r fs)) \<longleftrightarrow> non_string e \<or> non_string p"
| "body_type_error _ \<longleftrightarrow> False"

section \<open>Invariant and abstract directory\<close>

text \<open>The unique index on \<open>email\<close> and the lower-case form every stored email has.\<close>

definition wf_users :: "db \<Rightarrow> bool" where
  "wf_users d \<longleftrightarrow> distinct (map u_email (users d)) \<and> list_all (\<lambda>u. lower (u_email u) = u_email u) (users d)"

text \<open>The roles the specification allows.\<close>

definition roles_ok :: "db \<Rightarrow> bool" where
  "roles_ok d \<longleftrightarrow> list_all (\<lambda>u. u_role u \<in> set [''admin'', ''user'']) (users d)"

text \<open>What the user API promises: a directory from email to role and accessible files, and
  its operations.\<close>

type_synonym directory = "string \<rightharpoonup> string \<times> string list"

definition accounts :: "db \<Rightarrow> directory" where
  "accounts d = map_of (map (\<lambda>u. (u_email u, (u_role u, u_files u))) (users d))"

fun dir_step :: "claims \<Rightarrow> admin_req \<Rightarrow> directory \<Rightarrow> directory" where
  "dir_step c ListUsers m = m"
| "dir_step c (GetUserFiles e) m = m"
| "dir_step c (AddUser e p r fs) m =
     (case (e, p) of
        (Some (JStr em), Some (JStr pw)) \<Rightarrow>
          if em \<noteq> [] \<and> pw \<noteq> [] \<and> valid_email em \<and> m (lower em) = None
          then m(lower em \<mapsto> (role_or_user r, files_or_empty fs)) else m
      | _ \<Rightarrow> m)"
| "dir_step c (DeleteUser e) m = (if lower e = lower (c_email c) then m else m(lower e := None))"
| "dir_step c (UpdateRole e r) m =
     (if truthy r \<and> or_empty r \<in> set [''admin'', ''user''] \<and> lower e \<noteq> lower (c_email c)
      then (case m (lower e) of None \<Rightarrow> m | Some (_, fs) \<Rightarrow> m(lower e \<mapsto> (or_empty r, fs))) else m)"
| "dir_step c (SetUserFiles e fs) m =
     (case fs of None \<Rightarrow> m
      | Some xs \<Rightarrow> (case m (lower e) of None \<Rightarrow> m | Some (r, _) \<Rightarrow> m(lower e \<mapsto> (r, xs))))"

section \<open>Example accounts\<close>

text \<open>Token \<open>tokA\<close> is the default administrator's, \<open>tokB\<close> a second administrator's.\<close>

definition demo_admin_claims :: claims where
  "demo_admin_claims = \<lparr>c_email = ''admin@indira.com'', c_role = ''admin'', c_exp = token_lifetime\<rparr>"

definition demo_ops_claims :: claims where
  "demo_ops_claims = \<lparr>c_email = ''ops@indira.com'', c_role = ''admin'', c_exp = token_lifetime\<rparr>"

definition demo_crypto :: crypto where
  "demo_crypto =
     \<lparr>cr_hash = (\<lambda>pw. ''h:'' @ pw), cr_check = (\<lambda>pw h. h = ''h:'' @ pw),
      cr_sign = (\<lambda>c. if c = demo_admin_claims then ''tokA'' else ''tokB''),
      cr_verify = (\<lambda>t. if t = ''tokA'' then Some demo_admin_claims
                       else if t = ''tokB'' then Some demo_ops_claims else None),
      cr_num = (\<lambda>n. show_nat (nat \<lfloor>n\<rfloor>))\<rparr>"

definition demo_ops :: user_doc where
  "demo_ops = \<lparr>u_email = ''ops@indira.com'', u_hash = ''h:ops'', u_role = ''admin'', u_files = [],
     u_created = 0, u_lastLogin = None, u_addedBy = ''admin@indira.com''\<rparr>"

definition demo_root :: user_doc where
  "demo_root = \<lparr>u_email = ''admin@indira.com'', u_hash = ''h:admin123'', u_role = ''admin'', u_files = [],
     u_created = 0, u_lastLogin = None, u_addedBy = []\<rparr>"

definition demo_users_db :: db where
  "demo_users_db = empty_db\<lparr>users := [demo_root, demo_ops]\<rparr>"


section \<open>Lemmas\<close>

lemma js_split_no_sep: "c \<notin> set t \<Longrightarrow> js_split c t = [t]"
  by (induction t) auto

lemma js_split_sep: "c \<notin> set a \<Longrightarrow> js_split c (a @ c # b) = a # js_split c b"
  by (induction a) auto

lemma bearer_token_Bearer:
  "t \<noteq> [] \<Longrightarrow> CHR '' '' \<notin> set t \<Longrightarrow> bearer_token (Some (''Bearer '' @ t)) = Some t"
  using js_split_sep [of "CHR '' ''" "''Bearer''" t] by (simp add: bearer_token_def js_split_no_sep)

lemma map_of_users: "map_of (map (\<lambda>u. (u_email u, h u)) us) e = map_option h (find (\<lambda>u. u_email u = e) us)"
  by (induction us) auto

lemma map_of_update_first:
  assumes "\<And>u. u_email (f u) = u_email u" "find (\<lambda>u. u_email u = e) us = Some u"
  shows "map_of (map (\<lambda>u. (u_email u, h u)) (update_first (\<lambda>u. u_email u = e) f us)) =
           (map_of (map (\<lambda>u. (u_email u, h u)) us))(e \<mapsto> h (f u))"
  using assms(2) by (induction us) (auto simp: assms(1) fun_eq_iff)

lemma map_of_delete_first:
  "distinct (map u_email us) \<Longrightarrow>
   map_of (map (\<lambda>u. (u_email u, h u)) (delete_first (\<lambda>u. u_email u = e) us)) =
     (map_of (map (\<lambda>u. (u_email u, h u)) us))(e := None)"
  by (induction us) (auto simp: fun_eq_iff map_of_eq_None_iff)

lemma delete_first_sub:
  "set (delete_first P xs) \<subseteq> set xs \<and> (distinct (map h xs) \<longrightarrow> distinct (map h (delete_first P xs)))"
  by (induction xs) auto

lemma find_user_None_iff: "find_user d e = None \<longleftrightarrow> e \<notin> set (map u_email (users d))"
  by (auto simp: find_user_def find_None_iff)

lemma list_all_update_first:
  "list_all Q xs \<Longrightarrow> (\<And>x. Q x \<Longrightarrow> Q (f x)) \<Longrightarrow> list_all Q (update_first P f xs)"
  by (induction xs) auto

lemma wf_users_update:
  "wf_users d \<Longrightarrow> (\<And>u. u_email (f u) = u_email u) \<Longrightarrow> wf_users (d\<lparr>users := update_first P f (users d)\<rparr>)"
proof -
  assume wf: "wf_users d" and f: "\<And>u. u_email (f u) = u_email u"
  have "map u_email (update_first P f (users d)) = map u_email (users d)"
    by (rule map_update_first) (simp add: f)
  moreover have "list_all (\<lambda>u. lower (u_email u) = u_email u) (update_first P f (users d))"
    using wf by (intro list_all_update_first) (simp_all add: wf_users_def f)
  ultimately show ?thesis using wf by (simp add: wf_users_def)
qed

lemma wf_users_append:
  "wf_users d \<Longrightarrow> find_user d (u_email u) = None \<Longrightarrow> lower (u_email u) = u_email u \<Longrightarrow>
   wf_users (d\<lparr>users := users d @ [u], next_oid := n\<rparr>)"
  by (simp add: wf_users_def find_user_None_iff)

lemma wf_users_delete: "wf_users d \<Longrightarrow> wf_users (d\<lparr>users := delete_first P (users d)\<rparr>)"
  using delete_first_sub [of P "users d" u_email]
  by (auto simp: wf_users_def list_all_iff)

lemma wf_seed_admin: "wf_users d \<Longrightarrow> wf_users (seed_admin hash now d)"
  by (simp add: seed_admin_def wf_users_append [simplified] lower_def lower_char_def is_upper_def is_ascii_upper_def)

text \<open>What login and adding a user do to the database: login changes at most one user's
  \<open>lastLogin\<close>, adding a user appends the new user or changes nothing.\<close>

lemma login_db:
  "snd (login check sign now e p d) = d \<or>
   (\<exists>u. snd (login check sign now e p d) =
          d\<lparr>users := update_first (\<lambda>v. v = u) (\<lambda>v. v\<lparr>u_lastLogin := Some now\<rparr>) (users d)\<rparr>)"
  by (auto simp: login_def split: option.split json.split)

lemma add_user_db:
  "snd (add_user hash pn now c e p role files d) = d \<or>
   (\<exists>em pw. e = Some (JStr em) \<and> p = Some (JStr pw) \<and> em \<noteq> [] \<and> pw \<noteq> [] \<and> valid_email em \<and>
      find_user d (lower em) = None \<and>
      snd (add_user hash pn now c e p role files d) =
        d\<lparr>users := users d @ [new_user hash now c em pw role files], next_oid := Suc (next_oid d)\<rparr>)"
  by (auto simp: add_user_def new_user_def Let_def js_truthy_opt_def split: option.split json.split)

lemma wf_login: "wf_users d \<Longrightarrow> wf_users (snd (login check sign now e p d))"
  using login_db [of check sign now e p d] by (auto simp: wf_users_update)

lemma wf_admin_op: "wf_users d \<Longrightarrow> wf_users (snd (admin_op cr now c a d))"
proof (cases a)
  case (AddUser e p r fs)
  assume "wf_users d"
  then show ?thesis using AddUser add_user_db [of "cr_hash cr" "cr_num cr" now c e p r fs d]
    by (auto simp: new_user_def intro!: wf_users_append)
qed (auto simp: delete_user_def update_role_def set_user_files_def wf_users_update wf_users_delete
          split: option.split)

lemma wf_user_api: "wf_users d \<Longrightarrow> wf_users (snd (user_api cr now h req d))"
  by (cases req) (auto simp: wf_login wf_admin_op split: sum.split option.split)

lemma accounts_find: "accounts d e = map_option (\<lambda>u. (u_role u, u_files u)) (find_user d e)"
  by (simp add: accounts_def find_user_def map_of_users)

lemma accounts_update:
  "find_user d e = Some u \<Longrightarrow> (\<And>u. u_email (f u) = u_email u) \<Longrightarrow>
   accounts (d\<lparr>users := update_first (\<lambda>u. u_email u = e) f (users d)\<rparr>) = (accounts d)(e \<mapsto> (u_role (f u), u_files (f u)))"
  by (simp add: accounts_def find_user_def map_of_update_first)

lemma accounts_delete:
  "wf_users d \<Longrightarrow> accounts (d\<lparr>users := delete_first (\<lambda>u. u_email u = e) (users d)\<rparr>) = (accounts d)(e := None)"
  by (simp add: accounts_def wf_users_def map_of_delete_first)

lemma map_of_snoc_new: "k \<notin> fst ` set xs \<Longrightarrow> map_of (xs @ [(k, v)]) = (map_of xs)(k \<mapsto> v)"
  by (induction xs) (auto simp: fun_eq_iff)

lemma accounts_append:
  "find_user d (u_email u) = None \<Longrightarrow>
   accounts (d\<lparr>users := users d @ [u], next_oid := n\<rparr>) = (accounts d)(u_email u \<mapsto> (u_role u, u_files u))"
  by (simp del: map_of_append add: accounts_def find_user_None_iff image_image map_of_snoc_new)

lemma accounts_login: "accounts (snd (login check sign now e p d)) = accounts d"
proof -
  have eq: "map (\<lambda>u. (u_email u, u_role u, u_files u)) (update_first (\<lambda>v. v = u) (\<lambda>v. v\<lparr>u_lastLogin := Some now\<rparr>) us) =
        map (\<lambda>u. (u_email u, u_role u, u_files u)) us" for u us
    by (rule map_update_first) simp
  show ?thesis using login_db [of check sign now e p d] by (auto simp: accounts_def eq)
qed

lemma err_resp_simps [simp]: "status (err_resp n m) = n" "body (err_resp n m) = JObj [(''error'', JStr m)]"
  by (simp_all add: err_resp_def)

lemma login_shape:
  "status (fst (login check sign now e p d)) \<in> {200, 400, 401, 500} \<and>
   (400 \<le> status (fst (login check sign now e p d)) \<longleftrightarrow> error_body (body (fst (login check sign now e p d)))) \<and>
   (status (fst (login check sign now e p d)) = 500 \<longrightarrow> non_string e \<or> non_string p)"
  by (auto simp: login_def error_body_def server_error_def non_string_def js_truthy_opt_def
      split: option.split json.split)

lemma add_user_shape:
  "status (fst (add_user hash pn now c e p r fs d)) \<in> {201, 400, 409, 500} \<and>
   (400 \<le> status (fst (add_user hash pn now c e p r fs d)) \<longleftrightarrow> error_body (body (fst (add_user hash pn now c e p r fs d)))) \<and>
   (status (fst (add_user hash pn now c e p r fs d)) = 500 \<longrightarrow> non_string e \<or> non_string p)"
  by (auto simp: add_user_def Let_def error_body_def add_user_error_def server_error_def non_string_def
      js_truthy_opt_def split: option.split json.split)

lemma admin_op_shape:
  "status (fst (admin_op cr now c a d)) \<in> {200, 201, 400, 404, 409, 500} \<and>
   (400 \<le> status (fst (admin_op cr now c a d)) \<longleftrightarrow> error_body (body (fst (admin_op cr now c a d)))) \<and>
   (status (fst (admin_op cr now c a d)) = 500 \<longrightarrow> body_type_error (Admin a))"
proof (cases a)
  case (AddUser e p r fs)
  then show ?thesis using add_user_shape [of "cr_hash cr" "cr_num cr" now c e p r fs d] by auto
qed (auto simp: list_users_def delete_user_def update_role_def error_body_def
      get_user_files_def set_user_files_def split: option.split)

lemma find_delete_first:
  "distinct (map u_email us) \<Longrightarrow> find (\<lambda>u. u_email u = e) (delete_first (\<lambda>u. u_email u = e) us) = None"
  by (induction us) (auto simp: find_None_iff rev_image_eqI)

lemma authenticate_Bearer:
  "t \<noteq> [] \<Longrightarrow> CHR '' '' \<notin> set t \<Longrightarrow> v t = Some c \<Longrightarrow> authenticateToken v (Some (''Bearer '' @ t)) = Inr c"
  unfolding authenticateToken_def using bearer_token_Bearer [of t] by simp

lemma emails_login: "map u_email (users (snd (login check sign now e p d))) = map u_email (users d)"
  using login_db [of check sign now e p d] by (auto simp: map_update_first)

lemma valid_email_nonempty: "valid_email s \<Longrightarrow> s \<noteq> []"
  by (auto simp: valid_email_def)

lemma demo_users_db_wf: "wf_users demo_users_db"
  by code_simp

lemma demo_find_root: "find_user demo_users_db ''admin@indira.com'' = Some demo_root"
  by (simp add: demo_users_db_def find_user_def demo_root_def)

section \<open>Properties of the user API\<close>

text \<open>
  C33. The user store stays well formed: emails are unique (the unique index of
  \<open>connectDB\<close>) and in lower case, after the default administrator is seeded and after every
  request of the user API, whatever the token and the body.
\<close>

theorem users_wf:
  "wf_users d \<Longrightarrow> wf_users (seed_admin hash now d) \<and> wf_users (snd (user_api cr now h req d))"
  by (simp add: wf_seed_admin wf_user_api)

text \<open>
  C34. The administrator's user operations implement the directory specification: on a
  well-formed store, the directory (email to role and accessible files) after each operation is
  the one \<open>dir_step\<close> prescribes (add a new valid email, delete another user, set a valid
  role of another user, set a user's files).
\<close>

theorem admin_op_refines:
  "wf_users d \<Longrightarrow> accounts (snd (admin_op cr now c a d)) = dir_step c a (accounts d)"
proof (cases a)
  case (AddUser e p r fs)
  show ?thesis
  proof (cases "\<exists>em pw. e = Some (JStr em) \<and> p = Some (JStr pw)")
    case True
    then show ?thesis using AddUser
      by (auto simp: add_user_def Let_def accounts_append accounts_find new_user_def js_truthy_opt_def)
  next
    case False
    then have "snd (add_user (cr_hash cr) (cr_num cr) now c e p r fs d) = d"
      using add_user_db [of "cr_hash cr" "cr_num cr" now c e p r fs d] by blast
    moreover have "dir_step c (AddUser e p r fs) (accounts d) = accounts d"
      using False by (auto split: option.split json.split)
    ultimately show ?thesis using AddUser by simp
  qed
next
  case (DeleteUser e)
  assume "wf_users d"
  then show ?thesis using DeleteUser
    by (auto simp: delete_user_def accounts_delete accounts_find fun_upd_idem)
next
  case (UpdateRole e r)
  then show ?thesis
    by (auto simp: update_role_def accounts_update accounts_find split: option.split)
next
  case (SetUserFiles e fs)
  then show ?thesis
    by (auto simp: set_user_files_def accounts_update accounts_find split: option.split)
qed simp_all

text \<open>
  C35. A request without a valid administrator's token cannot change any account: the
  directory is unchanged, and every request other than login leaves the database untouched.
\<close>

theorem non_admin_cannot_change_accounts:
  assumes "\<forall>c. authenticateToken (cr_verify cr) h = Inr c \<longrightarrow> c_role c \<noteq> ''admin''"
  shows "accounts (snd (user_api cr now h req d)) = accounts d \<and>
         ((\<forall>e p. req \<noteq> Login e p) \<longrightarrow> snd (user_api cr now h req d) = d)"
  using assms by (cases req) (auto simp: accounts_login requireAdmin_def split: sum.split option.split)

text \<open>
  C36. On a connected database every response of the user API has one of the statuses 200,
  201, 400, 401, 403, 404, 409, 500; its body is an \<open>{ error, ... }\<close> object exactly when the
  status is 400 or more; and a 500 comes only from a body field that passes the \<open>!x\<close> test
  but is not a string (an email or a password of login or of adding a user).
\<close>

theorem user_api_shape:
  "status (fst (user_api cr now h req d)) \<in> {200, 201, 400, 401, 403, 404, 409, 500} \<and>
   (400 \<le> status (fst (user_api cr now h req d)) \<longleftrightarrow> error_body (body (fst (user_api cr now h req d)))) \<and>
   (status (fst (user_api cr now h req d)) = 500 \<longrightarrow> body_type_error req)"
proof (cases req)
  case (Admin a)
  then show ?thesis using admin_op_shape [of cr now _ a d]
    by (auto simp: authenticateToken_def requireAdmin_def error_body_def split: option.split sum.split)
next
  case (Login e p)
  then show ?thesis using login_shape [of "cr_check cr" "cr_sign cr" now e p d] by auto
qed (auto simp: auth_me_def logout_def user_files_resp_def authenticateToken_def error_body_def
        split: option.split sum.split)

text \<open>
  C37. A token outlives the account it was issued for: an administrator who logs in and is
  then deleted by another administrator can still use the token on the administrator's routes,
  since \<open>requireAdmin\<close> reads the role from the token and no route looks the user up again.
\<close>

theorem revoked_admin_keeps_access:
  assumes ta: "cr_verify cr (cr_sign cr \<lparr>c_email = a, c_role = ''admin'', c_exp = now + token_lifetime\<rparr>) = Some \<lparr>c_email = a, c_role = ''admin'', c_exp = now + token_lifetime\<rparr>" "cr_sign cr \<lparr>c_email = a, c_role = ''admin'', c_exp = now + token_lifetime\<rparr> \<noteq> []" "CHR '' '' \<notin> set (cr_sign cr \<lparr>c_email = a, c_role = ''admin'', c_exp = now + token_lifetime\<rparr>)"
    and ua: "find_user d a = Some ua" "u_role ua = ''admin''" "cr_check cr p (u_hash ua)" "a \<noteq> []" "p \<noteq> []"
    and wf: "wf_users d"
    and tb: "cr_verify cr tb = Some cb" "c_role cb = ''admin''" "lower (c_email cb) \<noteq> a" "tb \<noteq> []" "CHR '' '' \<notin> set tb"
  shows "status (fst (user_api cr now None (Login (Some (JStr a)) (Some (JStr p))) d)) = 200 \<and>
         (let d1 = snd (user_api cr now None (Login (Some (JStr a)) (Some (JStr p))) d);
              d2 = snd (user_api cr now (Some (''Bearer '' @ tb)) (Admin (DeleteUser a)) d1)
          in find_user d2 a = None \<and>
             user_api cr now (Some (''Bearer '' @ cr_sign cr \<lparr>c_email = a, c_role = ''admin'', c_exp = now + token_lifetime\<rparr>)) (Admin ListUsers) d2 = (list_users d2, d2))"
proof -
  have low: "lower a = a" using wf ua(1) find_user_Some [OF ua(1)] by (auto simp: wf_users_def list_all_iff)
  have ea: "u_email ua = a" using find_user_Some [OF ua(1)] by simp
  define d1 where "d1 = snd (user_api cr now None (Login (Some (JStr a)) (Some (JStr p))) d)"
  have r1: "status (fst (user_api cr now None (Login (Some (JStr a)) (Some (JStr p))) d)) = 200"
    using ua low by (simp add: login_def js_truthy_opt_def)
  have wf1: "wf_users d1" unfolding d1_def by (rule wf_user_api [OF wf])
  have in1: "find_user d1 a \<noteq> None"
    using ua(1) find_user_None_iff [of d a] by (simp add: d1_def emails_login find_user_None_iff)
  define d2 where "d2 = snd (user_api cr now (Some (''Bearer '' @ tb)) (Admin (DeleteUser a)) d1)"
  have "authenticateToken (cr_verify cr) (Some (''Bearer '' @ tb)) = Inr cb"
    using tb by (intro authenticate_Bearer)
  then have d2: "d2 = d1\<lparr>users := delete_first (\<lambda>u. u_email u = a) (users d1)\<rparr>"
    using tb in1 low by (auto simp: d2_def requireAdmin_def delete_user_def)
  have gone: "find_user d2 a = None"
    using wf1 by (simp add: d2 find_user_def wf_users_def find_delete_first)
  have still: "user_api cr now (Some (''Bearer '' @ cr_sign cr \<lparr>c_email = a, c_role = ''admin'', c_exp = now + token_lifetime\<rparr>)) (Admin ListUsers) d2 = (list_users d2, d2)"
    using authenticate_Bearer [where v = "cr_verify cr", OF ta(2,3,1)] by (simp add: requireAdmin_def)
  show ?thesis unfolding Let_def d1_def [symmetric] d2_def [symmetric] using r1 gone still by blast
qed

text \<open>
  The roles \<open>admin\<close> and \<open>user\<close> of the specification are kept by the role update,
  which checks the role, but not by adding a user, which stores any non-empty role string:
  adding a user keeps the invariant exactly when the given role is one of the two.
\<close>

theorem add_user_role_unchecked:
  "roles_ok d \<Longrightarrow>
   roles_ok (snd (update_role c e r d)) \<and>
   (valid_email e \<and> p \<noteq> [] \<and> role \<noteq> [] \<and> find_user d (lower e) = None \<longrightarrow>
      (roles_ok (snd (add_user hash pn now c (Some (JStr e)) (Some (JStr p)) (Some role) fs d)) \<longleftrightarrow> role \<in> set [''admin'', ''user'']))"
  by (auto simp: roles_ok_def update_role_def add_user_def Let_def truthy_def or_empty_def role_or_user_def
      js_truthy_opt_def valid_email_nonempty intro!: list_all_update_first)

text \<open>
  Login does not tell an unknown email from a wrong password: both give the same 401
  response and leave the database unchanged.
\<close>

theorem login_failure_uniform:
  "e \<noteq> [] \<Longrightarrow> p \<noteq> [] \<Longrightarrow> (\<forall>u. find_user d (lower e) = Some u \<longrightarrow> \<not> check p (u_hash u)) \<Longrightarrow>
   login check sign now (Some (JStr e)) (Some (JStr p)) d = (err_resp 401 ''Invalid email or password'', d)"
  by (auto simp: login_def js_truthy_opt_def split: option.split)

section \<open>Witnesses\<close>

theorem revoked_admin_keeps_access_witness:
  "status (fst (user_api demo_crypto 0 None (Login (Some (JStr ''admin@indira.com'')) (Some (JStr ''admin123''))) demo_users_db)) = 200 \<and>
   (let d1 = snd (user_api demo_crypto 0 None (Login (Some (JStr ''admin@indira.com'')) (Some (JStr ''admin123''))) demo_users_db);
        d2 = snd (user_api demo_crypto 0 (Some (''Bearer '' @ ''tokB'')) (Admin (DeleteUser ''admin@indira.com'')) d1)
    in find_user d2 ''admin@indira.com'' = None \<and>
       user_api demo_crypto 0 (Some (''Bearer '' @ cr_sign demo_crypto
           \<lparr>c_email = ''admin@indira.com'', c_role = ''admin'', c_exp = 0 + token_lifetime\<rparr>)) (Admin ListUsers) d2 =
         (list_users d2, d2))"
proof (rule revoked_admin_keeps_access [OF _ _ _ demo_find_root _ _ _ _ demo_users_db_wf])
  show "cr_verify demo_crypto (cr_sign demo_crypto \<lparr>c_email = ''admin@indira.com'', c_role = ''admin'', c_exp = 0 + token_lifetime\<rparr>) =
        Some \<lparr>c_email = ''admin@indira.com'', c_role = ''admin'', c_exp = 0 + token_lifetime\<rparr>"
    by (simp add: demo_crypto_def demo_admin_claims_def)
  show "cr_sign demo_crypto \<lparr>c_email = ''admin@indira.com'', c_role = ''admin'', c_exp = 0 + token_lifetime\<rparr> \<noteq> []"
    by (simp add: demo_crypto_def demo_admin_claims_def)
  show "CHR '' '' \<notin> set (cr_sign demo_crypto \<lparr>c_email = ''admin@indira.com'', c_role = ''admin'', c_exp = 0 + token_lifetime\<rparr>)"
    by (simp add: demo_crypto_def demo_admin_claims_def)
  show "u_role demo_root = ''admin''" "cr_check demo_crypto ''admin123'' (u_hash demo_root)"
    by (simp_all add: demo_root_def demo_crypto_def)
  show "cr_verify demo_crypto ''tokB'' = Some demo_ops_claims" by (simp add: demo_crypto_def)
  show "c_role demo_ops_claims = ''admin''" "lower (c_email demo_ops_claims) \<noteq> ''admin@indira.com''"
    by (simp_all add: demo_ops_claims_def) code_simp
qed simp_all

theorem users_wf_witness:
  "wf_users demo_users_db \<and> wf_users (seed_admin (cr_hash demo_crypto) 5 demo_users_db) \<and>
   wf_users (snd (user_api demo_crypto 5 (Some ''Bearer tokA'') (Admin (AddUser (Some (JStr ''New@Indira.com'')) (Some (JStr ''pw'')) None None)) demo_users_db))"
  using users_wf [OF demo_users_db_wf, of "cr_hash demo_crypto" 5 demo_crypto "Some ''Bearer tokA''"
      "Admin (AddUser (Some (JStr ''New@Indira.com'')) (Some (JStr ''pw'')) None None)"] demo_users_db_wf by simp

theorem admin_op_refines_witness:
  "wf_users demo_users_db \<and>
   accounts (snd (admin_op demo_crypto 5 demo_admin_claims (DeleteUser ''OPS@indira.com'') demo_users_db)) =
     dir_step demo_admin_claims (DeleteUser ''OPS@indira.com'') (accounts demo_users_db)"
  by (rule conjI [OF demo_users_db_wf admin_op_refines [OF demo_users_db_wf]])

theorem non_admin_cannot_change_accounts_witness:
  "accounts (snd (user_api demo_crypto 5 None (Admin (DeleteUser ''ops@indira.com'')) demo_users_db)) =
     accounts demo_users_db \<and>
   snd (user_api demo_crypto 5 None (Admin (DeleteUser ''ops@indira.com'')) demo_users_db) = demo_users_db"
proof -
  have h: "\<forall>c. authenticateToken (cr_verify demo_crypto) None = Inr c \<longrightarrow> c_role c \<noteq> ''admin''"
    by (simp add: authenticateToken_def bearer_token_def)
  have "\<forall>e p. Admin (DeleteUser ''ops@indira.com'') \<noteq> Login e p" by simp
  then show ?thesis
    using non_admin_cannot_change_accounts [OF h, where req = "Admin (DeleteUser ''ops@indira.com'')"] by blast
qed

theorem add_user_role_unchecked_witness:
  "roles_ok demo_users_db \<and>
   \<not> roles_ok (snd (add_user (cr_hash demo_crypto) (cr_num demo_crypto) 5 demo_admin_claims (Some (JStr ''dev@indira.com'')) (Some (JStr ''pw''))
          (Some ''Admin'') None demo_users_db))"
proof -
  have ok: "roles_ok demo_users_db" by code_simp
  have pre: "valid_email ''dev@indira.com'' \<and> ''pw'' \<noteq> [] \<and> ''Admin'' \<noteq> [] \<and>
      find_user demo_users_db (lower ''dev@indira.com'') = None" by code_simp
  have "''Admin'' \<notin> set [''admin'', ''user'']" by simp
  then show ?thesis
    using add_user_role_unchecked [OF ok, where c = demo_admin_claims and e = "''dev@indira.com''" and
        p = "''pw''" and role = "''Admin''" and hash = "cr_hash demo_crypto" and pn = "cr_num demo_crypto" and now = 5 and fs = None] pre ok
    by blast
qed

theorem user_api_shape_witness:
  "status (fst (user_api demo_crypto 5 None (Login (Some (JNum 7)) (Some (JStr ''pw''))) demo_users_db)) = 500 \<and>
   body_type_error (Login (Some (JNum 7)) (Some (JStr ''pw'')))"
proof -
  have "status (fst (user_api demo_crypto 5 None (Login (Some (JNum 7)) (Some (JStr ''pw''))) demo_users_db)) = 500"
    by (simp add: login_def js_truthy_opt_def server_error_def)
  then show ?thesis
    using user_api_shape [of demo_crypto 5 None "Login (Some (JNum 7)) (Some (JStr ''pw''))" demo_users_db] by blast
qed

theorem login_failure_uniform_witness:
  "login (cr_check demo_crypto) (cr_sign demo_crypto) 5 (Some (JStr ''Admin@Indira.com'')) (Some (JStr ''guess'')) demo_users_db =
     (err_resp 401 ''Invalid email or password'', demo_users_db)"
proof (rule login_failure_uniform)
  show "\<forall>u. find_user demo_users_db (lower ''Admin@Indira.com'') = Some u \<longrightarrow>
          \<not> cr_check demo_crypto ''guess'' (u_hash u)"
  proof -
    have "lower ''Admin@Indira.com'' = ''admin@indira.com''" by code_simp
    then show ?thesis by (simp add: demo_find_root demo_root_def demo_crypto_def)
  qed
qed simp_all

end
