(* ===== verification/Listing.thy ===== *)
theory Listing
  imports Store
begin

text \<open>
  The answer of \<open>GET /api/admin/files\<close> (\<open>src/backend/server.js\<close>, 729--805) over the
  ordered listing \<open>list_files\<close> of the theory Store: each record is turned into its metadata
  (777--803), the file text left out. The record's \<open>_id\<close> is not kept by the model and is left
  out of the object; the branch for a missing connection (734--750) and the error branches
  (806--841) concern a database that is not modelled as absent.
\<close>

definition or_default :: "string \<Rightarrow> string \<Rightarrow> string" where
  "or_default s d = (if s \<noteq> [] then s else d)"

text \<open>The object of one file (779--788); \<open>filePath\<close> is stored as \<open>/data/\<close> and the file
  name, so \<open>file.filePath || ...\<close> is the same text.\<close>

definition file_json :: "file_doc \<Rightarrow> json" where
  "file_json f =
     JObj [(''fileName'', JStr (or_default (f_name f) ''Unknown'')),
           (''filePath'', JStr (''/data/'' @ or_default (f_name f) ''unknown'')),
           (''fileSize'', JNum (of_nat (f_size f))),
           (''uploadedAt'', JNum (of_nat (f_uploadedAt f))),
           (''uploadedBy'', JStr (or_default (f_uploadedBy f) ''Unknown'')),
           (''isActive'', JBool (f_active f)),
           (''storedInGridFS'', JBool (f_gridfs f))]"

definition admin_files_endpoint :: "db \<Rightarrow> resp" where
  "admin_files_endpoint d = Resp 200 (JArr (map file_json (list_files d)))"

section \<open>Lemmas\<close>

text \<open>The listing holds metadata only: no object has a \<open>fileContent\<close> field, every object
  is marked active.\<close>

lemma admin_files_metadata:
  "admin_files_endpoint d = Resp 200 (JArr js) \<Longrightarrow> j \<in> set js \<Longrightarrow>
   \<exists>kv. j = JObj kv \<and> obj_get kv ''fileContent'' = None \<and> obj_get kv ''isActive'' = Some (JBool True)"
  by (auto simp: admin_files_endpoint_def file_json_def list_files_def)

end
