(* ===== verification/Client.thy ===== *)
theory Client
  imports Users Listing
begin

text \<open>
  The client side of the user API (\<open>src/frontend/index.tsx\<close>): the methods of \<open>authAPI\<close>
  (1205--1431) that call the user routes, the login form's \<open>handleSubmit\<close> (1611--1626), and
  the administrator panel's handlers (\<open>loadData\<close>, \<open>handleFileUpload\<close>, \<open>handleAddUser\<close>,
  \<open>handleUserSelect\<close>, \<open>handleFileToggle\<close>, \<open>handleDeleteUser\<close>, \<open>handleUpdateRole\<close>,
  \<open>handleLogout\<close>, 1719--1858). A call is the server's route applied to the database: the
  user routes are \<open>user_api\<close> of the theory Users, the file routes \<open>files_route\<close> and
  \<open>upload_route\<close> below, over \<open>admin_files_endpoint\<close> (theory Listing) and
  \<open>upload_file\<close> (theory Store). The network is not modelled, and the server always answers
  JSON, so the content-type check of \<open>login\<close> never fires. \<open>localStorage['auth_token']\<close> is
  the optional token the functions take and return. \<open>encodeURIComponent\<close> in a path and
  Express's decoding of \<open>req.params\<close> cancel out, so the email reaches the server unchanged.
  Not modelled: multer's 500 MB size limit; the reload signal \<open>handleFileUpload\<close> sends to the
  chat; the \<open>confirm\<close> dialog of \<open>handleDeleteUser\<close> (answered yes);
  the form fields and flags that only drive rendering.
\<close>

section \<open>Calls\<close>

definition resp_ok :: "resp \<Rightarrow> bool" where
  "resp_ok r \<longleftrightarrow> 200 \<le> status r \<and> status r < 300"

text \<open>\<open>error.error || 'default'\<close> of an error body (the server's \<open>error\<close> is a string).\<close>

definition error_of :: "json \<Rightarrow> string \<Rightarrow> string" where
  "error_of b dflt =
     (case b of
        JObj kv \<Rightarrow> (case obj_get kv ''error'' of Some (JStr m) \<Rightarrow> if m \<noteq> [] then m else dflt | _ \<Rightarrow> dflt)
      | _ \<Rightarrow> dflt)"

text \<open>An authenticated call: no token throws \<open>Not authenticated\<close> without a request; otherwise
  the body of a 2xx answer, or the error it throws.\<close>

definition authed :: "crypto \<Rightarrow> nat \<Rightarrow> string option \<Rightarrow> user_req \<Rightarrow> string \<Rightarrow> db \<Rightarrow> (string + json) \<times> db" where
  "authed cr now tok req dflt d =
     (case tok of
        None \<Rightarrow> (Inl ''Not authenticated'', d)
      | Some t \<Rightarrow> (case user_api cr now (Some (''Bearer '' @ t)) req d of
                    (r, d') \<Rightarrow> (if resp_ok r then Inr (body r) else Inl (error_of (body r) dflt), d')))"

definition getAllUsers :: "crypto \<Rightarrow> nat \<Rightarrow> string option \<Rightarrow> db \<Rightarrow> (string + json) \<times> db" where
  "getAllUsers cr now tok d = authed cr now tok (Admin ListUsers) ''Failed to get users'' d"

definition addUser :: "crypto \<Rightarrow> nat \<Rightarrow> string option \<Rightarrow> string \<Rightarrow> string \<Rightarrow> string \<Rightarrow> string list \<Rightarrow>
    db \<Rightarrow> (string + json) \<times> db" where
  "addUser cr now tok email password role files d =
     authed cr now tok (Admin (AddUser (Some (JStr email)) (Some (JStr password)) (Some role) (Some files))) ''Failed to add user'' d"

definition deleteUser :: "crypto \<Rightarrow> nat \<Rightarrow> string option \<Rightarrow> string \<Rightarrow> db \<Rightarrow> (string + json) \<times> db" where
  "deleteUser cr now tok email d = authed cr now tok (Admin (DeleteUser email)) ''Failed to delete user'' d"

definition updateUserRole :: "crypto \<Rightarrow> nat \<Rightarrow> string option \<Rightarrow> string \<Rightarrow> string \<Rightarrow> db \<Rightarrow> (string + json) \<times> db" where
  "updateUserRole cr now tok email role d =
     authed cr now tok (Admin (UpdateRole email (Some role))) ''Failed to update user role'' d"

definition getUserFiles :: "crypto \<Rightarrow> nat \<Rightarrow> string option \<Rightarrow> string \<Rightarrow> db \<Rightarrow> (string + json) \<times> db" where
  "getUserFiles cr now tok email d = authed cr now tok (Admin (GetUserFiles email)) ''Failed to load user files'' d"

definition updateUserFiles :: "crypto \<Rightarrow> nat \<Rightarrow> string option \<Rightarrow> string \<Rightarrow> string list \<Rightarrow> db \<Rightarrow> (string + json) \<times> db" where
  "updateUserFiles cr now tok email fs d =
     authed cr now tok (Admin (SetUserFiles email (Some fs))) ''Failed to update user files'' d"

text \<open>\<open>GET /api/admin/files\<close> behind \<open>authenticateToken\<close> and \<open>requireAdmin\<close>.\<close>

definition files_route :: "crypto \<Rightarrow> string option \<Rightarrow> db \<Rightarrow> resp" where
  "files_route cr h d =
     (case authenticateToken (cr_verify cr) h of
        Inl r \<Rightarrow> r
      | Inr c \<Rightarrow> (case requireAdmin c of Some r \<Rightarrow> r | None \<Rightarrow> admin_files_endpoint d))"

text \<open>The global error handler (server.js 1488--1503) on an \<open>/api/\<close> path: the errors a
  middleware passes to \<open>next\<close> are answered 500 with their message.\<close>

definition global_error :: "string \<Rightarrow> resp" where
  "global_error m = Resp 500 (JObj [(''error'', JStr ''Internal server error''),
     (''message'', JStr (if m = [] then ''An unexpected error occurred'' else m))])"

text \<open>multer's \<open>fileFilter\<close> and \<open>limits.fileSize\<close> (145--155): the error it passes on, if any.\<close>

definition multer_error :: "upload \<Rightarrow> string option" where
  "multer_error f =
     (if \<not> (up_mime f = ''text/csv'' \<or> suffix ''.csv'' (up_name f)) then Some ''Only CSV files are allowed''
      else if 500 * 1024 * 1024 < up_size f then Some ''File too large''
      else None)"

text \<open>\<open>POST /api/admin/files/upload\<close> (844) on a connected database: \<open>authenticateToken\<close>,
  \<open>requireAdmin\<close>, multer, then the route.\<close>

definition upload_route ::
  "(string \<Rightarrow> string + jobj list) \<Rightarrow> crypto \<Rightarrow> nat \<Rightarrow> string option \<Rightarrow> upload \<Rightarrow> db \<Rightarrow> db \<times> resp" where
  "upload_route csv_parse cr now h f d =
     (case authenticateToken (cr_verify cr) h of
        Inl r \<Rightarrow> (d, r)
      | Inr c \<Rightarrow> (case requireAdmin c of
                   Some r \<Rightarrow> (d, r)
                 | None \<Rightarrow> (case multer_error f of
                              Some m \<Rightarrow> (d, global_error m)
                            | None \<Rightarrow> upload_file csv_parse now d (c_email c) (Some f))))"

definition getAllFiles :: "crypto \<Rightarrow> nat \<Rightarrow> string option \<Rightarrow> db \<Rightarrow> (string + json) \<times> db" where
  "getAllFiles cr now tok d =
     (case tok of
        None \<Rightarrow> (Inl ''Not authenticated'', d)
      | Some t \<Rightarrow> (let r = files_route cr (Some (''Bearer '' @ t)) d in
                   (if resp_ok r then Inr (body r) else Inl (error_of (body r) ''Failed to load files''), d)))"

definition uploadFile ::
  "(string \<Rightarrow> string + jobj list) \<Rightarrow> crypto \<Rightarrow> nat \<Rightarrow> string option \<Rightarrow> upload \<Rightarrow> db \<Rightarrow> (string + json) \<times> db" where
  "uploadFile csv_parse cr now tok f d =
     (case tok of
        None \<Rightarrow> (Inl ''Not authenticated'', d)
      | Some t \<Rightarrow> (case upload_route csv_parse cr now (Some (''Bearer '' @ t)) f d of
                    (d', r) \<Rightarrow> (if resp_ok r then Inr (body r) else Inl (error_of (body r) ''Failed to upload file''), d')))"

text \<open>\<open>getCurrentUser\<close>: a 401 answer also removes the stored token.\<close>

definition getCurrentUser :: "crypto \<Rightarrow> nat \<Rightarrow> string option \<Rightarrow> db \<Rightarrow> (string + json) \<times> string option" where
  "getCurrentUser cr now tok d =
     (case tok of
        None \<Rightarrow> (Inl ''Not authenticated'', tok)
      | Some t \<Rightarrow>
          (let r = fst (user_api cr now (Some (''Bearer '' @ t)) Me d) in
           if resp_ok r then (Inr (body r), tok)
           else if status r = 401 then (Inl ''Session expired'', None)
           else (Inl (error_of (body r) ''Failed to get user''), tok)))"

text \<open>\<open>logout\<close>: the server is told when there is a token, and the token is removed.\<close>

definition client_logout :: "crypto \<Rightarrow> nat \<Rightarrow> string option \<Rightarrow> db \<Rightarrow> string option \<times> db" where
  "client_logout cr now tok d =
     (case tok of
        None \<Rightarrow> (None, d)
      | Some t \<Rightarrow> (None, snd (user_api cr now (Some (''Bearer '' @ t)) Logout d)))"

definition connect_hint :: string where
  "connect_hint = ''Cannot connect to server. Please make sure the Express server is running on port 5005. Run: npm run dev:server''"

definition client_login :: "crypto \<Rightarrow> nat \<Rightarrow> string \<Rightarrow> string \<Rightarrow> db \<Rightarrow> (string + json) \<times> db" where
  "client_login cr now email password d =
     (case user_api cr now None (Login (Some (JStr email)) (Some (JStr password))) d of
        (r, d') \<Rightarrow>
          if resp_ok r then (Inr (body r), d')
          else (let m = error_of (body r) ''Login failed'' in
                (Inl (if contains m ''JSON'' then connect_hint else m), d')))"

text \<open>The login form: the token of a successful login is stored, an error is shown.\<close>

definition handleSubmit :: "crypto \<Rightarrow> nat \<Rightarrow> string \<Rightarrow> string \<Rightarrow> string option \<Rightarrow> db \<Rightarrow>
    (string option \<times> string) \<times> db" where
  "handleSubmit cr now email password tok d =
     (case client_login cr now email password d of
        (Inl m, d') \<Rightarrow> ((tok, if m \<noteq> [] then m else ''Login failed''), d')
      | (Inr b, d') \<Rightarrow>
          (case b of
             JObj kv \<Rightarrow> (case obj_get kv ''token'' of Some (JStr t) \<Rightarrow> ((Some t, []), d') | _ \<Rightarrow> ((tok, []), d'))
           | _ \<Rightarrow> ((tok, []), d')))"

text \<open>The strings of a JSON array (the server's file lists hold only strings).\<close>

definition json_strings :: "json \<Rightarrow> string list" where
  "json_strings b = (case b of JArr xs \<Rightarrow> concat (map (\<lambda>x. case x of JStr s \<Rightarrow> [s] | _ \<Rightarrow> []) xs) | _ \<Rightarrow> [])"

text \<open>\<open>getUserAccessibleFiles\<close>'s request: \<open>None\<close> without a token, on an error status, or
  for a body that is not an array; \<open>getUserAccessibleFiles\<close> of the theory Access maps it to
  the list the chat uses.\<close>

definition user_files_request :: "crypto \<Rightarrow> nat \<Rightarrow> string option \<Rightarrow> db \<Rightarrow> string list option" where
  "user_files_request cr now tok d =
     (case tok of
        None \<Rightarrow> None
      | Some t \<Rightarrow>
          (let r = fst (user_api cr now (Some (''Bearer '' @ t)) UserFiles d) in
           if resp_ok r then (case body r of JArr xs \<Rightarrow> Some (json_strings (body r)) | _ \<Rightarrow> None) else None))"

section \<open>The administrator panel\<close>

text \<open>The panel's state: the user and file lists last loaded, the selected user's email and
  accessible files, and the error shown.\<close>

record panel =
  p_users :: json
  p_files :: json
  p_selected :: "(string \<times> string list) option"
  p_error :: string

text \<open>\<open>loadData\<close> (1719--1733): \<open>Promise.all\<close> of the two lists; the lists are set only when
  both calls succeed. When both fail, the message shown is that of the call that fails
  first, which the model takes to be \<open>getAllUsers\<close>.\<close>

definition loadData :: "crypto \<Rightarrow> nat \<Rightarrow> string option \<Rightarrow> panel \<Rightarrow> db \<Rightarrow> panel \<times> db" where
  "loadData cr now tok p d =
     (case getAllUsers cr now tok d of
        (ru, d1) \<Rightarrow>
          (case getAllFiles cr now tok d1 of
             (rf, d2) \<Rightarrow>
               (case (ru, rf) of
                  (Inr bu, Inr bf) \<Rightarrow> (p\<lparr>p_users := bu, p_files := bf\<rparr>, d2)
                | (Inl m, _) \<Rightarrow> (p\<lparr>p_error := (if m \<noteq> [] then m else ''Failed to load data'')\<rparr>, d2)
                | (_, Inl m) \<Rightarrow> (p\<lparr>p_error := (if m \<noteq> [] then m else ''Failed to load data'')\<rparr>, d2))))"

definition handleAddUser :: "crypto \<Rightarrow> nat \<Rightarrow> string option \<Rightarrow> string \<Rightarrow> string \<Rightarrow> string \<Rightarrow> string list \<Rightarrow>
    panel \<Rightarrow> db \<Rightarrow> panel \<times> db" where
  "handleAddUser cr now tok email password role files p d =
     (case addUser cr now tok email password role files d of
        (Inr _, d') \<Rightarrow> loadData cr now tok (p\<lparr>p_error := []\<rparr>) d'
      | (Inl m, d') \<Rightarrow> (p\<lparr>p_error := (if m \<noteq> [] then m else ''Failed to add user'')\<rparr>, d'))"

definition handleUserSelect :: "crypto \<Rightarrow> nat \<Rightarrow> string option \<Rightarrow> string \<Rightarrow> string list \<Rightarrow>
    panel \<Rightarrow> db \<Rightarrow> panel \<times> db" where
  "handleUserSelect cr now tok email files p d =
     (let p1 = p\<lparr>p_selected := Some (email, files)\<rparr> in
      case getUserFiles cr now tok email d of
        (Inr b, d') \<Rightarrow> (p1\<lparr>p_selected := Some (email, json_strings b)\<rparr>, d')
      | (Inl m, d') \<Rightarrow> (p1\<lparr>p_error := (if m \<noteq> [] then m else ''Failed to load user files'')\<rparr>, d'))"

text \<open>\<open>handleFileToggle\<close>: the selected user's list with the file removed (every occurrence)
  or appended, sent whole to the server.\<close>

definition toggle :: "string \<Rightarrow> string list \<Rightarrow> string list" where
  "toggle f fs = (if f \<in> set fs then filter (\<lambda>x. x \<noteq> f) fs else fs @ [f])"

definition handleFileToggle :: "crypto \<Rightarrow> nat \<Rightarrow> string option \<Rightarrow> string \<Rightarrow> panel \<Rightarrow> db \<Rightarrow> panel \<times> db" where
  "handleFileToggle cr now tok f p d =
     (case p_selected p of
        None \<Rightarrow> (p, d)
      | Some (email, cur) \<Rightarrow>
          (case updateUserFiles cr now tok email (toggle f cur) d of
             (Inr _, d') \<Rightarrow> loadData cr now tok (p\<lparr>p_selected := Some (email, toggle f cur)\<rparr>) d'
           | (Inl m, d') \<Rightarrow> (p\<lparr>p_error := (if m \<noteq> [] then m else ''Failed to update file access'')\<rparr>, d')))"

definition handleDeleteUser :: "crypto \<Rightarrow> nat \<Rightarrow> string option \<Rightarrow> string \<Rightarrow> panel \<Rightarrow> db \<Rightarrow> panel \<times> db" where
  "handleDeleteUser cr now tok email p d =
     (case deleteUser cr now tok email d of
        (Inr _, d') \<Rightarrow>
          loadData cr now tok
            (if map_option fst (p_selected p) = Some email then p\<lparr>p_selected := None\<rparr> else p) d'
      | (Inl m, d') \<Rightarrow> (p\<lparr>p_error := (if m \<noteq> [] then m else ''Failed to delete user'')\<rparr>, d'))"

definition handleUpdateRole :: "crypto \<Rightarrow> nat \<Rightarrow> string option \<Rightarrow> string \<Rightarrow> string \<Rightarrow> panel \<Rightarrow> db \<Rightarrow> panel \<times> db" where
  "handleUpdateRole cr now tok email role p d =
     (case updateUserRole cr now tok email role d of
        (Inr _, d') \<Rightarrow> loadData cr now tok p d'
      | (Inl m, d') \<Rightarrow> (p\<lparr>p_error := (if m \<noteq> [] then m else ''Failed to update user role'')\<rparr>, d'))"

definition handleLogout :: "crypto \<Rightarrow> nat \<Rightarrow> string option \<Rightarrow> db \<Rightarrow> string option \<times> db" where
  "handleLogout cr now tok d = client_logout cr now tok d"

text \<open>\<open>names.join(', ')\<close>.\<close>

fun js_join :: "string \<Rightarrow> string list \<Rightarrow> string" where
  "js_join sep [] = []"
| "js_join sep [x] = x"
| "js_join sep (x # y # zs) = x @ sep @ js_join sep (y # zs)"

text \<open>\<open>handleFileUpload\<close> (1735--1781): every picked name must end in \<open>.csv\<close>; the files are
  uploaded one after the other, a failed upload is only logged, and the lists are reloaded.
  The reload signal to the chat (\<open>dataNeedsReload\<close>, \<open>reloadData\<close>) is not modelled.\<close>

definition handleFileUpload ::
  "(string \<Rightarrow> string + jobj list) \<Rightarrow> crypto \<Rightarrow> nat \<Rightarrow> string option \<Rightarrow> upload list \<Rightarrow> panel \<Rightarrow> db \<Rightarrow> panel \<times> db" where
  "handleFileUpload csv_parse cr now tok fs p d =
     (if fs = [] then (p, d)
      else let invalid = filter (\<lambda>f. \<not> suffix ''.csv'' (up_name f)) fs in
        if invalid \<noteq> [] then
          (p\<lparr>p_error := ''Only CSV files are allowed. Invalid files: '' @ js_join '', '' (map up_name invalid)\<rparr>, d)
        else
          let d' = foldl (\<lambda>db f. snd (uploadFile csv_parse cr now tok f db)) d fs
          in loadData cr now tok (p\<lparr>p_error := []\<rparr>) d')"

section \<open>Example\<close>

text \<open>Two administrator panels (tokens \<open>tokA\<close> and \<open>tokB\<close> of the theory Users) that
  both show the analyst with the file list \<open>Revenue.csv\<close>.\<close>

definition demo_panel_db :: db where
  "demo_panel_db = demo_users_db\<lparr>users := users demo_users_db @ [analyst]\<rparr>"

definition demo_panel :: panel where
  "demo_panel = \<lparr>p_users = JArr [], p_files = JArr [], p_selected = Some (''analyst@indira.com'', [''Revenue.csv'']), p_error = []\<rparr>"

text \<open>An upload whose name ends in \<open>.csv\<close> and whose content is an HTML page.\<close>

definition html_upload :: upload where
  "html_upload = \<lparr>up_name = ''q3.csv'', up_mime = ''text/csv'', up_size = 6, up_content = ''<html>''\<rparr>"

section \<open>Lemmas\<close>

lemma authed_admin:
  "cr_verify cr t = Some c \<Longrightarrow> c_role c = ''admin'' \<Longrightarrow> t \<noteq> [] \<Longrightarrow> CHR '' '' \<notin> set t \<Longrightarrow>
   authed cr now (Some t) (Admin a) dflt d =
     (case admin_op cr now c a d of (r, d') \<Rightarrow> (if resp_ok r then Inr (body r) else Inl (error_of (body r) dflt), d'))"
  using authenticate_Bearer [where v = "cr_verify cr" and t = t and c = c]
  by (simp add: authed_def requireAdmin_def)

lemma getAllFiles_db: "snd (getAllFiles cr now tok d) = d"
  by (simp add: getAllFiles_def Let_def split: option.split)

lemma getAllUsers_db: "snd (getAllUsers cr now tok d) = d"
  by (simp add: getAllUsers_def authed_def split: option.split prod.split sum.split)

lemma loadData_db: "snd (loadData cr now tok p d) = d \<and> p_selected (fst (loadData cr now tok p d)) = p_selected p"
proof -
  obtain ru where u: "getAllUsers cr now tok d = (ru, d)"
    using getAllUsers_db [of cr now tok d] by (cases "getAllUsers cr now tok d") auto
  obtain rf where f: "getAllFiles cr now tok d = (rf, d)"
    using getAllFiles_db [of cr now tok d] by (cases "getAllFiles cr now tok d") auto
  show ?thesis by (simp add: loadData_def u f split: sum.split)
qed

lemma loadData_admin:
  "cr_verify cr t = Some c \<Longrightarrow> c_role c = ''admin'' \<Longrightarrow> t \<noteq> [] \<Longrightarrow> CHR '' '' \<notin> set t \<Longrightarrow>
   loadData cr now (Some t) p d = (p\<lparr>p_users := body (list_users d), p_files := body (admin_files_endpoint d)\<rparr>, d)"
  using authenticate_Bearer [where v = "cr_verify cr" and t = t and c = c]
  by (simp add: loadData_def getAllUsers_def authed_admin getAllFiles_def files_route_def requireAdmin_def
      list_users_def admin_files_endpoint_def resp_ok_def)

lemma multer_csv: "suffix ''.csv'' (up_name f) \<Longrightarrow> up_size f \<le> 500 * 1024 * 1024 \<Longrightarrow> multer_error f = None"
  by (simp add: multer_error_def)

lemma upload_route_html:
  assumes "cr_verify cr t = Some c" "c_role c = ''admin''" "t \<noteq> []" "CHR '' '' \<notin> set t"
    and "looks_like_html (if large_file_limit < up_size f then take 1024 (up_content f) else up_content f)"
    and "multer_error f = None"
  shows "upload_route csv_parse cr now (Some (''Bearer '' @ t)) f d =
           (d, err_resp 400 ''Uploaded file appears to be HTML, not CSV. Please upload a valid CSV file.'')"
  using assms authenticate_Bearer [where v = "cr_verify cr" and t = t and c = c]
  by (simp add: upload_route_def requireAdmin_def upload_file_def)

lemma uploadFile_html:
  assumes "cr_verify cr t = Some c" "c_role c = ''admin''" "t \<noteq> []" "CHR '' '' \<notin> set t"
    and "looks_like_html (if large_file_limit < up_size f then take 1024 (up_content f) else up_content f)"
    and "multer_error f = None"
  shows "uploadFile csv_parse cr now (Some t) f d =
           (Inl ''Uploaded file appears to be HTML, not CSV. Please upload a valid CSV file.'', d)"
proof -
  have "error_of (JObj [(''error'', JStr ''Uploaded file appears to be HTML, not CSV. Please upload a valid CSV file.'')])
      ''Failed to upload file'' = ''Uploaded file appears to be HTML, not CSV. Please upload a valid CSV file.''"
    by (simp add: error_of_def)
  then show ?thesis
    using upload_route_html [OF assms, where csv_parse = csv_parse and now = now and d = d]
    by (simp add: uploadFile_def err_resp_def resp_ok_def)
qed

lemma json_strings_JStr [simp]: "json_strings (JArr (map JStr xs)) = xs"
  by (induction xs) (simp_all add: json_strings_def)

lemma accounts_Some_find: "accounts d u = Some (r, fs) \<Longrightarrow> \<exists>x. find_user d u = Some x \<and> u_role x = r \<and> u_files x = fs"
  by (auto simp: accounts_find)

lemma toggle_step:
  assumes t: "cr_verify cr t = Some c" "c_role c = ''admin''" "t \<noteq> []" "CHR '' '' \<notin> set t"
    and u: "accounts d u = Some (r, fsx)" "lower u = u" and sel: "p_selected p = Some (u, cur)"
  shows "accounts (snd (handleFileToggle cr now (Some t) f p d)) = (accounts d)(u \<mapsto> (r, toggle f cur)) \<and>
         p_selected (fst (handleFileToggle cr now (Some t) f p d)) = Some (u, toggle f cur)"
proof -
  obtain x where x: "find_user d u = Some x" "u_role x = r" using accounts_Some_find [OF u(1)] by blast
  define d' where "d' = d\<lparr>users := update_first (\<lambda>v. u_email v = u) (\<lambda>v. v\<lparr>u_files := toggle f cur\<rparr>) (users d)\<rparr>"
  have upd: "updateUserFiles cr now (Some t) u (toggle f cur) d =
      (Inr (JObj [(''message'', JStr ''User file access updated successfully''),
                  (''accessibleFiles'', JArr (map JStr (toggle f cur)))]), d')"
    using authed_admin [OF t] x u(2) by (simp add: updateUserFiles_def set_user_files_def resp_ok_def d'_def)
  have acc: "accounts d' = (accounts d)(u \<mapsto> (r, toggle f cur))"
    unfolding d'_def using accounts_update [OF x(1)] x(2) by simp
  show ?thesis
    using loadData_db [of cr now "Some t" "p\<lparr>p_selected := Some (u, toggle f cur)\<rparr>" d'] acc
    by (simp add: handleFileToggle_def sel upd split: prod.split)
qed

lemma select_step:
  assumes t: "cr_verify cr t = Some c" "c_role c = ''admin''" "t \<noteq> []" "CHR '' '' \<notin> set t"
    and u: "accounts d u = Some (r, fs)" "lower u = u"
  shows "handleUserSelect cr now (Some t) u files p d = (p\<lparr>p_selected := Some (u, fs)\<rparr>, d)"
proof -
  obtain x where x: "find_user d u = Some x" "u_files x = fs" using accounts_Some_find [OF u(1)] by blast
  show ?thesis
    using authed_admin [OF t] x u(2)
    by (simp add: handleUserSelect_def getUserFiles_def get_user_files_def resp_ok_def Let_def)
qed

lemma current_user_keeps_expired_token:
  "t \<noteq> [] \<Longrightarrow> CHR '' '' \<notin> set t \<Longrightarrow> cr_verify cr t = None \<Longrightarrow>
   getCurrentUser cr now (Some t) d = (Inl ''Invalid or expired token'', Some t)"
  unfolding getCurrentUser_def using bearer_token_Bearer [of t]
  by (simp add: authenticateToken_def resp_ok_def error_of_def)

section \<open>Concurrent administrators\<close>

text \<open>
  C40. Changing a user's accessible files in the administrator panel is a read-modify-write of
  the whole list: the panel sends its own copy with the file toggled. Two panels that show the
  same user lose an update when they interleave (the second toggle overwrites the first, here
  the file \<open>f1\<close> disappears), while the same two toggles done one after the other, with the
  second panel re-selecting the user in between, keep both files.
\<close>

theorem toggle_lost_update:
  assumes tA: "cr_verify cr tA = Some cA" "c_role cA = ''admin''" "tA \<noteq> []" "CHR '' '' \<notin> set tA"
    and tB: "cr_verify cr tB = Some cB" "c_role cB = ''admin''" "tB \<noteq> []" "CHR '' '' \<notin> set tB"
    and u: "accounts d u = Some (r, fs)" "lower u = u"
    and f: "f1 \<notin> set fs" "f2 \<notin> set fs" "f1 \<noteq> f2"
    and sel: "p_selected pA = Some (u, fs)" "p_selected pB = Some (u, fs)"
  shows "accounts (snd (handleFileToggle cr now (Some tB) f2 pB
                          (snd (handleFileToggle cr now (Some tA) f1 pA d)))) u = Some (r, fs @ [f2]) \<and>
         accounts (snd (handleFileToggle cr now (Some tB) f2
                          (fst (handleUserSelect cr now (Some tB) u fs pB (snd (handleFileToggle cr now (Some tA) f1 pA d))))
                          (snd (handleUserSelect cr now (Some tB) u fs pB (snd (handleFileToggle cr now (Some tA) f1 pA d))))))
           u = Some (r, fs @ [f1, f2])"
proof -
  define dA where "dA = snd (handleFileToggle cr now (Some tA) f1 pA d)"
  have a: "accounts dA = (accounts d)(u \<mapsto> (r, fs @ [f1]))"
    using toggle_step [OF tA u sel(1)] f(1) by (simp add: dA_def toggle_def)
  have b: "accounts (snd (handleFileToggle cr now (Some tB) f2 pB dA)) = (accounts dA)(u \<mapsto> (r, fs @ [f2]))"
    using toggle_step [OF tB, where d = dA and u = u and r = r and fsx = "fs @ [f1]" and p = pB and cur = fs and f = f2 and now = now] a u(2) sel(2) f(2) by (simp add: toggle_def)
  have s: "handleUserSelect cr now (Some tB) u fs pB dA = (pB\<lparr>p_selected := Some (u, fs @ [f1])\<rparr>, dA)"
    using select_step [OF tB, where d = dA and u = u and r = r and fs = "fs @ [f1]" and files = fs and p = pB and now = now] a u(2) by simp
  have c: "accounts (snd (handleFileToggle cr now (Some tB) f2 (pB\<lparr>p_selected := Some (u, fs @ [f1])\<rparr>) dA)) =
      (accounts dA)(u \<mapsto> (r, fs @ [f1, f2]))"
    using toggle_step [OF tB, where d = dA and u = u and r = r and fsx = "fs @ [f1]" and p = "pB\<lparr>p_selected := Some (u, fs @ [f1])\<rparr>" and cur = "fs @ [f1]" and f = f2 and now = now] a u(2) f
    by (simp add: toggle_def)
  show ?thesis using b c s by (simp add: dA_def [symmetric])
qed

theorem toggle_lost_update_witness:
  "accounts (snd (handleFileToggle demo_crypto 0 (Some ''tokB'') ''Ops.csv'' demo_panel
                   (snd (handleFileToggle demo_crypto 0 (Some ''tokA'') ''CRM leads.csv'' demo_panel demo_panel_db))))
      ''analyst@indira.com'' = Some (''user'', [''Revenue.csv''] @ [''Ops.csv'']) \<and>
   accounts (snd (handleFileToggle demo_crypto 0 (Some ''tokB'') ''Ops.csv''
                   (fst (handleUserSelect demo_crypto 0 (Some ''tokB'') ''analyst@indira.com'' [''Revenue.csv''] demo_panel
                          (snd (handleFileToggle demo_crypto 0 (Some ''tokA'') ''CRM leads.csv'' demo_panel demo_panel_db))))
                   (snd (handleUserSelect demo_crypto 0 (Some ''tokB'') ''analyst@indira.com'' [''Revenue.csv''] demo_panel
                          (snd (handleFileToggle demo_crypto 0 (Some ''tokA'') ''CRM leads.csv'' demo_panel demo_panel_db))))))
      ''analyst@indira.com'' = Some (''user'', [''Revenue.csv''] @ [''CRM leads.csv'', ''Ops.csv''])"
proof (rule toggle_lost_update)
  show "cr_verify demo_crypto ''tokA'' = Some demo_admin_claims" "cr_verify demo_crypto ''tokB'' = Some demo_ops_claims"
    by (simp_all add: demo_crypto_def)
  show "c_role demo_admin_claims = ''admin''" "c_role demo_ops_claims = ''admin''"
    by (simp_all add: demo_admin_claims_def demo_ops_claims_def)
  show "accounts demo_panel_db ''analyst@indira.com'' = Some (''user'', [''Revenue.csv''])"
    by code_simp
  show "lower ''analyst@indira.com'' = ''analyst@indira.com''" by code_simp
  show "p_selected demo_panel = Some (''analyst@indira.com'', [''Revenue.csv''])"
    by (simp add: demo_panel_def)
qed (simp_all add: demo_panel_def)

section \<open>Upload errors\<close>

text \<open>
  C7. The panel hides a rejected upload. An administrator uploads a file named \<open>.csv\<close>, within
  multer's 500 MB limit, whose content is an HTML page: the server refuses it with the message \<open>Uploaded file appears to be
  HTML, not CSV\<close>, which \<open>uploadFile\<close> throws, but \<open>handleFileUpload\<close> only logs it, reloads
  the lists and leaves the error line empty, as after a successful upload.
\<close>

theorem upload_error_hidden:
  assumes tok: "cr_verify cr t = Some c" "c_role c = ''admin''" "t \<noteq> []" "CHR '' '' \<notin> set t"
    and f: "suffix ''.csv'' (up_name f)"
      "looks_like_html (if large_file_limit < up_size f then take 1024 (up_content f) else up_content f)"
      "up_size f \<le> 500 * 1024 * 1024"
  shows "fst (uploadFile csv_parse cr now (Some t) f d) =
           Inl ''Uploaded file appears to be HTML, not CSV. Please upload a valid CSV file.'' \<and>
         handleFileUpload csv_parse cr now (Some t) [f] p d =
           (p\<lparr>p_users := body (list_users d), p_files := body (admin_files_endpoint d), p_error := []\<rparr>, d)"
  using uploadFile_html [OF tok f(2) multer_csv [OF f(1,3)], where csv_parse = csv_parse and now = now and d = d]
    loadData_admin [OF tok, where now = now and d = d and p = "p\<lparr>p_error := []\<rparr>"] f(1)
  by (simp add: handleFileUpload_def)

theorem upload_error_hidden_witness:
  "fst (uploadFile (\<lambda>_. Inl []) demo_crypto 0 (Some ''tokA'') html_upload demo_panel_db) =
     Inl ''Uploaded file appears to be HTML, not CSV. Please upload a valid CSV file.'' \<and>
   handleFileUpload (\<lambda>_. Inl []) demo_crypto 0 (Some ''tokA'') [html_upload] demo_panel demo_panel_db =
     (demo_panel\<lparr>p_users := body (list_users demo_panel_db),
        p_files := body (admin_files_endpoint demo_panel_db), p_error := []\<rparr>, demo_panel_db)"
proof (rule upload_error_hidden)
  show "cr_verify demo_crypto ''tokA'' = Some demo_admin_claims" by (simp add: demo_crypto_def)
  show "c_role demo_admin_claims = ''admin''" by (simp add: demo_admin_claims_def)
  show "suffix ''.csv'' (up_name html_upload)" by (simp add: html_upload_def suffix_to_prefix)
  show "looks_like_html (if large_file_limit < up_size html_upload then take 1024 (up_content html_upload)
      else up_content html_upload)"
    by (simp add: html_upload_def large_file_limit_def) code_simp
  show "up_size html_upload \<le> 500 * 1024 * 1024" by (simp add: html_upload_def)
qed simp_all


end
