(* ===== verification/Regex.thy ===== *)
theory Regex
  imports Prelude
begin

text \<open>
  The regular expressions the sources use, as a backtracking matcher with the search order of
  JavaScript's engine: a greedy star \<open>[P]*\<close> tries the longest run first, a lazy
  \<open>[P]*?\<close> the shortest, an optional group \<open>(?:...)?\<close> the group first, and a search
  without the \<open>g\<close> flag takes the leftmost position where the expression matches. Only the
  constructs the sources need are present: literal text, a character class under a greedy or
  lazy star, a quote \<open>['"]\<close>, an optional group, one character of a class.
\<close>

datatype rx =
    RLit string
  | RStar "char \<Rightarrow> bool"
  | RQuote
  | RLazy "char \<Rightarrow> bool"
  | ROpt "rx list"
  | RChar "char \<Rightarrow> bool"

text \<open>The first element that is not \<open>None\<close>.\<close>

fun first_some :: "'a option list \<Rightarrow> 'a option" where
  "first_some [] = None"
| "first_some (Some x # _) = Some x"
| "first_some (None # xs) = first_some xs"

text \<open>JavaScript's line terminators in the Latin-1 range, which \<open>.\<close> does not match.\<close>

definition is_line_term :: "char \<Rightarrow> bool" where
  "is_line_term c \<longleftrightarrow> c = CHR 0x0A \<or> c = CHR 0x0D"

text \<open>The rest of the input after a match of the sequence at its start, in backtracking order.\<close>

function rx_match :: "rx list \<Rightarrow> string \<Rightarrow> string option" where
  "rx_match [] s = Some s"
| "rx_match (RLit l # rs) s = (if prefix l s then rx_match rs (drop (length l) s) else None)"
| "rx_match (RStar P # rs) s =
     first_some (map (\<lambda>k. rx_match rs (drop k s)) (rev [0..<Suc (length (takeWhile P s))]))"
| "rx_match (RQuote # rs) s =
     (case s of c # cs \<Rightarrow> if c = CHR 0x27 \<or> c = CHR 0x22 then rx_match rs cs else None | [] \<Rightarrow> None)"
| "rx_match (RLazy P # rs) s =
     first_some (map (\<lambda>k. rx_match rs (drop k s)) [0..<Suc (length (takeWhile P s))])"
| "rx_match (ROpt g # rs) s = (case rx_match (g @ rs) s of Some r \<Rightarrow> Some r | None \<Rightarrow> rx_match rs s)"
| "rx_match (RChar P # rs) s = (case s of c # cs \<Rightarrow> if P c then rx_match rs cs else None | [] \<Rightarrow> None)"
  by pat_completeness auto
termination
  by (relation "measure (\<lambda>(rs, s). size_list size rs)") auto

text \<open>\<open>s.match(re)\<close> without the \<open>g\<close> flag: the leftmost match, as the text before it and
  the matched text and the text after it.\<close>

fun rx_search :: "rx list \<Rightarrow> string \<Rightarrow> (string \<times> string \<times> string) option" where
  "rx_search p s =
     (case rx_match p s of
        Some r \<Rightarrow> Some ([], take (length s - length r) s, r)
      | None \<Rightarrow> (case s of [] \<Rightarrow> None | c # cs \<Rightarrow> map_option (\<lambda>(a, m, r). (c # a, m, r)) (rx_search p cs)))"

text \<open>\<open>s.replace(re, rep)\<close> for a regular expression without the \<open>g\<close> flag. Replacing the
  first occurrence of the matched text, as line 386 does, is the same: an earlier occurrence
  would be an earlier match.\<close>

definition rx_replace :: "rx list \<Rightarrow> (string \<Rightarrow> string) \<Rightarrow> string \<Rightarrow> string" where
  "rx_replace p rep s =
     (case rx_search p s of
        None \<Rightarrow> s
      | Some (a, m, r) \<Rightarrow> a @ rep m @ r)"

text \<open>\<open>s.match(re)\<close> with the \<open>g\<close> flag: every match, left to right, each search starting
  where the previous match ended (an empty match advances by one character).\<close>

function rx_search_all :: "rx list \<Rightarrow> string \<Rightarrow> string list" where
  "rx_search_all p s =
     (case rx_search p s of
        None \<Rightarrow> []
      | Some (a, m, r) \<Rightarrow>
          (let k = length a + max 1 (length m) in
           m # (if length s < k then [] else rx_search_all p (drop k s))))"
  by pat_completeness auto
termination
  by (relation "measure (\<lambda>(p, s). length s)") auto

text \<open>\<open>s.replace(re, rep)\<close> with the \<open>g\<close> flag: every match, left to right, is replaced; after an
  empty match the next character is copied and the search goes on after it.\<close>

function rx_replace_all :: "rx list \<Rightarrow> (string \<Rightarrow> string) \<Rightarrow> string \<Rightarrow> string" where
  "rx_replace_all p rep s =
     (case rx_search p s of
        None \<Rightarrow> s
      | Some (a, m, r) \<Rightarrow>
          (let k = length a + max 1 (length m) in
           a @ rep m @ (if m = [] then take 1 r else []) @
           (if length s < k then [] else rx_replace_all p rep (drop k s))))"
  by pat_completeness auto
termination
  by (relation "measure (\<lambda>(p, rep, s). length s)") auto

text \<open>The recursive equations of the searches unfold without end under the simplifier on a
  text that is not a literal; proofs unfold them explicitly.\<close>

declare rx_search.simps [simp del] rx_search_all.simps [simp del] rx_replace_all.simps [simp del]

section \<open>Searching a fenced text\<close>

text \<open>A leftmost search skips every position where the pattern does not match, and a lazy
  fence \<open>a[\s\S]*?b\<close> ends at the first occurrence of \<open>b\<close>: when a character that opens
  \<open>a\<close> and occurs in \<open>b\<close> is absent from the text before the fence and from its body, the
  match is exactly the fence.\<close>

lemma first_some_Nones: "\<forall>y \<in> set ys. y = None \<Longrightarrow> first_some (ys @ xs) = first_some xs"
  by (induction ys) auto

lemma first_some_map_upt_skip:
  assumes "\<And>k. k < n \<Longrightarrow> f k = None" and "n < m" and "f n \<noteq> None"
  shows "first_some (map f [0..<m]) = f n"
proof -
  have "[0..<m] = [0..<n] @ [n..<m]" using upt_add_eq_append [of 0 n "m - n"] assms(2) by simp
  also have "[n..<m] = n # [Suc n..<m]" using assms(2) by (simp add: upt_conv_Cons)
  finally have split: "[0..<m] = [0..<n] @ n # [Suc n..<m]" .
  have "first_some (map f [0..<n] @ xs) = first_some xs" for xs
    using assms(1) by (intro first_some_Nones) auto
  then show ?thesis using assms(3) unfolding split by (cases "f n") auto
qed

lemma rx_search_Cons_None:
  "rx_match p (c # s) = None \<Longrightarrow> rx_search p (c # s) = map_option (\<lambda>(a, m, r). (c # a, m, r)) (rx_search p s)"
  using rx_search.simps [of p "c # s"] by simp

lemma rx_search_here: "rx_match p x = Some r \<Longrightarrow> rx_search p x = Some ([], take (length x - length r) x, r)"
  using rx_search.simps [of p x] by simp


lemma rx_search_skip:
  assumes "\<And>i. i < length pre \<Longrightarrow> rx_match p (drop i pre @ x) = None"
  shows "rx_search p (pre @ x) = map_option (\<lambda>(a, m, r). (pre @ a, m, r)) (rx_search p x)"
  using assms
proof (induction pre)
  case Nil
  then show ?case by (cases "rx_search p x") auto
next
  case (Cons c cs)
  have "rx_match p (c # cs @ x) = None" using Cons.prems [of 0] by simp
  moreover have "rx_search p (cs @ x) = map_option (\<lambda>(a, m, r). (cs @ a, m, r)) (rx_search p x)"
    using Cons.prems [of "Suc _"] by (intro Cons.IH) auto
  ultimately show ?case
    by (simp add: rx_search_Cons_None option.map_comp comp_def case_prod_beta)
qed


lemma prefix_nth_eq: "prefix xs ys \<Longrightarrow> i < length xs \<Longrightarrow> ys ! i = xs ! i"
  by (auto simp: prefix_def nth_append)

lemma no_early_close:
  assumes "c \<notin> set mid" and "c \<in> set b" and "k < length mid"
  shows "\<not> prefix b (drop k mid @ b @ post)"
proof
  assume pre: "prefix b (drop k mid @ b @ post)"
  define j where "j = length (takeWhile (\<lambda>x. x \<noteq> c) b)"
  have "dropWhile (\<lambda>x. x \<noteq> c) b \<noteq> []" using assms(2) by (simp add: dropWhile_eq_Nil_conv)
  then have jb: "j < length b"
    using takeWhile_dropWhile_id [of "\<lambda>x. x \<noteq> c" b] unfolding j_def
    by (metis length_append less_add_same_cancel1 length_greater_0_conv)
  have bj: "b ! j = c" using nth_length_takeWhile [OF jb [unfolded j_def]] unfolding j_def by simp
  have before: "b ! i \<noteq> c" if "i < j" for i
    using that takeWhile_nth [of i "\<lambda>x. x \<noteq> c" b] nth_mem [of i "takeWhile (\<lambda>x. x \<noteq> c) b"]
          set_takeWhileD unfolding j_def by metis
  have w: "(drop k mid @ b @ post) ! j = c" using prefix_nth_eq [OF pre jb] bj by simp
  show False
  proof (cases "j < length mid - k")
    case True
    then have "(drop k mid @ b @ post) ! j = mid ! (k + j)" by (simp add: nth_append)
    moreover have "mid ! (k + j) \<in> set mid" using True by (intro nth_mem) simp
    ultimately show False using w assms(1) by simp
  next
    case False
    then have "(drop k mid @ b @ post) ! j = b ! (j - (length mid - k))"
      using jb by (simp add: nth_append less_imp_diff_less)
    moreover have "j - (length mid - k) < j" using False assms(3) by simp
    ultimately show False using w before by metis
  qed
qed

lemma rx_search_fence:
  assumes "c \<notin> set pre" and "c \<notin> set mid" and "a \<noteq> []" and "hd a = c" and "c \<in> set b"
  shows "rx_search [RLit a, RLazy (\<lambda>_. True), RLit b] (pre @ a @ mid @ b @ post) = Some (pre, a @ mid @ b, post)"
proof -
  let ?p = "[RLit a, RLazy (\<lambda>_. True), RLit b]"
  have skip: "rx_match ?p (drop i pre @ a @ mid @ b @ post) = None" if "i < length pre" for i
  proof -
    have "drop i pre = pre ! i # drop (Suc i) pre" using that by (simp add: Cons_nth_drop_Suc)
    moreover have "pre ! i \<noteq> c" using that assms(1) nth_mem by metis
    ultimately show ?thesis using assms(3,4) by (cases a) auto
  qed
  have "rx_match [RLit b] (drop k (mid @ b @ post)) = None" if "k < length mid" for k
    using no_early_close [OF assms(2,5) that, of post] that by simp
  then have "first_some (map (\<lambda>k. rx_match [RLit b] (drop k (mid @ b @ post))) [0..<Suc (length (mid @ b @ post))]) =
             rx_match [RLit b] (drop (length mid) (mid @ b @ post))"
    by (intro first_some_map_upt_skip) auto
  moreover have "takeWhile (\<lambda>_. True) s = s" for s :: string by (induction s) auto
  ultimately have "rx_match [RLazy (\<lambda>_. True), RLit b] (mid @ b @ post) = Some post"
    by (simp only: rx_match.simps(5)) simp
  then have "rx_match ?p (a @ mid @ b @ post) = Some post"
    by (simp del: rx_match.simps add: rx_match.simps(2))
  then show ?thesis
    using rx_search_skip [of pre ?p "a @ mid @ b @ post", OF skip] rx_search_here by simp
qed

end
