(* ===== verification/Serving.thy ===== *)
theory Serving
  imports Users Regex
begin

text \<open>
  What the server answers outside the JSON API (\<open>src/backend/server.js\<close>): the page
  \<open>index.html\<close> with the Gemini key written into it (\<open>injectApiKeyAndServe\<close>, 346--428),
  the health check (431--438), the development root (336--342), the CSV download
  \<open>GET /data/:filename\<close> (1131--1207), the catch-all routes (1427--1455), and the order in
  which Express tries the registered routes (\<open>dispatch\<close>), including the fact that the
  data API (\<open>/api/data/schema\<close>, \<open>/api/data/schemas\<close>, \<open>/api/data/query\<close>, 1214--1419)
  is registered inside the \<open>if (distExists)\<close> block of line 1126.
  The two regular expressions of \<open>injectApiKeyAndServe\<close> are terms of the matcher of the
  theory Regex.
  \<open>decodeURIComponent\<close> is the parameter \<open>uri_decode\<close> (\<open>None\<close> when it throws); the build
  output is the parameter \<open>static\<close> (the files under \<open>frontend/dist\<close>) and the text of
  \<open>index.html\<close>. A text body is modelled as a JSON string. Headers are not modelled.
\<close>

section \<open>Writing the key into the page\<close>

text \<open>\<open>s.replace(/c/g, r)\<close> for a single character \<open>c\<close>.\<close>

definition replace_char :: "char \<Rightarrow> string \<Rightarrow> string \<Rightarrow> string" where
  "replace_char c r s = concat (map (\<lambda>x. if x = c then r else [x]) s)"

text \<open>The escaping chain of lines 368--372: backslashes, single quotes, line feeds, carriage
  returns, in this order.\<close>

definition escapedApiKey :: "string \<Rightarrow> string" where
  "escapedApiKey k =
     replace_char CHR 0x0D [CHR 0x5C, CHR ''r'']
       (replace_char CHR 0x0A [CHR 0x5C, CHR ''n'']
         (replace_char CHR 0x27 [CHR 0x5C, CHR 0x27]
           (replace_char CHR 0x5C [CHR 0x5C, CHR 0x5C] k)))"

text \<open>The escape of one character inside a single-quoted JavaScript string literal.\<close>

definition js_escape_char :: "char \<Rightarrow> string" where
  "js_escape_char c =
     (if c = CHR 0x5C then [CHR 0x5C, CHR 0x5C]
      else if c = CHR 0x27 then [CHR 0x5C, CHR 0x27]
      else if c = CHR 0x0A then [CHR 0x5C, CHR ''n'']
      else if c = CHR 0x0D then [CHR 0x5C, CHR ''r''] else [c])"

text \<open>\<open>processEnvPattern\<close> (line 376).\<close>

definition processEnvPattern :: "rx list" where
  "processEnvPattern =
     [RLit ''window.process'', RStar is_js_space, RLit ''='', RStar is_js_space, RLit ''window.process'',
      RStar is_js_space, RLit ''||'', RStar is_js_space, RLit ''{'', RStar is_js_space, RLit ''env:'',
      RStar is_js_space, RLit ''{'', RStar is_js_space, RLit ''API_KEY:'', RStar is_js_space,
      RQuote, RLazy (\<lambda>c. \<not> is_line_term c), RQuote, RStar is_js_space,
      ROpt [RLit '','', RStar is_js_space, RLit ''GEMINI_API_KEY:'', RStar is_js_space, RQuote, RLazy (\<lambda>c. \<not> is_line_term c), RQuote],
      RStar is_js_space, RLit ''}'', RStar is_js_space, RLit ''};'']"

text \<open>\<open>/<tag[^>]*>/\<close>.\<close>

definition tag_pattern :: "string \<Rightarrow> rx list" where
  "tag_pattern tag = [RLit (''<'' @ tag), RStar (\<lambda>c. c \<noteq> CHR ''>''), RLit ''>'']"

definition polyfill :: "string \<Rightarrow> string" where
  "polyfill e = ''window.process = window.process || { env: { API_KEY: '' @ [CHR 0x27] @ e @ [CHR 0x27] @
     '', GEMINI_API_KEY: '' @ [CHR 0x27] @ e @ [CHR 0x27] @ '' } };''"

text \<open>The script of lines 395--411, one line per element.\<close>

definition scriptInjection :: "string \<Rightarrow> string" where
  "scriptInjection e =
     concat (map (\<lambda>l. [CHR 0x0A] @ l)
       [''    <script>'',
        ''      (function() {'',
        ''        if (typeof window !== 'undefined') {'',
        ''          window.__GEMINI_API_KEY__ = '' @ [CHR 0x27] @ e @ [CHR 0x27] @ '';'',
        ''          if (!window.process) {'',
        ''            window.process = { env: {} };'',
        ''          }'',
        ''          if (!window.process.env) {'',
        ''            window.process.env = {};'',
        ''          }'',
        ''          window.process.env.API_KEY = '' @ [CHR 0x27] @ e @ [CHR 0x27] @ '';'',
        ''          window.process.env.GEMINI_API_KEY = '' @ [CHR 0x27] @ e @ [CHR 0x27] @ '';'',
        ''        }'',
        ''      })();'',
        ''    </script>'']) @ [CHR 0x0A] @ ''  ''"

text \<open>Lines 374--423 on the text of \<open>index.html\<close>: the polyfill is replaced (or inserted before
  the first script tag), then the script is put after \<open><head>\<close>, before \<open></head>\<close>, or after
  the \<open><html ...>\<close> tag.\<close>

definition inject_key :: "string \<Rightarrow> string \<Rightarrow> string" where
  "inject_key key html =
     (let e = escapedApiKey key;
          h1 = (if rx_search processEnvPattern html \<noteq> None
                then rx_replace processEnvPattern (\<lambda>_. polyfill e) html
                else rx_replace (tag_pattern ''script'') (\<lambda>m. ''<script>'' @ polyfill e @ ''</script>'' @ [CHR 0x0A] @ ''    '' @ m) html)
      in if contains h1 ''<head>'' then replace_first ''<head>'' (''<head>'' @ scriptInjection e) h1
         else if contains h1 ''</head>'' then replace_first ''</head>'' (scriptInjection e @ ''</head>'') h1
         else if contains h1 ''<html'' then rx_replace (tag_pattern ''html'') (\<lambda>m. m @ scriptInjection e) h1
         else h1)"

text \<open>\<open>injectApiKeyAndServe\<close>: \<open>index\<close> is the text of \<open>dist/index.html\<close>, if it exists, and
  \<open>key\<close> the value of \<open>GEMINI_API_KEY\<close>.\<close>

definition injectApiKeyAndServe :: "string option \<Rightarrow> string option \<Rightarrow> resp" where
  "injectApiKeyAndServe index key =
     (case index of
        None \<Rightarrow> Resp 404 (JStr ''Build files not found. Please build the application first.'')
      | Some html \<Rightarrow> Resp 200 (JStr (inject_key (case key of Some k \<Rightarrow> k | None \<Rightarrow> []) html)))"

text \<open>How JavaScript reads the body of a single-quoted string literal with the escapes above:
  the value and the text after the closing quote (\<open>None\<close> for a syntax error or another
  escape).\<close>

fun read_sq :: "string \<Rightarrow> (string \<times> string) option" where
  "read_sq [] = None"
| "read_sq (c # cs) =
     (if c = CHR 0x27 then Some ([], cs)
      else if is_line_term c then None
      else if c = CHR 0x5C then
        (case cs of
           [] \<Rightarrow> None
         | e # cs' \<Rightarrow>
             (case (if e = CHR ''n'' then Some CHR 0x0A else if e = CHR ''r'' then Some CHR 0x0D
                    else if e = CHR 0x5C \<or> e = CHR 0x27 then Some e else None) of
                None \<Rightarrow> None
              | Some x \<Rightarrow> map_option (\<lambda>(a, r). (x # a, r)) (read_sq cs')))
      else map_option (\<lambda>(a, r). (c # a, r)) (read_sq cs))"


section \<open>Other pages\<close>

text \<open>\<open>GET /health\<close>, with the database connected.\<close>

definition health :: "string option \<Rightarrow> resp" where
  "health key =
     Resp 200 (JObj [(''status'', JStr ''healthy''), (''hasApiKey'', JBool (truthy key)),
                     (''apiKeyLength'', JNum (of_nat (length (or_empty key)))), (''dbConnected'', JBool True)])"

text \<open>\<open>GET /\<close> when there is no build (development).\<close>

definition dev_root :: resp where
  "dev_root =
     Resp 200 (JObj [(''message'', JStr ''Express API server running in dev mode''),
                     (''note'', JStr ''Frontend is served by Vite on port 3000''),
                     (''api'', JStr ''API endpoints available at /api/*'')])"

text \<open>\<open>GET /data/:filename\<close> for the (already decoded) parameter: \<open>None\<close> is \<open>next()\<close>
  for a name that does not end in \<open>.csv\<close>. The handler decodes the name once more; when the
  name is not found it decodes it a third time outside the inner \<open>try\<close>, so a failure there
  is the outer catch's 500. GridFS serves the newest revision stored under the name.\<close>

definition data_file_route :: "(string \<Rightarrow> string option) \<Rightarrow> db \<Rightarrow> string \<Rightarrow> resp option" where
  "data_file_route uri_decode d param =
     (let fileName = (case uri_decode param of Some s \<Rightarrow> s | None \<Rightarrow> param) in
      if \<not> suffix ''.csv'' fileName then None
      else Some
        (case (case find_active_file d fileName of
                 Some fd \<Rightarrow> Some (Some fd)
               | None \<Rightarrow> (case uri_decode fileName of
                            None \<Rightarrow> None
                          | Some dec \<Rightarrow> Some (if dec \<noteq> fileName then find_active_file d dec else None))) of
           None \<Rightarrow> err_resp 500 ''Error serving file from database''
         | Some None \<Rightarrow> err_resp 404 (''CSV file not found: '' @ fileName)
         | Some (Some fd) \<Rightarrow>
             if f_gridfs fd \<or> (16 * 1024 * 1024 < f_size fd \<and> \<not> truthy (f_content fd))
             then (case find (\<lambda>(n, _). n = fileName) (rev (gridfs d)) of
                     Some (_, c) \<Rightarrow> Resp 200 (JStr c)
                   | None \<Rightarrow> err_resp 500 ''Error reading file from GridFS'')
             else if truthy (f_content fd) then Resp 200 (JStr (or_empty (f_content fd)))
             else err_resp 404 (''CSV file '' @ fileName @ '' needs to be re-uploaded. Content is missing.'')))"

text \<open>The catch-all \<open>GET *\<close> with a build (1427--1444) and without one (1447--1454).\<close>

definition spa_fallback :: "string option \<Rightarrow> string option \<Rightarrow> string \<Rightarrow> resp" where
  "spa_fallback index key path =
     (if prefix ''/data/'' path then err_resp 404 (''CSV file not found: '' @ path)
      else if prefix ''/api/'' path then err_resp 404 ''API endpoint not found''
      else if CHR ''.'' \<in> set path then Resp 404 (JStr ''Not found'')
      else injectApiKeyAndServe index key)"

definition dev_fallback :: "string \<Rightarrow> resp" where
  "dev_fallback path =
     (if prefix ''/api/'' path then err_resp 404 ''API endpoint not found''
      else Resp 404 (JObj [(''error'', JStr ''Not found''),
                           (''note'', JStr ''In dev mode, static files are served by Vite on port 3000'')]))"

section \<open>Routing\<close>

datatype meth = GET | POST | PUT | DELETE | OPTIONS

text \<open>A segment of a route path: a literal or a parameter \<open>:name\<close>.\<close>

datatype seg = SL string | SP

text \<open>Express matches literal segments without regard to case, a parameter against a non-empty
  segment, and ignores one trailing slash.\<close>

fun seg_match :: "seg list \<Rightarrow> string list \<Rightarrow> string list option" where
  "seg_match [] [] = Some []"
| "seg_match (SL l # ps) (s # ss) = (if lower s = l then seg_match ps ss else None)"
| "seg_match (SP # ps) (s # ss) = (if s \<noteq> [] then map_option (Cons s) (seg_match ps ss) else None)"
| "seg_match _ _ = None"

definition path_segs :: "string \<Rightarrow> string list" where
  "path_segs path =
     (let ss = tl (js_split CHR ''/'' path) in if ss \<noteq> [] \<and> last ss = [] then butlast ss else ss)"

text \<open>Which handler answers a request.\<close>

datatype target =
    TPreflight | TDevRoot | TIndex | THealth
  | TLogin | TMe | TLogout | TListUsers | TAddUser | TDeleteUser string | TSetRole string
  | TListFiles | TUpload | TGetUserFiles string | TSetUserFiles string | TUserFiles
  | TDataFile string | TSchema string | TSchemas | TQuery | TStatic | TFallback | TDevFallback
  | TBadParam | TNoRoute

datatype route = Route meth "seg list" "string list \<Rightarrow> target option" | StaticFiles | CatchAll target

text \<open>The routes in the order \<open>server.js\<close> registers them; \<open>distExists\<close> is whether \<open>frontend/dist/index.html\<close> exists (line 324).\<close>

definition routes :: "bool \<Rightarrow> (string \<Rightarrow> string option) \<Rightarrow> route list" where
  "routes distExists uri_decode =
     (if distExists then [Route GET [] (\<lambda>_. Some TIndex), Route GET [SL ''index.html''] (\<lambda>_. Some TIndex)]
      else [Route GET [] (\<lambda>_. Some TDevRoot)]) @
     [Route GET [SL ''health''] (\<lambda>_. Some THealth),
      Route POST [SL ''api'', SL ''auth'', SL ''login''] (\<lambda>_. Some TLogin),
      Route GET [SL ''api'', SL ''auth'', SL ''me''] (\<lambda>_. Some TMe),
      Route POST [SL ''api'', SL ''auth'', SL ''logout''] (\<lambda>_. Some TLogout),
      Route GET [SL ''api'', SL ''admin'', SL ''users''] (\<lambda>_. Some TListUsers),
      Route POST [SL ''api'', SL ''admin'', SL ''users''] (\<lambda>_. Some TAddUser),
      Route DELETE [SL ''api'', SL ''admin'', SL ''users'', SP] (\<lambda>ps. Some (TDeleteUser (hd ps))),
      Route PUT [SL ''api'', SL ''admin'', SL ''users'', SP, SL ''role''] (\<lambda>ps. Some (TSetRole (hd ps))),
      Route GET [SL ''api'', SL ''admin'', SL ''files''] (\<lambda>_. Some TListFiles),
      Route POST [SL ''api'', SL ''admin'', SL ''files'', SL ''upload''] (\<lambda>_. Some TUpload),
      Route GET [SL ''api'', SL ''admin'', SL ''users'', SP, SL ''files''] (\<lambda>ps. Some (TGetUserFiles (hd ps))),
      Route PUT [SL ''api'', SL ''admin'', SL ''users'', SP, SL ''files''] (\<lambda>ps. Some (TSetUserFiles (hd ps))),
      Route GET [SL ''api'', SL ''user'', SL ''files''] (\<lambda>_. Some TUserFiles)] @
     (if distExists then
        [Route GET [SL ''data'', SP]
           (\<lambda>ps. if suffix ''.csv'' (case uri_decode (hd ps) of Some s \<Rightarrow> s | None \<Rightarrow> hd ps)
                 then Some (TDataFile (hd ps)) else None),
         Route GET [SL ''api'', SL ''data'', SL ''schema'', SP] (\<lambda>ps. Some (TSchema (hd ps))),
         Route GET [SL ''api'', SL ''data'', SL ''schemas''] (\<lambda>_. Some TSchemas),
         Route POST [SL ''api'', SL ''data'', SL ''query''] (\<lambda>_. Some TQuery),
         StaticFiles, CatchAll TFallback]
      else [CatchAll TDevFallback])"

text \<open>The first route that takes the request. The CORS middleware answers every \<open>OPTIONS\<close>
  request first. Express decodes the parameters of a matching route, and a parameter that
  does not decode is an error (\<open>TBadParam\<close>). \<open>static\<close> tells which paths name a file of
  the build.\<close>

fun dispatch_in :: "(string \<Rightarrow> string option) \<Rightarrow> (string \<Rightarrow> bool) \<Rightarrow> route list \<Rightarrow> meth \<Rightarrow> string \<Rightarrow> target" where
  "dispatch_in dec static [] m path = TNoRoute"
| "dispatch_in dec static (Route m' pat f # rs) m path =
     (if m' = m then
        (case seg_match pat (path_segs path) of
           None \<Rightarrow> dispatch_in dec static rs m path
         | Some ps \<Rightarrow>
             (case those (map dec ps) of
                None \<Rightarrow> TBadParam
              | Some ps' \<Rightarrow> (case f ps' of Some t \<Rightarrow> t | None \<Rightarrow> dispatch_in dec static rs m path)))
      else dispatch_in dec static rs m path)"
| "dispatch_in dec static (StaticFiles # rs) m path =
     (if m = GET \<and> static path then TStatic else dispatch_in dec static rs m path)"
| "dispatch_in dec static (CatchAll t # rs) m path = (if m = GET then t else dispatch_in dec static rs m path)"

definition dispatch :: "bool \<Rightarrow> (string \<Rightarrow> string option) \<Rightarrow> (string \<Rightarrow> bool) \<Rightarrow> meth \<Rightarrow> string \<Rightarrow> target" where
  "dispatch distExists uri_decode static m path =
     (if m = OPTIONS then TPreflight else dispatch_in uri_decode static (routes distExists uri_decode) m path)"

section \<open>Lemmas\<close>

lemma replace_char_Nil [simp]: "replace_char c r [] = []"
  by (simp add: replace_char_def)

lemma replace_char_Cons [simp]: "replace_char c r (x # xs) = (if x = c then r else [x]) @ replace_char c r xs"
  by (simp add: replace_char_def)

lemma replace_char_append [simp]: "replace_char c r (xs @ ys) = replace_char c r xs @ replace_char c r ys"
  by (simp add: replace_char_def)

lemma escapedApiKey_Cons: "escapedApiKey (x # xs) = js_escape_char x @ escapedApiKey xs"
  by (simp add: escapedApiKey_def js_escape_char_def)

text \<open>Without a build, the data API is not registered: the schema summary falls to the
  development catch-all and the query endpoint to Express's default answer.\<close>

lemma dev_mode_data_api:
  "dispatch False dec st GET ''/api/data/schemas'' = TDevFallback \<and>
   dispatch False dec st POST ''/api/data/query'' = TNoRoute \<and>
   dispatch True dec st GET ''/api/data/schemas'' = TSchemas \<and>
   dispatch True dec st POST ''/api/data/query'' = TQuery"
  by (simp add: dispatch_def routes_def path_segs_def lower_def lower_char_def is_upper_def is_ascii_upper_def)

lemma escapedApiKey_literal: "read_sq (escapedApiKey k @ CHR 0x27 # rest) = Some (k, rest)"
  by (induction k) (auto simp: escapedApiKey_Cons js_escape_char_def is_line_term_def, simp add: escapedApiKey_def)

lemma path_segs_data:
  "n \<noteq> [] \<Longrightarrow> CHR ''/'' \<notin> set n \<Longrightarrow> path_segs (''/data/'' @ n) = [''data'', n]"
  using js_split_sep [of "CHR ''/''" "[]" "''data/'' @ n"] js_split_sep [of "CHR ''/''" "''data''" n]
  by (simp add: path_segs_def js_split_no_sep)

lemma dispatch_data_file:
  assumes "n \<noteq> []" "CHR ''/'' \<notin> set n" "dec n = Some n" "suffix ''.csv'' n"
  shows "dispatch True dec st GET (''/data/'' @ n) = TDataFile n"
  using assms path_segs_data [OF assms(1,2)] by (simp add: dispatch_def routes_def lower_def lower_char_def is_upper_def
      is_ascii_upper_def)

lemma data_file_route_content:
  assumes "dec n = Some n" "suffix ''.csv'' n" "find_active_file d n = Some fd" "\<not> f_gridfs fd"
    "f_content fd = Some c" "c \<noteq> []"
  shows "data_file_route dec d n = Some (Resp 200 (JStr c))"
  using assms by (simp add: data_file_route_def truthy_def or_empty_def)

section \<open>Properties\<close>

text \<open>
  C32. The chain of four global replacements that escapes the key (line 368) is the
  character-wise escape for a single-quoted JavaScript literal: no replacement touches what an
  earlier one wrote. With \<open>escapedApiKey_literal\<close> above, the literal written into the page
  reads back as exactly the key.
\<close>

theorem escapedApiKey_equiv: "escapedApiKey k = concat (map js_escape_char k)"
  by (induction k) (simp_all add: escapedApiKey_Cons, simp add: escapedApiKey_def)

end
