(* ===== verification/Replies.thy ===== *)
theory Replies
  imports Conversation Regex
begin

text \<open>
  How the chat reads a chart out of the model's reply (\<open>src/frontend/index.tsx\<close>,
  \<open>parseChartJSON\<close>, 3680--3791). The reply is searched for a fenced code block holding an
  object with \<open>"chartType"\<close>; failing that, Strategy A tries every lazy regular-expression
  match of an object with \<open>"chartType"\<close>, repairing a match that does not parse by counting
  braces, and Strategy B takes the object that starts at the first \<open>{\<close> of the reply, with a
  brace count that skips string literals.
  \<open>JSON.parse\<close> is the parameter \<open>P\<close>: every text it is given here starts with \<open>{\<close>, so it
  either throws (\<open>None\<close>) or returns an object. \<open>adaptChartData\<close> is the parameter \<open>ad\<close>
  (\<open>None\<close> when it throws). \<open>json_stringify\<close> is \<open>JSON.stringify\<close> without indentation, the
  reference the round trip of Strategy B is stated against; numbers are printed by a parameter.
  The theory also holds \<open>parseSimulationJSON\<close> (3659--3678), \<open>parseThemesJSON\<close>
  (3845--3867) and the text the message list shows beside the widgets (4092--4104).
\<close>

section \<open>Text helpers\<close>

text \<open>\<open>s.indexOf(c)\<close> for one character (\<open>None\<close> for \<open>-1\<close>).\<close>

fun index_of :: "char \<Rightarrow> string \<Rightarrow> nat option" where
  "index_of c [] = None"
| "index_of c (x # xs) = (if x = c then Some 0 else map_option Suc (index_of c xs))"

text \<open>\<open>s.substring(a, b)\<close> for \<open>a \<le> b\<close>.\<close>

definition substring :: "string \<Rightarrow> nat \<Rightarrow> nat \<Rightarrow> string" where
  "substring s a b = take (b - a) (drop a s)"

section \<open>The brace scans\<close>

text \<open>Strategy A's repair (3703--3712): from \<open>i\<close>, count \<open>{\<close> up and \<open>}\<close> down, and stop after
  the first character at which the count is zero; \<open>None\<close> is \<open>endIndex === -1\<close>.\<close>

fun count_scan :: "int \<Rightarrow> nat \<Rightarrow> string \<Rightarrow> nat option" where
  "count_scan opn i [] = None"
| "count_scan opn i (c # cs) =
     (let opn' = (if c = CHR ''{'' then opn + 1 else if c = CHR ''}'' then opn - 1 else opn) in
      if opn' = 0 then Some (Suc i) else count_scan opn' (Suc i) cs)"

text \<open>Strategy B's scan (3736--3764): a backslash skips the next character, a double quote
  toggles \<open>inString\<close>, and braces count only outside strings; the scan stops after the
  \<open>}\<close> that brings the count to zero.\<close>

fun str_scan :: "int \<Rightarrow> bool \<Rightarrow> bool \<Rightarrow> nat \<Rightarrow> string \<Rightarrow> nat option" where
  "str_scan opn ins esc i [] = None"
| "str_scan opn ins esc i (c # cs) =
     (if esc then str_scan opn ins False (Suc i) cs
      else if c = CHR 0x5C then str_scan opn ins True (Suc i) cs
      else if c = CHR 0x22 then str_scan opn (\<not> ins) esc (Suc i) cs
      else if ins then str_scan opn ins esc (Suc i) cs
      else if c = CHR ''{'' then str_scan (opn + 1) ins esc (Suc i) cs
      else if c = CHR ''}'' then (if opn - 1 = 0 then Some (Suc i) else str_scan (opn - 1) ins esc (Suc i) cs)
      else str_scan opn ins esc (Suc i) cs)"

section \<open>The parser\<close>

text \<open>\<open>parsed.chartType && (parsed.chartType === 'bar' || ... 'pie' || ... 'radar')\<close>.\<close>

definition chart_type_ok :: "jobj \<Rightarrow> bool" where
  "chart_type_ok p \<longleftrightarrow>
     (case obj_get p ''chartType'' of Some (JStr t) \<Rightarrow> t = ''bar'' \<or> t = ''pie'' \<or> t = ''radar'' | _ \<Rightarrow> False)"

text \<open>\<open>parsed.chartType\<close> is truthy (the test of the code-block path).\<close>

definition chart_type_truthy :: "jobj \<Rightarrow> bool" where
  "chart_type_truthy p \<longleftrightarrow> (case obj_get p ''chartType'' of Some v \<Rightarrow> js_truthy v | None \<Rightarrow> False)"

definition quoted_chartType :: string where
  "quoted_chartType = CHR 0x22 # ''chartType'' @ [CHR 0x22]"

text \<open>\<open>/```(?:json)?\s*(\{[\s\S]*?"chartType"[\s\S]*?\})\s*```/\<close> (line 3683).\<close>

definition chart_block_pattern :: "rx list" where
  "chart_block_pattern =
     [RLit ''```'', ROpt [RLit ''json''], RStar is_js_space, RLit ''{'', RLazy (\<lambda>_. True),
      RLit quoted_chartType, RLazy (\<lambda>_. True), RLit ''}'', RStar is_js_space, RLit ''```'']"

text \<open>Group 1 of a match of \<open>chart_block_pattern\<close>: what precedes the group (three backquotes,
  \<open>json\<close>, white space) holds no \<open>{\<close>, and what follows it (white space, three backquotes) no
  \<open>}\<close>, so the group runs from the first \<open>{\<close> of the match to its last \<open>}\<close>.\<close>

definition block_group :: "string \<Rightarrow> string" where
  "block_group m = rev (dropWhile (\<lambda>c. c \<noteq> CHR ''}'') (rev (dropWhile (\<lambda>c. c \<noteq> CHR ''{'') m)))"

text \<open>\<open>/\{[\s\S]*?"chartType"[\s\S]*?\}/g\<close> (line 3689).\<close>

definition chart_object_pattern :: "rx list" where
  "chart_object_pattern = [RLit ''{'', RLazy (\<lambda>_. True), RLit quoted_chartType, RLazy (\<lambda>_. True), RLit ''}'']"

text \<open>Strategy A's repair of one match that does not parse (3700--3722): the brace-counted
  prefix from the first \<open>{\<close>, parsed and checked; \<open>None\<close> goes on to the next match.\<close>

definition repair_match :: "(string \<Rightarrow> jobj option) \<Rightarrow> (jobj \<Rightarrow> 'c option) \<Rightarrow> string \<Rightarrow> ('c \<times> string) option" where
  "repair_match P ad m =
     (case index_of CHR ''{'' m of
        None \<Rightarrow> None
      | Some st \<Rightarrow>
          (case count_scan 0 st (drop st m) of
             None \<Rightarrow> None
           | Some e \<Rightarrow>
               (let raw = substring m st e in
                case P raw of
                  None \<Rightarrow> None
                | Some p \<Rightarrow> if chart_type_ok p then map_option (\<lambda>c. (c, raw)) (ad p) else None)))"

text \<open>Strategy A (3690--3726), over the list of matches. A throw of \<open>adaptChartData\<close> on a match
  that parses is caught by the same \<open>catch\<close> as a parse error, so it also tries the repair.\<close>

fun strategy_a :: "(string \<Rightarrow> jobj option) \<Rightarrow> (jobj \<Rightarrow> 'c option) \<Rightarrow> string list \<Rightarrow> ('c \<times> string) option" where
  "strategy_a P ad [] = None"
| "strategy_a P ad (m # ms) =
     (case P m of
        None \<Rightarrow> (case repair_match P ad m of Some r \<Rightarrow> Some r | None \<Rightarrow> strategy_a P ad ms)
      | Some p \<Rightarrow>
          if chart_type_ok p then
            (case ad p of
               Some c \<Rightarrow> Some (c, m)
             | None \<Rightarrow> (case repair_match P ad m of Some r \<Rightarrow> Some r | None \<Rightarrow> strategy_a P ad ms))
          else strategy_a P ad ms)"

text \<open>Strategy B (3729--3775): the object from the first \<open>{\<close> of the reply, when the reply
  mentions \<open>"chartType"\<close>; a throw is caught and gives \<open>null\<close>.\<close>

definition strategy_b :: "(string \<Rightarrow> jobj option) \<Rightarrow> (jobj \<Rightarrow> 'c option) \<Rightarrow> string \<Rightarrow> ('c \<times> string) option" where
  "strategy_b P ad text =
     (case index_of CHR ''{'' text of
        None \<Rightarrow> None
      | Some st \<Rightarrow>
          if \<not> contains text quoted_chartType then None
          else (case str_scan 0 False False st (drop st text) of
                  None \<Rightarrow> None
                | Some e \<Rightarrow>
                    (let raw = substring text st e in
                     case P raw of
                       None \<Rightarrow> None
                     | Some p \<Rightarrow> if chart_type_ok p then map_option (\<lambda>c. (c, raw)) (ad p) else None)))"

text \<open>\<open>parseChartJSON\<close>: the code block first (its object is only required to have a truthy
  \<open>chartType\<close>, and a parse error there ends the search), then Strategy A over all matches,
  then Strategy B.\<close>

definition parseChartJSON :: "(string \<Rightarrow> jobj option) \<Rightarrow> (jobj \<Rightarrow> 'c option) \<Rightarrow> string \<Rightarrow> ('c \<times> string) option" where
  "parseChartJSON P ad text =
     (case rx_search chart_block_pattern text of
        Some (_, m, _) \<Rightarrow>
          (case P (block_group m) of
             None \<Rightarrow> None
           | Some p \<Rightarrow> if chart_type_truthy p then map_option (\<lambda>c. (c, m)) (ad p) else None)
      | None \<Rightarrow>
          (case strategy_a P ad (rx_search_all chart_object_pattern text) of
             Some r \<Rightarrow> Some r
           | None \<Rightarrow> strategy_b P ad text))"

section \<open>The printed form of a JSON value\<close>

text \<open>\<open>JSON.stringify\<close> of a string: a double quote and a backslash are escaped, the control
  characters with a short escape get it, the others \<open>\u00XX\<close>.\<close>

definition hex_digit :: "nat \<Rightarrow> char" where
  "hex_digit n = ''0123456789abcdef'' ! n"

definition json_esc :: "char \<Rightarrow> string" where
  "json_esc c =
     (if c = CHR 0x22 then [CHR 0x5C, CHR 0x22]
      else if c = CHR 0x5C then [CHR 0x5C, CHR 0x5C]
      else if c = CHR 0x0A then [CHR 0x5C, CHR ''n'']
      else if c = CHR 0x0D then [CHR 0x5C, CHR ''r'']
      else if c = CHR 0x09 then [CHR 0x5C, CHR ''t'']
      else if c = CHR 0x08 then [CHR 0x5C, CHR ''b'']
      else if c = CHR 0x0C then [CHR 0x5C, CHR ''f'']
      else if of_char c < (32::nat) then
        [CHR 0x5C, CHR ''u'', CHR ''0'', CHR ''0'', hex_digit (of_char c div 16), hex_digit (of_char c mod 16)]
      else [c])"

definition json_quote :: "string \<Rightarrow> string" where
  "json_quote s = CHR 0x22 # concat (map json_esc s) @ [CHR 0x22]"

text \<open>The value printed with no white space; \<open>pn\<close> prints a number, and an \<open>ObjectId\<close> is
  printed as the string of its number.\<close>

fun json_stringify :: "(rat \<Rightarrow> string) \<Rightarrow> json \<Rightarrow> string" where
  "json_stringify pn JNull = ''null''"
| "json_stringify pn (JBool b) = (if b then ''true'' else ''false'')"
| "json_stringify pn (JNum n) = pn n"
| "json_stringify pn (JStr s) = json_quote s"
| "json_stringify pn (JArr xs) = ''['' @ commas (map (json_stringify pn) xs) @ '']''"
| "json_stringify pn (JObj kv) = ''{'' @ commas (map (\<lambda>(k, v). json_quote k @ '':'' @ json_stringify pn v) kv) @ ''}''"
| "json_stringify pn (JOid n) = json_quote (show_nat n)"

text \<open>A number printer that writes none of the characters the scans look at.\<close>

definition num_plain :: "(rat \<Rightarrow> string) \<Rightarrow> bool" where
  "num_plain pn \<longleftrightarrow> (\<forall>n. \<forall>c \<in> set (pn n). c \<noteq> CHR ''{'' \<and> c \<noteq> CHR ''}'' \<and> c \<noteq> CHR 0x22 \<and> c \<noteq> CHR 0x5C)"

section \<open>Simulation and theme replies\<close>

text \<open>\<open>s.indexOf(c)\<close> and \<open>s.lastIndexOf(c)\<close> as JavaScript numbers, \<open>-1\<close> when absent.\<close>

definition js_indexOf :: "char \<Rightarrow> string \<Rightarrow> int" where
  "js_indexOf c s = (case index_of c s of None \<Rightarrow> -1 | Some i \<Rightarrow> int i)"

definition js_lastIndexOf :: "char \<Rightarrow> string \<Rightarrow> int" where
  "js_lastIndexOf c s = (case index_of c (rev s) of None \<Rightarrow> -1 | Some i \<Rightarrow> int (length s) - 1 - int i)"

text \<open>\<open>s.substring(a, b)\<close> on any numbers: both are clamped to \<open>[0, length]\<close> and swapped when
  \<open>a > b\<close>.\<close>

definition js_substring :: "string \<Rightarrow> int \<Rightarrow> int \<Rightarrow> string" where
  "js_substring s a b =
     (let n = int (length s); a' = min (max a 0) n; b' = min (max b 0) n
      in take (nat (max a' b' - min a' b')) (drop (nat (min a' b')) s))"

text \<open>\<open>/```json\n([\s\S]*?)\n```/\<close> and \<open>/```\n([\s\S]*?)\n```/\<close> (lines 3661 and 3847); the
  group is the match without its two literal ends.\<close>

definition fence_json_pattern :: "rx list" where
  "fence_json_pattern = [RLit (''```json'' @ [CHR 0x0A]), RLazy (\<lambda>_. True), RLit (CHR 0x0A # ''```'')]"

definition fence_plain_pattern :: "rx list" where
  "fence_plain_pattern = [RLit (''```'' @ [CHR 0x0A]), RLazy (\<lambda>_. True), RLit (CHR 0x0A # ''```'')]"

definition fence_group :: "nat \<Rightarrow> string \<Rightarrow> string" where
  "fence_group a m = take (length m - a - 4) (drop a m)"

text \<open>\<open>text.match(fence_json) || text.match(fence_plain)\<close>: group 1 and the whole match.\<close>

definition fence_match :: "string \<Rightarrow> (string \<times> string) option" where
  "fence_match text =
     (case rx_search fence_json_pattern text of
        Some (_, m, _) \<Rightarrow> Some (fence_group 8 m, m)
      | None \<Rightarrow> (case rx_search fence_plain_pattern text of
                  Some (_, m, _) \<Rightarrow> Some (fence_group 4 m, m)
                | None \<Rightarrow> None))"

record simulation_data =
  topEnd :: string
  bottomEnd :: string
  cxImpact :: string
  constraints :: string
  synthesis :: string

text \<open>\<open>typeof v === 'string' ? v : JSON.stringify(v || '')\<close>.\<close>

definition sim_field :: "(rat \<Rightarrow> string) \<Rightarrow> json option \<Rightarrow> string" where
  "sim_field pn v =
     (case v of
        Some (JStr s) \<Rightarrow> s
      | _ \<Rightarrow> json_stringify pn (if js_truthy_opt v then the v else JStr []))"

text \<open>\<open>parseSimulationJSON\<close> (3659--3678). Here \<open>P\<close> is \<open>JSON.parse\<close> read as an object:
  a text that parses to anything else gives \<open>null\<close> all the same, as \<open>parsed.topEnd\<close> is then
  undefined or throws.\<close>

definition parseSimulationJSON :: "(string \<Rightarrow> jobj option) \<Rightarrow> (rat \<Rightarrow> string) \<Rightarrow> string \<Rightarrow> simulation_data option" where
  "parseSimulationJSON P pn text =
     (let jsonString = (case fence_match text of Some (g, _) \<Rightarrow> g | None \<Rightarrow> text);
          clean = (if prefix ''{'' (trim jsonString) then jsonString
                   else js_substring jsonString (js_indexOf CHR ''{'' jsonString) (js_lastIndexOf CHR ''}'' jsonString + 1))
      in case P clean of
           None \<Rightarrow> None
         | Some p \<Rightarrow>
             if js_truthy_opt (obj_get p ''topEnd'') \<or> js_truthy_opt (obj_get p ''synthesis'')
             then Some \<lparr>topEnd = sim_field pn (obj_get p ''topEnd''), bottomEnd = sim_field pn (obj_get p ''bottomEnd''),
                        cxImpact = sim_field pn (obj_get p ''cxImpact''), constraints = sim_field pn (obj_get p ''constraints''),
                        synthesis = sim_field pn (obj_get p ''synthesis'')\<rparr>
             else None)"

text \<open>\<open>parseThemesJSON\<close> (3845--3867): the themes array, \<open>selectionLogic\<close> (\<open>None\<close> when
  undefined) and the raw text. Without a code block the text from the first \<open>{\<close> to the last
  \<open>}\<close> is parsed and any array is accepted; in a code block the array must not be empty.\<close>

definition parseThemesJSON :: "(string \<Rightarrow> jobj option) \<Rightarrow> string \<Rightarrow> (json list \<times> json option \<times> string) option" where
  "parseThemesJSON P text =
     (case fence_match text of
        None \<Rightarrow>
          if contains text (CHR 0x22 # ''themes'' @ [CHR 0x22]) \<and> contains text ''[''
          then (let raw = js_substring text (js_indexOf CHR ''{'' text) (js_lastIndexOf CHR ''}'' text + 1) in
                case P raw of
                  Some p \<Rightarrow> (case obj_get p ''themes'' of
                               Some (JArr ts) \<Rightarrow> Some (ts, obj_get p ''selectionLogic'', raw)
                             | _ \<Rightarrow> None)
                | None \<Rightarrow> None)
          else None
      | Some (g, m) \<Rightarrow>
          (case P (if g \<noteq> [] then g else m) of
             Some p \<Rightarrow> (case obj_get p ''themes'' of
                          Some (JArr ts) \<Rightarrow> if ts \<noteq> [] then Some (ts, obj_get p ''selectionLogic'', m) else None
                        | _ \<Rightarrow> None)
           | None \<Rightarrow> None))"

section \<open>What the message shows\<close>

text \<open>\<open>/```(?:json)?\s*\{[\s\S]*?"chartType"[\s\S]*?\}\s*```/g\<close> (line 4098) is the chart block
  pattern; \<open>/\n{3,}/g\<close> (line 4100).\<close>

definition newline_run_pattern :: "rx list" where
  "newline_run_pattern = [RLit [CHR 0x0A, CHR 0x0A, CHR 0x0A], RStar (\<lambda>c. c = CHR 0x0A)]"

text \<open>The text shown beside the widgets (4093--4105): the raw chart JSON and every chart code
  block are removed, runs of blank lines shortened and the text trimmed; then the raw themes
  JSON is removed.\<close>

definition display_content :: "('c \<times> string) option \<Rightarrow> (json list \<times> json option \<times> string) option \<Rightarrow> string \<Rightarrow> string" where
  "display_content chart themes text =
     (let d1 = (case chart of
                  Some (_, raw) \<Rightarrow>
                    if raw \<noteq> [] then
                      trim (rx_replace_all newline_run_pattern (\<lambda>_. [CHR 0x0A, CHR 0x0A])
                              (rx_replace_all chart_block_pattern (\<lambda>_. []) (replace_first raw [] text)))
                    else text
                | None \<Rightarrow> text)
      in case themes of
           Some (_, _, raw) \<Rightarrow> if raw \<noteq> [] then replace_first raw [] d1 else d1
         | None \<Rightarrow> d1)"

text \<open>The characters Strategy B's scan reacts to.\<close>

definition scan_special :: "char \<Rightarrow> bool" where
  "scan_special c \<longleftrightarrow> c = CHR ''{'' \<or> c = CHR ''}'' \<or> c = CHR 0x22 \<or> c = CHR 0x5C"

text \<open>A bar chart whose options hold a nested object that also has a \<open>chartType\<close>.\<close>

definition nested_chart :: jobj where
  "nested_chart = [(''chartType'', JStr ''bar''), (''legend'', JObj [(''position'', JStr ''top'')]),
                   (''inset'', JObj [(''chartType'', JStr ''pie'')])]"

section \<open>Scanning a printed value\<close>

text \<open>Strategy B's scan steps over a printed string literal, and over a printed value inside an
  object or array, without stopping; on a printed object it stops exactly after its last
  character, whatever follows.\<close>

lemma obj_get_mem: "obj_get kv k = Some v \<Longrightarrow> (k, v) \<in> set kv"
  by (induction kv k rule: obj_get.induct) (auto split: if_splits)

lemma str_scan_append_plain:
  "\<forall>c \<in> set s. \<not> scan_special c \<Longrightarrow>
   str_scan opn False False i (s @ rest) = str_scan opn False False (i + length s) rest"
  by (induction s arbitrary: i) (auto simp: scan_special_def)

lemma str_scan_append_in_plain:
  "\<forall>c \<in> set s. c \<noteq> CHR 0x22 \<and> c \<noteq> CHR 0x5C \<Longrightarrow>
   str_scan opn True False i (s @ rest) = str_scan opn True False (i + length s) rest"
  by (induction s arbitrary: i) auto

lemma hex_digit_plain: "n < 16 \<Longrightarrow> hex_digit n \<noteq> CHR 0x22 \<and> hex_digit n \<noteq> CHR 0x5C"
proof -
  assume "n < 16"
  then have "hex_digit n \<in> set ''0123456789abcdef''" unfolding hex_digit_def by (intro nth_mem) simp
  then show ?thesis by auto
qed

lemma str_scan_json_esc:
  "str_scan opn True False i (json_esc c @ rest) = str_scan opn True False (i + length (json_esc c)) rest"
  by (simp add: json_esc_def hex_digit_plain)

lemma str_scan_json_escs:
  "str_scan opn True False i (concat (map json_esc s) @ rest) =
   str_scan opn True False (i + length (concat (map json_esc s))) rest"
  by (induction s arbitrary: i) (simp_all add: str_scan_json_esc [where rest = "_ @ rest", simplified] add.assoc)

lemma str_scan_json_quote:
  "str_scan opn False False i (json_quote s @ rest) = str_scan opn False False (i + length (json_quote s)) rest"
  using str_scan_json_escs [of opn "Suc i" s "CHR 0x22 # rest"] by (simp add: json_quote_def)

lemma str_scan_commas:
  assumes "\<And>x i rest. x \<in> set xs \<Longrightarrow>
             str_scan opn False False i (x @ rest) = str_scan opn False False (i + length x) rest"
  shows "str_scan opn False False i (commas xs @ rest) = str_scan opn False False (i + length (commas xs)) rest"
  using assms by (induction xs arbitrary: i rule: commas.induct) (simp_all add: scan_special_def add.assoc)

lemma str_scan_stringify:
  "num_plain pn \<Longrightarrow> 0 < opn \<Longrightarrow>
   str_scan opn False False i (json_stringify pn v @ rest) =
   str_scan opn False False (i + length (json_stringify pn v)) rest"
proof (induction pn v arbitrary: opn i rest rule: json_stringify.induct)
  case (3 pn n)
  then show ?case by (intro str_scan_append_plain) (auto simp: num_plain_def scan_special_def)
next
  case (5 pn xs)
  have "str_scan opn False False j (commas (map (json_stringify pn) xs) @ r) =
        str_scan opn False False (j + length (commas (map (json_stringify pn) xs))) r" for j r
    using 5 by (intro str_scan_commas) auto
  with 5 show ?case by simp
next
  case (6 pn kv)
  have "str_scan (opn + 1) False False j (commas (map (\<lambda>(k, v). json_quote k @ '':'' @ json_stringify pn v) kv) @ r) =
        str_scan (opn + 1) False False (j + length (commas (map (\<lambda>(k, v). json_quote k @ '':'' @ json_stringify pn v) kv))) r" for j r
    using 6 by (intro str_scan_commas) (auto simp: str_scan_json_quote add.assoc)
  with 6 show ?case by simp
qed (simp_all add: str_scan_json_quote)

lemma str_scan_object:
  "num_plain pn \<Longrightarrow>
   str_scan 0 False False i (json_stringify pn (JObj kv) @ rest) = Some (i + length (json_stringify pn (JObj kv)))"
proof -
  assume np: "num_plain pn"
  have "str_scan 1 False False j (commas (map (\<lambda>(k, v). json_quote k @ '':'' @ json_stringify pn v) kv) @ r) =
        str_scan 1 False False (j + length (commas (map (\<lambda>(k, v). json_quote k @ '':'' @ json_stringify pn v) kv))) r" for j r
    by (intro str_scan_commas) (auto simp: str_scan_json_quote str_scan_stringify [OF np] add.assoc)
  then show ?thesis by simp
qed

lemma index_of_append: "c \<notin> set pre \<Longrightarrow> index_of c (pre @ c # rest) = Some (length pre)"
  by (induction pre) auto

lemma sublist_mid: "sublist x ys \<Longrightarrow> sublist x (a @ ys @ b)"
  unfolding sublist_def by (metis append.assoc)

lemma sublist_commas: "x \<in> set xs \<Longrightarrow> sublist x (commas xs)"
proof (induction xs rule: commas.induct)
  case (3 u y zs)
  show ?case
  proof (cases "x = u")
    case True
    then show ?thesis using sublist_mid [of x x "[]" "'','' @ commas (y # zs)"] by simp
  next
    case False
    with 3 have "sublist x (commas (y # zs))" by simp
    then show ?thesis using sublist_mid [of x "commas (y # zs)" "u @ '',''" "[]"] by simp
  qed
qed auto

lemma stringify_key:
  assumes "obj_get kv k = Some v"
  shows "contains (json_stringify pn (JObj kv)) (json_quote k)"
proof -
  have "sublist (json_quote k @ '':'' @ json_stringify pn v)
          (commas (map (\<lambda>(k, v). json_quote k @ '':'' @ json_stringify pn v) kv))"
    using obj_get_mem [OF assms] by (intro sublist_commas) force
  then have "sublist (json_quote k) (commas (map (\<lambda>(k, v). json_quote k @ '':'' @ json_stringify pn v) kv))"
    by (rule sublist_order.order.trans [rotated]) simp
  then show ?thesis
    unfolding contains_iff_sublist using sublist_mid [where a = "''{''" and b = "''}''"] by simp
qed

lemma chart_type_key: "chart_type_ok kv \<Longrightarrow> contains (json_stringify pn (JObj kv)) quoted_chartType"
  using stringify_key [of kv "''chartType''"]
  by (auto simp: chart_type_ok_def quoted_chartType_def json_quote_def json_esc_def split: option.splits)

text \<open>A parser that accepts only printed objects fails on every text Strategy B's scan cannot
  close.\<close>

lemma parse_sound_scan:
  assumes "\<forall>s p. P s = Some p \<longrightarrow> s = json_stringify pn (JObj p)" and "num_plain pn"
    and "str_scan 0 False False 0 s = None"
  shows "P s = None"
proof (rule ccontr)
  assume "P s \<noteq> None"
  then obtain p where "s = json_stringify pn (JObj p)" using assms(1) by blast
  then show False using str_scan_object [OF assms(2), of 0 p "[]"] assms(3) by simp
qed

lemma trim_brace_prefix: "s \<noteq> [] \<Longrightarrow> hd s = CHR ''{'' \<Longrightarrow> prefix ''{'' (trim s)"
proof -
  assume ne: "s \<noteq> []" and h: "hd s = CHR ''{''"
  have keep: "dropWhile is_js_space s = s" using h ne by (intro dropWhile_keep) (simp add: is_js_space_def)
  have "dropWhile is_js_space (rev s) \<noteq> []"
  proof -
    have "\<not> is_js_space (hd s)" using h by (simp add: is_js_space_def)
    then show ?thesis using hd_in_set [OF ne] by (auto simp: dropWhile_eq_Nil_conv)
  qed
  moreover have "last (dropWhile is_js_space (rev s)) = hd s"
    using calculation by (simp add: last_dropWhile last_rev ne)
  ultimately show ?thesis using h unfolding trim_def keep
    by (cases "dropWhile is_js_space (rev s)" rule: rev_cases) (auto simp: prefix_def)
qed

text \<open>A simulation the model answers with only a synthesis, in a \<open>json\<close> code block after
  prose without backquotes, is read back with its synthesis, and each of the four other
  sections is the two characters \<open>""\<close> (\<open>JSON.stringify('')\<close>), which the widget renders.\<close>

lemma simulation_missing_sections:
  assumes "CHR ''`'' \<notin> set pre" and "CHR ''`'' \<notin> set (json_stringify pn (JObj kv))"
    and "P (json_stringify pn (JObj kv)) = Some kv"
    and "obj_get kv ''synthesis'' = Some (JStr s)" and "s \<noteq> []"
    and "obj_get kv ''topEnd'' = None" and "obj_get kv ''bottomEnd'' = None"
    and "obj_get kv ''cxImpact'' = None" and "obj_get kv ''constraints'' = None"
  shows "parseSimulationJSON P pn
           (pre @ ''```json'' @ [CHR 0x0A] @ json_stringify pn (JObj kv) @ [CHR 0x0A] @ ''```'' @ post) =
         Some \<lparr>topEnd = [CHR 0x22, CHR 0x22], bottomEnd = [CHR 0x22, CHR 0x22], cxImpact = [CHR 0x22, CHR 0x22],
               constraints = [CHR 0x22, CHR 0x22], synthesis = s\<rparr>"
proof -
  let ?j = "json_stringify pn (JObj kv)"
  have fence: "rx_search fence_json_pattern (pre @ (''```json'' @ [CHR 0x0A]) @ ?j @ (CHR 0x0A # ''```'') @ post) =
               Some (pre, (''```json'' @ [CHR 0x0A]) @ ?j @ (CHR 0x0A # ''```''), post)"
    unfolding fence_json_pattern_def using assms(1,2) by (intro rx_search_fence) auto
  have grp: "fence_group 8 ((''```json'' @ [CHR 0x0A]) @ ?j @ (CHR 0x0A # ''```'')) = ?j"
    by (simp add: fence_group_def)
  have "prefix ''{'' (trim ?j)" by (intro trim_brace_prefix) auto
  then show ?thesis
    using fence grp assms(3-9)
    by (simp add: parseSimulationJSON_def fence_match_def js_truthy_opt_def sim_field_def json_quote_def)
qed

section \<open>Properties\<close>

text \<open>
  C15. Strategy B recovers a chart the model prints without white space after prose with no
  brace: whatever text follows the object, the raw text it extracts is exactly the printed
  object (string values may contain braces, quotes and backslashes), and the chart is
  \<open>adaptChartData\<close> of the parsed object.
\<close>

theorem strategy_b_roundtrip:
  assumes "num_plain pn" and "CHR ''{'' \<notin> set pre"
    and "P (json_stringify pn (JObj kv)) = Some kv" and "chart_type_ok kv"
  shows "strategy_b P ad (pre @ json_stringify pn (JObj kv) @ post) =
         map_option (\<lambda>c. (c, json_stringify pn (JObj kv))) (ad kv)"
proof -
  let ?j = "json_stringify pn (JObj kv)"
  have idx: "index_of CHR ''{'' (pre @ ?j @ post) = Some (length pre)"
    using index_of_append [OF assms(2)] by simp
  have "contains (pre @ ?j @ post) quoted_chartType"
    using chart_type_key [OF assms(4)] contains_append_middle contains_trans by blast
  moreover have "str_scan 0 False False (length pre) (?j @ post) = Some (length pre + length ?j)"
    using str_scan_object [OF assms(1)] by simp
  ultimately show ?thesis
    using assms(3,4) idx by (simp add: strategy_b_def substring_def)
qed

theorem strategy_b_roundtrip_witness:
  "strategy_b (\<lambda>s. if s = json_stringify (\<lambda>_. ''0'') (JObj [(''chartType'', JStr ''pie''), (''v'', JNum 1)])
                   then Some [(''chartType'', JStr ''pie''), (''v'', JNum 1)] else None) Some
     (''Here is the chart: '' @ json_stringify (\<lambda>_. ''0'') (JObj [(''chartType'', JStr ''pie''), (''v'', JNum 1)]) @ '' Done.'') =
   Some ([(''chartType'', JStr ''pie''), (''v'', JNum 1)],
         json_stringify (\<lambda>_. ''0'') (JObj [(''chartType'', JStr ''pie''), (''v'', JNum 1)]))"
  using strategy_b_roundtrip [of "\<lambda>_. ''0''" "''Here is the chart: ''"
      "\<lambda>s. if s = json_stringify (\<lambda>_. ''0'') (JObj [(''chartType'', JStr ''pie''), (''v'', JNum 1)])
           then Some [(''chartType'', JStr ''pie''), (''v'', JNum 1)] else None"
      "[(''chartType'', JStr ''pie''), (''v'', JNum 1)]" Some "'' Done.''"]
  by (simp add: num_plain_def chart_type_ok_def)

text \<open>
  C38. Strategy A can show the wrong chart. For a reply holding a bar chart whose options
  contain a nested object with its own \<open>chartType\<close>, the first lazy match stops at the first
  \<open>}\<close> after \<open>"chartType"\<close> and does not parse, its brace-counted repair does not close, and the
  next match is the nested object: for every \<open>JSON.parse\<close> that accepts only printed objects,
  \<open>parseChartJSON\<close> returns the nested pie chart instead of the reply's bar chart.
\<close>

theorem chart_nested_pick:
  assumes "\<forall>s p. P s = Some p \<longrightarrow> s = json_stringify pn (JObj p)" and "num_plain pn"
    and "P (json_stringify pn (JObj [(''chartType'', JStr ''pie'')])) = Some [(''chartType'', JStr ''pie'')]"
    and "ad [(''chartType'', JStr ''pie'')] = Some c"
  shows "chart_type_ok nested_chart \<and>
         parseChartJSON P ad (''Chart: '' @ json_stringify pn (JObj nested_chart)) =
           Some (c, json_stringify pn (JObj [(''chartType'', JStr ''pie'')]))"
proof -
  let ?m1 = "''{\"chartType\":\"bar\",\"legend\":{\"position\":\"top\"}''"
  have reply: "''Chart: '' @ json_stringify pn (JObj nested_chart) =
              ''Chart: {\"chartType\":\"bar\",\"legend\":{\"position\":\"top\"},\"inset\":{\"chartType\":\"pie\"}}''"
    by (simp add: nested_chart_def json_quote_def json_esc_def)
  have inner: "json_stringify pn (JObj [(''chartType'', JStr ''pie'')]) = ''{\"chartType\":\"pie\"}''"
    by (simp add: json_quote_def json_esc_def)
  have block: "rx_search chart_block_pattern
                 ''Chart: {\"chartType\":\"bar\",\"legend\":{\"position\":\"top\"},\"inset\":{\"chartType\":\"pie\"}}'' = None"
    by code_simp
  have matches: "rx_search_all chart_object_pattern
                   ''Chart: {\"chartType\":\"bar\",\"legend\":{\"position\":\"top\"},\"inset\":{\"chartType\":\"pie\"}}'' =
                 [?m1, ''{\"chartType\":\"pie\"}'']"
    by code_simp
  have "P ?m1 = None" using parse_sound_scan [OF assms(1,2)] by simp
  moreover have "repair_match P ad ?m1 = None" by (simp add: repair_match_def)
  ultimately show ?thesis
    using assms(3,4) unfolding reply parseChartJSON_def block matches inner [symmetric]
    by (simp add: nested_chart_def chart_type_ok_def inner)
qed

theorem chart_nested_pick_witness:
  "parseChartJSON (\<lambda>s. if s = ''{\"chartType\":\"pie\"}'' then Some [(''chartType'', JStr ''pie'')] else None) Some
     (''Chart: '' @ json_stringify (\<lambda>_. []) (JObj nested_chart)) =
   Some ([(''chartType'', JStr ''pie'')], ''{\"chartType\":\"pie\"}'')"
  using chart_nested_pick [of "\<lambda>s. if s = ''{\"chartType\":\"pie\"}'' then Some [(''chartType'', JStr ''pie'')] else None"
      "\<lambda>_. []" Some "[(''chartType'', JStr ''pie'')]"]
  by (auto simp: num_plain_def json_quote_def json_esc_def)

end
