(* ===== verification/Attach.thy ===== *)
theory Attach
  imports Users Regex
begin

text \<open>
  Files the user attaches to the chat from the local disk (\<open>src/frontend/index.tsx\<close>):
  \<open>handleChatFileSelect\<close> (2317--2369) reads each picked file, opening a \<open>.zip\<close> with JSZip,
  and hands every text to \<open>processSingleFile\<close> (2431--2492), which skips HTML
  (\<open>isHTMLContent\<close>, 2372--2392), derives the collection name, reads the header line and
  records a schema and an attachment. The client state is the record \<open>client\<close> of the theory
  Access; the arrays \<open>newFiles\<close> and \<open>newTables\<close> that \<open>processSingleFile\<close> pushes to are
  threaded through explicitly. What the browser gives is the record \<open>picked\<close>: the text
  \<open>FileReader\<close> reads (\<open>None\<close> when it fails) and the entries JSZip lists (\<open>None\<close> when
  \<open>loadAsync\<close> throws). The text of an attachment is not kept: the attachment record of the
  theory Access has no content field.
\<close>

section \<open>Recognising HTML\<close>

text \<open>\<open>/<[a-z][\s\S]*>/i\<close>.\<close>

definition html_tag_pattern :: "rx list" where
  "html_tag_pattern = [RLit ''<'', RChar (\<lambda>c. is_ascii_lower c \<or> is_ascii_upper c), RStar (\<lambda>_. True), RLit ''>'']"

text \<open>\<open>(s.match(re) || []).length\<close> for a pattern without the \<open>g\<close> flag and without groups:
  the match array holds the matched text only.\<close>

definition match_count :: "rx list \<Rightarrow> string \<Rightarrow> nat" where
  "match_count p s = (case rx_search p s of None \<Rightarrow> 0 | Some _ \<Rightarrow> 1)"

definition isHTMLContent :: "string \<Rightarrow> bool" where
  "isHTMLContent content =
     (if trim content = [] then True
      else let t = lower (trim content) in
        if prefix ''<!doctype html'' t \<or> prefix ''<html'' t \<or> contains t ''<html>'' \<or>
           contains t ''</html>'' \<or> contains t ''<head>'' \<or> contains t ''<body>'' \<or>
           contains t ''<script'' \<or> contains t ''<!DOCTYPE''
        then True
        else 2 < match_count html_tag_pattern content)"

text \<open>The tests of \<open>isHTMLContent\<close> that can succeed.\<close>

definition html_marker :: "string \<Rightarrow> bool" where
  "html_marker t \<longleftrightarrow>
     prefix ''<!doctype html'' t \<or> prefix ''<html'' t \<or> contains t ''<html>'' \<or>
     contains t ''</html>'' \<or> contains t ''<head>'' \<or> contains t ''<body>'' \<or> contains t ''<script''"

section \<open>One file\<close>

definition MAX_TEXT_PAYLOAD_SIZE :: nat where
  "MAX_TEXT_PAYLOAD_SIZE = 30000"

definition is_quote_char :: "char \<Rightarrow> bool" where
  "is_quote_char c \<longleftrightarrow> c = CHR 0x22 \<or> c = CHR 0x27"

text \<open>\<open>h.replace(/^["']|["']$/g, '')\<close>: a quote at the start and a quote at the end are
  removed; the search for the second starts after the first, so a lone quote goes once.\<close>

definition strip_quote_ends :: "string \<Rightarrow> string" where
  "strip_quote_ends h =
     (let h1 = (case h of c # cs \<Rightarrow> if is_quote_char c then cs else h | [] \<Rightarrow> [])
      in if h1 \<noteq> [] \<and> is_quote_char (last h1) then butlast h1 else h1)"

text \<open>\<open>content.split('\n').filter(l => l.trim())\<close>.\<close>

definition csv_lines :: "string \<Rightarrow> string list" where
  "csv_lines content = filter (\<lambda>l. trim l \<noteq> []) (js_split CHR 0x0A content)"

text \<open>\<open>headerLine.split(',').map(h => h.trim().replace(...))\<close>.\<close>

definition csv_headers :: "string \<Rightarrow> string list" where
  "csv_headers line = map (\<lambda>h. strip_quote_ends (trim h)) (js_split CHR '','' line)"

type_synonym pick_acc = "attachment list \<times> string list \<times> client"

text \<open>\<open>processSingleFile(name, content, newFiles, newTables)\<close>; the early \<open>return\<close>s leave
  everything unchanged.\<close>

definition processSingleFile :: "string \<Rightarrow> string \<Rightarrow> pick_acc \<Rightarrow> pick_acc" where
  "processSingleFile name content st =
     (case st of
        (nf, nt, c) \<Rightarrow>
          let isCsv = suffix ''.csv'' (lower name);
              isLarge = MAX_TEXT_PAYLOAD_SIZE < length content
          in if \<not> isCsv then
               (nf @ [\<lparr>a_name = name, a_isCsv = False, a_isLarge = isLarge, a_collection = None,
                       a_headers = [], a_rowCount = 0\<rparr>], nt, c)
             else if isHTMLContent content then st
             else
               let coll = getCollectionName name; ls = csv_lines content in
               if length ls < 2 then st
               else
                 let hs = csv_headers (hd ls); rc = length ls - 1 in
                 if hs = [] \<or> list_all (\<lambda>h. h = []) hs then st
                 else
                   let c' = c\<lparr>cl_schemas := obj_set (cl_schemas c) coll
                                 \<lparr>ts_columns = hs, ts_rowCount = rc, ts_fileName = name\<rparr>\<rparr>
                   in if coll \<noteq> [] \<and> hs \<noteq> [] \<and> 0 < rc
                      then (nf @ [\<lparr>a_name = name, a_isCsv = True, a_isLarge = isLarge, a_collection = Some coll,
                                  a_headers = hs, a_rowCount = rc\<rparr>], nt @ [coll], c')
                      else (nf, nt @ [coll], c'))"

section \<open>Picking files\<close>

record picked =
  p_name :: string
  p_text :: "string option"
  p_zip :: "(string \<times> bool \<times> string) list option"

text \<open>A zip entry that is read: not a directory, not under \<open>__MACOSX\<close>, not hidden.\<close>

definition zip_entry_ok :: "string \<Rightarrow> bool \<Rightarrow> bool" where
  "zip_entry_ok n isdir \<longleftrightarrow> \<not> isdir \<and> \<not> prefix ''__MACOSX'' n \<and> \<not> prefix ''.'' n"

text \<open>One iteration of the loop over the picked files; \<open>jszip\<close> is \<open>typeof JSZip !== 'undefined'\<close>,
  and a failure to read is caught and skips the file.\<close>

definition pick_one :: "bool \<Rightarrow> picked \<Rightarrow> pick_acc \<Rightarrow> pick_acc" where
  "pick_one jszip f st =
     (if suffix ''.zip'' (lower (p_name f)) then
        (if \<not> jszip then st
         else case p_zip f of
                None \<Rightarrow> st
              | Some es \<Rightarrow> foldl (\<lambda>acc (n, isdir, t). if zip_entry_ok n isdir then processSingleFile n t acc else acc) st es)
      else case p_text f of
             None \<Rightarrow> st
           | Some t \<Rightarrow> processSingleFile (p_name f) t st)"

text \<open>The schema \<open>handleChatFileSelect\<close> sets again for an attachment with a collection, headers
  and a row count (2352--2365).\<close>

definition attach_schema :: "(string \<times> table_schema) list \<Rightarrow> attachment \<Rightarrow> (string \<times> table_schema) list" where
  "attach_schema acc f =
     (case a_collection f of
        Some coll \<Rightarrow>
          if a_isCsv f \<and> coll \<noteq> [] \<and> a_headers f \<noteq> [] \<and> 0 < a_rowCount f
          then obj_set acc coll \<lparr>ts_columns = a_headers f, ts_rowCount = a_rowCount f, ts_fileName = a_name f\<rparr>
          else acc
      | None \<Rightarrow> acc)"

definition handleChatFileSelect :: "bool \<Rightarrow> picked list \<Rightarrow> client \<Rightarrow> client" where
  "handleChatFileSelect jszip files c =
     (if files = [] then c
      else case foldl (\<lambda>st f. pick_one jszip f st) ([], [], c) files of
        (nf, nt, c1) \<Rightarrow>
          let c2 = c1\<lparr>cl_attachments := cl_attachments c1 @ nf, cl_tables := dedup_first (cl_tables c1 @ nt)\<rparr>
          in c2\<lparr>cl_schemas := foldl attach_schema (cl_schemas c2) nf\<rparr>)"

section \<open>Invariants\<close>

text \<open>What a local attachment keeps: one schema per collection and distinct table names.\<close>

definition wf_local :: "client \<Rightarrow> bool" where
  "wf_local c \<longleftrightarrow> distinct (map fst (cl_schemas c)) \<and> distinct (cl_tables c)"

text \<open>Two client states that differ at most in their schemas.\<close>

definition same_but_schemas :: "client \<Rightarrow> client \<Rightarrow> bool" where
  "same_but_schemas c c' \<longleftrightarrow>
     cl_accessible c' = cl_accessible c \<and> cl_tables c' = cl_tables c \<and>
     cl_attachments c' = cl_attachments c \<and> cl_loaded c' = cl_loaded c \<and> cl_session c' = cl_session c"

definition acc_ok :: "client \<Rightarrow> pick_acc \<Rightarrow> bool" where
  "acc_ok c0 st \<longleftrightarrow> (case st of (_, _, c) \<Rightarrow> distinct (map fst (cl_schemas c)) \<and> same_but_schemas c0 c)"

section \<open>Lemmas\<close>

lemma upper_not_in_lower: "is_upper x \<Longrightarrow> x \<notin> set (lower s)"
  using lower_char_not_upper by (auto simp: lower_def)

lemma lower_no_DOCTYPE: "\<not> contains (lower s) ''<!DOCTYPE''"
proof
  assume "contains (lower s) ''<!DOCTYPE''"
  then have "CHR ''D'' \<in> set (lower s)" by (auto simp: contains_iff_sublist dest: set_mono_sublist)
  then show False using upper_not_in_lower [of "CHR ''D''" s] by (simp add: is_upper_def is_ascii_upper_def)
qed

lemma match_count_le: "match_count p s \<le> 1"
  by (simp add: match_count_def split: option.splits)

text \<open>
  C21. Two of the tests of \<open>isHTMLContent\<close> never succeed: the tag count of
  \<open>content.match(/<[a-z][\s\S]*>/i)\<close> is at most one, because the pattern has no \<open>g\<close>
  flag, so \<open>htmlTagCount > 2\<close> is false, and \<open>'<!DOCTYPE'\<close> is looked for in lower-cased
  text. The function is exactly: empty after trimming, or one of the lower-case markers. A
  page made of other tags is read as CSV.
\<close>

theorem isHTMLContent_equiv: "isHTMLContent c \<longleftrightarrow> trim c = [] \<or> html_marker (lower (trim c))"
  using lower_no_DOCTYPE [of "trim c"] match_count_le [of html_tag_pattern c]
  by (auto simp: isHTMLContent_def html_marker_def Let_def)

theorem isHTMLContent_equiv_witness: "\<not> isHTMLContent ''<div><p>Revenue</p><p>Leads</p></div>''"
  by (simp add: isHTMLContent_equiv html_marker_def trim_def is_js_space_def lower_def lower_char_def is_upper_def is_ascii_upper_def)

lemma processSingleFile_schemas:
  "processSingleFile n t (nf, nt, c) = (nf', nt', c') \<Longrightarrow> distinct (map fst (cl_schemas c)) \<Longrightarrow>
   distinct (map fst (cl_schemas c')) \<and> c' = c\<lparr>cl_schemas := cl_schemas c'\<rparr>"
  by (auto simp: processSingleFile_def Let_def distinct_obj_set split: if_splits)

lemma processSingleFile_acc_ok: "acc_ok c0 st \<Longrightarrow> acc_ok c0 (processSingleFile n t st)"
  by (cases st) (auto simp: acc_ok_def same_but_schemas_def processSingleFile_def Let_def distinct_obj_set)

lemma foldl_acc_ok:
  "(\<And>x st. acc_ok c0 st \<Longrightarrow> acc_ok c0 (g st x)) \<Longrightarrow> acc_ok c0 st \<Longrightarrow> acc_ok c0 (foldl g st xs)"
  by (induction xs arbitrary: st) auto

lemma pick_one_acc_ok: "acc_ok c0 st \<Longrightarrow> acc_ok c0 (pick_one j f st)"
  unfolding pick_one_def
  by (auto split: option.splits intro!: foldl_acc_ok processSingleFile_acc_ok)

lemma distinct_foldl_attach_schema:
  "distinct (map fst acc) \<Longrightarrow> distinct (map fst (foldl attach_schema acc fs))"
  by (induction fs arbitrary: acc) (auto simp: attach_schema_def distinct_obj_set split: option.splits)

text \<open>Attaching files keeps one schema per collection and distinct table names, and
  touches neither the accessible list nor the loading flags.\<close>

theorem handleChatFileSelect_wf:
  assumes "wf_local c"
  shows "wf_local (handleChatFileSelect j fs c) \<and>
         cl_accessible (handleChatFileSelect j fs c) = cl_accessible c \<and>
         cl_loaded (handleChatFileSelect j fs c) = cl_loaded c \<and>
         cl_session (handleChatFileSelect j fs c) = cl_session c"
proof (cases "fs = []")
  case False
  obtain nf nt c1 where fo: "foldl (\<lambda>st f. pick_one j f st) ([], [], c) fs = (nf, nt, c1)"
    by (cases "foldl (\<lambda>st f. pick_one j f st) ([], [], c) fs") auto
  have "acc_ok c (nf, nt, c1)"
    unfolding fo [symmetric] using assms
    by (intro foldl_acc_ok pick_one_acc_ok) (auto simp: acc_ok_def wf_local_def same_but_schemas_def)
  then show ?thesis
    using False fo
    by (auto simp: handleChatFileSelect_def wf_local_def acc_ok_def same_but_schemas_def
                   dedup_first_distinct distinct_foldl_attach_schema)
qed (simp add: handleChatFileSelect_def assms)

lemma suffix_csv_not_zip: "suffix ''.csv'' s \<Longrightarrow> \<not> suffix ''.zip'' s"
  by (auto simp: suffix_def)

text \<open>A local CSV file takes the schema slot of the collection its name derives, whatever
  was there: a server dataset of the same derived name is then described to the model with
  the local file's header and row count, while the queries still read the server's
  collection.\<close>

theorem local_schema_override:
  assumes "suffix ''.csv'' (lower n)" and "\<not> isHTMLContent t" and "csv_lines t = l # ls" and "ls \<noteq> []"
    and "\<not> list_all (\<lambda>h. h = []) (csv_headers l)"
  shows "obj_get (cl_schemas (handleChatFileSelect j [\<lparr>p_name = n, p_text = Some t, p_zip = z\<rparr>] c)) (getCollectionName n) =
           Some \<lparr>ts_columns = csv_headers l, ts_rowCount = length ls, ts_fileName = n\<rparr> \<and>
         cl_tables (handleChatFileSelect j [\<lparr>p_name = n, p_text = Some t, p_zip = z\<rparr>] c) =
           dedup_first (cl_tables c @ [getCollectionName n])"
  using assms suffix_csv_not_zip [OF assms(1)]
  by (auto simp: handleChatFileSelect_def pick_one_def processSingleFile_def Let_def attach_schema_def
                 obj_get_obj_set getCollectionName_def)

text \<open>Unlike \<open>loadDataFolderFiles\<close>, attaching does not drop names already attached, so
  attaching the same file twice leaves two attachments of that name.\<close>

lemma attach_twice_duplicates:
  "\<not> wf_client (handleChatFileSelect True [\<lparr>p_name = ''notes.txt'', p_text = Some ''Q3 targets'', p_zip = None\<rparr>]
                 (handleChatFileSelect True [\<lparr>p_name = ''notes.txt'', p_text = Some ''Q3 targets'', p_zip = None\<rparr>]
                   (client_init [])))"
  by (simp add: handleChatFileSelect_def pick_one_def processSingleFile_def wf_client_def client_init_def
                suffix_def lower_def lower_char_def is_upper_def is_ascii_upper_def)

end
