(* ===== verification/Keys.thy ===== *)
theory Keys
  imports Serving Replies
begin

text \<open>
  How the chat finds the Gemini key (\<open>src/frontend/index.tsx\<close>, \<open>getApiKey\<close>, 2176--2210):
  first the value the server wrote into the page (\<open>window.__GEMINI_API_KEY__\<close>, then
  \<open>window.process.env\<close>), then the values Vite wrote at build time. The five places are the
  record \<open>key_sources\<close>, each a JavaScript value or \<open>None\<close> for undefined. The browser's
  reading of the assignment that \<open>scriptInjection\<close> of the theory Serving writes is
  \<open>runtime_key\<close>: the HTML tokenizer first cuts the script element's text at its end tag,
  and the script, if it runs, assigns the single-quoted literal after the left-hand side.
  The tokenizer's script data states (HTML standard, 13.2.5.4--13.2.5.25) are modelled at the
  granularity of the character sequences that change state: \<open><!--\<close> enters the escaped
  state and \<open>-->\<close> leaves it, \<open><script\<close> followed by a tag-name terminator enters the
  double-escaped state, and \<open></script\<close> followed by a terminator ends the element, outside the
  double-escaped state, or returns from it to the escaped state. Tag names compare without case.
  A script element without an end tag is not run.
\<close>

record key_sources =
  ks_runtime :: "json option"
  ks_proc_gemini :: "json option"
  ks_proc_api :: "json option"
  ks_build_api :: "json option"
  ks_build_gemini :: "json option"

text \<open>\<open>isValidKey\<close> (2178--2183).\<close>

definition isValidKey :: "json option \<Rightarrow> bool" where
  "isValidKey k =
     (case k of
        Some (JStr s) \<Rightarrow> s \<noteq> ''undefined'' \<and> trim s \<noteq> [] \<and> 10 < length s
      | _ \<Rightarrow> False)"

definition key_str :: "json option \<Rightarrow> string option" where
  "key_str k = (case k of Some (JStr s) \<Rightarrow> Some s | _ \<Rightarrow> None)"

text \<open>\<open>getApiKey\<close>, in a browser (\<open>typeof window !== 'undefined'\<close>).\<close>

definition getApiKey :: "key_sources \<Rightarrow> string option" where
  "getApiKey ks =
     (if isValidKey (ks_runtime ks) then key_str (ks_runtime ks)
      else if js_truthy_opt (ks_proc_gemini ks) \<and> isValidKey (ks_proc_gemini ks) then key_str (ks_proc_gemini ks)
      else if js_truthy_opt (ks_proc_api ks) \<and> isValidKey (ks_proc_api ks) then key_str (ks_proc_api ks)
      else (let b = (if js_truthy_opt (ks_build_api ks) then ks_build_api ks else ks_build_gemini ks)
            in if isValidKey b then key_str b else None))"

text \<open>The text after the first occurrence of \<open>m\<close>.\<close>

fun after_first :: "string \<Rightarrow> string \<Rightarrow> string option" where
  "after_first m [] = (if m = [] then Some [] else None)"
| "after_first m (c # cs) = (if prefix m (c # cs) then Some (drop (length m) (c # cs)) else after_first m cs)"

definition runtime_marker :: string where
  "runtime_marker = ''window.__GEMINI_API_KEY__ = '' @ [CHR 0x27]"

section \<open>The HTML tokenizer in a script element\<close>

datatype script_state = SData | SEscaped | SDoubleEscaped

text \<open>The characters that end a tag name: white space (a carriage return has become a line
  feed before tokenization), \<open>/\<close> and \<open>>\<close>.\<close>

definition tag_term :: "char \<Rightarrow> bool" where
  "tag_term c \<longleftrightarrow> c \<in> {CHR 0x09, CHR 0x0A, CHR 0x0C, CHR 0x0D, CHR '' '', CHR ''/'', CHR ''>''}"

text \<open>\<open>s\<close> starts with \<open>p\<close> followed by \<open>script\<close> in any case and a terminator.\<close>

definition script_tag_at :: "string \<Rightarrow> string \<Rightarrow> bool" where
  "script_tag_at p s \<longleftrightarrow>
     prefix p s \<and> lower (take 6 (drop (length p) s)) = ''script'' \<and>
     length p + 6 < length s \<and> tag_term (s ! (length p + 6))"

text \<open>The length of the script element's text, read from just after its start tag; \<open>None\<close>
  when the text ends before the end tag.\<close>

fun script_len :: "script_state \<Rightarrow> string \<Rightarrow> nat option" where
  "script_len st [] = None"
| "script_len st (c # cs) =
     (if st \<noteq> SDoubleEscaped \<and> script_tag_at ''</'' (c # cs) then Some 0
      else map_option Suc (script_len
        (if st = SDoubleEscaped \<and> script_tag_at ''</'' (c # cs) then SEscaped
         else if st = SData \<and> prefix ''<!--'' (c # cs) then SEscaped
         else if st \<noteq> SData \<and> prefix ''-->'' (c # cs) then SData
         else if st = SEscaped \<and> script_tag_at ''<'' (c # cs) then SDoubleEscaped
         else st) cs))"

text \<open>The text of the first script element of a fragment of HTML.\<close>

definition script_text :: "string \<Rightarrow> string option" where
  "script_text page =
     (case after_first ''<script>'' page of
        None \<Rightarrow> None
      | Some r \<Rightarrow> map_option (\<lambda>n. take n r) (script_len SData r))"

text \<open>The value the script of the fragment gives \<open>window.__GEMINI_API_KEY__\<close>: undefined
  when the script element is cut before the literal closes, which is a syntax error.\<close>

definition runtime_key :: "string \<Rightarrow> json option" where
  "runtime_key page =
     (case script_text page of
        None \<Rightarrow> None
      | Some js \<Rightarrow>
          (case after_first runtime_marker js of
             None \<Rightarrow> None
           | Some r \<Rightarrow> map_option (\<lambda>(v, _). JStr v) (read_sq r)))"

text \<open>The text of \<open>scriptInjection\<close> in parts: the start tag, the lines before the key is
  assigned, and the lines after the assignment's closing quote, up to the end tag.\<close>

definition script_open :: string where
  "script_open = [CHR 0x0A] @ ''    <script>''"

definition script_lead :: string where
  "script_lead = [CHR 0x0A] @ ''      (function() {'' @ [CHR 0x0A] @
     ''        if (typeof window !== 'undefined') {'' @ [CHR 0x0A] @ ''          ''"

definition script_tail :: "string \<Rightarrow> string" where
  "script_tail e = '';'' @ [CHR 0x0A] @ ''          if (!window.process) {'' @ [CHR 0x0A] @
     ''            window.process = { env: {} };'' @ [CHR 0x0A] @ ''          }'' @ [CHR 0x0A] @
     ''          if (!window.process.env) {'' @ [CHR 0x0A] @ ''            window.process.env = {};'' @ [CHR 0x0A] @
     ''          }'' @ [CHR 0x0A] @
     ''          window.process.env.API_KEY = '' @ [CHR 0x27] @ e @ [CHR 0x27] @ '';'' @ [CHR 0x0A] @
     ''          window.process.env.GEMINI_API_KEY = '' @ [CHR 0x27] @ e @ [CHR 0x27] @ '';'' @ [CHR 0x0A] @
     ''        }'' @ [CHR 0x0A] @ ''      })();'' @ [CHR 0x0A] @ ''    ''"

section \<open>Lemmas\<close>

lemma after_first_first:
  assumes "\<not> sublist m (a @ butlast m)" and "m \<noteq> []"
  shows "after_first m (a @ m @ b) = Some b"
  using assms(1)
proof (induction a)
  case Nil
  then show ?case using assms(2) by (cases m) auto
next
  case (Cons c a)
  have "\<not> prefix m (c # a @ m @ b)"
  proof
    assume p: "prefix m (c # a @ m @ b)"
    have "length m \<le> length (c # a @ butlast m)" using assms(2) by simp
    moreover have "c # a @ m @ b = (c # a @ butlast m) @ (last m # b)"
      using assms(2) by simp
    ultimately have "prefix m (c # a @ butlast m)"
      using p by (metis prefix_length_prefix prefix_append prefix_order.refl)
    then show False using Cons.prems by (auto dest: prefix_imp_sublist)
  qed
  moreover have "\<not> sublist m (a @ butlast m)"
    using Cons.prems by (auto intro: sublist_Cons_right [THEN iffD2])
  ultimately show ?case using Cons.IH by simp
qed


lemma scriptInjection_parts:
  "scriptInjection e = script_open @ script_lead @ runtime_marker @ e @ CHR 0x27 # script_tail e @
     ''</script>'' @ [CHR 0x0A] @ ''  ''"
  by (simp add: scriptInjection_def script_open_def script_lead_def runtime_marker_def script_tail_def)

lemma script_tail_no_lt: "CHR ''<'' \<notin> set e \<Longrightarrow> CHR ''<'' \<notin> set (script_tail e)"
  by (simp add: script_tail_def)

lemma script_lead_no_lt: "CHR ''<'' \<notin> set (script_lead @ runtime_marker)"
  by (simp add: script_lead_def runtime_marker_def)

lemma script_len_plain:
  "CHR ''<'' \<notin> set x \<Longrightarrow> script_len SData (x @ y) = map_option ((+) (length x)) (script_len SData y)"
proof (induction x)
  case Nil
  then show ?case by (simp add: option.map_ident)
next
  case (Cons c x)
  then have "\<not> script_tag_at ''</'' (c # x @ y)" "\<not> prefix ''<!--'' (c # x @ y)"
    by (auto simp: script_tag_at_def)
  then show ?case using Cons by (simp add: option.map_comp comp_def)
qed

lemma script_len_end: "script_len SData (''</script>'' @ z) = Some 0"
  by (simp add: script_tag_at_def tag_term_def lower_def lower_char_def is_upper_def is_ascii_upper_def)

text \<open>The script element of the fragment: everything between its start tag and the first end
  tag, when nothing before that end tag opens a tag.\<close>

lemma script_text_parts:
  assumes "CHR ''<'' \<notin> set x"
  shows "script_text (script_open @ x @ ''</script>'' @ z) = Some x"
proof -
  have "after_first ''<script>'' (script_open @ x @ ''</script>'' @ z) = Some (x @ ''</script>'' @ z)"
    using after_first_first [of "''<script>''" "[CHR 0x0A] @ ''    ''" "x @ ''</script>'' @ z"]
    by (simp add: script_open_def)
  then show ?thesis using script_len_plain [OF assms, of "''</script>'' @ z"] script_len_end [of z]
    by (simp add: script_text_def del: script_len.simps)
qed

lemma script_lead_clear: "\<not> sublist runtime_marker (script_lead @ butlast runtime_marker)"
  unfolding contains_iff_sublist [symmetric] by (simp add: script_lead_def runtime_marker_def)

lemma escapedApiKey_Nil: "escapedApiKey [] = []"
  by (simp add: escapedApiKey_def)

lemma escapedApiKey_append: "escapedApiKey (a @ b) = escapedApiKey a @ escapedApiKey b"
  by (induction a) (simp_all add: escapedApiKey_Cons escapedApiKey_Nil)

lemma escapedApiKey_no_lt: "CHR ''<'' \<notin> set k \<Longrightarrow> CHR ''<'' \<notin> set (escapedApiKey k)"
  by (induction k) (auto simp: escapedApiKey_Cons escapedApiKey_Nil js_escape_char_def)

lemma read_sq_escaped: "read_sq (escapedApiKey a @ rest) = map_option (\<lambda>(v, r). (a @ v, r)) (read_sq rest)"
  by (induction a) (auto simp: escapedApiKey_Cons escapedApiKey_Nil js_escape_char_def is_line_term_def
      option.map_comp comp_def case_prod_beta option.map_ident)

text \<open>A key without \<open><\<close> reaches the script's assignment as it is: the reading of the literal
  undoes \<open>escapedApiKey\<close>.\<close>

lemma runtime_key_script:
  assumes "CHR ''<'' \<notin> set k"
  shows "runtime_key (scriptInjection (escapedApiKey k)) = Some (JStr k)"
proof -
  let ?e = "escapedApiKey k"
  have nl: "CHR ''<'' \<notin> set (script_lead @ runtime_marker @ ?e @ CHR 0x27 # script_tail ?e)"
    using assms escapedApiKey_no_lt script_tail_no_lt script_lead_no_lt by simp
  then have "script_text (scriptInjection ?e) = Some (script_lead @ runtime_marker @ ?e @ CHR 0x27 # script_tail ?e)"
    unfolding scriptInjection_parts using script_text_parts [OF nl, of "[CHR 0x0A] @ ''  ''"] by simp
  moreover have "after_first runtime_marker (script_lead @ runtime_marker @ ?e @ CHR 0x27 # script_tail ?e) =
                 Some (?e @ CHR 0x27 # script_tail ?e)"
    by (rule after_first_first [OF script_lead_clear]) (simp add: runtime_marker_def)
  ultimately show ?thesis by (simp add: runtime_key_def escapedApiKey_literal)
qed

text \<open>A key holding \<open></script>\<close> ends the script element inside the literal: the script is a
  syntax error and assigns nothing.\<close>

lemma runtime_key_script_cut:
  assumes "CHR ''<'' \<notin> set a"
  shows "runtime_key (scriptInjection (escapedApiKey (a @ ''</script>'' @ b))) = None"
proof -
  let ?x = "script_lead @ runtime_marker @ escapedApiKey a"
  have e: "escapedApiKey (a @ ''</script>'' @ b) = escapedApiKey a @ ''</script>'' @ escapedApiKey b"
    by (simp add: escapedApiKey_append escapedApiKey_Cons js_escape_char_def)
  have nl: "CHR ''<'' \<notin> set ?x"
    using assms escapedApiKey_no_lt script_lead_no_lt by simp
  have "script_text (scriptInjection (escapedApiKey (a @ ''</script>'' @ b))) = Some ?x"
    unfolding scriptInjection_parts e
    using script_text_parts [OF nl, of "escapedApiKey b @ CHR 0x27 # script_tail (escapedApiKey a @ ''</script>'' @ escapedApiKey b) @ ''</script>'' @ [CHR 0x0A] @ ''  ''"]
    by simp
  moreover have "after_first runtime_marker ?x = Some (escapedApiKey a)"
    using after_first_first [OF script_lead_clear, of "escapedApiKey a"] by (simp add: runtime_marker_def)
  ultimately show ?thesis using read_sq_escaped [of a "[]"] by (simp add: runtime_key_def)
qed

end
