(* ===== verification/Connection.thy ===== *)
theory Connection
  imports Prelude
begin

text \<open>
  How \<open>connectDB\<close> (\<open>src/backend/server.js\<close>, 48--84) turns the environment variable
  \<open>MONGODB_URI\<close> into the connection string it hands to \<open>MongoClient\<close>: the early returns
  for a missing or placeholder URI, and the appending of the database name and of
  \<open>retryWrites\<close>. The console output and the connection itself are not modelled; the
  database is then selected by \<open>client.db(DB_NAME)\<close>, whatever the string names.
\<close>

text \<open>\<open>process.env.MONGODB_DB_NAME || 'indira-gpt'\<close> (line 28).\<close>

definition DB_NAME :: "string option \<Rightarrow> string" where
  "DB_NAME env = (case env of Some n \<Rightarrow> if n \<noteq> [] then n else ''indira-gpt'' | None \<Rightarrow> ''indira-gpt'')"

text \<open>\<open>s.replace(/\/$/, '')\<close>.\<close>

definition strip_trailing_slash :: "string \<Rightarrow> string" where
  "strip_trailing_slash s = (if s \<noteq> [] \<and> last s = CHR ''/'' then butlast s else s)"

definition retry_params :: string where
  "retry_params = ''retryWrites=true&w=majority''"

text \<open>Lines 77--82.\<close>

definition connection_string :: "string \<Rightarrow> string \<Rightarrow> string" where
  "connection_string uri dbn =
     (if \<not> contains uri ''/indira-gpt'' \<and> \<not> contains uri ''?''
      then strip_trailing_slash uri @ ''/'' @ dbn @ ''?'' @ retry_params
      else if \<not> contains uri ''retryWrites''
      then uri @ (if contains uri ''?'' then ''&'' else ''?'') @ retry_params
      else uri)"

datatype connect_outcome = NoUri | Placeholder | Connect string

text \<open>What \<open>connectDB\<close> does before connecting: nothing without a URI (lines 51--65, in
  production and in development alike), nothing for a URI with a password placeholder
  (68--73), otherwise a connection with the built string.\<close>

definition connect_target :: "string option \<Rightarrow> string option \<Rightarrow> connect_outcome" where
  "connect_target uri dbenv =
     (case uri of
        None \<Rightarrow> NoUri
      | Some u \<Rightarrow>
          if u = [] then NoUri
          else if contains u ''<db_password>'' \<or> contains u ''<password>'' then Placeholder
          else Connect (connection_string u (DB_NAME dbenv)))"

section \<open>Lemmas\<close>

text \<open>Every string \<open>connectDB\<close> connects with asks for retryable writes.\<close>

lemma connect_retry:
  assumes "connect_target uri dbenv = Connect s"
  shows "contains s ''retryWrites''"
proof -
  obtain u where u: "uri = Some u" and s: "s = connection_string u (DB_NAME dbenv)"
    using assms by (auto simp: connect_target_def split: option.splits if_splits)
  have tail: "contains (x @ retry_params) ''retryWrites''" for x
    using contains_append_middle [of x "''retryWrites''" "''=true&w=majority''"] by (simp add: retry_params_def)
  show ?thesis
  proof (cases "\<not> contains u ''/indira-gpt'' \<and> \<not> contains u ''?''")
    case True
    then show ?thesis
      using tail [of "strip_trailing_slash u @ ''/'' @ DB_NAME dbenv @ ''?''"] by (simp add: s connection_string_def)
  next
    case False
    then show ?thesis
      using tail [of "u @ (if contains u ''?'' then ''&'' else ''?'')"] by (auto simp: s connection_string_def)
  qed
qed

text \<open>A URI that already names a database other than \<open>indira-gpt\<close> keeps it and gets the
  configured name as a second path segment, which is not a valid connection string.\<close>

lemma connection_string_second_segment:
  "connect_target (Some ''mongodb+srv://app:pw@cluster0.example.net/analytics'') None =
   Connect ''mongodb+srv://app:pw@cluster0.example.net/analytics/indira-gpt?retryWrites=true&w=majority''"
  by (simp add: connect_target_def connection_string_def strip_trailing_slash_def DB_NAME_def retry_params_def)

end
