(* ===== verification/Executor.thy ===== *)
theory Executor
  imports Conversation Gateway Client
begin

text \<open>
  The client's query executor \<open>executeMongoQuery\<close> (\<open>src/frontend/index.tsx\<close>, 3027--3065)
  over the server's \<open>POST /api/data/query\<close> (theory Gateway) behind \<open>authenticateToken\<close>
  (theory Users): the request body \<open>{ pipeline, fileName, collectionName }\<close>, the stored
  token, and the reading of the answer (\<open>result.data\<close>, or the \<open>error\<close> of a failed answer).
  Instantiated with a database, an aggregation engine and a token, it is an \<open>executor\<close> of
  the theory Conversation. A collection that is not a string is passed by \<open>JSON.stringify\<close>
  as it is and makes the driver's \<open>db.collection(...)\<close> throw; the model answers it with
  that error at once, without the access checks that come first on the server.
\<close>

text \<open>\<open>findFileNameFromPipeline\<close> (3015--3025): the pipeline is not read; the first attachment
  with a collection, else the first CSV attachment.\<close>

definition findFileNameFromPipeline :: "attachment list \<Rightarrow> string option" where
  "findFileNameFromPipeline atts =
     (case find (\<lambda>f. case a_collection f of Some x \<Rightarrow> x \<noteq> [] | None \<Rightarrow> False) atts of
        Some f \<Rightarrow> Some (a_name f)
      | None \<Rightarrow> map_option a_name (find a_isCsv atts))"

text \<open>The body \<open>JSON.stringify({ pipeline, fileName: targetFile || undefined,
  collectionName: collectionName || undefined })\<close> as the server reads it.\<close>

definition query_request :: "json \<Rightarrow> string option \<Rightarrow> string \<Rightarrow> query_req" where
  "query_request pipeline targetFile coll =
     \<lparr>q_pipeline = Some pipeline,
      q_fileName = (case targetFile of Some f \<Rightarrow> if f \<noteq> [] then Some f else None | None \<Rightarrow> None),
      q_collection = (if coll \<noteq> [] then Some coll else None)\<rparr>"

text \<open>\<open>result.data\<close>.\<close>

definition body_data :: "json \<Rightarrow> json" where
  "body_data b = (case b of JObj kv \<Rightarrow> (case obj_get kv ''data'' of Some v \<Rightarrow> v | None \<Rightarrow> JNull) | _ \<Rightarrow> JNull)"

definition executeMongoQuery ::
  "(json list \<Rightarrow> json \<Rightarrow> string + json list) \<Rightarrow> nat \<Rightarrow> (string \<Rightarrow> claims option) \<Rightarrow> db \<Rightarrow>
   attachment list \<Rightarrow> string option \<Rightarrow> executor" where
  "executeMongoQuery engine elapsed verify d atts tok pipeline fileName c =
     (case tok of
        None \<Rightarrow> Inl ''Not authenticated''
      | Some t \<Rightarrow>
          (case c of
             JStr coll \<Rightarrow>
               (let targetFile = (case fileName of Some f \<Rightarrow> if f \<noteq> [] then Some f else findFileNameFromPipeline atts
                                                | None \<Rightarrow> findFileNameFromPipeline atts);
                    r = (case authenticateToken verify (Some (''Bearer '' @ t)) of
                           Inl r \<Rightarrow> r
                         | Inr cl \<Rightarrow> query_endpoint engine elapsed d (c_email cl) (query_request pipeline targetFile coll))
                in if resp_ok r then Inr (body_data (body r)) else Inl (error_of (body r) ''MongoDB query failed''))
           | _ \<Rightarrow> Inl ''Collection name must be a String''))"

section \<open>Lemmas\<close>

text \<open>The file name the chat sends for a collection no attachment has is the first attached
  file with a collection.\<close>

lemma query_file_unattached:
  assumes "\<forall>f \<in> set atts. a_collection f \<noteq> Some cF" and "atts = a # rest"
    and "a_collection a = Some ca" and "ca \<noteq> []"
  shows "query_file atts (JStr cF) = Some (a_name a)"
proof -
  have "find (\<lambda>f. JStr (case a_collection f of Some x \<Rightarrow> x | None \<Rightarrow> []) = JStr cF \<and> a_collection f \<noteq> None) atts = None"
    using assms(1) by (auto simp: find_None_iff split: option.splits)
  then show ?thesis using assms(2-4) by (simp add: query_file_def)
qed

end
