(* ===== verification/JsValues.thy ===== *)
theory JsValues
  imports Replies
begin

text \<open>
  JavaScript's reading of parsed JSON values, shared by the chart adapter and the video
  studio (\<open>src/frontend/index.tsx\<close>): property access with \<open>.\<close> and \<open>?.\<close>, the string of
  a possibly undefined value, and \<open>||\<close> on strings (truthiness and \<open>String(v)\<close> are in the
  Prelude).
  \<open>None\<close> stands for \<open>undefined\<close> where a value may be missing.
\<close>

text \<open>\<open>v.k\<close>: \<open>None\<close> when it throws (\<open>v\<close> is \<open>null\<close>), \<open>Some None\<close> when it is undefined.\<close>

definition js_prop :: "json \<Rightarrow> string \<Rightarrow> json option option" where
  "js_prop v k = (case v of JNull \<Rightarrow> None | JObj kv \<Rightarrow> Some (obj_get kv k) | _ \<Rightarrow> Some None)"

definition js_str_opt :: "(rat \<Rightarrow> string) \<Rightarrow> json option \<Rightarrow> string" where
  "js_str_opt pn v = (case v of None \<Rightarrow> ''undefined'' | Some x \<Rightarrow> js_to_str pn x)"

text \<open>\<open>s || d\<close> for a string, and quoted text.\<close>

definition js_or :: "string \<Rightarrow> string \<Rightarrow> string" where
  "js_or s d = (if s = [] then d else s)"

definition sq :: "string \<Rightarrow> string" where
  "sq s = CHR 0x27 # s @ [CHR 0x27]"

definition dq :: "string \<Rightarrow> string" where
  "dq s = CHR 0x22 # s @ [CHR 0x22]"

text \<open>\<open>v?.k\<close>: undefined on \<open>null\<close> or undefined.\<close>

definition js_opt_get :: "json option \<Rightarrow> string \<Rightarrow> json option" where
  "js_opt_get v k = (case v of Some (JObj kv) \<Rightarrow> obj_get kv k | _ \<Rightarrow> None)"

text \<open>\<open>a || b\<close> on values that may be undefined.\<close>

definition js_or_opt :: "json option \<Rightarrow> json option \<Rightarrow> json option" where
  "js_or_opt a b = (if js_truthy_opt a then a else b)"

end
