(* ===== verification/Studio.thy ===== *)
theory Studio
  imports JsValues Keys
begin

text \<open>
  The video studio (\<open>src/frontend/index.tsx\<close>): the App's callbacks that ask the chat for
  themes and for a script (\<open>handleGenerateThemes\<close>, \<open>handleGenerateScript\<close>, 3871--3917), the
  studio component \<open>CityContentStudio\<close> (825--975) with its clip generation
  (\<open>generateVideoForSegment\<close>, its polling loop, \<open>handleGenerateAllAndPlay\<close>) and the storyboard
  player \<open>SimulatedPlayer\<close> (430--499). The chat, the video service and \<open>fetch\<close> are
  parameters: each call returns a value or the value it throws. \<open>JSON.parse\<close> is the parameter
  \<open>PJ\<close> (\<open>None\<close> when it throws), numbers are printed by \<open>pn\<close>. A script segment is a JSON
  object; the studio's handlers are split at their \<open>await\<close>s, so that a user's action can be
  interleaved with a call still running.
\<close>

section \<open>Themes and scripts from the chat\<close>

text \<open>The prompt of \<open>handleGenerateThemes\<close> (3872).\<close>

definition themes_prompt :: "string \<Rightarrow> string \<Rightarrow> string \<Rightarrow> string" where
  "themes_prompt city strategy dc =
     ''Generate 5 Hyper-Local Video Themes for '' @ city @ ''. '' @ [CHR 0x0A, CHR 0x0A] @
     ''Strategic Context: '' @ dq (js_or strategy ''None provided.'') @ '' '' @ [CHR 0x0A, CHR 0x0A] @
     ''Data Context: '' @ js_or dc ''No specific data provided.'' @ [CHR 0x0A, CHR 0x0A] @
     ''CRITICAL INSTRUCTION: You MUST use the provided Data Context points to identify regional nuances for '' @
     city @ ''. Return STRICTLY as a JSON object with a '' @ sq ''themes'' @ '' array and a '' @
     sq ''selectionLogic'' @ '' string explaining why these themes were chosen based on the data. Ensure each theme object has '' @
     sq ''title'' @ '', '' @ sq ''rationale'' @ '', '' @ sq ''emotionalHook'' @ '', '' @ sq ''targetAudience'' @
     '', and a '' @ sq ''shortTag'' @ '' (2-3 words summarizing the core anxiety/driver, e.g. '' @ dq ''Cost Barriers'' @ '').''"

text \<open>The prompt of \<open>handleGenerateScript\<close> (3896), from the theme's title and rationale.\<close>

definition script_prompt :: "(rat \<Rightarrow> string) \<Rightarrow> json option \<Rightarrow> json option \<Rightarrow> string \<Rightarrow> string" where
  "script_prompt pn title rationale city =
     ''Write a segmented video script for theme: '' @ dq (js_str_opt pn title) @ ''. City: '' @ city @
     ''. Context: '' @ js_str_opt pn rationale @ ''. Keep it empathetic. '' @ [CHR 0x0A, CHR 0x0A] @
     ''CRITICAL: Provide detailed scene logic for '' @ sq ''visual'' @
     ''. Ensure each segment has a UNIQUE and distinct visual description to create a varied storyboard. The VO for '' @
     sq ''audio'' @ '' must be Indian accent, mixing English and Hindi. Return strictly as JSON object with '' @
     sq ''segments'' @ '' array.''"

text \<open>\<open>/\{[\s\S]*\}/\<close>: from the first \<open>{\<close> to the last \<open>}\<close> after it.\<close>

definition brace_pattern :: "rx list" where
  "brace_pattern = [RLit ''{'', RStar (\<lambda>_. True), RLit ''}'']"

text \<open>\<open>response.match(fence_json) || response.match(fence_plain) || response.match(brace)\<close>
  and \<open>jsonMatch[1] || jsonMatch[0]\<close>.\<close>

definition reply_json :: "string \<Rightarrow> string option" where
  "reply_json response =
     (case fence_match response of
        Some (g, m) \<Rightarrow> Some (if g \<noteq> [] then g else m)
      | None \<Rightarrow> (case rx_search brace_pattern response of Some (_, m, _) \<Rightarrow> Some m | None \<Rightarrow> None))"

text \<open>\<open>handleGenerateThemes\<close> (3871--3893): \<open>ask\<close> is \<open>sendMessage\<close> on the chat session, the
  reply's text (\<open>result.text || ""\<close>) or the value it throws. The answer is the pair
  \<open>parsed.themes\<close>, \<open>parsed.selectionLogic\<close> (\<open>None\<close> for undefined), unchecked; \<open>None\<close> is
  \<open>null\<close>.\<close>

definition handleGenerateThemes ::
  "(string \<Rightarrow> json option) \<Rightarrow> (string \<Rightarrow> json + string) \<Rightarrow> key_sources \<Rightarrow> string \<Rightarrow> string \<Rightarrow> string \<Rightarrow>
   (json option \<times> json option) option" where
  "handleGenerateThemes PJ ask ks city strategy dc =
     (case getApiKey ks of
        None \<Rightarrow> None
      | Some _ \<Rightarrow>
          (case ask (themes_prompt city strategy dc) of
             Inl _ \<Rightarrow> None
           | Inr response \<Rightarrow>
               (case reply_json response of
                  None \<Rightarrow> None
                | Some s \<Rightarrow>
                    (case PJ s of
                       None \<Rightarrow> None
                     | Some parsed \<Rightarrow>
                         (case (js_prop parsed ''themes'', js_prop parsed ''selectionLogic'') of
                            (Some t, Some l) \<Rightarrow> Some (t, l)
                          | _ \<Rightarrow> None)))))"

text \<open>\<open>handleGenerateScript\<close> (3895--3917): \<open>parsed.segments\<close>, unchecked; \<open>None\<close> is \<open>null\<close> or
  undefined, which the studio treats alike. A theme that is \<open>null\<close> makes the call reject,
  which leaves the studio as a \<open>null\<close> answer does.\<close>

definition handleGenerateScript ::
  "(string \<Rightarrow> json option) \<Rightarrow> (string \<Rightarrow> json + string) \<Rightarrow> key_sources \<Rightarrow> (rat \<Rightarrow> string) \<Rightarrow> json \<Rightarrow> string \<Rightarrow>
   json option" where
  "handleGenerateScript PJ ask ks pn theme city =
     (case (js_prop theme ''title'', js_prop theme ''rationale'') of
        (Some title, Some rationale) \<Rightarrow>
          (case getApiKey ks of
             None \<Rightarrow> None
           | Some _ \<Rightarrow>
               (case ask (script_prompt pn title rationale city) of
                  Inl _ \<Rightarrow> None
                | Inr response \<Rightarrow>
                    (case reply_json response of
                       None \<Rightarrow> None
                     | Some s \<Rightarrow>
                         (case PJ s of
                            None \<Rightarrow> None
                          | Some parsed \<Rightarrow> (case js_prop parsed ''segments'' of Some v \<Rightarrow> v | None \<Rightarrow> None)))))
      | _ \<Rightarrow> None)"

section \<open>Clip generation\<close>

text \<open>The video service and \<open>fetch\<close>, each call returning its result or the value it throws:
  \<open>generateVideos\<close> on a prompt (model, count, resolution and aspect ratio are constants),
  \<open>getVideosOperation\<close>, the operation's \<open>done\<close>, its
  \<open>response?.generatedVideos?.[0]?.video?.uri\<close> (\<open>None\<close> for undefined), and \<open>fetch\<close> of a
  URL giving \<open>res.ok\<close> and the object URL of \<open>res.blob()\<close> (or what that throws).\<close>

record 'op video_api =
  va_generate :: "string \<Rightarrow> json + 'op"
  va_poll :: "'op \<Rightarrow> json + 'op"
  va_done :: "'op \<Rightarrow> bool"
  va_uri :: "'op \<Rightarrow> json option"
  va_fetch :: "string \<Rightarrow> json + bool \<times> (json + string)"

definition max_polls :: nat where
  "max_polls = 150"

definition poll_interval_ms :: nat where
  "poll_interval_ms = 2000"

text \<open>\<open>while (!operation.done && retries < 150)\<close>: wait 2 s, poll again; the operation and
  the number of polls when the loop ends, or what a poll throws.\<close>

function poll_loop :: "('op \<Rightarrow> json + 'op) \<Rightarrow> ('op \<Rightarrow> bool) \<Rightarrow> nat \<Rightarrow> 'op \<Rightarrow> json + 'op \<times> nat" where
  "poll_loop poll done retries op =
     (if \<not> done op \<and> retries < max_polls
      then (case poll op of Inl e \<Rightarrow> Inl e | Inr op' \<Rightarrow> poll_loop poll done (Suc retries) op')
      else Inr (op, retries))"
  by pat_completeness auto
termination by (relation "measure (\<lambda>(_, _, r, _). max_polls - r)") (auto simp: max_polls_def)

datatype gen_status = SUCCESS | FAILED | QUOTA

datatype alert = KeyMissingAlert | QuotaAlert

text \<open>The property key of \<open>segment.seq\<close>, and whether \<open>segmentVideos[key]\<close> is truthy.\<close>

definition seg_key :: "(rat \<Rightarrow> string) \<Rightarrow> jobj \<Rightarrow> string" where
  "seg_key pn seg = js_str_opt pn (obj_get seg ''seq'')"

definition has_clip :: "(string \<rightharpoonup> string) \<Rightarrow> string \<Rightarrow> bool" where
  "has_clip m k = (case m k of Some u \<Rightarrow> u \<noteq> [] | None \<Rightarrow> False)"

definition video_prompt :: "(rat \<Rightarrow> string) \<Rightarrow> jobj \<Rightarrow> string" where
  "video_prompt pn seg =
     ''Cinematic video: '' @ js_str_opt pn (obj_get seg ''visual'') @
     ''. High quality, photorealistic, 4k. No text on screen, no typography, clean video footage only. Indian context, empathetic lighting.''"

text \<open>The body of the \<open>try\<close> after the key is found: generate, poll, download. An \<open>Error\<close>
  the code throws itself (a failed download) serialises as \<open>{}\<close>, its message being
  non-enumerable; \<open>Inr None\<close> is the \<open>return 'FAILED'\<close> when there is no URI.\<close>

definition video_call :: "(rat \<Rightarrow> string) \<Rightarrow> 'op video_api \<Rightarrow> string \<Rightarrow> jobj \<Rightarrow> json + string option" where
  "video_call pn va k seg =
     (case va_generate va (video_prompt pn seg) of
        Inl e \<Rightarrow> Inl e
      | Inr op \<Rightarrow>
          (case poll_loop (va_poll va) (va_done va) 0 op of
             Inl e \<Rightarrow> Inl e
           | Inr (op', _) \<Rightarrow>
               (case va_uri va op' of
                  Some u \<Rightarrow>
                    if js_truthy u then
                      (case va_fetch va (js_to_str pn u @ ''&key='' @ k) of
                         Inl e \<Rightarrow> Inl e
                       | Inr (ok, b) \<Rightarrow>
                           if \<not> ok then Inl (JObj [])
                           else (case b of Inl e \<Rightarrow> Inl e | Inr url \<Rightarrow> Inr (Some url)))
                    else Inr None
                | None \<Rightarrow> Inr None)))"

definition is_quota_text :: "string \<Rightarrow> bool" where
  "is_quota_text s \<longleftrightarrow> contains s ''429'' \<or> contains s ''RESOURCE_EXHAUSTED''"

text \<open>\<open>generateVideoForSegment\<close> (876--939) with \<open>segmentVideos\<close> as the handler saw it: the
  status, the clip to store and the alerts shown. The AI Studio key picker
  (\<open>window.aistudio\<close>, absent outside AI Studio) is not modelled.\<close>

definition generateVideoForSegment ::
  "(rat \<Rightarrow> string) \<Rightarrow> 'op video_api \<Rightarrow> key_sources \<Rightarrow> (string \<rightharpoonup> string) \<Rightarrow> jobj \<Rightarrow>
   gen_status \<times> string option \<times> alert list" where
  "generateVideoForSegment pn va ks videos seg =
     (if has_clip videos (seg_key pn seg) then (SUCCESS, None, [])
      else (case getApiKey ks of
              None \<Rightarrow> (FAILED, None, [KeyMissingAlert])
            | Some k \<Rightarrow>
                (case video_call pn va k seg of
                   Inl e \<Rightarrow> if is_quota_text (json_stringify pn e) then (QUOTA, None, [QuotaAlert]) else (FAILED, None, [])
                 | Inr None \<Rightarrow> (FAILED, None, [])
                 | Inr (Some url) \<Rightarrow> (SUCCESS, Some url, []))))"

section \<open>The studio\<close>

text \<open>The studio's state: the persisted fields (city, strategy, themes, script, selected
  theme, selection logic; their \<open>localStorage\<close> copies are not modelled) and the others.
  \<open>None\<close> is \<open>null\<close>; a script is a list of segment objects.\<close>

record studio =
  st_city :: string
  st_strategy :: string
  st_themes :: "json option"
  st_scripts :: "jobj list option"
  st_selected :: "json option"
  st_logic :: json
  st_playing_full :: bool
  st_preview :: "jobj option"
  st_videos :: "string \<rightharpoonup> string"
  st_generating :: "string \<rightharpoonup> bool"
  st_generating_all :: bool
  st_alerts :: "alert list"

text \<open>\<open>handleSearch\<close> (851--864), before and after its \<open>await\<close>.\<close>

definition search_start :: "studio \<Rightarrow> studio" where
  "search_start st = st\<lparr>st_themes := None, st_scripts := None, st_selected := None, st_logic := JStr [],
     st_playing_full := False, st_preview := None\<rparr>"

definition search_done :: "(json option \<times> json option) option \<Rightarrow> studio \<Rightarrow> studio" where
  "search_done res st =
     (case res of
        None \<Rightarrow> st
      | Some (t, l) \<Rightarrow> st\<lparr>st_themes := t, st_logic := (case l of Some v \<Rightarrow> if js_truthy v then v else JStr [] | None \<Rightarrow> JStr [])\<rparr>)"

definition handleSearch :: "(string \<Rightarrow> string \<Rightarrow> (json option \<times> json option) option) \<Rightarrow> studio \<Rightarrow> studio" where
  "handleSearch gen st =
     (if trim (st_city st) = [] then st else search_done (gen (st_city st) (st_strategy st)) (search_start st))"

text \<open>\<open>handleThemeSelect\<close> (866--874), before and after its \<open>await\<close>; the answer is kept when
  truthy.\<close>

definition theme_select_start :: "json \<Rightarrow> studio \<Rightarrow> studio" where
  "theme_select_start theme st = st\<lparr>st_selected := Some theme, st_scripts := None, st_playing_full := False,
     st_preview := None, st_videos := Map.empty\<rparr>"

definition theme_select_done :: "jobj list option \<Rightarrow> studio \<Rightarrow> studio" where
  "theme_select_done res st = (case res of Some segs \<Rightarrow> st\<lparr>st_scripts := Some segs\<rparr> | None \<Rightarrow> st)"

definition handleThemeSelect :: "(json \<Rightarrow> string \<Rightarrow> jobj list option) \<Rightarrow> json \<Rightarrow> studio \<Rightarrow> studio" where
  "handleThemeSelect gen theme st = theme_select_done (gen theme (st_city st)) (theme_select_start theme st)"

text \<open>\<open>setGeneratingSegments(prev => ({ ...prev, [seq]: b }))\<close> and the writes that follow a
  finished \<open>generateVideoForSegment\<close>: the clip (\<open>setSegmentVideos(prev => ...)\<close>, on the
  state of the moment) and the alerts.\<close>

definition set_generating :: "(rat \<Rightarrow> string) \<Rightarrow> jobj \<Rightarrow> bool \<Rightarrow> studio \<Rightarrow> studio" where
  "set_generating pn seg b st = st\<lparr>st_generating := (st_generating st)(seg_key pn seg \<mapsto> b)\<rparr>"

definition gen_record :: "(rat \<Rightarrow> string) \<Rightarrow> jobj \<Rightarrow> gen_status \<times> string option \<times> alert list \<Rightarrow> studio \<Rightarrow> studio" where
  "gen_record pn seg r st =
     (case r of (_, clip, al) \<Rightarrow>
        st\<lparr>st_videos := (case clip of Some u \<Rightarrow> (st_videos st)(seg_key pn seg \<mapsto> u) | None \<Rightarrow> st_videos st),
           st_alerts := st_alerts st @ al\<rparr>)"

text \<open>One clip: flag it, generate it against the clips seen at the click, record, unflag.\<close>

definition gen_step ::
  "(rat \<Rightarrow> string) \<Rightarrow> 'op video_api \<Rightarrow> key_sources \<Rightarrow> (string \<rightharpoonup> string) \<Rightarrow> jobj \<Rightarrow> studio \<Rightarrow> gen_status \<times> studio" where
  "gen_step pn va ks v0 seg st =
     (case generateVideoForSegment pn va ks v0 seg of
        r \<Rightarrow> (fst r, set_generating pn seg False (gen_record pn seg r (set_generating pn seg True st))))"

text \<open>\<open>handleGenerateSegmentVideo\<close> (941--945).\<close>

definition handleGenerateSegmentVideo ::
  "(rat \<Rightarrow> string) \<Rightarrow> 'op video_api \<Rightarrow> key_sources \<Rightarrow> jobj \<Rightarrow> studio \<Rightarrow> studio" where
  "handleGenerateSegmentVideo pn va ks seg st = snd (gen_step pn va ks (st_videos st) seg st)"

text \<open>The loop of \<open>handleGenerateAllAndPlay\<close> (947--968) over the script and the clips as
  they were at the click: a segment that had a clip is skipped, a quota error ends the run
  without playing, other failures are passed over.\<close>

fun gen_all ::
  "(rat \<Rightarrow> string) \<Rightarrow> 'op video_api \<Rightarrow> key_sources \<Rightarrow> (string \<rightharpoonup> string) \<Rightarrow> jobj list \<Rightarrow> studio \<Rightarrow> studio" where
  "gen_all pn va ks v0 [] st = st\<lparr>st_generating_all := False, st_playing_full := True\<rparr>"
| "gen_all pn va ks v0 (seg # segs) st =
     (if has_clip v0 (seg_key pn seg) then gen_all pn va ks v0 segs st
      else (case gen_step pn va ks v0 seg st of
              (QUOTA, st') \<Rightarrow> st'\<lparr>st_generating_all := False\<rparr>
            | (_, st') \<Rightarrow> gen_all pn va ks v0 segs st'))"

definition handleGenerateAllAndPlay ::
  "(rat \<Rightarrow> string) \<Rightarrow> 'op video_api \<Rightarrow> key_sources \<Rightarrow> studio \<Rightarrow> studio" where
  "handleGenerateAllAndPlay pn va ks st =
     (case st_scripts st of
        None \<Rightarrow> st
      | Some segs \<Rightarrow> gen_all pn va ks (st_videos st) segs (st\<lparr>st_generating_all := True\<rparr>))"

text \<open>\<open>fullPlaylist\<close> (971--974): each segment with its clip, those without one dropped.\<close>

type_synonym playlist_item = "string option \<times> jobj"

definition fullPlaylist :: "(rat \<Rightarrow> string) \<Rightarrow> studio \<Rightarrow> playlist_item list" where
  "fullPlaylist pn st =
     (case st_scripts st of
        None \<Rightarrow> []
      | Some segs \<Rightarrow>
          filter (\<lambda>(u, _). case u of Some x \<Rightarrow> x \<noteq> [] | None \<Rightarrow> False)
            (map (\<lambda>seg. (st_videos st (seg_key pn seg), seg)) segs))"

text \<open>The studio's steps between \<open>await\<close>s, so that runs can interleave: a clip's generation
  starts (its flag set) and ends (its result recorded, its flag cleared), a theme is picked
  and its script arrives, a search starts and its themes arrive.\<close>

datatype studio_event =
    ClipStart jobj
  | ClipEnd jobj "gen_status \<times> string option \<times> alert list"
  | ThemeStart json
  | ThemeEnd "jobj list option"
  | SearchStart
  | SearchEnd "(json option \<times> json option) option"

fun studio_step :: "(rat \<Rightarrow> string) \<Rightarrow> studio \<Rightarrow> studio_event \<Rightarrow> studio" where
  "studio_step pn st (ClipStart seg) = set_generating pn seg True st"
| "studio_step pn st (ClipEnd seg r) = set_generating pn seg False (gen_record pn seg r st)"
| "studio_step pn st (ThemeStart theme) = theme_select_start theme st"
| "studio_step pn st (ThemeEnd res) = theme_select_done res st"
| "studio_step pn st SearchStart = (if trim (st_city st) = [] then st else search_start st)"
| "studio_step pn st (SearchEnd res) = search_done res st"

section \<open>The storyboard player\<close>

text \<open>\<open>SimulatedPlayer\<close> (430--499): playing, muted, the current clip and the progress bar;
  the events are the video's \<open>ended\<close> and \<open>timeupdate\<close> (current time, duration) and the
  two buttons. The player is mounted afresh each time it opens.\<close>

definition SAMPLE_VIDEO_URL :: string where
  "SAMPLE_VIDEO_URL = ''https://storage.googleapis.com/gtv-videos-bucket/sample/ForBiggerFun.mp4''"

record player =
  pl_playing :: bool
  pl_muted :: bool
  pl_index :: nat
  pl_progress :: real

definition player_init :: "bool \<Rightarrow> player" where
  "player_init autoPlay = \<lparr>pl_playing = autoPlay, pl_muted = False, pl_index = 0, pl_progress = 0\<rparr>"

datatype player_event = Ended | PlayToggle | MuteToggle | TimeUpdate real real

text \<open>\<open>handleVideoEnded\<close> compares with \<open>playlist.length - 1\<close> as a JavaScript number;
  \<open>updateProgress\<close> needs a truthy duration.\<close>

fun player_step :: "playlist_item list \<Rightarrow> player \<Rightarrow> player_event \<Rightarrow> player" where
  "player_step pl p Ended =
     (if int (pl_index p) < int (length pl) - 1 then p\<lparr>pl_index := Suc (pl_index p), pl_progress := 0\<rparr>
      else p\<lparr>pl_playing := False\<rparr>)"
| "player_step pl p PlayToggle = p\<lparr>pl_playing := \<not> pl_playing p\<rparr>"
| "player_step pl p MuteToggle = p\<lparr>pl_muted := \<not> pl_muted p\<rparr>"
| "player_step pl p (TimeUpdate t d) = (if d \<noteq> 0 then p\<lparr>pl_progress := t / d * 100\<rparr> else p)"

text \<open>The video's source: \<open>currentItem?.url || SAMPLE_VIDEO_URL\<close>.\<close>

definition player_src :: "playlist_item list \<Rightarrow> player \<Rightarrow> string" where
  "player_src pl p =
     (case (if pl_index p < length pl then fst (pl ! pl_index p) else None) of
        Some u \<Rightarrow> if u \<noteq> [] then u else SAMPLE_VIDEO_URL
      | None \<Rightarrow> SAMPLE_VIDEO_URL)"

text \<open>The runs of a player: a video ends only while it plays, and its current time lies
  between 0 and its duration.\<close>

inductive player_run :: "playlist_item list \<Rightarrow> bool \<Rightarrow> player \<Rightarrow> bool" for pl a where
  run_init: "player_run pl a (player_init a)"
| run_ended: "player_run pl a p \<Longrightarrow> pl_playing p \<Longrightarrow> player_run pl a (player_step pl p Ended)"
| run_toggle: "player_run pl a p \<Longrightarrow> player_run pl a (player_step pl p PlayToggle)"
| run_mute: "player_run pl a p \<Longrightarrow> player_run pl a (player_step pl p MuteToggle)"
| run_time: "player_run pl a p \<Longrightarrow> 0 \<le> t \<Longrightarrow> t \<le> d \<Longrightarrow> player_run pl a (player_step pl p (TimeUpdate t d))"

section \<open>Example\<close>

text \<open>A studio in Jaipur with one scene, a video service that is done after two polls, and
  two scenes numbered 1 from two themes.\<close>

definition demo_pn :: "rat \<Rightarrow> string" where
  "demo_pn n = show_nat (nat \<lfloor>n\<rfloor>)"

definition demo_video_api :: "nat video_api" where
  "demo_video_api = \<lparr>va_generate = (\<lambda>_. Inr 0), va_poll = (\<lambda>op. Inr (Suc op)), va_done = (\<lambda>op. 2 \<le> op),
     va_uri = (\<lambda>_. Some (JStr ''https://video.example/clip1'')), va_fetch = (\<lambda>_. Inr (True, Inr ''blob:clip1''))\<rparr>"

definition demo_keys :: key_sources where
  "demo_keys = \<lparr>ks_runtime = Some (JStr ''AIzaDemoKey0123''), ks_proc_gemini = None, ks_proc_api = None,
     ks_build_api = None, ks_build_gemini = None\<rparr>"

definition scene_a :: jobj where
  "scene_a = [(''seq'', JNum 1), (''duration'', JStr ''8s''), (''visual'', JStr ''Pharmacy queue at dawn''), (''audio'', JStr ''VO'')]"

definition scene_b :: jobj where
  "scene_b = [(''seq'', JNum 1), (''duration'', JStr ''8s''), (''visual'', JStr ''Family at a clinic desk''), (''audio'', JStr ''VO'')]"

definition demo_studio :: studio where
  "demo_studio = \<lparr>st_city = ''Jaipur'', st_strategy = [], st_themes = None, st_scripts = Some [scene_a],
     st_selected = Some (JObj [(''title'', JStr ''Cost Anxiety'')]), st_logic = JStr [], st_playing_full = False,
     st_preview = None, st_videos = Map.empty, st_generating = Map.empty, st_generating_all = False, st_alerts = []\<rparr>"

definition demo_playlist :: "playlist_item list" where
  "demo_playlist = [(Some ''blob:clip1'', scene_a), (None, scene_b)]"

section \<open>Lemmas\<close>

lemma poll_loop_result:
  "poll_loop poll dn r op = Inr (op', n) \<Longrightarrow> r \<le> max_polls \<Longrightarrow> n \<le> max_polls \<and> (dn op' \<or> n = max_polls)"
proof (induction poll dn r op rule: poll_loop.induct)
  case (1 poll dn retries op)
  show ?case
  proof (cases "\<not> dn op \<and> retries < max_polls")
    case True
    then obtain op2 where p: "poll op = Inr op2" and rec: "poll_loop poll dn (Suc retries) op2 = Inr (op', n)"
      using "1.prems"(1) by (auto split: sum.splits)
    show ?thesis using "1.IH" [OF True p rec] True by simp
  next
    case False
    then show ?thesis using "1.prems" by auto
  qed
qed

text \<open>The polling loop ends after at most 150 polls, that is at most five minutes of waiting,
  with the operation done or the 150 polls spent; an operation that never finishes takes all
  150.\<close>

lemma poll_loop_bounded:
  "poll_loop poll dn 0 op = Inr (op', n) \<Longrightarrow> n \<le> 150 \<and> n * poll_interval_ms \<le> 300000 \<and> (dn op' \<or> n = 150)"
  using poll_loop_result [of poll dn 0 op op' n] by (simp add: max_polls_def poll_interval_ms_def)

lemma poll_loop_pending:
  "r \<le> max_polls \<Longrightarrow> poll_loop (\<lambda>op. Inr op) (\<lambda>_. False) r op = Inr (op, max_polls)"
proof (induction "max_polls - r" arbitrary: r)
  case 0
  then show ?case by simp
next
  case (Suc k)
  then show ?case by simp
qed

text \<open>\<open>handleGenerateAllAndPlay\<close> never leaves a scene marked as generating, nor itself
  running, whatever the service answers, quota errors included.\<close>

lemma gen_all_flags:
  "(\<forall>k. st_generating st k \<noteq> Some True) \<Longrightarrow>
   (\<forall>k. st_generating (gen_all pn va ks v0 segs st) k \<noteq> Some True) \<and> \<not> st_generating_all (gen_all pn va ks v0 segs st)"
proof (induction pn va ks v0 segs st rule: gen_all.induct)
  case (1 pn va ks v0 st)
  then show ?case by simp
next
  case (2 pn va ks v0 seg segs st)
  have flags: "\<forall>k. st_generating (snd (gen_step pn va ks v0 seg st)) k \<noteq> Some True"
    using "2.prems" by (simp add: gen_step_def set_generating_def gen_record_def split: prod.split)
  show ?case
  proof (cases "has_clip v0 (seg_key pn seg)")
    case True
    then show ?thesis using "2.IH"(1) "2.prems" by simp
  next
    case False
    obtain s st' where g: "gen_step pn va ks v0 seg st = (s, st')" by (cases "gen_step pn va ks v0 seg st")
    have f': "\<forall>k. st_generating st' k \<noteq> Some True" using flags g by simp
    show ?thesis
    proof (cases s)
      case QUOTA
      then show ?thesis using False g f' by simp
    next
      case SUCCESS
      then show ?thesis using False g f' "2.IH"(2) [OF False g [symmetric]] by simp
    next
      case FAILED
      then show ?thesis using False g f' "2.IH"(3) [OF False g [symmetric]] by simp
    qed
  qed
qed

lemma handleThemeSelect_steps:
  "handleThemeSelect gen theme st = foldl (studio_step pn) st [ThemeStart theme, ThemeEnd (gen theme (st_city st))]"
  by (simp add: handleThemeSelect_def theme_select_start_def)

lemma handleGenerateSegmentVideo_steps:
  "handleGenerateSegmentVideo pn va ks seg st =
     foldl (studio_step pn) st [ClipStart seg, ClipEnd seg (generateVideoForSegment pn va ks (st_videos st) seg)]"
  by (simp add: handleGenerateSegmentVideo_def gen_step_def set_generating_def)

lemma generate_cached:
  "has_clip videos (seg_key pn seg) \<Longrightarrow> generateVideoForSegment pn va ks videos seg = (SUCCESS, None, [])"
  by (simp add: generateVideoForSegment_def)

section \<open>Changing theme while a clip is generated\<close>

text \<open>
  C17. A clip that finishes after the user has picked another theme lands in the new
  storyboard. \<open>handleThemeSelect\<close> clears \<open>segmentVideos\<close>, but the generation still running
  writes its clip under its scene number with \<open>setSegmentVideos(prev => ...)\<close>; when the new
  script arrives, its scene with the same number shows the old theme's clip, is counted as
  generated (so \<open>generateVideoForSegment\<close> returns \<open>SUCCESS\<close> at once and never makes it), and
  the full storyboard plays it. Had the clip finished before the theme change, the new
  storyboard would be empty.
\<close>

theorem stale_clip_in_new_storyboard:
  assumes r: "generateVideoForSegment pn va ks (st_videos st) a = (SUCCESS, Some u, [])" and u: "u \<noteq> []"
    and key: "seg_key pn b = seg_key pn a"
  shows "fullPlaylist pn (foldl (studio_step pn) st
            [ClipStart a, ThemeStart theme, ClipEnd a (generateVideoForSegment pn va ks (st_videos st) a), ThemeEnd (Some [b])])
           = [(Some u, b)] \<and>
         generateVideoForSegment pn va' ks' (st_videos (foldl (studio_step pn) st
            [ClipStart a, ThemeStart theme, ClipEnd a (generateVideoForSegment pn va ks (st_videos st) a), ThemeEnd (Some [b])])) b
           = (SUCCESS, None, []) \<and>
         fullPlaylist pn (foldl (studio_step pn) st
            [ClipStart a, ClipEnd a (generateVideoForSegment pn va ks (st_videos st) a), ThemeStart theme, ThemeEnd (Some [b])]) = []"
  using u key generate_cached [of "[seg_key pn a \<mapsto> u]" pn b va' ks']
  by (simp add: r fullPlaylist_def set_generating_def gen_record_def theme_select_start_def
      theme_select_done_def has_clip_def)

theorem stale_clip_in_new_storyboard_witness:
  "fullPlaylist demo_pn (foldl (studio_step demo_pn) demo_studio
      [ClipStart scene_a, ThemeStart (JObj [(''title'', JStr ''Family Health'')]),
       ClipEnd scene_a (generateVideoForSegment demo_pn demo_video_api demo_keys (st_videos demo_studio) scene_a),
       ThemeEnd (Some [scene_b])]) = [(Some ''blob:clip1'', scene_b)] \<and>
   generateVideoForSegment demo_pn demo_video_api demo_keys (st_videos (foldl (studio_step demo_pn) demo_studio
      [ClipStart scene_a, ThemeStart (JObj [(''title'', JStr ''Family Health'')]),
       ClipEnd scene_a (generateVideoForSegment demo_pn demo_video_api demo_keys (st_videos demo_studio) scene_a),
       ThemeEnd (Some [scene_b])])) scene_b = (SUCCESS, None, []) \<and>
   fullPlaylist demo_pn (foldl (studio_step demo_pn) demo_studio
      [ClipStart scene_a, ClipEnd scene_a (generateVideoForSegment demo_pn demo_video_api demo_keys (st_videos demo_studio) scene_a),
       ThemeStart (JObj [(''title'', JStr ''Family Health'')]), ThemeEnd (Some [scene_b])]) = []"
proof (rule stale_clip_in_new_storyboard)
  show "generateVideoForSegment demo_pn demo_video_api demo_keys (st_videos demo_studio) scene_a = (SUCCESS, Some ''blob:clip1'', [])"
    by code_simp
  show "seg_key demo_pn scene_b = seg_key demo_pn scene_a" by code_simp
qed simp

section \<open>Runs of the player\<close>

lemma player_run_index: "player_run pl a p \<Longrightarrow> pl \<noteq> [] \<Longrightarrow> pl_index p < length pl"
  by (induction rule: player_run.induct) (auto simp: player_init_def)

lemma progress_ratio: "0 \<le> t \<Longrightarrow> t \<le> (d::real) \<Longrightarrow> d \<noteq> 0 \<Longrightarrow> 0 \<le> t * 100 / d \<and> t * 100 / d \<le> 100"
proof -
  assume a: "0 \<le> t" "t \<le> d" "d \<noteq> 0"
  then have "0 < d" by simp
  then show ?thesis using a by (simp add: pos_divide_le_eq)
qed

lemma player_run_progress: "player_run pl a p \<Longrightarrow> 0 \<le> pl_progress p \<and> pl_progress p \<le> 100"
  by (induction rule: player_run.induct) (auto simp: player_init_def progress_ratio)

lemma ended_steps:
  "j + i < length pl \<Longrightarrow>
   foldl (player_step pl) ((player_init True)\<lparr>pl_index := j\<rparr>) (replicate i Ended) = (player_init True)\<lparr>pl_index := j + i\<rparr>"
proof (induction i arbitrary: j)
  case 0
  then show ?case by simp
next
  case (Suc i)
  have "player_step pl ((player_init True)\<lparr>pl_index := j\<rparr>) Ended = (player_init True)\<lparr>pl_index := Suc j\<rparr>"
    using Suc.prems by (simp add: player_init_def)
  then show ?case using Suc.IH [of "Suc j"] Suc.prems by simp
qed

lemma foldl_replicate_Suc: "foldl f a (replicate (Suc i) x) = f (foldl f a (replicate i x)) x"
  by (simp only: replicate_Suc replicate_append_same [symmetric] foldl_append foldl_Cons foldl_Nil)

lemma ended_state:
  "i < length pl \<Longrightarrow> foldl (player_step pl) (player_init True) (replicate i Ended) = (player_init True)\<lparr>pl_index := i\<rparr>"
  using ended_steps [of 0 i pl] by (simp add: player_init_def)

text \<open>Opened with \<open>autoPlay\<close>, the storyboard player shows every clip of its playlist in
  order (the sample video for an item without a URL), each \<open>ended\<close> event being possible, and
  stops after the last.\<close>

theorem storyboard_plays_in_order:
  assumes ne: "pl \<noteq> []"
  shows "map (\<lambda>i. player_src pl (foldl (player_step pl) (player_init True) (replicate i Ended))) [0..<length pl] =
           map (\<lambda>(u, _). case u of Some x \<Rightarrow> if x \<noteq> [] then x else SAMPLE_VIDEO_URL | None \<Rightarrow> SAMPLE_VIDEO_URL) pl \<and>
         (\<forall>i \<le> length pl. player_run pl True (foldl (player_step pl) (player_init True) (replicate i Ended))) \<and>
         \<not> pl_playing (foldl (player_step pl) (player_init True) (replicate (length pl) Ended))"
proof (intro conjI allI impI)
  show "map (\<lambda>i. player_src pl (foldl (player_step pl) (player_init True) (replicate i Ended))) [0..<length pl] =
      map (\<lambda>(u, _). case u of Some x \<Rightarrow> if x \<noteq> [] then x else SAMPLE_VIDEO_URL | None \<Rightarrow> SAMPLE_VIDEO_URL) pl"
    by (rule nth_equalityI) (auto simp: ended_state player_src_def split: prod.split option.split)
  fix i assume "i \<le> length pl"
  then show "player_run pl True (foldl (player_step pl) (player_init True) (replicate i Ended))"
  proof (induction i)
    case 0
    then show ?case by (simp add: run_init)
  next
    case (Suc i)
    then have "i < length pl" by simp
    then have play: "pl_playing (foldl (player_step pl) (player_init True) (replicate i Ended))"
      unfolding ended_state [OF \<open>i < length pl\<close>] by (simp add: player_init_def)
    have run: "player_run pl True (foldl (player_step pl) (player_init True) (replicate i Ended))"
      using Suc by simp
    show ?case unfolding foldl_replicate_Suc using run_ended [OF run play] .
  qed
next
  obtain n where n: "length pl = Suc n" using ne by (cases pl) auto
  then have "n < length pl" by simp
  then show "\<not> pl_playing (foldl (player_step pl) (player_init True) (replicate (length pl) Ended))"
    unfolding n foldl_replicate_Suc ended_state [OF \<open>n < length pl\<close>] using n by simp
qed

theorem storyboard_plays_in_order_witness:
  "map (\<lambda>i. player_src demo_playlist (foldl (player_step demo_playlist) (player_init True) (replicate i Ended))) [0..<length demo_playlist] =
     map (\<lambda>(u, _). case u of Some x \<Rightarrow> if x \<noteq> [] then x else SAMPLE_VIDEO_URL | None \<Rightarrow> SAMPLE_VIDEO_URL) demo_playlist \<and>
   (\<forall>i \<le> length demo_playlist. player_run demo_playlist True (foldl (player_step demo_playlist) (player_init True) (replicate i Ended))) \<and>
   \<not> pl_playing (foldl (player_step demo_playlist) (player_init True) (replicate (length demo_playlist) Ended))"
  by (rule storyboard_plays_in_order) (simp add: demo_playlist_def)

end
