(* ===== verification/Charts.thy ===== *)
theory Charts
  imports JsValues
begin

text \<open>
  \<open>adaptChartData\<close> (\<open>src/frontend/index.tsx\<close>, 3793--3843), the adapter \<open>parseChartJSON\<close>
  applies to every object it parses. A Chart.js object (a truthy \<open>type\<close> and
  \<open>data.datasets\<close>) becomes one row per label with the datasets' values under their labels;
  an object already in the widget's format gets default keys and colours; anything else is
  returned as it is. \<open>None\<close> is the adapter throwing (a \<open>map\<close>, \<open>forEach\<close> or property read on
  a value that has none). A property set to \<open>undefined\<close> is kept in a row as \<open>None\<close>.
\<close>

text \<open>\<open>CHART_COLORS\<close> (87).\<close>

definition CHART_COLORS :: "json list" where
  "CHART_COLORS = [JStr ''#db2777'', JStr ''#059669'', JStr ''#d97706'', JStr ''#7c3aed'', JStr ''#2563eb'', JStr ''#dc2626'']"

type_synonym chart_row = "(string \<times> json option) list"

datatype chart_rows = Built "chart_row list" | Given "json list"

datatype chart_colors = ColorList "json option list" | ColorValue json

text \<open>The \<open>ChartData\<close> object the adapter builds (\<open>config\<close> flattened into the record).\<close>

record chart_data =
  cd_title :: json
  cd_description :: "json option"
  cd_chartType :: json
  cd_data :: chart_rows
  cd_xKey :: "json option"
  cd_yKey :: "json option"
  cd_nameKey :: "json option"
  cd_valueKey :: "json option"
  cd_colors :: chart_colors

datatype chart_result = Adapted chart_data | AsIs json

section \<open>The Chart.js conversion\<close>

text \<open>\<open>ds.data[i]\<close>: reading undefined or \<open>null\<close> throws; an array gives its element, a string
  its character, an object its property \<open>"i"\<close>.\<close>

definition ds_value :: "json option \<Rightarrow> nat \<Rightarrow> json option option" where
  "ds_value d i =
     (case d of
        None \<Rightarrow> None
      | Some JNull \<Rightarrow> None
      | Some (JArr xs) \<Rightarrow> Some (if i < length xs then Some (xs ! i) else None)
      | Some (JStr s) \<Rightarrow> Some (if i < length s then Some (JStr [s ! i]) else None)
      | Some (JObj kv) \<Rightarrow> Some (obj_get kv (show_nat i))
      | Some _ \<Rightarrow> Some None)"

text \<open>The key \<open>ds.label || 'Value'\<close>.\<close>

definition ds_key :: "(rat \<Rightarrow> string) \<Rightarrow> json \<Rightarrow> string option" where
  "ds_key pn ds =
     (case js_prop ds ''label'' of
        None \<Rightarrow> None
      | Some l \<Rightarrow> Some (if js_truthy_opt l then js_str_opt pn l else ''Value''))"

text \<open>\<open>datasets.forEach(ds => { row[ds.label || 'Value'] = ds.data[i]; })\<close>.\<close>

fun fill_row :: "(rat \<Rightarrow> string) \<Rightarrow> nat \<Rightarrow> json list \<Rightarrow> chart_row \<Rightarrow> chart_row option" where
  "fill_row pn i [] row = Some row"
| "fill_row pn i (ds # dss) row =
     (case ds_key pn ds of
        None \<Rightarrow> None
      | Some k \<Rightarrow>
          (case js_prop ds ''data'' of
             None \<Rightarrow> None
           | Some d \<Rightarrow> (case ds_value d i of None \<Rightarrow> None | Some v \<Rightarrow> fill_row pn i dss (obj_set row k v))))"

text \<open>\<open>labels.map((label, i) => ...)\<close>: a row \<open>{ name: label }\<close> filled from every dataset.\<close>

definition build_rows :: "(rat \<Rightarrow> string) \<Rightarrow> json list \<Rightarrow> json list \<Rightarrow> chart_row list option" where
  "build_rows pn labels dss =
     those (map (\<lambda>(i, l). fill_row pn i dss [(''name'', Some l)]) (zip [0..<length labels] labels))"

definition chart_type_of :: "json option \<Rightarrow> string" where
  "chart_type_of t =
     (if t = Some (JStr ''GPT'') then ''bar''
      else if t = Some (JStr ''bar'') then ''bar''
      else if t = Some (JStr ''pie'') \<or> t = Some (JStr ''doughnut'') then ''pie''
      else ''radar'')"

text \<open>\<open>d.backgroundColor || d.borderColor\<close>, and \<open>.flat()\<close> of the list.\<close>

definition color_of :: "json \<Rightarrow> json option option" where
  "color_of d =
     (case (js_prop d ''backgroundColor'', js_prop d ''borderColor'') of
        (Some b, Some c) \<Rightarrow> Some (js_or_opt b c)
      | _ \<Rightarrow> None)"

definition flat_one :: "json option list \<Rightarrow> json option list" where
  "flat_one vs = concat (map (\<lambda>v. case v of Some (JArr xs) \<Rightarrow> map Some xs | _ \<Rightarrow> [v]) vs)"

definition first_elem :: "json list \<Rightarrow> json option" where
  "first_elem xs = (case xs of [] \<Rightarrow> None | x # _ \<Rightarrow> Some x)"

text \<open>The Chart.js branch (3794--3820), given \<open>parsed\<close>, \<open>parsed.type\<close> and \<open>parsed.data\<close>.\<close>

definition adapt_chartjs :: "(rat \<Rightarrow> string) \<Rightarrow> json \<Rightarrow> json option \<Rightarrow> json option \<Rightarrow> chart_result option" where
  "adapt_chartjs pn parsed ty dat =
     (case (js_or_opt (js_opt_get dat ''labels'') (Some (JArr [])), js_opt_get dat ''datasets'') of
        (Some (JArr labels), Some (JArr dss)) \<Rightarrow>
          (case (build_rows pn labels dss, those (map color_of dss)) of
             (Some rows, Some cols) \<Rightarrow>
               (let opts = js_opt_get (Some parsed) ''options'';
                    plugins = js_opt_get opts ''plugins'';
                    yk = js_or_opt (js_opt_get (first_elem dss) ''label'') (Some (JStr ''Value''))
                in Some (Adapted
                  \<lparr>cd_title = the (js_or_opt (js_or_opt (js_opt_get (js_opt_get plugins ''title'') ''text'')
                                                        (js_opt_get (Some parsed) ''title''))
                                             (Some (JStr ''Analysis Chart''))),
                   cd_description = js_or_opt (js_opt_get (Some parsed) ''description'')
                                              (js_opt_get (js_opt_get plugins ''subtitle'') ''text''),
                   cd_chartType = JStr (chart_type_of ty),
                   cd_data = Built rows,
                   cd_xKey = Some (JStr ''name''), cd_yKey = yk, cd_nameKey = Some (JStr ''name''), cd_valueKey = yk,
                   cd_colors = ColorList (flat_one cols)\<rparr>))
           | _ \<Rightarrow> None)
      | _ \<Rightarrow> None)"

section \<open>The widget format\<close>

text \<open>\<open>parsed.data[0] ? Object.keys(parsed.data[0])[n] : dflt\<close>.\<close>

definition key_at :: "json list \<Rightarrow> nat \<Rightarrow> string \<Rightarrow> json option" where
  "key_at rows n dflt =
     (case rows of
        r # _ \<Rightarrow> if js_truthy r then (if n < length (js_keys r) then Some (JStr (js_keys r ! n)) else None)
                 else Some (JStr dflt)
      | [] \<Rightarrow> Some (JStr dflt))"

text \<open>The branch for the widget's own format (3824--3840), given \<open>parsed.data\<close> as an array.\<close>

definition adapt_direct :: "json \<Rightarrow> json list \<Rightarrow> chart_result" where
  "adapt_direct parsed rows =
     (let cfg = js_opt_get (Some parsed) ''config'';
          k0 = key_at rows 0 ''name'';
          k1 = key_at rows 1 ''value''
      in Adapted
        \<lparr>cd_title = the (js_or_opt (js_opt_get (Some parsed) ''title'') (Some (JStr ''Analysis Chart''))),
         cd_description = js_opt_get (Some parsed) ''description'',
         cd_chartType = the (js_opt_get (Some parsed) ''chartType''),
         cd_data = Given rows,
         cd_xKey = js_or_opt (js_opt_get cfg ''xKey'') k0,
         cd_yKey = js_or_opt (js_opt_get cfg ''yKey'') k1,
         cd_nameKey = js_or_opt (js_opt_get cfg ''nameKey'') (js_or_opt (js_opt_get cfg ''xKey'') k0),
         cd_valueKey = js_or_opt (js_opt_get cfg ''valueKey'') (js_or_opt (js_opt_get cfg ''yKey'') k1),
         cd_colors = ColorValue (the (js_or_opt (js_opt_get cfg ''colors'') (Some (JArr CHART_COLORS))))\<rparr>)"

text \<open>\<open>adaptChartData\<close> (3793--3843). Reading \<open>parsed.type\<close> throws when \<open>parsed\<close> is \<open>null\<close>.\<close>

definition adaptChartData :: "(rat \<Rightarrow> string) \<Rightarrow> json \<Rightarrow> chart_result option" where
  "adaptChartData pn parsed =
     (case js_prop parsed ''type'' of
        None \<Rightarrow> None
      | Some ty \<Rightarrow>
          (let dat = js_opt_get (Some parsed) ''data'' in
           if js_truthy_opt ty \<and> js_truthy_opt dat \<and> js_truthy_opt (js_opt_get dat ''datasets'')
           then adapt_chartjs pn parsed ty dat
           else if js_truthy_opt (js_opt_get (Some parsed) ''chartType'') \<and> js_truthy_opt dat \<and>
                   (case dat of Some (JArr _) \<Rightarrow> True | _ \<Rightarrow> False)
           then Some (adapt_direct parsed (case dat of Some (JArr rows) \<Rightarrow> rows | _ \<Rightarrow> []))
           else Some (AsIs parsed)))"

section \<open>Chart.js input from series\<close>

text \<open>A dataset \<open>{ label, data }\<close> built from a label and its values, and the cell a row
  gets from it at an index.\<close>


definition series_obj :: "string \<times> json list \<Rightarrow> json" where
  "series_obj s = (case s of (l, col) \<Rightarrow> JObj [(''label'', JStr l), (''data'', JArr col)])"

definition series_cell :: "nat \<Rightarrow> string \<times> json list \<Rightarrow> string \<times> json option" where
  "series_cell i s = (case s of (l, col) \<Rightarrow> (l, if i < length col then Some (col ! i) else None))"

section \<open>Lemmas\<close>

lemma obj_set_absent: "k \<notin> fst ` set row \<Longrightarrow> obj_set row k v = row @ [(k, v)]"
  by (induction row) auto

lemma ds_key_series: "l \<noteq> [] \<Longrightarrow> ds_key pn (series_obj (l, col)) = Some l"
  by (simp add: ds_key_def series_obj_def js_prop_def js_truthy_opt_def js_str_opt_def)

lemma fill_row_series:
  "distinct (map fst series) \<Longrightarrow> \<forall>s\<in>set series. fst s \<noteq> [] \<and> fst s \<notin> fst ` set row \<Longrightarrow>
   fill_row pn i (map series_obj series) row = Some (row @ map (series_cell i) series)"
proof (induction series arbitrary: row)
  case Nil
  then show ?case by simp
next
  case (Cons s series)
  obtain l col where s: "s = (l, col)" by (cases s)
  have l: "l \<noteq> []" "l \<notin> fst ` set row" using Cons.prems(2) s by auto
  have rest: "\<forall>s\<in>set series. fst s \<noteq> [] \<and> fst s \<notin> fst ` set (row @ [series_cell i (l, col)])"
    using Cons.prems s by (auto simp: series_cell_def)
  have "fill_row pn i (map series_obj series) (row @ [series_cell i (l, col)]) =
      Some (row @ [series_cell i (l, col)] @ map (series_cell i) series)"
    using Cons.IH [OF _ rest] Cons.prems(1) by simp
  moreover have "js_prop (series_obj (l, col)) ''data'' = Some (Some (JArr col))"
    by (simp add: series_obj_def js_prop_def)
  ultimately show ?case using l
    by (simp add: s ds_key_series ds_value_def obj_set_absent series_cell_def)
qed

lemma those_map_Some: "those (map (\<lambda>x. Some (f x)) xs) = Some (map f xs)"
  by (induction xs) simp_all

lemma those_map_Some_prod: "those (map (\<lambda>(a, b). Some (f a b)) xs) = Some (map (\<lambda>(a, b). f a b) xs)"
  by (induction xs) auto

lemma build_rows_series:
  assumes "distinct (''name'' # map fst series)" "\<forall>s\<in>set series. fst s \<noteq> []"
  shows "build_rows pn labels (map series_obj series) =
           Some (map (\<lambda>(i, lab). (''name'', Some lab) # map (series_cell i) series) (zip [0..<length labels] labels))"
proof -
  have "\<And>i lab. fill_row pn i (map series_obj series) [(''name'', Some lab)] =
      Some ((''name'', Some lab) # map (series_cell i) series)"
  proof -
    fix i and lab :: json
    have "\<forall>s\<in>set series. fst s \<noteq> [] \<and> fst s \<notin> fst ` set [(''name'', Some lab)]"
      using assms by force
    then show "fill_row pn i (map series_obj series) [(''name'', Some lab)] =
      Some ((''name'', Some lab) # map (series_cell i) series)"
      using fill_row_series [of series "[(''name'', Some lab)]" pn i] assms(1) by simp
  qed
  then show ?thesis
    by (simp add: build_rows_def those_map_Some_prod)
qed

lemma color_of_series: "color_of (series_obj s) = Some None"
  by (cases s) (simp add: color_of_def series_obj_def js_prop_def js_or_opt_def js_truthy_opt_def)

text \<open>
  C22. The Chart.js branch of \<open>adaptChartData\<close> on an object the callers pass to it: one
  whose \<open>chartType\<close> passed their check (bar, pie or radar) and that also has a non-empty
  string \<open>type\<close>, labels, and datasets with distinct non-empty labels other than \<open>name\<close>.
  The chart has one row per label holding \<open>name\<close> and each dataset's value at that index
  (undefined past the end of its data), the first dataset's label as value key and the default
  title, and its type is read from \<open>type\<close> alone: GPT and bar give bar, pie and doughnut give
  pie, anything else radar, whatever \<open>chartType\<close> the caller checked.
\<close>

theorem adapt_chartjs_series:
  assumes ok: "chart_type_ok [(''chartType'', ct), (''type'', JStr ty), (''data'', JObj [(''labels'', JArr labels), (''datasets'', JArr (map series_obj series))])]"
    and ty: "ty \<noteq> []" and names: "distinct (''name'' # map fst series)" and nonempty: "\<forall>s\<in>set series. fst s \<noteq> []"
  shows "adaptChartData pn (JObj [(''chartType'', ct), (''type'', JStr ty), (''data'', JObj [(''labels'', JArr labels), (''datasets'', JArr (map series_obj series))])]) =
    Some (Adapted \<lparr>cd_title = JStr ''Analysis Chart'', cd_description = None,
      cd_chartType = JStr (if ty = ''GPT'' \<or> ty = ''bar'' then ''bar''
                           else if ty = ''pie'' \<or> ty = ''doughnut'' then ''pie'' else ''radar''),
      cd_data = Built (map (\<lambda>(i, lab). (''name'', Some lab) # map (series_cell i) series) (zip [0..<length labels] labels)),
      cd_xKey = Some (JStr ''name''), cd_yKey = Some (JStr (case series of [] \<Rightarrow> ''Value'' | s # _ \<Rightarrow> fst s)),
      cd_nameKey = Some (JStr ''name''), cd_valueKey = Some (JStr (case series of [] \<Rightarrow> ''Value'' | s # _ \<Rightarrow> fst s)),
      cd_colors = ColorList (map (\<lambda>_. None) series)\<rparr>)"
proof -
  have cols: "those (map color_of (map series_obj series)) = Some (map (\<lambda>_. None) series)"
    using those_map_Some [of "\<lambda>_. None" series] by (simp add: color_of_series comp_def)
  have fl: "flat_one (map (\<lambda>_. None) series) = map (\<lambda>_. None) series"
    by (induction series) (simp_all add: flat_one_def)
  have yk: "js_or_opt (js_opt_get (first_elem (map series_obj series)) ''label'') (Some (JStr ''Value'')) =
      Some (JStr (case series of [] \<Rightarrow> ''Value'' | s # _ \<Rightarrow> fst s))"
    using nonempty by (cases series) (auto simp: first_elem_def series_obj_def js_opt_get_def js_or_opt_def js_truthy_opt_def)
  have ct: "chart_type_of (Some (JStr ty)) = (if ty = ''GPT'' \<or> ty = ''bar'' then ''bar''
                           else if ty = ''pie'' \<or> ty = ''doughnut'' then ''pie'' else ''radar'')"
    by (simp add: chart_type_of_def)
  show ?thesis
    using ty build_rows_series [OF names nonempty, of pn labels] cols fl yk ct
    by (simp add: adaptChartData_def adapt_chartjs_def Let_def js_prop_def js_opt_get_def js_or_opt_def js_truthy_opt_def)
qed

text \<open>A reply whose chart object says \<open>chartType: 'bar'\<close> and \<open>type: 'line'\<close> is drawn as a radar
  chart.\<close>

theorem adapt_chartjs_series_witness:
  "adaptChartData (\<lambda>n. show_nat (nat \<lfloor>n\<rfloor>))
     (JObj [(''chartType'', JStr ''bar''), (''type'', JStr ''line''), (''data'', JObj [(''labels'', JArr [JStr ''Q1'', JStr ''Q2'']),
        (''datasets'', JArr (map series_obj [(''Revenue'', [JNum 10, JNum 20]), (''Cost'', [JNum 7])]))])]) =
   Some (Adapted \<lparr>cd_title = JStr ''Analysis Chart'', cd_description = None, cd_chartType = JStr ''radar'',
      cd_data = Built (map (\<lambda>(i, lab). (''name'', Some lab) # map (series_cell i) [(''Revenue'', [JNum 10, JNum 20]), (''Cost'', [JNum 7])])
                          (zip [0..<length [JStr ''Q1'', JStr ''Q2'']] [JStr ''Q1'', JStr ''Q2''])),
      cd_xKey = Some (JStr ''name''),
      cd_yKey = Some (JStr (case [(''Revenue'', [JNum 10, JNum 20]), (''Cost'', [JNum 7])] of [] \<Rightarrow> ''Value'' | s # _ \<Rightarrow> fst s)),
      cd_nameKey = Some (JStr ''name''),
      cd_valueKey = Some (JStr (case [(''Revenue'', [JNum 10, JNum 20]), (''Cost'', [JNum 7])] of [] \<Rightarrow> ''Value'' | s # _ \<Rightarrow> fst s)),
      cd_colors = ColorList (map (\<lambda>_. None) [(''Revenue'', [JNum 10, JNum 20]), (''Cost'', [JNum 7])])\<rparr>)"
proof -
  have ok: "chart_type_ok [(''chartType'', JStr ''bar''), (''type'', JStr ''line''), (''data'', JObj [(''labels'', JArr [JStr ''Q1'', JStr ''Q2'']),
        (''datasets'', JArr (map series_obj [(''Revenue'', [JNum 10, JNum 20]), (''Cost'', [JNum 7])]))])]"
    by (simp add: chart_type_ok_def)
  show ?thesis using adapt_chartjs_series [OF ok] by simp
qed

text \<open>A dataset labelled \<open>name\<close> overwrites every row's category label with its own value,
  also in an object that passes the callers' \<open>chartType\<close> check.\<close>

lemma adapt_name_series_overwrites:
  "(case adaptChartData pn (JObj [(''chartType'', JStr ''bar''), (''type'', JStr ''line''), (''data'', JObj [(''labels'', JArr [lab]),
      (''datasets'', JArr [series_obj (''name'', [x])])])]) of
      Some (Adapted c) \<Rightarrow> cd_data c = Built [[(''name'', Some x)]] \<and> cd_chartType c = JStr ''radar''
    | _ \<Rightarrow> False)"
  by (simp add: adaptChartData_def adapt_chartjs_def build_rows_def ds_key_def ds_value_def color_of_def
      series_obj_def js_prop_def js_opt_get_def js_or_opt_def js_truthy_opt_def js_str_opt_def chart_type_of_def Let_def)

end
