(* ===== verification/Server.thy ===== *)
theory Server
  imports Client Gateway Connection
begin

text \<open>
  The server's connection to MongoDB (\<open>src/backend/server.js\<close>): the module variable
  \<open>db\<close> (44), \<open>null\<close> until \<open>connectDB\<close> (48--134) succeeds, and the guard
  \<open>if (!db) return res.status(503)...\<close> at the start of every database route, after its
  middleware. The routes themselves are those of the theories Users, Listing, Store and
  Gateway, which take a connected database; here they run on the server state. The remote
  database is the parameter \<open>be_atlas\<close>, the outcome of \<open>client.connect()\<close> for a connection
  string is \<open>be_reach\<close>, and the unique index on \<open>email\<close> fails exactly when two users share
  an email. \<open>connectDB\<close> catches every error, so it never throws. A request whose JSON body
  \<open>express.json\<close> cannot parse, and an upload multer refuses, reach the global error handler,
  which answers 500 on these \<open>/api/\<close> paths.
\<close>

record server =
  sv_uri :: "string option"
  sv_dbname :: "string option"
  sv_db :: "db option"

text \<open>What the server is given: the CSV parser and the aggregation engine of the data routes,
  the reachability of a connection string, the remote database and the token functions.\<close>

record backend =
  be_csv :: "string \<Rightarrow> string + jobj list"
  be_engine :: "json list \<Rightarrow> json \<Rightarrow> string + json list"
  be_reach :: "string \<Rightarrow> bool"
  be_atlas :: db
  be_crypto :: crypto

definition server_init :: "string option \<Rightarrow> string option \<Rightarrow> server" where
  "server_init uri dbn = \<lparr>sv_uri = uri, sv_dbname = dbn, sv_db = None\<rparr>"

section \<open>Connecting\<close>

text \<open>\<open>connectDB\<close>: nothing without a usable URI or when the connection fails; otherwise
  \<open>db\<close> is set first, then the unique index is created and the default administrator
  seeded. A failing index creation throws into the \<open>catch\<close>, after \<open>db\<close> was set.\<close>

definition connectDB :: "backend \<Rightarrow> nat \<Rightarrow> server \<Rightarrow> server" where
  "connectDB be now sv =
     (case connect_target (sv_uri sv) (sv_dbname sv) of
        Connect s \<Rightarrow>
          if be_reach be s
          then sv\<lparr>sv_db := Some (if distinct (map u_email (users (be_atlas be)))
                                then seed_admin (cr_hash (be_crypto be)) now (be_atlas be)
                                else be_atlas be)\<rparr>
          else sv
      | _ \<Rightarrow> sv)"

definition not_connected :: resp where
  "not_connected = err_resp 503 ''Database not connected''"

text \<open>\<open>if (!db) return 503\<close>, then the route's body on the database.\<close>

definition db_guard :: "db option \<Rightarrow> (db \<Rightarrow> resp \<times> db) \<Rightarrow> resp \<times> db option" where
  "db_guard dbo f = (case dbo of None \<Rightarrow> (not_connected, None) | Some d \<Rightarrow> (case f d of (r, d') \<Rightarrow> (r, Some d')))"

section \<open>Routes on the server state\<close>

text \<open>The user routes (445--728, 1038--1122): login checks the connection first, the others
  after \<open>authenticateToken\<close> (and \<open>requireAdmin\<close>); logout never reads the database.\<close>

fun user_api_srv :: "crypto \<Rightarrow> nat \<Rightarrow> string option \<Rightarrow> user_req \<Rightarrow> db option \<Rightarrow> resp \<times> db option" where
  "user_api_srv cr now h (Login e p) dbo = db_guard dbo (login (cr_check cr) (cr_sign cr) now e p)"
| "user_api_srv cr now h Me dbo =
     (case authenticateToken (cr_verify cr) h of
        Inl r \<Rightarrow> (r, dbo)
      | Inr c \<Rightarrow> db_guard dbo (\<lambda>d. (auth_me c d, d)))"
| "user_api_srv cr now h Logout dbo =
     (case authenticateToken (cr_verify cr) h of Inl r \<Rightarrow> (r, dbo) | Inr c \<Rightarrow> (logout, dbo))"
| "user_api_srv cr now h UserFiles dbo =
     (case authenticateToken (cr_verify cr) h of
        Inl r \<Rightarrow> (r, dbo)
      | Inr c \<Rightarrow> db_guard dbo (\<lambda>d. (user_files_resp c d, d)))"
| "user_api_srv cr now h (Admin a) dbo =
     (case authenticateToken (cr_verify cr) h of
        Inl r \<Rightarrow> (r, dbo)
      | Inr c \<Rightarrow> (case requireAdmin c of Some r \<Rightarrow> (r, dbo) | None \<Rightarrow> db_guard dbo (admin_op cr now c a)))"

definition reconnect_failed :: resp where
  "reconnect_failed = err_resp 503 ''Database not connected. Please check MongoDB connection.''"

text \<open>\<open>GET /api/admin/files\<close> (729--842): without a database it calls \<open>connectDB\<close> again and
  answers 503 only if that left \<open>db\<close> unset. The \<open>catch (reconnectError)\<close> branch is not
  a case of the model: \<open>connectDB\<close> does not throw.\<close>

definition files_route_srv :: "backend \<Rightarrow> nat \<Rightarrow> string option \<Rightarrow> server \<Rightarrow> resp \<times> server" where
  "files_route_srv be now h sv =
     (case authenticateToken (cr_verify (be_crypto be)) h of
        Inl r \<Rightarrow> (r, sv)
      | Inr c \<Rightarrow>
          (case requireAdmin c of
             Some r \<Rightarrow> (r, sv)
           | None \<Rightarrow>
               (case sv_db sv of
                  Some d \<Rightarrow> (admin_files_endpoint d, sv)
                | None \<Rightarrow>
                    (let sv' = connectDB be now sv in
                     case sv_db sv' of
                       None \<Rightarrow> (reconnect_failed, sv')
                     | Some d \<Rightarrow> (admin_files_endpoint d, sv')))))"

text \<open>\<open>POST /api/admin/files/upload\<close> (844--1035): multer runs after \<open>requireAdmin\<close> and
  passes its error to the global handler; in the route the guard precedes the file check.
  \<open>None\<close> is a request without a file part.\<close>

definition upload_route_srv :: "backend \<Rightarrow> nat \<Rightarrow> string option \<Rightarrow> upload option \<Rightarrow> server \<Rightarrow> resp \<times> server" where
  "upload_route_srv be now h fo sv =
     (case authenticateToken (cr_verify (be_crypto be)) h of
        Inl r \<Rightarrow> (r, sv)
      | Inr c \<Rightarrow>
          (case requireAdmin c of
             Some r \<Rightarrow> (r, sv)
           | None \<Rightarrow>
               (case (case fo of Some f \<Rightarrow> multer_error f | None \<Rightarrow> None) of
                  Some m \<Rightarrow> (global_error m, sv)
                | None \<Rightarrow>
               (case db_guard (sv_db sv) (\<lambda>d. case upload_file (be_csv be) now d (c_email c) fo of (d', r) \<Rightarrow> (r, d')) of
                  (r, dbo) \<Rightarrow> (r, sv\<lparr>sv_db := dbo\<rparr>)))))"

text \<open>\<open>POST /api/data/query\<close> (1344--1455): the two 400 checks on the body come before the
  guard.\<close>

definition query_route_srv :: "backend \<Rightarrow> nat \<Rightarrow> string option \<Rightarrow> query_req \<Rightarrow> server \<Rightarrow> resp" where
  "query_route_srv be elapsed h req sv =
     (case authenticateToken (cr_verify (be_crypto be)) h of
        Inl r \<Rightarrow> r
      | Inr c \<Rightarrow>
          (case q_pipeline req of
             Some (JArr _) \<Rightarrow>
               if \<not> truthy (q_fileName req) \<and> \<not> truthy (q_collection req)
               then err_resp 400 ''fileName or collectionName is required''
               else (case sv_db sv of
                       None \<Rightarrow> not_connected
                     | Some d \<Rightarrow> query_endpoint (be_engine be) elapsed d (c_email c) req)
           | _ \<Rightarrow> err_resp 400 ''pipeline (array) is required''))"

section \<open>The server as a state machine\<close>

text \<open>The requests of the API. \<open>BadBody m\<close> is a request whose JSON body \<open>express.json\<close>
  (139) cannot parse: the parser passes its error, with message \<open>m\<close>, to the global handler
  before any route runs.\<close>

datatype srv_req = UserReq user_req | FilesList | FileUpload "upload option" | DataQuery query_req nat
  | BadBody string

fun serve :: "backend \<Rightarrow> nat \<Rightarrow> string option \<Rightarrow> srv_req \<Rightarrow> server \<Rightarrow> resp \<times> server" where
  "serve be now h (UserReq req) sv =
     (case user_api_srv (be_crypto be) now h req (sv_db sv) of (r, dbo) \<Rightarrow> (r, sv\<lparr>sv_db := dbo\<rparr>))"
| "serve be now h FilesList sv = files_route_srv be now h sv"
| "serve be now h (FileUpload f) sv = upload_route_srv be now h f sv"
| "serve be now h (DataQuery q elapsed) sv = (query_route_srv be elapsed h q sv, sv)"
| "serve be now h (BadBody m) sv = (global_error m, sv)"

text \<open>The states a server reaches: it starts unconnected, \<open>connectDB()\<close> runs (at start-up,
  line 136), and requests are served one after another.\<close>

inductive server_run :: "backend \<Rightarrow> string option \<Rightarrow> string option \<Rightarrow> server \<Rightarrow> bool" for be uri dbn where
  run_start: "server_run be uri dbn (server_init uri dbn)"
| run_connect: "server_run be uri dbn sv \<Longrightarrow> server_run be uri dbn (connectDB be now sv)"
| run_serve: "server_run be uri dbn sv \<Longrightarrow> server_run be uri dbn (snd (serve be now h req sv))"

text \<open>The account invariant on the connected database.\<close>

definition server_wf :: "server \<Rightarrow> bool" where
  "server_wf sv \<longleftrightarrow> (\<forall>d. sv_db sv = Some d \<longrightarrow> wf_users d)"

section \<open>Example\<close>

text \<open>A backend whose remote database is the user store of the theory Users.\<close>

definition demo_backend :: backend where
  "demo_backend = \<lparr>be_csv = (\<lambda>_. Inl []), be_engine = (\<lambda>_ _. Inl []), be_reach = (\<lambda>_. True),
     be_atlas = demo_users_db, be_crypto = demo_crypto\<rparr>"

definition demo_uri :: "string option" where
  "demo_uri = Some ''mongodb+srv://app:pw@cluster0.example.net''"

text \<open>The same with a remote database that has no default administrator yet.\<close>

definition fresh_backend :: backend where
  "fresh_backend = demo_backend\<lparr>be_atlas := empty_db\<lparr>users := [demo_ops]\<rparr>\<rparr>"

section \<open>Lemmas\<close>



lemma parse_store_users: "parseAndStoreCSVInMongo csv d n c = Inr (d', r) \<Longrightarrow> users d' = users d"
  by (auto simp: parseAndStoreCSVInMongo_def Let_def drop_collection_def insert_many_def split: sum.splits list.splits)

lemma store_upload_record_users: "users (store_upload_record d f now e) = users d"
  by (simp add: store_upload_record_def Let_def)

lemma upload_file_users: "users (fst (upload_file csv now d e f)) = users d"
proof (cases f)
  case (Some u)
  show ?thesis
  proof (cases "parseAndStoreCSVInMongo csv (store_upload_record d u now e) (up_name u) (up_content u)")
    case (Inr p)
    then obtain d4 r where ps: "parseAndStoreCSVInMongo csv (store_upload_record d u now e) (up_name u) (up_content u) = Inr (d4, r)"
      by (cases p) auto
    then show ?thesis using parse_store_users [OF ps] ps Some
      by (simp add: upload_file_def Let_def store_upload_record_users)
  qed (simp add: Some upload_file_def Let_def store_upload_record_users)
qed (simp add: upload_file_def)

lemma db_guard_None: "db_guard None f = (not_connected, None)"
  by (simp add: db_guard_def)


lemma global_error_status [simp]: "status (global_error m) = 500"
  by (simp add: global_error_def)



lemma user_api_srv_connected:
  "user_api_srv cr now h req (Some d) = (fst (user_api cr now h req d), Some (snd (user_api cr now h req d)))"
  by (cases req) (auto simp: db_guard_def split: sum.split option.split prod.split)

lemma connectDB_wf: "wf_users (be_atlas be) \<Longrightarrow> server_wf sv \<Longrightarrow> server_wf (connectDB be now sv)"
  by (auto simp: server_wf_def connectDB_def wf_seed_admin split: connect_outcome.split)

lemma user_api_srv_None_state: "snd (user_api_srv cr now h u None) = None"
  by (cases u) (auto simp: db_guard_None split: sum.split option.split)

lemma serve_None_state: "sv_db sv = None \<Longrightarrow> req \<noteq> FilesList \<Longrightarrow> snd (serve be now h req sv) = sv"
  using user_api_srv_None_state
  by (cases req) (auto simp: db_guard_None upload_route_srv_def case_prod_beta split: sum.split option.split)

lemma wf_upload_file: "upload_file csv now d e f = (d', r) \<Longrightarrow> wf_users d \<Longrightarrow> wf_users d'"
  using upload_file_users [of csv now d e f] by (simp add: wf_users_def)

lemma upload_route_srv_wf: "server_wf sv \<Longrightarrow> server_wf (snd (upload_route_srv be now h fo sv))"
  by (auto simp: upload_route_srv_def db_guard_def server_wf_def elim: wf_upload_file
      split: sum.split option.split prod.split)

lemma serve_wf: "wf_users (be_atlas be) \<Longrightarrow> server_wf sv \<Longrightarrow> server_wf (snd (serve be now h req sv))"
proof (cases "sv_db sv")
  case None
  then show "wf_users (be_atlas be) \<Longrightarrow> server_wf sv \<Longrightarrow> server_wf (snd (serve be now h req sv))"
    using serve_None_state [OF None, of req be now h] connectDB_wf [of be sv now]
    by (cases "req = FilesList") (auto simp: files_route_srv_def Let_def split: sum.split option.split)
next
  case (Some d)
  assume atlas: "wf_users (be_atlas be)" and wf: "server_wf sv"
  then have d: "wf_users d" using Some by (simp add: server_wf_def)
  show "server_wf (snd (serve be now h req sv))"
  proof (cases req)
    case (UserReq u)
    then show ?thesis using Some wf_user_api [OF d]
      by (simp add: server_wf_def user_api_srv_connected)
  next
    case FilesList
    then show ?thesis using Some wf by (simp add: files_route_srv_def split: sum.split option.split)
  next
    case (FileUpload fo)
    then show ?thesis using wf upload_route_srv_wf by simp
  next
    case (DataQuery q el)
    then show ?thesis using wf by simp
  next
    case (BadBody m)
    then show ?thesis using wf by simp
  qed
qed

text \<open>Every state a server reaches keeps the account invariant of the theory Users, when the
  remote database has it.\<close>

theorem server_run_wf:
  assumes atlas: "wf_users (be_atlas be)" and run: "server_run be uri dbn sv"
  shows "server_wf sv"
  using run
proof (induction rule: server_run.induct)
  case run_start
  then show ?case by (simp add: server_wf_def server_init_def)
next
  case (run_connect sv now)
  then show ?case using connectDB_wf [OF atlas] by blast
next
  case (run_serve sv now h req)
  then show ?case using serve_wf [OF atlas] by blast
qed

theorem server_run_wf_witness:
  "server_wf (snd (serve demo_backend 1 (Some ''Bearer tokA'') (UserReq (Admin (DeleteUser ''ops@indira.com'')))
     (connectDB demo_backend 0 (server_init demo_uri None))))"
proof (rule server_run_wf [where uri = demo_uri and dbn = None])
  show "wf_users (be_atlas demo_backend)" by (simp add: demo_backend_def demo_users_db_wf)
  show "server_run demo_backend demo_uri None (snd (serve demo_backend 1 (Some ''Bearer tokA'')
      (UserReq (Admin (DeleteUser ''ops@indira.com''))) (connectDB demo_backend 0 (server_init demo_uri None))))"
    by (intro server_run.run_serve server_run.run_connect server_run.run_start)
qed

lemma files_route_reconnects:
  assumes "sv_db sv = None" "authenticateToken (cr_verify (be_crypto be)) h = Inr c" "c_role c = ''admin''"
    "connect_target (sv_uri sv) (sv_dbname sv) = Connect s" "be_reach be s" "wf_users (be_atlas be)"
  shows "files_route_srv be now h sv =
    (admin_files_endpoint (seed_admin (cr_hash (be_crypto be)) now (be_atlas be)),
     sv\<lparr>sv_db := Some (seed_admin (cr_hash (be_crypto be)) now (be_atlas be))\<rparr>)"
  using assms by (simp add: files_route_srv_def requireAdmin_def connectDB_def wf_users_def)

lemma connect_duplicate_unseeded:
  "\<not> distinct (map u_email (users (be_atlas be))) \<Longrightarrow> connect_target (sv_uri sv) (sv_dbname sv) = Connect s \<Longrightarrow>
   be_reach be s \<Longrightarrow> sv_db (connectDB be now sv) = Some (be_atlas be)"
  by (simp add: connectDB_def)

lemma login_seeded:
  assumes "find_user d ''admin@indira.com'' = None" "cr_check cr ''admin123'' (cr_hash cr ''admin123'')"
  shows "fst (login (cr_check cr) (cr_sign cr) now' (Some (JStr ''admin@indira.com'')) (Some (JStr ''admin123''))
           (seed_admin (cr_hash cr) now d)) =
         Resp 200 (JObj [(''token'', JStr (cr_sign cr \<lparr>c_email = ''admin@indira.com'', c_role = ''admin'',
                                                      c_exp = now' + token_lifetime\<rparr>)),
                         (''user'', JObj [(''email'', JStr ''admin@indira.com''), (''role'', JStr ''admin''),
                                          (''createdAt'', JNum (of_nat now))])])"
proof -
  have l: "lower ''admin@indira.com'' = ''admin@indira.com''" by code_simp
  have "find_user (seed_admin (cr_hash cr) now d) ''admin@indira.com'' =
        Some \<lparr>u_email = ''admin@indira.com'', u_hash = cr_hash cr ''admin123'', u_role = ''admin'', u_files = [],
              u_created = now, u_lastLogin = None, u_addedBy = []\<rparr>"
    using assms(1) find_user_None_iff [of d "''admin@indira.com''"]
    by (simp add: seed_admin_def find_user_def find_append)
  then show ?thesis using assms(2) l by (simp add: login_def js_truthy_opt_def)
qed

text \<open>
  C2. The default administrator's credentials work as soon as the server connects: when
  \<open>connectDB\<close> reaches a database with unique emails and no account \<open>admin@indira.com\<close>, a
  login with \<open>admin@indira.com\<close> and \<open>admin123\<close> is answered 200 with an administrator's token
  and the seeded account, on the connected server.
\<close>

theorem default_admin_login:
  assumes "connect_target (sv_uri sv) (sv_dbname sv) = Connect s" "be_reach be s"
    "distinct (map u_email (users (be_atlas be)))" "find_user (be_atlas be) ''admin@indira.com'' = None"
    "cr_check (be_crypto be) ''admin123'' (cr_hash (be_crypto be) ''admin123'')"
  shows "fst (serve be now' h (UserReq (Login (Some (JStr ''admin@indira.com'')) (Some (JStr ''admin123''))))
              (connectDB be now sv)) =
         Resp 200 (JObj [(''token'', JStr (cr_sign (be_crypto be) \<lparr>c_email = ''admin@indira.com'', c_role = ''admin'',
                                                      c_exp = now' + token_lifetime\<rparr>)),
                         (''user'', JObj [(''email'', JStr ''admin@indira.com''), (''role'', JStr ''admin''),
                                          (''createdAt'', JNum (of_nat now))])])"
proof -
  have "sv_db (connectDB be now sv) = Some (seed_admin (cr_hash (be_crypto be)) now (be_atlas be))"
    using assms(1-3) by (simp add: connectDB_def)
  then show ?thesis
    using login_seeded [OF assms(4,5), of now' now] by (simp add: user_api_srv_connected)
qed

theorem default_admin_login_witness:
  "fst (serve fresh_backend 5 None (UserReq (Login (Some (JStr ''admin@indira.com'')) (Some (JStr ''admin123''))))
              (connectDB fresh_backend 0 (server_init demo_uri None))) =
         Resp 200 (JObj [(''token'', JStr (cr_sign (be_crypto fresh_backend) \<lparr>c_email = ''admin@indira.com'', c_role = ''admin'',
                                                      c_exp = 5 + token_lifetime\<rparr>)),
                         (''user'', JObj [(''email'', JStr ''admin@indira.com''), (''role'', JStr ''admin''),
                                          (''createdAt'', JNum (of_nat 0))])])"
proof -
  let ?s = "''mongodb+srv://app:pw@cluster0.example.net/indira-gpt?retryWrites=true&w=majority''"
  have c: "connect_target (sv_uri (server_init demo_uri None)) (sv_dbname (server_init demo_uri None)) = Connect ?s"
    by (simp add: server_init_def demo_uri_def connect_target_def connection_string_def strip_trailing_slash_def
        DB_NAME_def retry_params_def)
  have "be_reach fresh_backend ?s"
    "distinct (map u_email (users (be_atlas fresh_backend)))"
    "find_user (be_atlas fresh_backend) ''admin@indira.com'' = None"
    "cr_check (be_crypto fresh_backend) ''admin123'' (cr_hash (be_crypto fresh_backend) ''admin123'')"
    by (simp_all add: fresh_backend_def demo_backend_def empty_db_def demo_ops_def find_user_def demo_crypto_def)
  then show ?thesis using default_admin_login [OF c] by blast
qed

end
