(* ===== verification/Session.thy ===== *)
theory Session
  imports Client Access JsValues
begin

text \<open>
  The chat application's session lifecycle (\<open>App\<close> in \<open>src/frontend/index.tsx\<close>): the page load
  with the persisted state (\<open>usePersistentState\<close> of \<open>chat_messages\<close> and \<open>app_layer_data\<close>, the
  stored token), \<open>checkAuth\<close> (2250--2276), \<open>handleLogin\<close> and \<open>handleLogout\<close> (2291--2300) with the
  login form, \<open>handleLayerDataChange\<close> (2302--2314), \<open>loadDataFolderFiles\<close> (2499--2601) and the two
  effects that call it (2652--2696), \<open>resetChat\<close> (2722--2732) and the part of \<open>handleSend\<close>
  (3156--3403) that shows the question, checks access and creates the Gemini chat session
  (\<open>chatSessionRef\<close>). The answer's generation is the theory Conversation; here a send
  carries the exchanges the chat had and the text finally shown. The emoji of the shown texts are
  outside the Latin-1 characters of the model and are left out.
\<close>

section \<open>State\<close>

datatype chat_role = RUser | RModel | RError

record chat_msg =
  m_role :: chat_role
  m_text :: string

text \<open>A Gemini chat: the collections and the layer context its system instruction was built
  with, and its history (the turns given at creation and those sent since).\<close>

record chat_session =
  cs_tables :: "string list"
  cs_context :: string
  cs_history :: "(chat_role \<times> string) list"

text \<open>The App's state: the stored token, \<open>user\<close>, \<open>showAdmin\<close>, \<open>filesLoaded\<close>, the data state of
  the theory Access (whose \<open>cl_session\<close> says whether \<open>chatSessionRef\<close> is set), \<open>messages\<close>,
  \<open>layerData\<close> and the chat session itself.\<close>

record app =
  ap_token :: "string option"
  ap_user :: "json option"
  ap_show_admin :: bool
  ap_files_loaded :: bool
  ap_client :: client
  ap_messages :: "chat_msg list"
  ap_layer :: "(string \<times> string) list"
  ap_session :: "chat_session option"

definition welcome_msg :: chat_msg where
  "welcome_msg = \<lparr>m_role = RModel, m_text = ''Namaste. I am INDIRA GPT, your partner in fertility strategy.'' @
     [CHR 0x0A, CHR 0x0A] @ ''I am here to help us serve our patients with compassion and scientific excellence.'' @
     [CHR 0x0A, CHR 0x0A] @ ''**Data Pre-loaded**: All CSV files are automatically loaded and ready for analysis. You can ask questions about your data immediately!''\<rparr>"

text \<open>The state of the first render: the stored token, and \<open>usePersistentState\<close>'s stored
  messages and layer data, or their initial values where nothing is stored.\<close>

definition app_init :: "string option \<Rightarrow> chat_msg list option \<Rightarrow> (string \<times> string) list option \<Rightarrow> app" where
  "app_init tok msgs layer = \<lparr>ap_token = tok, ap_user = None, ap_show_admin = False, ap_files_loaded = False,
     ap_client = client_init [],
     ap_messages = (case msgs of Some ms \<Rightarrow> ms | None \<Rightarrow> [welcome_msg]),
     ap_layer = (case layer of Some l \<Rightarrow> l | None \<Rightarrow> []), ap_session = None\<rparr>"

section \<open>Authentication\<close>

text \<open>\<open>checkAuth\<close>: with a stored token the current user and the accessible files are read; a
  failure removes the token and clears both.\<close>

definition checkAuth :: "crypto \<Rightarrow> nat \<Rightarrow> app \<Rightarrow> db \<Rightarrow> app" where
  "checkAuth cr now a d =
     (case ap_token a of
        None \<Rightarrow> a\<lparr>ap_files_loaded := True\<rparr>
      | Some t \<Rightarrow>
          (case getCurrentUser cr now (ap_token a) d of
             (Inl m, tok') \<Rightarrow> a\<lparr>ap_token := None, ap_user := None,
                                 ap_client := (ap_client a)\<lparr>cl_accessible := []\<rparr>, ap_files_loaded := True\<rparr>
           | (Inr u, tok') \<Rightarrow> a\<lparr>ap_user := Some u,
                 ap_client := (ap_client a)\<lparr>cl_accessible := getUserAccessibleFiles (user_files_request cr now tok' d)\<rparr>,
                 ap_files_loaded := True\<rparr>))"

text \<open>The login form's \<open>handleSubmit\<close> followed by \<open>onLogin(user)\<close>, that is \<open>handleLogin\<close>: the
  token is stored and \<open>user\<close> set; a failed login leaves the App as it is.\<close>

definition app_login :: "crypto \<Rightarrow> nat \<Rightarrow> string \<Rightarrow> string \<Rightarrow> app \<Rightarrow> db \<Rightarrow> app \<times> db" where
  "app_login cr now email password a d =
     (case client_login cr now email password d of
        (Inl m, d') \<Rightarrow> (a, d')
      | (Inr b, d') \<Rightarrow>
          (a\<lparr>ap_token := fst (fst (handleSubmit cr now email password (ap_token a) d)),
             ap_user := js_opt_get (Some b) ''user'', ap_show_admin := False\<rparr>, d'))"

text \<open>\<open>handleLogout\<close>: \<open>authAPI.logout()\<close>, then \<open>setUser(null)\<close> and \<open>setShowAdmin(false)\<close>.\<close>

definition app_logout :: "crypto \<Rightarrow> nat \<Rightarrow> app \<Rightarrow> db \<Rightarrow> app \<times> db" where
  "app_logout cr now a d =
     (case client_logout cr now (ap_token a) d of
        (tok', d') \<Rightarrow> (a\<lparr>ap_token := tok', ap_user := None, ap_show_admin := False\<rparr>, d'))"

section \<open>Data loading\<close>

text \<open>The schema request of \<open>loadDataFolderFiles\<close>: \<open>GET /api/data/schemas\<close> with the stored
  token (server.js 1280); \<open>None\<close> when the answer is an error, which the code throws and catches.\<close>

definition schemas_request :: "crypto \<Rightarrow> string option \<Rightarrow> db \<Rightarrow> schema_info list option" where
  "schemas_request cr tok d =
     (case tok of
        None \<Rightarrow> None
      | Some t \<Rightarrow> (case authenticateToken (cr_verify cr) (Some (''Bearer '' @ t)) of
                    Inl r \<Rightarrow> None
                  | Inr c \<Rightarrow> schemas_endpoint d (c_email c)))"

text \<open>\<open>loadDataFolderFiles(forceReload)\<close> as a closure of the render \<open>r\<close>: its guards read that
  render's \<open>dataLoaded\<close>, \<open>filesLoaded\<close> and \<open>user\<close>, while the token is read from storage and the
  state setters update the current state \<open>a\<close>. A load that clears \<open>cl_session\<close> (a forced reload
  with new files) sets \<open>chatSessionRef.current = null\<close>.\<close>

definition loadDataFolderFiles :: "crypto \<Rightarrow> bool \<Rightarrow> app \<Rightarrow> app \<Rightarrow> db \<Rightarrow> app" where
  "loadDataFolderFiles cr force r a d =
     (if \<not> force \<and> cl_loaded (ap_client r) then a
      else if \<not> ap_files_loaded r \<or> \<not> js_truthy_opt (ap_user r) then a
      else case ap_token a of
             None \<Rightarrow> a\<lparr>ap_client := (ap_client a)\<lparr>cl_loaded := True\<rparr>\<rparr>
           | Some t \<Rightarrow>
               (let c' = load_schemas force (schemas_request cr (ap_token a) d) (ap_client a)
                in a\<lparr>ap_client := c', ap_session := (if cl_session c' then ap_session a else None)\<rparr>))"

text \<open>The auto-load effect (2652--2660), run by every render in which \<open>dataLoaded\<close>,
  \<open>filesLoaded\<close> or \<open>user\<close> changed; the closure is that render's.\<close>

definition app_autoload :: "crypto \<Rightarrow> app \<Rightarrow> db \<Rightarrow> app" where
  "app_autoload cr a d =
     (if \<not> cl_loaded (ap_client a) \<and> ap_files_loaded a \<and> js_truthy_opt (ap_user a)
      then loadDataFolderFiles cr False a a d else a)"

text \<open>\<open>handleDataReload\<close> (2663--2679): \<open>setDataLoaded(false)\<close>, after which the auto-load effect
  runs, then \<open>loadDataFolderFiles(true)\<close> of the render \<open>r\<close> whose effect registered the listener.
  The effect has no dependencies, so \<open>r\<close> is the first render.\<close>

definition handleDataReload :: "crypto \<Rightarrow> app \<Rightarrow> app \<Rightarrow> db \<Rightarrow> app" where
  "handleDataReload cr r a d =
     (let a1 = a\<lparr>ap_client := (ap_client a)\<lparr>cl_loaded := False\<rparr>\<rparr>;
          a2 = app_autoload cr a1 d
      in loadDataFolderFiles cr True r a2 d)"

section \<open>Layer data and chat reset\<close>

definition layer_file_text :: "string \<Rightarrow> string \<times> string \<Rightarrow> string" where
  "layer_file_text lid f = ''--- FILE: '' @ fst f @ '' (Layer: '' @ lid @ '') ---'' @ [CHR 0x0A] @ snd f @
     [CHR 0x0A] @ ''--- END ---''"

text \<open>\<open>handleLayerDataChange\<close>: the layer's files are aggregated into one entry of \<open>layerData\<close>
  and the chat session is dropped.\<close>

definition handleLayerDataChange :: "string \<Rightarrow> (string \<times> string) list \<Rightarrow> app \<Rightarrow> app" where
  "handleLayerDataChange lid files a =
     a\<lparr>ap_layer := obj_set (ap_layer a) lid (js_join [CHR 0x0A, CHR 0x0A] (map (layer_file_text lid) files)),
       ap_client := (ap_client a)\<lparr>cl_session := False\<rparr>, ap_session := None\<rparr>"

definition reset_msg :: chat_msg where
  "reset_msg = \<lparr>m_role = RModel, m_text = ''Chat history cleared. Ready to partner in the journey again.''\<rparr>"

definition resetChat :: "app \<Rightarrow> app" where
  "resetChat a = a\<lparr>ap_client := (ap_client a)\<lparr>cl_session := False\<rparr>, ap_session := None, ap_messages := [reset_msg]\<rparr>"

section \<open>Sending a question\<close>

definition file_label :: "string \<Rightarrow> string" where
  "file_label f = us_to CHR '' '' (replace_first ''.csv'' [] f)"

text \<open>The answer shown when the question names a file the user may not read.\<close>

definition restricted_text :: "string list \<Rightarrow> string list \<Rightarrow> string \<Rightarrow> string" where
  "restricted_text unauth acc q =
     (let ul = js_join '', '' (dedup_first (map file_label unauth));
          al = (if acc \<noteq> [] then js_join '', '' (map file_label acc) else ''All data sources (Admin access)'');
          nl = [CHR 0x0A]
      in ''**Access Restricted**'' @ nl @ nl @
         ''I don't have access to the following data sources: **'' @ ul @ ''**'' @ nl @ nl @
         ''**Your Question:** \"'' @ q @ ''\"'' @ nl @ nl @
         ''**Why this is restricted:** You're asking about data sources that your administrator has not granted you access to.'' @ nl @ nl @
         ''**What you can do:**'' @ nl @
         ''- Ask questions about the data sources you have access to: '' @ al @ nl @
         ''- Contact your administrator to request access to: '' @ ul @ nl @ nl @
         ''**Your current access:** '' @ al)"

text \<open>The question as shown, with the label of the attached files.\<close>

definition display_text :: "attachment list \<Rightarrow> string \<Rightarrow> string" where
  "display_text atts q =
     (if atts = [] then q
      else let lab = ''[Attached '' @ show_nat (length atts) @ '' file(s): '' @ js_join '', '' (map a_name atts) @ '']''
           in if q \<noteq> [] then lab @ [CHR 0x0A] @ q else lab)"

definition api_key_missing_text :: string where
  "api_key_missing_text = ''**API Key Missing**: Please set GEMINI_API_KEY environment variable in App Runner configuration.''"

text \<open>The session \<open>handleSend\<close> creates when \<open>chatSessionRef\<close> is empty: its history is the
  render's \<open>messages\<close> without the errors, its system instruction names the accessible
  collections and the first 15000 characters of \<open>Object.values(layerData).join('\n')\<close>.\<close>

definition new_session :: "app \<Rightarrow> chat_session" where
  "new_session a =
     \<lparr>cs_tables = accessible_tables (cl_accessible (ap_client a)) (cl_tables (ap_client a)) (cl_schemas (ap_client a)),
      cs_context = take 15000 (js_join [CHR 0x0A] (map snd (ap_layer a))),
      cs_history = map (\<lambda>m. (m_role m, m_text m)) (filter (\<lambda>m. m_role m \<noteq> RError) (ap_messages a))\<rparr>"

definition turns_history :: "(string \<times> string) list \<Rightarrow> (chat_role \<times> string) list" where
  "turns_history ts = concat (map (\<lambda>(p, r). [(RUser, p), (RModel, r)]) ts)"

text \<open>\<open>handleSend\<close> of a plain question \<open>text\<close> with the key \<open>key\<close>: the empty question without
  attachments is ignored; a question naming an unreadable file is answered at once; otherwise the
  question is shown, the attachments cleared, a missing or malformed key reported, and the chat
  session created if there is none. The generation then sends the prompts \<open>ts\<close> to the session
  and shows \<open>reply\<close>.\<close>

definition handleSend ::
  "string option \<Rightarrow> string \<Rightarrow> (string \<times> string) list \<Rightarrow> string \<Rightarrow> app \<Rightarrow> app" where
  "handleSend key text ts reply a =
     (let q = trim text; c = ap_client a in
      if q = [] \<and> cl_attachments c = [] then a
      else case validateQuestionAccess (cl_accessible c) (cl_schemas c) q of
        (False, unauth) \<Rightarrow>
          a\<lparr>ap_messages := ap_messages a @ [\<lparr>m_role = RUser, m_text = q\<rparr>,
                                           \<lparr>m_role = RModel, m_text = restricted_text unauth (cl_accessible c) q\<rparr>]\<rparr>
      | (True, _) \<Rightarrow>
          (let msgs = ap_messages a @ [\<lparr>m_role = RUser, m_text = display_text (cl_attachments c) q\<rparr>];
               a1 = a\<lparr>ap_messages := msgs, ap_client := c\<lparr>cl_attachments := []\<rparr>\<rparr>
           in case key of
                None \<Rightarrow> a1\<lparr>ap_messages := msgs @ [\<lparr>m_role = RError, m_text = api_key_missing_text\<rparr>]\<rparr>
              | Some k \<Rightarrow>
                  if \<not> prefix ''AIza'' k \<and> length k < 20
                  then a1\<lparr>ap_messages := msgs @ [\<lparr>m_role = RError,
                          m_text = ''**Invalid API Key Format**: The API key format appears incorrect. Google API keys typically start with \"AIza\". Please verify your GEMINI_API_KEY.''\<rparr>]\<rparr>
                  else (let s = (case ap_session a of Some s \<Rightarrow> s | None \<Rightarrow> new_session a)
                        in a1\<lparr>ap_messages := msgs @ [\<lparr>m_role = RModel, m_text = reply\<rparr>],
                               ap_client := (ap_client a1)\<lparr>cl_session := True\<rparr>,
                               ap_session := Some (s\<lparr>cs_history := cs_history s @ turns_history ts\<rparr>)\<rparr>)))"

section \<open>Events\<close>

datatype app_event =
    Mount "string option" "chat_msg list option" "(string \<times> string) list option"
  | LoginEv string string
  | LogoutEv
  | LayerEv string "(string \<times> string) list"
  | ResetEv
  | ReloadEv
  | SendEv "string option" string "(string \<times> string) list" string

text \<open>One event followed by the auto-load effect of the render it causes; \<open>r\<close> is the first
  render of the page, whose closure the reload listener keeps.\<close>

fun app_event_step :: "crypto \<Rightarrow> nat \<Rightarrow> app \<times> app \<times> db \<Rightarrow> app_event \<Rightarrow> app \<times> app \<times> db" where
  "app_event_step cr now (r, a, d) (Mount tok msgs layer) =
     (let a0 = app_init tok msgs layer in (a0, app_autoload cr (checkAuth cr now a0 d) d, d))"
| "app_event_step cr now (r, a, d) (LoginEv e p) =
     (case app_login cr now e p a d of (a', d') \<Rightarrow> (r, app_autoload cr a' d', d'))"
| "app_event_step cr now (r, a, d) LogoutEv =
     (case app_logout cr now a d of (a', d') \<Rightarrow> (r, app_autoload cr a' d', d'))"
| "app_event_step cr now (r, a, d) (LayerEv lid fs) = (r, handleLayerDataChange lid fs a, d)"
| "app_event_step cr now (r, a, d) ResetEv = (r, resetChat a, d)"
| "app_event_step cr now (r, a, d) ReloadEv = (r, app_autoload cr (handleDataReload cr r a d) d, d)"
| "app_event_step cr now (r, a, d) (SendEv k q ts rep) = (r, handleSend k q ts rep a, d)"

text \<open>A run of events from the triple (first render, current state, database).\<close>

definition app_run :: "crypto \<Rightarrow> nat \<Rightarrow> app \<times> app \<times> db \<Rightarrow> app_event list \<Rightarrow> app \<times> app \<times> db" where
  "app_run cr now st es = foldl (app_event_step cr now) st es"

text \<open>The session invariant: \<open>cl_session\<close> of the data state says exactly whether a chat session
  exists.\<close>

definition session_wf :: "app \<Rightarrow> bool" where
  "session_wf a \<longleftrightarrow> cl_session (ap_client a) = (ap_session a \<noteq> None)"

section \<open>Example\<close>

text \<open>A page where a user asked one question and the data was loaded.\<close>

definition demo_app :: app where
  "demo_app = \<lparr>ap_token = Some ''tokA'', ap_user = Some (JObj [(''email'', JStr ''admin@indira.com'')]),
     ap_show_admin = False, ap_files_loaded = True,
     ap_client = (client_init [])\<lparr>cl_loaded := True, cl_session := True\<rparr>,
     ap_messages = [welcome_msg, \<lparr>m_role = RUser, m_text = ''Revenue by city?''\<rparr>,
                    \<lparr>m_role = RModel, m_text = ''Mumbai leads.''\<rparr>],
     ap_layer = [],
     ap_session = Some \<lparr>cs_tables = [], cs_context = [],
                         cs_history = [(RUser, ''Revenue by city?''), (RModel, ''Mumbai leads.'')]\<rparr>\<rparr>"

section \<open>Lemmas\<close>

lemma load_schemas_session: "cl_session (load_schemas f r c) \<Longrightarrow> cl_session c"
  by (auto simp: load_schemas_def Let_def split: option.splits if_splits)

lemma load_schemas_session_unforced: "cl_session (load_schemas False r c) = cl_session c"
  by (auto simp: load_schemas_def Let_def split: option.splits)

lemma load_schemas_tables_unforced: "set (cl_tables c) \<subseteq> set (cl_tables (load_schemas False r c))"
  by (auto simp: load_schemas_def Let_def dedup_first_set split: option.splits)

lemma loadDataFolderFiles_wf: "session_wf a \<Longrightarrow> session_wf (loadDataFolderFiles cr f r a d)"
  by (auto simp: loadDataFolderFiles_def session_wf_def Let_def dest: load_schemas_session split: option.splits)

lemma app_autoload_wf: "session_wf a \<Longrightarrow> session_wf (app_autoload cr a d)"
  by (simp add: app_autoload_def loadDataFolderFiles_wf)

lemma app_autoload_loaded: "cl_loaded (ap_client a) \<Longrightarrow> app_autoload cr a d = a"
  by (simp add: app_autoload_def)

lemma app_login_keeps:
  "fst (app_login cr now e p a d) = a\<lparr>ap_token := ap_token (fst (app_login cr now e p a d)),
      ap_user := ap_user (fst (app_login cr now e p a d)),
      ap_show_admin := ap_show_admin (fst (app_login cr now e p a d))\<rparr>"
  by (simp add: app_login_def split: prod.splits sum.splits)

lemma app_logout_keeps:
  "fst (app_logout cr now a d) = a\<lparr>ap_token := ap_token (fst (app_logout cr now a d)), ap_user := None,
      ap_show_admin := False\<rparr>"
  by (simp add: app_logout_def split: prod.splits)

lemma checkAuth_wf: "session_wf a \<Longrightarrow> session_wf (checkAuth cr now a d)"
  by (simp add: checkAuth_def session_wf_def split: option.splits prod.splits sum.splits)

lemma handleSend_wf: "session_wf a \<Longrightarrow> session_wf (handleSend k q ts rep a)"
  by (simp add: handleSend_def session_wf_def Let_def split: option.splits prod.splits bool.splits)

lemma handleDataReload_wf: "session_wf a \<Longrightarrow> session_wf (handleDataReload cr r a d)"
  unfolding handleDataReload_def Let_def
  by (intro loadDataFolderFiles_wf app_autoload_wf) (simp add: session_wf_def)

lemma app_login_wf: "session_wf a \<Longrightarrow> session_wf (fst (app_login cr now e p a d))"
  by (simp add: app_login_def session_wf_def split: prod.splits sum.splits)

lemma app_logout_wf: "session_wf a \<Longrightarrow> session_wf (fst (app_logout cr now a d))"
  by (simp add: app_logout_def session_wf_def split: prod.splits)

lemma app_init_wf: "session_wf (app_init tok msgs layer)"
  by (simp add: app_init_def client_init_def session_wf_def)

lemma handleLayerDataChange_wf: "session_wf (handleLayerDataChange lid fs a)"
  by (simp add: handleLayerDataChange_def session_wf_def)

lemma resetChat_wf: "session_wf (resetChat a)"
  by (simp add: resetChat_def session_wf_def)

lemma app_event_step_wf:
  "session_wf (fst (snd st)) \<Longrightarrow> session_wf (fst (snd (app_event_step cr now st e)))"
proof (cases st)
  case (fields r a d)
  assume wf: "session_wf (fst (snd st))"
  show ?thesis
  proof (cases e)
    case (LoginEv em p)
    then show ?thesis using fields app_login_wf [of a cr now em p d] wf
      by (auto simp: app_autoload_wf split: prod.splits)
  next
    case LogoutEv
    then show ?thesis using fields app_logout_wf [of a cr now d] wf
      by (auto simp: app_autoload_wf split: prod.splits)
  qed (use fields wf in \<open>simp_all add: Let_def app_init_wf checkAuth_wf app_autoload_wf handleLayerDataChange_wf
         resetChat_wf handleDataReload_wf handleSend_wf\<close>)
qed

lemma app_run_wf:
  "session_wf (fst (snd st)) \<Longrightarrow> session_wf (fst (snd (app_run cr now st es)))"
  unfolding app_run_def by (induction es arbitrary: st) (simp_all add: app_event_step_wf)

lemma app_run_append: "app_run cr now st (xs @ ys) = app_run cr now (app_run cr now st xs) ys"
  by (simp add: app_run_def)

lemma logout_login_keeps_chat:
  assumes "cl_loaded (ap_client a)"
  shows "let a' = fst (snd (app_run cr now (r, a, d) [LogoutEv, LoginEv e p])) in
     ap_client a' = ap_client a \<and> ap_session a' = ap_session a \<and> ap_messages a' = ap_messages a \<and>
     ap_layer a' = ap_layer a"
proof -
  obtain a1 d1 where o: "app_logout cr now a d = (a1, d1)" by fastforce
  obtain a2 d2 where l: "app_login cr now e p a1 d1 = (a2, d2)" by fastforce
  have a1: "ap_client a1 = ap_client a \<and> ap_session a1 = ap_session a \<and> ap_messages a1 = ap_messages a \<and>
            ap_layer a1 = ap_layer a"
    using app_logout_keeps [of cr now a d] o by (metis app.select_convs app.surjective app.update_convs fst_conv)
  have a2: "ap_client a2 = ap_client a1 \<and> ap_session a2 = ap_session a1 \<and> ap_messages a2 = ap_messages a1 \<and>
            ap_layer a2 = ap_layer a1"
    using app_login_keeps [of cr now e p a1 d1] l by (metis app.select_convs app.surjective app.update_convs fst_conv)
  show ?thesis
    using a1 a2 assms o l by (simp add: app_run_def app_autoload_loaded)
qed

lemma handleSend_existing_session:
  assumes "ap_session a = Some s" "trim q \<noteq> []"
    "fst (validateQuestionAccess (cl_accessible (ap_client a)) (cl_schemas (ap_client a)) (trim q))"
    "prefix ''AIza'' k"
  shows "ap_session (handleSend (Some k) q ts rep a) = Some (s\<lparr>cs_history := cs_history s @ turns_history ts\<rparr>) \<and>
         ap_messages (handleSend (Some k) q ts rep a) =
           ap_messages a @ [\<lparr>m_role = RUser, m_text = display_text (cl_attachments (ap_client a)) (trim q)\<rparr>,
                            \<lparr>m_role = RModel, m_text = rep\<rparr>]"
proof -
  obtain u where "validateQuestionAccess (cl_accessible (ap_client a)) (cl_schemas (ap_client a)) (trim q) = (True, u)"
    using assms(3) by (metis prod.collapse)
  then show ?thesis using assms by (simp add: handleSend_def Let_def)
qed

lemma handleSend_new_session:
  assumes "ap_session a = None" "trim q \<noteq> []"
    "fst (validateQuestionAccess (cl_accessible (ap_client a)) (cl_schemas (ap_client a)) (trim q))"
    "prefix ''AIza'' k"
  shows "ap_session (handleSend (Some k) q ts rep a) =
           Some ((new_session a)\<lparr>cs_history := cs_history (new_session a) @ turns_history ts\<rparr>)"
proof -
  obtain u where "validateQuestionAccess (cl_accessible (ap_client a)) (cl_schemas (ap_client a)) (trim q) = (True, u)"
    using assms(3) by (metis prod.collapse)
  then show ?thesis using assms by (simp add: handleSend_def Let_def)
qed

lemma checkAuth_keeps: "ap_messages (checkAuth cr now a d) = ap_messages a \<and> ap_session (checkAuth cr now a d) = ap_session a"
  by (simp add: checkAuth_def split: option.splits prod.splits sum.splits)

lemma loadDataFolderFiles_keeps:
  "ap_messages (loadDataFolderFiles cr f r a d) = ap_messages a \<and>
   (ap_session a = None \<longrightarrow> ap_session (loadDataFolderFiles cr f r a d) = None)"
  by (simp add: loadDataFolderFiles_def Let_def split: option.splits)

text \<open>A page load shows the stored messages and has no chat session yet, so the first question
  creates one whose history is the stored conversation, whoever is logged in.\<close>

lemma mount_restores_chat:
  "ap_messages (fst (snd (app_event_step cr now st (Mount tok (Some msgs) layer)))) = msgs \<and>
   ap_session (fst (snd (app_event_step cr now st (Mount tok (Some msgs) layer)))) = None"
proof (cases st)
  case (fields r a d)
  let ?a0 = "checkAuth cr now (app_init tok (Some msgs) layer) d"
  have "ap_messages ?a0 = msgs \<and> ap_session ?a0 = None"
    using checkAuth_keeps by (simp add: app_init_def)
  then show ?thesis
    using fields loadDataFolderFiles_keeps [of cr False ?a0 ?a0 d] by (simp add: app_autoload_def Let_def)
qed

text \<open>C20. A user who logs out and the next user who logs in on the same page share the chat:
  the next question is sent to the Gemini session holding the previous user's conversation, and
  the previous messages stay on screen.\<close>

theorem logout_login_send_continues:
  assumes "cl_loaded (ap_client a)" "ap_session a = Some s" "trim q \<noteq> []"
    "fst (validateQuestionAccess (cl_accessible (ap_client a)) (cl_schemas (ap_client a)) (trim q))"
    "prefix ''AIza'' k"
  shows "let a' = fst (snd (app_run cr now (r, a, d) [LogoutEv, LoginEv e p, SendEv (Some k) q ts rep])) in
     ap_session a' = Some (s\<lparr>cs_history := cs_history s @ turns_history ts\<rparr>) \<and> prefix (ap_messages a) (ap_messages a')"
proof -
  obtain r2 a2 d2 where st: "app_run cr now (r, a, d) [LogoutEv, LoginEv e p] = (r2, a2, d2)"
    by (metis prod.collapse)
  have k: "ap_client a2 = ap_client a \<and> ap_session a2 = ap_session a \<and> ap_messages a2 = ap_messages a"
    using logout_login_keeps_chat [OF assms(1), of cr now r d e p] st by (simp add: Let_def)
  have run: "app_run cr now (r, a, d) [LogoutEv, LoginEv e p, SendEv (Some k) q ts rep] =
             (r2, handleSend (Some k) q ts rep a2, d2)"
    using app_run_append [of cr now "(r, a, d)" "[LogoutEv, LoginEv e p]" "[SendEv (Some k) q ts rep]"] st
    by (simp add: app_run_def)
  show ?thesis
    using handleSend_existing_session [of a2 s q k ts rep] k assms run by (simp add: Let_def)
qed

lemma logout_login_send_continues_witness:
  "cl_loaded (ap_client demo_app) \<and>
   ap_session demo_app = Some \<lparr>cs_tables = [], cs_context = [],
     cs_history = [(RUser, ''Revenue by city?''), (RModel, ''Mumbai leads.'')]\<rparr> \<and>
   trim ''What did I ask?'' \<noteq> [] \<and>
   fst (validateQuestionAccess (cl_accessible (ap_client demo_app)) (cl_schemas (ap_client demo_app)) (trim ''What did I ask?'')) \<and>
   prefix ''AIza'' ''AIzaKey'' \<and>
   (let a' = fst (snd (app_run demo_crypto 0 (demo_app, demo_app, demo_users_db)
                [LogoutEv, LoginEv ''ops@indira.com'' ''ops'', SendEv (Some ''AIzaKey'') ''What did I ask?'' [(''What did I ask?'', ''Revenue by city.'')] ''Revenue by city.''])) in
    ap_session a' = Some \<lparr>cs_tables = [], cs_context = [],
      cs_history = [(RUser, ''Revenue by city?''), (RModel, ''Mumbai leads.''),
                    (RUser, ''What did I ask?''), (RModel, ''Revenue by city.'')]\<rparr> \<and>
    prefix (ap_messages demo_app) (ap_messages a'))"
proof -
  let ?s = "\<lparr>cs_tables = [], cs_context = [],
      cs_history = [(RUser, ''Revenue by city?''), (RModel, ''Mumbai leads.'')]\<rparr>"
  have h1: "cl_loaded (ap_client demo_app)" and h2: "ap_session demo_app = Some ?s"
    by (simp_all add: demo_app_def client_init_def)
  have h3: "trim ''What did I ask?'' \<noteq> []" by code_simp
  have h4: "fst (validateQuestionAccess (cl_accessible (ap_client demo_app)) (cl_schemas (ap_client demo_app))
              (trim ''What did I ask?''))"
    by (simp add: demo_app_def client_init_def validateQuestionAccess_def)
  have h5: "prefix ''AIza'' ''AIzaKey''" by simp
  show ?thesis
    using h1 h2 h3 h4 h5 logout_login_send_continues [OF h1 h2 h3 h4 h5, of demo_crypto 0 demo_app demo_users_db
      "''ops@indira.com''" "''ops''" "[(''What did I ask?'', ''Revenue by city.'')]" "''Revenue by city.''"]
    by (simp add: turns_history_def)
qed

lemma loadDataFolderFiles_unready: "\<not> ap_files_loaded r \<Longrightarrow> loadDataFolderFiles cr f r a d = a"
  by (simp add: loadDataFolderFiles_def)

lemma loadDataFolderFiles_unforced:
  "session_wf a \<Longrightarrow> ap_session (loadDataFolderFiles cr False r a d) = ap_session a \<and>
     set (cl_tables (ap_client a)) \<subseteq> set (cl_tables (ap_client (loadDataFolderFiles cr False r a d)))"
  using load_schemas_tables_unforced
  by (auto simp: loadDataFolderFiles_def session_wf_def Let_def load_schemas_session_unforced split: option.splits)

lemma forced_reload_resets:
  assumes "ap_files_loaded r" "js_truthy_opt (ap_user r)" "ap_token a = Some t"
    "schemas_request cr (ap_token a) d = Some ss" "ss \<noteq> []"
  shows "ap_session (loadDataFolderFiles cr True r a d) = None"
  using assms by (simp add: loadDataFolderFiles_def load_schemas_def Let_def)

text \<open>C29. A data reload after an upload never runs the forced reload: the listener's
  \<open>loadDataFolderFiles(true)\<close> belongs to the first render and returns at its guard, so the reload
  is the auto-load's merge, which keeps the chat session and every collection already listed.\<close>

theorem reload_keeps_session:
  assumes "session_wf a"
  shows "ap_session (handleDataReload cr (app_init tok msgs layer) a d) = ap_session a \<and>
         set (cl_tables (ap_client a)) \<subseteq> set (cl_tables (ap_client (handleDataReload cr (app_init tok msgs layer) a d)))"
proof -
  let ?a1 = "a\<lparr>ap_client := (ap_client a)\<lparr>cl_loaded := False\<rparr>\<rparr>"
  have wf1: "session_wf ?a1" using assms by (simp add: session_wf_def)
  have "handleDataReload cr (app_init tok msgs layer) a d = app_autoload cr ?a1 d"
    by (simp add: handleDataReload_def loadDataFolderFiles_unready app_init_def)
  then show ?thesis
    using loadDataFolderFiles_unforced [OF wf1, of cr ?a1 d] by (auto simp: app_autoload_def)
qed

lemma reload_keeps_session_witness:
  "session_wf demo_app \<and>
   ap_session (handleDataReload demo_crypto (app_init (Some ''tokA'') None None) demo_app demo_users_db) = ap_session demo_app \<and>
   set (cl_tables (ap_client demo_app)) \<subseteq>
     set (cl_tables (ap_client (handleDataReload demo_crypto (app_init (Some ''tokA'') None None) demo_app demo_users_db)))"
  using reload_keeps_session [of demo_app demo_crypto "Some ''tokA''" None None demo_users_db]
  by (simp add: demo_app_def session_wf_def)

end
