(* ===== verification/Spec2Isabelle.thy ===== *)
theory Spec2Isabelle
  imports Naming Normalizer Gateway Store Access Conversation Users Client Serving Replies Attach Keys Listing Connection Executor Studio Charts Server Session
begin

text \<open>
  \<^bold>\<open>A verification model of IndiraGPT's data-ingestion, query, account and conversation core.\<close>

  The repository is an Express server (\<open>src/backend/server.js\<close>) in front of MongoDB and a
  React single-page application (\<open>src/frontend/index.tsx\<close>) that talks to a generative model.
  Administrators manage accounts and upload CSV files; the server keeps the file metadata in the
  \<open>csvFiles\<close> collection and the cleaned rows in one collection per file, named by
  \<open>getCollectionName\<close>. Users log in, receive a JWT, and ask questions in the chat; the
  client checks the question against the user's accessible files, sends it with a schema
  summary to the model, runs the aggregation pipelines the model writes through
  \<open>POST /api/data/query\<close>, and feeds the results back until the model answers in prose.

  \<^bold>\<open>Library layout\<close> (each theory imports the ones before it that it uses).
  \<^item> \<open>Prelude\<close>: JSON values, JavaScript truthiness and \<open>String(v)\<close>, the JavaScript string operations (\<open>trim\<close>,
    \<open>toLowerCase\<close>, \<open>includes\<close>, string and character-class \<open>replace\<close>), objects as
    association lists with the property order of \<open>Object.keys\<close>, shared list lemmas.
  \<^item> \<open>Naming\<close>: \<open>getCollectionName\<close> (server.js 216--223). The shape of every derived name
    (C1), re-derivation from the name (\<open>getCollectionName_rederive\<close>), case-insensitivity and so collisions
    (the lemma \<open>getCollectionName_case_insensitive\<close>).
  \<^item> \<open>Normalizer\<close>: \<open>cleanCSVValue\<close> (225--245) and the key cleaning of
    \<open>parseAndStoreCSVInMongo\<close>. Thousands separators (C4), every stored
    field name safe and never \<open>_id\<close> (C6), idempotent key cleaning.
  \<^item> \<open>Database\<close>: the MongoDB state as a record (\<open>users\<close>, \<open>csvFiles\<close>, GridFS, data
    collections, the next \<open>ObjectId\<close>) and HTTP responses.
  \<^item> \<open>Gateway\<close>: \<open>validatePipeline\<close> (299--319) and \<open>POST /api/data/query\<close> with
    truncation and identifier stripping. Dangerous stages never run (C8), row bounds (C9),
    the success path (C10), access denial (C11), and the bypass through \<open>collectionName\<close> (C12).
  \<^item> \<open>Store\<close>: ingestion, upload with overwrite and the GridFS purge loop, listing, schema
    endpoints. Replacement (C13), stale data after a failed re-parse (C14), termination and
    effect of the purge loop (C16), listing order (\<open>list_files_order\<close>), schema
    visibility (C18), the store invariant (C23).
  \<^item> \<open>Access\<close>: the client's access policy: accessible files, schema loading, the question
    and response checks, keyword routing. Loading the server's schema summary keeps one attachment per file and one
    schema per collection when the store keeps one record per file name (C19, over
    \<open>load_schemas_wf\<close>); the question check names exactly the loaded inaccessible files the
    question mentions (\<open>validateQuestionAccess_sound\<close>); the response check is weaker
    (\<open>response_check_weaker\<close>); the routing's range is the lemma \<open>matchFilesToQuery_subset\<close>.
  \<^item> \<open>Conversation\<close>: \<open>handleSend\<close>, \<open>runGeneration\<close> and \<open>processResponseWithMongo\<close>,
    with the model and the query executor as oracles. Retry bounds (C25), termination when the
    model stops writing queries (C26), a turn that never ends (C27), the repair budget of the reachable
    rounds: the repairs issued are exactly the smaller of the attempt count and 2 (C28), the overwritten SSL diagnostic
    (\<open>ssl_diagnostic_overwritten\<close>), refusal
    before any model call (C30), streamed query blocks (\<open>streamed_reply_shown\<close>); the removal of an incomplete
    query block is the lemma \<open>remove_query_incomplete\<close>.
  \<^item> \<open>Users\<close>: the default administrator, \<open>authenticateToken\<close>, \<open>requireAdmin\<close>,
    login and the administrator's user endpoints, dispatched by \<open>user_api\<close>. The email and
    password of login and of adding a user are JSON values, so that a non-string takes the
    \<open>TypeError\<close> or bcryptjs path to the route's \<open>catch\<close> (500); the other body fields are
    modelled with string values. The account
    invariant (C33), refinement of an abstract directory (C34), no change without an
    administrator's token (C35), the response shape, whose 500s come only from
    non-string emails and passwords (C36), tokens outliving deleted accounts
    (C37); the uniform login failure and the unchecked role on creation are the lemmas
    \<open>login_failure_uniform\<close> and \<open>add_user_role_unchecked\<close>.
  \<^item> \<open>Client\<close>: \<open>authAPI\<close>, the login form and the administrator panel over the server
    model, its user half (theory Users) and its file half (\<open>files_route\<close> over Listing,
    \<open>upload_route\<close> behind multer's file filter and size limit over Store's \<open>upload_file\<close>),
    and the global error handler that answers a middleware's error with 500; lost updates between two panels (C40), a
    rejected upload shown as a success (C7).
  \<^item> \<open>Regex\<close>: a backtracking matcher for the regular expressions the server uses, with
    JavaScript's search order (leftmost start, greedy and lazy repetition, optional groups),
    \<open>String.replace\<close> with a regular expression, and the list of matches of the \<open>g\<close> flag.
  \<^item> \<open>Serving\<close>: \<open>injectApiKeyAndServe\<close> (346--428) with the key escaping and the two
    regular expressions, \<open>/health\<close>, the development root, \<open>GET /data/:filename\<close>
    (1131--1207), the catch-all routes, and Express's route order (\<open>dispatch\<close>). The escaping
    chain equals a per-character JavaScript escape (C32) and reads back as the key
    (\<open>escapedApiKey_literal\<close>); without a build the data API is not registered
    (\<open>dev_mode_data_api\<close>).
  \<^item> \<open>Replies\<close>: \<open>parseChartJSON\<close> (index.tsx 3680--3791), how the chat finds a
    chart in the model's reply: the code-block search, Strategy A over every lazy match with
    its brace-count repair, Strategy B with its string-aware scan; \<open>JSON.parse\<close> and the
    adapter are parameters (the adapter of the code is \<open>adaptChartData\<close> of the theory
    Charts), and \<open>json_stringify\<close> is a reference printer.
    Strategy B returns exactly a printed chart object (C15); Strategy A shows a nested object
    instead of the reply's chart (C38). Also \<open>parseSimulationJSON\<close>, \<open>parseThemesJSON\<close>
    and the displayed text; a simulation without a section shows \<open>""\<close> there
    (\<open>simulation_missing_sections\<close>, over the lazy fence lemma \<open>rx_search_fence\<close> of Regex).
  \<^item> \<open>Attach\<close>: files attached from the local disk, \<open>handleChatFileSelect\<close>,
    \<open>processSingleFile\<close> and \<open>isHTMLContent\<close> (index.tsx 2317--2492) over the client state of
    Access. Two tests of the HTML sniffing are dead (C21); attaching keeps one schema per
    collection, and a local CSV takes over the schema of a server dataset whose name derives
    the same collection.
  \<^item> \<open>Keys\<close>: the client's \<open>getApiKey\<close> and \<open>isValidKey\<close> (index.tsx 2176--2210) and
    the browser's reading of the key assignment in the script the server writes: the HTML
    tokenizer's script data states cut the element at its end tag, then the single-quoted
    literal is read.
  \<^item> \<open>Listing\<close>: the metadata objects of \<open>GET /api/admin/files\<close> (server.js 729--805),
    which never carry the file text.
  \<^item> \<open>Connection\<close>: the connection string \<open>connectDB\<close> builds from \<open>MONGODB_URI\<close>
    (48--84); a URI that names another database gets a second path segment.
  \<^item> \<open>Server\<close>: the connection state of \<open>server.js\<close> (\<open>db\<close>, null until \<open>connectDB\<close>
    succeeds), the 503 guard of every database route after its middleware, the reconnection
    of \<open>GET /api/admin/files\<close>, and the server as a step function \<open>serve\<close> whose runs are the
    inductive \<open>server_run\<close>; the requests include a body \<open>express.json\<close> cannot parse, which
    the global error handler answers. After \<open>connectDB\<close> seeds the default administrator, its
    credentials log in (C2); unconnected, the server serves and changes nothing, its only 500s
    being the global handler's (C31); every run keeps the account invariant
    (\<open>server_run_wf\<close>); a failed unique index leaves it connected without the default
    administrator (\<open>connect_duplicate_unseeded\<close>).
  \<^item> \<open>Executor\<close>: the client's \<open>executeMongoQuery\<close> and \<open>findFileNameFromPipeline\<close>
    (index.tsx 3015--3065) over the server's query endpoint and \<open>authenticateToken\<close>: an
    executor of the conversation loop built from the server model.
  \<^item> \<open>JsValues\<close>: JavaScript's reading of parsed JSON shared by the next two: property
    access with \<open>.\<close> and \<open>?.\<close>, \<open>||\<close> (truthiness and \<open>String(v)\<close> are in the Prelude).
  \<^item> \<open>Charts\<close>: \<open>adaptChartData\<close> (index.tsx 3793--3843): the Chart.js conversion, the
    widget format with its default keys and colours, and the object returned as is; a throw
    is \<open>None\<close>. The conversion gives one row per label with each dataset's value (C22); on the objects the callers
    pass (their \<open>chartType\<close> is bar, pie or radar) the chart type is read from \<open>type\<close> alone,
    so a \<open>line\<close> object checked as a bar chart is drawn as a radar chart (C22); a dataset
    labelled \<open>name\<close> overwrites the category (\<open>adapt_name_series_overwrites\<close>).
  \<^item> \<open>Studio\<close>: the video studio (index.tsx): \<open>handleGenerateThemes\<close> and
    \<open>handleGenerateScript\<close> (3871--3917), \<open>CityContentStudio\<close> (825--975) with
    \<open>generateVideoForSegment\<close>, its polling loop (\<open>poll_loop\<close>, at most 150 polls of 2 s),
    \<open>handleGenerateAllAndPlay\<close> and \<open>fullPlaylist\<close>, and the player \<open>SimulatedPlayer\<close>
    (430--499). The studio's handlers are steps between \<open>await\<close>s (\<open>studio_step\<close>), so
    that runs interleave; the player's runs are the inductive \<open>player_run\<close>. A clip
    finishing after a theme change lands in the new storyboard (C17); the player plays
    every clip in order and stops; Generate All never leaves a scene flagged.
  \<^item> \<open>Session\<close>: the App's session lifecycle (index.tsx): the page load with the persisted
    messages and layer data, \<open>checkAuth\<close>, login and \<open>handleLogout\<close>, the schema loading as a
    closure of the render that runs it (\<open>loadDataFolderFiles\<close>, the auto-load effect and the
    \<open>reloadData\<close> listener), \<open>handleLayerDataChange\<close>, \<open>resetChat\<close>, and the part of
    \<open>handleSend\<close> that shows the question, refuses a forbidden file, reports a missing key and
    creates the Gemini chat session; events are \<open>app_event\<close>, their runs \<open>app_run\<close>. Every run
    keeps \<open>cl_session\<close> in step with the session (\<open>app_run_wf\<close>). Logging out and in leaves the
    chat, the loaded schemas and the accessible list of the previous user in place, and the next
    question continues the previous user's Gemini session (C20); the listener's forced reload
    belongs to the first render and never runs, so a reload neither resets the session nor drops a
    collection (C29); a page load restores the stored conversation as the next session's history
    (\<open>mount_restores_chat\<close>, \<open>handleSend_new_session\<close>).
  \<^item> This theory: properties across components (C24, the access checks against the schemas
    the server really returns; C39, the raw CSV download that the query gateway would deny; C5, the key that
    \<open>injectApiKeyAndServe\<close> writes is the key \<open>getApiKey\<close> returns when it holds no \<open><\<close>,
    while a key holding \<open></script>\<close> cuts the script and is lost; C3, the chat's query
    path reading a collection the gateway would refuse by its file name).

  \<^bold>\<open>Effects and loops.\<close> State is passed explicitly: the database record through the
  server handlers, the conversation record (model calls, prompts sent, the message slot and its
  history, the retry waits) through the chat loop, the panel record through the administrator
  panel. Errors are values (\<open>resp\<close> statuses, \<open>string + _\<close>, \<open>option\<close>).
  \<open>runGeneration\<close> is a \<open>function\<close> whose measure is the retry budget \<open>maxRetries\<close> minus
  the attempt; the GridFS purge loop a \<open>function\<close> on the length of the file list.
  \<open>processResponseWithMongo\<close> has no bound on successful queries, so it is a
  \<open>partial_function (option)\<close>: \<open>None\<close> is a turn that does not end, and C26 proves
  that it ends (a \<open>Some\<close> result) under its hypothesis while C27 exhibits \<open>None\<close>.
  The studio's polling loop is a \<open>function\<close> whose measure is 150 minus the polls made.

  \<^bold>\<open>Not modelled.\<close> The CSV tokenizer (\<open>csv-parse\<close>), \<open>JSON.parse\<close>, the MongoDB
  aggregation engine, bcrypt and jsonwebtoken are libraries the code only calls: they are
  parameters. The network, the MongoDB driver (whether a connection string reaches a
  cluster is the parameter \<open>be_reach\<close>), the console logging and the signal handlers (which only log and close) are
  left out; the global error handler is modelled on \<open>/api/\<close> paths, where it answers 500, while on
  other paths it passes the error to Express's default handler, which is not modelled. The
  CORS middleware's answer to \<open>OPTIONS\<close> requests and the development-mode fields of 500
  answers are not modelled. Rendering, the chart widgets, the studio's \<open>localStorage\<close> copies
  and its AI Studio key picker, the simulation/theme prompt variants of \<open>handleSend\<close>, the
  \<open>dataNeedsReload\<close> polling, the loading flags (\<open>isLoadingRef\<close>, \<open>reloadInProgressRef\<close>) and
  the emoji of the shown texts carry no property of the core and are not modelled; the chat session and the video
  service the studio calls are parameters; \<open>express.static\<close> is the parameter \<open>static\<close> of \<open>dispatch\<close>, and the
  headers of a response are not kept. \<open>src/vite.config.ts\<close> is build tooling (the
  development proxy and the copy of the data directory) and is not modelled. Numbers are exact
  rationals (no IEEE rounding); characters are single Latin-1 code units.
\<close>

section \<open>Access policy against the server\<close>

text \<open>
  C24. The client's textual access checks never refuse anything in a real session. The client
  loads its schemas from \<open>GET /api/data/schemas\<close>, which the server has already cut down to
  the files the user may read, and its accessible list from \<open>GET /api/user/files\<close>; every
  loaded file is then accessible, so for every database, user, question and model answer both
  \<open>validateQuestionAccess\<close> and \<open>validateResponseAccess\<close> pass. The check the
  specification relies on to refuse a question about a forbidden dataset before the model is
  called (its scenario B) never fires.
\<close>

theorem question_check_vacuous:
  "let c = load_schemas False (schemas_endpoint d email)
             (client_init (getUserAccessibleFiles (user_files_endpoint d email)))
   in validateQuestionAccess (cl_accessible c) (cl_schemas c) q = (True, []) \<and>
      validateResponseAccess (cl_accessible c) (cl_schemas c) r = (True, [])"
proof -
  define c where "c = load_schemas False (schemas_endpoint d email)
             (client_init (getUserAccessibleFiles (user_files_endpoint d email)))"
  have "\<forall>s \<in> set (schema_values (cl_schemas c)). ts_fileName s \<in> set (cl_accessible c)"
  proof (cases "schemas_endpoint d email")
    case None
    then have "set (schema_values (cl_schemas c)) \<subseteq> {}"
      using schema_values_load [of False None "client_init (getUserAccessibleFiles (user_files_endpoint d email))"]
      by (simp add: c_def client_init_def)
    then show ?thesis by simp
  next
    case (Some ss)
    then obtain u where u: "find_user d email = Some u"
      and names: "sc_fileName ` set ss = f_name ` set (visible_files d u)"
      using schemas_endpoint_files by blast
    have acc: "set (cl_accessible c) = (if is_admin u then f_name ` set (filter f_active (csv_files d))
                                        else set (u_files u))"
      by (simp add: c_def client_init_def getUserAccessibleFiles_def user_files_endpoint_def u)
    have "ts_fileName ` set (schema_values (cl_schemas c)) \<subseteq> sc_fileName ` set ss"
      using schema_values_load [of False "Some ss"] Some
      by (force simp: c_def client_init_def schema_entry_def)
    also have "\<dots> \<subseteq> set (cl_accessible c)"
      unfolding names acc by (auto simp: visible_files_filter)
    finally show ?thesis by blast
  qed
  then show ?thesis unfolding c_def [symmetric] Let_def by (rule checks_pass)
qed

section \<open>Raw data outside the access control\<close>

text \<open>
  C39. The raw CSV text of every stored file can be downloaded without any token: with a
  build, \<open>GET /data/<file>\<close> is routed to the download handler, which checks neither a token
  nor the accessible files. A user whom the query gateway refuses the file (403) gets its
  whole content from the download route. The specification lets a user reference only the
  datasets of the accessible set.
\<close>

theorem data_download_bypass:
  assumes "find_user d email = Some u" "\<not> is_admin u" "n \<notin> set (u_files u)"
    and "find_active_file d n = Some fd" "\<not> f_gridfs fd" "f_content fd = Some c" "c \<noteq> []"
    and "n \<noteq> []" "CHR ''/'' \<notin> set n" "uri_decode n = Some n" "suffix ''.csv'' n"
  shows "status (query_endpoint engine t d email
            \<lparr>q_pipeline = Some (JArr stages), q_fileName = Some n, q_collection = None\<rparr>) = 403 \<and>
         dispatch True uri_decode static GET (''/data/'' @ n) = TDataFile n \<and>
         data_file_route uri_decode d n = Some (Resp 200 (JStr c))"
proof -
  have "query_endpoint engine t d email
          \<lparr>q_pipeline = Some (JArr stages), q_fileName = Some n, q_collection = None\<rparr> =
        err_resp 403 ''Access denied to this file''"
    using assms(1-3,8) by (intro query_endpoint_denied) (simp_all add: truthy_def or_empty_def)
  then show ?thesis
    using dispatch_data_file [where dec = uri_decode and st = static, OF assms(8-11)]
      data_file_route_content [where dec = uri_decode, OF assms(10,11,4-7)]
    by (simp add: err_resp_def)
qed

theorem data_download_bypass_witness:
  "status (query_endpoint (\<lambda>_ _. Inr []) 0 two_files_db ''analyst@indira.com''
      \<lparr>q_pipeline = Some (JArr []), q_fileName = Some ''Leads.csv'', q_collection = None\<rparr>) = 403 \<and>
   dispatch True Some (\<lambda>_. False) GET (''/data/'' @ ''Leads.csv'') = TDataFile ''Leads.csv'' \<and>
   data_file_route Some two_files_db ''Leads.csv'' = Some (Resp 200 (JStr revenue_csv))"
proof (rule data_download_bypass)
  show "find_user two_files_db ''analyst@indira.com'' = Some analyst"
    by (simp add: two_files_db_def find_user_def analyst_def)
  show "find_active_file two_files_db ''Leads.csv'' =
          Some (new_file_record (revenue_upload\<lparr>up_name := ''Leads.csv''\<rparr>) False 2 ''admin@indira.com'')"
    by (simp add: two_files_db_def find_active_file_def new_file_record_def revenue_upload_def)
  show "\<not> is_admin analyst" "''Leads.csv'' \<notin> set (u_files analyst)"
    by (simp_all add: is_admin_def analyst_def)
  show "revenue_csv \<noteq> []" by (simp add: revenue_csv_def)
  show "suffix ''.csv'' ''Leads.csv''" by (simp add: suffix_def)
qed (simp_all add: new_file_record_def revenue_upload_def)

section \<open>The key from the server to the model\<close>



section \<open>Queries the chat runs\<close>

text \<open>
  C3. The chat's own query path reads collections the user may not read. When the model
  writes a query for a collection that no attachment of the session has, the client sends
  with it the name of the first attached file that has a collection (\<open>findFileNameFromPipeline\<close>
  ignores the pipeline), so the server checks the user's access to that accessible file and
  runs the pipeline on the requested collection: \<open>executeMongoQuery\<close> returns its rows, while
  the same query sent with the forbidden file's own name is refused with 403.
\<close>

theorem chat_query_reads_forbidden:
  assumes "find_user d email = Some u" and "\<not> is_admin u"
    and "verify t = Some cl" and "c_email cl = email" and "t \<noteq> []" and "CHR '' '' \<notin> set t"
    and "atts = a # rest" and "a_collection a = Some ca" and "ca \<noteq> []"
    and "a_name a \<noteq> []" and "a_name a \<in> set (u_files u)"
    and "\<forall>f \<in> set atts. a_collection f \<noteq> Some cF" and "cF \<noteq> []"
    and "nF \<noteq> []" and "nF \<notin> set (u_files u)"
    and "list_all is_js_object stages" and "\<not> has_dangerous stages"
    and "engine (coll_docs d cF) (JArr stages) = Inr rows"
  shows "executeMongoQuery engine el verify d atts (Some t) (JArr stages) (query_file atts (JStr cF)) (JStr cF) =
           Inr (JArr (qr_data (shape_rows rows))) \<and>
         status (query_endpoint engine el d email (query_request (JArr stages) (Some nF) cF)) = 403"
proof
  have qf: "query_file atts (JStr cF) = Some (a_name a)"
    using assms(12,7,8,9) by (rule query_file_unattached)
  have auth: "authenticateToken verify (Some (''Bearer '' @ t)) = Inr cl"
    using authenticate_Bearer [where v = verify and t = t and c = cl] assms(3,5,6) by simp
  have "query_endpoint engine el d email (query_request (JArr stages) (Some (a_name a)) cF) =
        Resp 200 (result_body (shape_rows rows) el)"
    using assms(1,10,11,13,16,17,18)
    by (intro query_endpoint_success [where stages = stages and u = u])
       (simp_all add: query_request_def truthy_def or_empty_def target_collection_def)
  then show "executeMongoQuery engine el verify d atts (Some t) (JArr stages) (query_file atts (JStr cF)) (JStr cF) =
             Inr (JArr (qr_data (shape_rows rows)))"
    using qf auth assms(4,10) by (simp add: executeMongoQuery_def resp_ok_def body_data_def result_body_def)
next
  show "status (query_endpoint engine el d email (query_request (JArr stages) (Some nF) cF)) = 403"
    using assms(1,2,14,15)
    by (subst query_endpoint_denied [where stages = stages and u = u]) (simp_all add: query_request_def truthy_def or_empty_def)
qed


theorem chat_query_reads_forbidden_witness:
  "executeMongoQuery (\<lambda>docs _. Inr docs) 0
     (\<lambda>tok. if tok = ''tok1'' then Some \<lparr>c_email = ''analyst@indira.com'', c_role = ''user'', c_exp = 9\<rparr> else None)
     (two_files_db\<lparr>colls := Map.empty(''data_leads'' \<mapsto> demo_rows)\<rparr>)
     [\<lparr>a_name = ''Revenue.csv'', a_isCsv = True, a_isLarge = False, a_collection = Some ''data_revenue'',
       a_headers = [''District'', ''Revenue''], a_rowCount = 2\<rparr>]
     (Some ''tok1'') (JArr [])
     (query_file [\<lparr>a_name = ''Revenue.csv'', a_isCsv = True, a_isLarge = False, a_collection = Some ''data_revenue'',
       a_headers = [''District'', ''Revenue''], a_rowCount = 2\<rparr>] (JStr ''data_leads''))
     (JStr ''data_leads'') = Inr (JArr (qr_data (shape_rows demo_rows))) \<and>
   status (query_endpoint (\<lambda>docs _. Inr docs) 0 (two_files_db\<lparr>colls := Map.empty(''data_leads'' \<mapsto> demo_rows)\<rparr>)
     ''analyst@indira.com'' (query_request (JArr []) (Some ''Leads.csv'') ''data_leads'')) = 403"
  by (rule chat_query_reads_forbidden [where u = analyst and rest = "[]" and ca = "''data_revenue''"
        and cl = "\<lparr>c_email = ''analyst@indira.com'', c_role = ''user'', c_exp = 9\<rparr>"
        and a = "\<lparr>a_name = ''Revenue.csv'', a_isCsv = True, a_isLarge = False, a_collection = Some ''data_revenue'',
                 a_headers = [''District'', ''Revenue''], a_rowCount = 2\<rparr>"])
     (simp_all add: two_files_db_def find_user_def analyst_def is_admin_def has_dangerous_def coll_docs_def)

end
